(* ===== verification/Prelude.thy ===== *)
theory Prelude
  imports Main "HOL-Library.Code_Target_Nat" "HOL-Library.AList" "HOL-Library.Multiset" "HOL-Library.List_Lexorder"
begin

text \<open>
  Shared vocabulary of the development: Python values and strings, the exception classes the code
  raises, results as sums (\<open>Inl\<close> an exception, \<open>Inr\<close> a value) with sequencing and
  \<open>except\<close> clauses, and the rules that let the simplifier run them.

  A Python \<open>str\<close> is the list of its code points, so that \<open>len\<close>, UTF-8 widths and character
  classes are those of the code; \<open>lit\<close> turns an Isabelle string literal into one.
  Exceptions are their class: message texts are diagnostics and are not modelled here.
\<close>

section \<open>Collections of facts\<close>

named_theorems result_simps \<open>sequencing of results\<close>
named_theorems wire_simps \<open>reading fields of wire documents\<close>
named_theorems raises_intros \<open>which exceptions an operation lets through\<close>
named_theorems ok_iff \<open>when an operation succeeds, and with which value\<close>

section \<open>Python strings and values\<close>

type_synonym pystr = "nat list"

definition lit :: "string \<Rightarrow> pystr" where
  "lit s = map of_char s"

text \<open>Evaluation reads a character's code off its bits.\<close>

fun char_bits :: "char \<Rightarrow> nat" where
  "char_bits (Char b0 b1 b2 b3 b4 b5 b6 b7) =
     (if b0 then 1 else 0) + (if b1 then 2 else 0) + (if b2 then 4 else 0) + (if b3 then 8 else 0)
     + (if b4 then 16 else 0) + (if b5 then 32 else 0) + (if b6 then 64 else 0) + (if b7 then 128 else 0)"

lemma lit_code [code]: "lit s = map char_bits s"
proof -
  have "of_char c = char_bits c" for c by (cases c) simp
  then show ?thesis by (simp add: lit_def)
qed

lemma lit_inject [simp]: "lit s = lit t \<longleftrightarrow> s = t"
  by (simp add: lit_def inj_def)

lemma lit_Nil [simp]: "lit [] = []"
  by (simp add: lit_def)

lemma lit_eq_Nil [simp]: "lit s = [] \<longleftrightarrow> s = []" "[] = lit s \<longleftrightarrow> s = []"
  by (simp_all add: lit_def)

lemma length_lit [simp]: "length (lit s) = length s"
  by (simp add: lit_def)

lemma lit_append: "lit (s @ t) = lit s @ lit t"
  by (simp add: lit_def)

lemma set_lit: "set (lit s) = of_char ` set s"
  by (simp add: lit_def)

text \<open>
  The values that reach the code through \<open>object\<close>-typed arguments. \<open>PList\<close> is any
  \<open>Sequence\<close> that is not a string (list or tuple), \<open>PDict\<close> any \<open>Mapping\<close>, in insertion
  order; \<open>POther\<close> is a value of some other type (a float, bytes, a datetime), and
  \<open>KOther\<close> a key that is not a string and has no order with other keys.
\<close>

datatype pykey = KStr pystr | KOther nat

datatype pyval =
    PNone
  | PBool bool
  | PInt int
  | PStr pystr
  | PList "pyval list"
  | PDict "(pykey \<times> pyval) list"
  | POther nat

type_synonym pydict = "(pykey \<times> pyval) list"

abbreviation fld :: "string \<Rightarrow> pyval \<Rightarrow> pykey \<times> pyval" where
  "fld k v \<equiv> (KStr (lit k), v)"

definition dget :: "pydict \<Rightarrow> string \<Rightarrow> pyval option" where
  "dget d k = map_of d (KStr (lit k))"

definition dget_none :: "pydict \<Rightarrow> string \<Rightarrow> pyval" where
  \<comment> \<open>\<open>d.get(k)\<close>\<close>
  "dget_none d k = (case dget d k of None \<Rightarrow> PNone | Some v \<Rightarrow> v)"

definition dset :: "pydict \<Rightarrow> string \<Rightarrow> pyval \<Rightarrow> pydict" where
  \<comment> \<open>\<open>d[k] = v\<close>: an existing key keeps its place\<close>
  "dset d k v = AList.update (KStr (lit k)) v d"

definition dkeys :: "pydict \<Rightarrow> pykey set" where
  "dkeys d = fst ` set d"

lemma dget_Nil [wire_simps]: "dget [] k = None"
  by (simp add: dget_def)

lemma dget_Cons [wire_simps]:
  "dget ((KStr (lit j), v) # d) k = (if j = k then Some v else dget d k)"
  by (simp add: dget_def)

lemma dkeys_Nil [wire_simps]: "dkeys [] = {}"
  by (simp add: dkeys_def)

lemma dkeys_Cons [wire_simps]: "dkeys ((k, v) # d) = insert k (dkeys d)"
  by (simp add: dkeys_def)

lemma dget_Some_iff: "(\<exists>v. dget d k = Some v) \<longleftrightarrow> KStr (lit k) \<in> dkeys d"
  using map_of_eq_None_iff [of d "KStr (lit k)"] by (auto simp: dget_def dkeys_def)

lemma dget_mem: "KStr (lit k) \<in> dkeys d \<Longrightarrow> \<exists>v. dget d k = Some v"
  by (simp add: dget_Some_iff)

lemma dget_dset [simp]: "dget (dset d k v) k' = (if k' = k then Some v else dget d k')"
  by (simp add: dget_def dset_def update_conv')

lemma dkeys_dset [simp]: "dkeys (dset d k v) = insert (KStr (lit k)) (dkeys d)"
  by (simp add: dkeys_def dset_def dom_update)

text \<open>
  Python's \<open>==\<close> on the values of wire documents: mappings are compared without regard to the order
  of insertion, and a boolean equals the integer of the same value.
\<close>

fun py_eq :: "pyval \<Rightarrow> pyval \<Rightarrow> bool"
  and items_eq :: "pydict \<Rightarrow> pydict \<Rightarrow> bool"
  and elements_eq :: "pyval list \<Rightarrow> pyval list \<Rightarrow> bool" where
  "py_eq (PDict d) (PDict d') \<longleftrightarrow> length d = length d' \<and> items_eq d d'"
| "py_eq (PList xs) (PList ys) \<longleftrightarrow> elements_eq xs ys"
| "py_eq (PInt n) (PBool b) \<longleftrightarrow> n = of_bool b"
| "py_eq (PBool b) (PInt n) \<longleftrightarrow> n = of_bool b"
| "py_eq v w \<longleftrightarrow> v = w"
| "items_eq [] d' \<longleftrightarrow> True"
| "items_eq ((k, v) # rest) d' \<longleftrightarrow>
     (case map_of d' k of None \<Rightarrow> False | Some w \<Rightarrow> py_eq v w) \<and> items_eq rest d'"
| "elements_eq [] ys \<longleftrightarrow> ys = []"
| "elements_eq (x # xs) ys \<longleftrightarrow> (case ys of [] \<Rightarrow> False | y # ys' \<Rightarrow> py_eq x y \<and> elements_eq xs ys')"

section \<open>Exceptions\<close>

text \<open>
  \<open>object_exn\<close> lists the exception classes of \<open>errors.py\<close>; \<open>exn\<close> adds the built-in ones
  that the code raises, relies on or lets through, and \<open>ExternalError\<close> for what a callback or a
  package outside this repository raises.
\<close>

datatype object_exn =
    ObjectInvalidRequest
  | ObjectNotFound
  | ConditionalConflict
  | ImmutableObjectConflict
  | RetentionDenied
  | DigestMismatch
  | IncompleteUpload
  | PayloadUnavailable
  | RangeNotSatisfiable
  | MultipartInvalid
  | ObjectCapabilityMismatch
  | ObjectAuthenticationFailed
  | ObjectAuthorizationFailed
  | ObjectQuotaExceeded
  | ObjectRateLimited
  | TransferCancelled
  | ObjectUnavailable

datatype exn =
    TypeError
  | ValueError
  | UnicodeEncodeError
  | UnicodeDecodeError
  | OverflowError
  | KeyError
  | IndexError
  | RuntimeError
  | AttributeError
  | AssertionError
  | StopIteration
  | FileNotFoundError
  | ImportError
  | NameError
  | ObjectError object_exn
  | ExternalError nat

type_synonym 'a result = "exn + 'a"

definition is_value_error :: "exn \<Rightarrow> bool" where
  \<comment> \<open>\<open>isinstance(e, ValueError)\<close>: the two Unicode errors are subclasses\<close>
  "is_value_error e \<longleftrightarrow> e = ValueError \<or> e = UnicodeEncodeError \<or> e = UnicodeDecodeError"

definition is_type_or_value_error :: "exn \<Rightarrow> bool" where
  \<comment> \<open>caught by \<open>except (TypeError, ValueError)\<close>\<close>
  "is_type_or_value_error e \<longleftrightarrow> e = TypeError \<or> is_value_error e"

lemma is_value_error_simps [simp]:
  "is_value_error ValueError" "is_value_error UnicodeEncodeError"
  "\<not> is_value_error TypeError" "\<not> is_value_error (ObjectError x)"
  by (simp_all add: is_value_error_def)

lemma is_type_or_value_error_simps [simp]:
  "is_type_or_value_error ValueError" "is_type_or_value_error UnicodeEncodeError"
  "is_type_or_value_error TypeError" "\<not> is_type_or_value_error (ObjectError x)"
  "\<not> is_type_or_value_error OverflowError" "\<not> is_type_or_value_error (ExternalError n)"
  by (simp_all add: is_type_or_value_error_def is_value_error_def)

section \<open>Results\<close>

definition bindE :: "'a result \<Rightarrow> ('a \<Rightarrow> 'b result) \<Rightarrow> 'b result" where
  "bindE m f = (case m of Inl e \<Rightarrow> Inl e | Inr x \<Rightarrow> f x)"

definition raise_unless :: "bool \<Rightarrow> exn \<Rightarrow> unit result" where
  "raise_unless b e = (if b then Inr () else Inl e)"

definition catchE :: "'a result \<Rightarrow> (exn \<Rightarrow> bool) \<Rightarrow> exn \<Rightarrow> 'a result" where
  \<comment> \<open>\<open>try: m except C as e: raise e2\<close>, where \<open>p\<close> tests the class\<close>
  "catchE m p e2 = (case m of Inl e \<Rightarrow> Inl (if p e then e2 else e) | Inr x \<Rightarrow> Inr x)"

lemma bindE_simps [simp, result_simps]:
  "bindE (Inl e) f = Inl e" "bindE (Inr x) f = f x"
  by (simp_all add: bindE_def)

lemma bindE_eq_Inr [simp, result_simps]:
  "bindE m f = Inr y \<longleftrightarrow> (\<exists>x. m = Inr x \<and> f x = Inr y)"
  by (cases m) auto

lemma bindE_eq_Inl [result_simps]:
  "bindE m f = Inl e \<longleftrightarrow> m = Inl e \<or> (\<exists>x. m = Inr x \<and> f x = Inl e)"
  by (cases m) auto

lemma bindE_assoc: "bindE (bindE m f) g = bindE m (\<lambda>x. bindE (f x) g)"
  by (cases m) auto

lemma bindE_cong [fundef_cong]:
  "m = m' \<Longrightarrow> (\<And>x. m' = Inr x \<Longrightarrow> f x = f' x) \<Longrightarrow> bindE m f = bindE m' f'"
  by (cases m') auto

lemma raise_unless_simps [simp, result_simps]:
  "raise_unless True e = Inr ()" "raise_unless False e = Inl e"
  by (simp_all add: raise_unless_def)

lemma raise_unless_eq [simp, result_simps]:
  "raise_unless b e = Inr u \<longleftrightarrow> b"
  "raise_unless b e = Inl e' \<longleftrightarrow> \<not> b \<and> e' = e"
  by (auto simp: raise_unless_def)

lemma catchE_simps [simp, result_simps]:
  "catchE (Inr x) p e2 = Inr x" "catchE (Inl e) p e2 = Inl (if p e then e2 else e)"
  by (simp_all add: catchE_def)

lemma catchE_eq_Inr [simp, result_simps]: "catchE m p e2 = Inr x \<longleftrightarrow> m = Inr x"
  by (cases m) auto

text \<open>Guards: \<open>if bad: raise e\<close> and \<open>if not good: raise e\<close>.\<close>

lemma guard_eq_Inr [simp, result_simps]:
  "(if c then Inl e else m) = Inr y \<longleftrightarrow> \<not> c \<and> m = Inr y"
  "(if c then m else Inl e) = Inr y \<longleftrightarrow> c \<and> m = Inr y"
  by simp_all

lemma guard_eq_Inl [simp, result_simps]:
  "(if c then Inl e else Inr x) = Inl e' \<longleftrightarrow> c \<and> e = e'"
  "(if c then Inr x else Inl e) = Inl e' \<longleftrightarrow> \<not> c \<and> e = e'"
  by simp_all

lemma result_not_Inr: "(\<nexists>x. m = Inr x) \<longleftrightarrow> (\<exists>e. m = Inl e)" for m :: "'a result"
  by (cases m) auto

text \<open>
  Which exceptions may come out of an operation: \<open>checked m\<close> says that only \<open>TypeError\<close> and
  \<open>ValueError\<close> do, the classes by which the package reports bad input.
\<close>

definition raises_only :: "(exn \<Rightarrow> bool) \<Rightarrow> 'a result \<Rightarrow> bool" where
  "raises_only p m \<longleftrightarrow> (\<forall>e. m = Inl e \<longrightarrow> p e)"

abbreviation checked :: "'a result \<Rightarrow> bool" where
  "checked \<equiv> raises_only is_type_or_value_error"

lemma raises_onlyD: "raises_only p m \<Longrightarrow> m = Inl e \<Longrightarrow> p e"
  by (simp add: raises_only_def)

lemma raises_onlyI: "(\<And>e. m = Inl e \<Longrightarrow> p e) \<Longrightarrow> raises_only p m"
  by (simp add: raises_only_def)

lemma raises_only_simps [simp]:
  "raises_only p (Inr x)" "raises_only p (Inl e) \<longleftrightarrow> p e"
  by (simp_all add: raises_only_def)

lemma raises_only_bindE [raises_intros]:
  "raises_only p m \<Longrightarrow> (\<And>x. m = Inr x \<Longrightarrow> raises_only p (f x)) \<Longrightarrow> raises_only p (bindE m f)"
  by (cases m) auto

lemma raises_only_if [raises_intros]:
  "(b \<Longrightarrow> raises_only p m) \<Longrightarrow> (\<not> b \<Longrightarrow> raises_only p n) \<Longrightarrow> raises_only p (if b then m else n)"
  by simp

lemma raises_only_option [raises_intros]:
  "(x = None \<Longrightarrow> raises_only p m) \<Longrightarrow> (\<And>y. x = Some y \<Longrightarrow> raises_only p (f y)) \<Longrightarrow>
     raises_only p (case x of None \<Rightarrow> m | Some y \<Rightarrow> f y)"
  by (cases x) auto

lemma raises_only_catchE:
  "raises_only q m \<Longrightarrow> (\<And>e. q e \<Longrightarrow> p e \<and> r e2 \<or> \<not> p e \<and> r e) \<Longrightarrow> raises_only r (catchE m p e2)"
  by (cases m) (auto simp: raises_only_def)

text \<open>A comprehension that may raise: elements are evaluated from left to right.\<close>

fun mapE :: "('a \<Rightarrow> 'b result) \<Rightarrow> 'a list \<Rightarrow> 'b list result" where
  "mapE f [] = Inr []"
| "mapE f (x # xs) = bindE (f x) (\<lambda>y. bindE (mapE f xs) (\<lambda>ys. Inr (y # ys)))"

lemma mapE_Inr_iff [ok_iff]:
  "mapE f xs = Inr ys \<longleftrightarrow> list_all2 (\<lambda>x y. f x = Inr y) xs ys"
  by (induction xs arbitrary: ys) (auto simp: list_all2_Cons1)

lemma mapE_Inl_mem: "mapE f xs = Inl e \<Longrightarrow> \<exists>x\<in>set xs. f x = Inl e"
  by (induction xs) (auto simp: bindE_eq_Inl)

lemma mapE_cong [fundef_cong]:
  "xs = ys \<Longrightarrow> (\<And>x. x \<in> set ys \<Longrightarrow> f x = g x) \<Longrightarrow> mapE f xs = mapE g ys"
  by (induction ys arbitrary: xs) auto

section \<open>Lists\<close>

lemma sort_key_unique:
  assumes "distinct (map f xs)" and "mset xs = mset ys"
  shows "sort_key f xs = sort_key f ys"
  using assms by (intro sort_key_inj_key_eq) (simp_all add: distinct_map)

lemma update_new: "k \<notin> fst ` set d \<Longrightarrow> AList.update k v d = d @ [(k, v)]"
  by (induction d) auto

lemma last_in_tl: "xs \<noteq> [] \<Longrightarrow> tl xs \<noteq> [] \<Longrightarrow> last xs \<in> set (tl xs)"
  by (cases xs) auto

end
