(* ===== verification/PutMachine.thy ===== *)
theory PutMachine
  imports Prelude
begin

text \<open>
  \<open>contracts/state.py\<close>: the Object put state machine. The lock makes every call atomic, so a use of
  the machine is a sequence of calls; a call that raises leaves the machine as it was.
\<close>

section \<open>Graphs in which every step makes progress\<close>

text \<open>
  The interface of a life cycle: a finite set of successors per state and a rank that every step
  decreases. What it gives a client is that runs are short, simple and end in a state without
  successors.
\<close>

fun path :: "('s \<Rightarrow> 's list) \<Rightarrow> 's list \<Rightarrow> bool" where
  "path nexts [] = False"
| "path nexts [s] = True"
| "path nexts (s # t # rest) \<longleftrightarrow> t \<in> set (nexts s) \<and> path nexts (t # rest)"

locale progress_graph =
  fixes nexts :: "'s \<Rightarrow> 's list"
    and rank :: "'s \<Rightarrow> nat"
  assumes progress: "t \<in> set (nexts s) \<Longrightarrow> rank t < rank s"
begin

lemma path_rank: "path nexts (s # p) \<Longrightarrow> length p + rank (last (s # p)) \<le> rank s"
proof (induction p arbitrary: s)
  case (Cons t p)
  then have "t \<in> set (nexts s)" "length p + rank (last (t # p)) \<le> rank t" by simp_all
  with progress [of t s] show ?case by simp
qed simp

lemma path_below: "path nexts (s # p) \<Longrightarrow> t \<in> set p \<Longrightarrow> rank t < rank s"
proof (induction p arbitrary: s)
  case (Cons u p)
  then have "rank u < rank s" "t = u \<or> rank t < rank u" using progress by auto
  then show ?case by auto
qed simp

lemma path_distinct: "path nexts p \<Longrightarrow> distinct p"
proof (induction p)
  case (Cons s p)
  then have "distinct p" by (cases p) auto
  moreover have "s \<notin> set p" using path_below [OF Cons.prems] by blast
  ultimately show ?case by simp
qed simp

lemma path_length: "path nexts p \<Longrightarrow> length p \<le> Suc (rank (hd p))"
  by (cases p) (auto dest: path_rank)

end

lemma path_snoc:
  "p \<noteq> [] \<Longrightarrow> path nexts (p @ [t]) \<longleftrightarrow> path nexts p \<and> t \<in> set (nexts (last p))"
  by (induction nexts p rule: path.induct) auto

lemma path_append_prefix: "p \<noteq> [] \<Longrightarrow> path nexts (p @ q) \<Longrightarrow> path nexts p"
  by (induction nexts p rule: path.induct) (auto simp: neq_Nil_conv)

section \<open>The machine\<close>

datatype put_state = NEW | UPLOADING | VERIFYING | COMMITTED | ABORTED | ORPHAN_CANDIDATE

fun put_state_value :: "put_state \<Rightarrow> pystr" where
  "put_state_value NEW = lit ''NEW''"
| "put_state_value UPLOADING = lit ''UPLOADING''"
| "put_state_value VERIFYING = lit ''VERIFYING''"
| "put_state_value COMMITTED = lit ''COMMITTED''"
| "put_state_value ABORTED = lit ''ABORTED''"
| "put_state_value ORPHAN_CANDIDATE = lit ''ORPHAN_CANDIDATE''"

definition all_put_states :: "put_state list" where
  "all_put_states = [NEW, UPLOADING, VERIFYING, COMMITTED, ABORTED, ORPHAN_CANDIDATE]"

definition PutState_of :: "pystr \<Rightarrow> put_state result" where
  \<comment> \<open>\<open>PutState(state)\<close>; a member is its own string value\<close>
  "PutState_of s =
     (case filter (\<lambda>p. put_state_value p = s) all_put_states of
        [] \<Rightarrow> Inl ValueError | p # _ \<Rightarrow> Inr p)"

fun TRANSITIONS :: "put_state \<Rightarrow> put_state list" where
  "TRANSITIONS NEW = [UPLOADING, ABORTED]"
| "TRANSITIONS UPLOADING = [VERIFYING, ABORTED, ORPHAN_CANDIDATE]"
| "TRANSITIONS VERIFYING = [COMMITTED, ABORTED, ORPHAN_CANDIDATE]"
| "TRANSITIONS COMMITTED = []"
| "TRANSITIONS ABORTED = []"
| "TRANSITIONS ORPHAN_CANDIDATE = []"

record put_machine =
  pm_state :: put_state
  pm_history :: "put_state list"

definition PutStateMachine_init :: put_machine where
  "PutStateMachine_init = \<lparr>pm_state = NEW, pm_history = [NEW]\<rparr>"

definition PutStateMachine_transition :: "put_machine \<Rightarrow> pystr \<Rightarrow> put_state result \<times> put_machine" where
  "PutStateMachine_transition m state =
     (case PutState_of state of
        Inl e \<Rightarrow> (Inl e, m)
      | Inr requested \<Rightarrow>
          if requested \<notin> set (TRANSITIONS (pm_state m))
          then (Inl (ObjectError ObjectInvalidRequest), m)
          else (Inr requested, m\<lparr>pm_state := requested, pm_history := pm_history m @ [requested]\<rparr>))"

definition PutStateMachine_fail :: "put_machine \<Rightarrow> bool \<Rightarrow> put_state result \<times> put_machine" where
  "PutStateMachine_fail m physical_commit_possible =
     (let target = if physical_commit_possible then ORPHAN_CANDIDATE else ABORTED
      in PutStateMachine_transition m (put_state_value target))"

datatype put_call = Transition pystr | Fail bool

fun run_call :: "put_machine \<Rightarrow> put_call \<Rightarrow> put_state result \<times> put_machine" where
  "run_call m (Transition s) = PutStateMachine_transition m s"
| "run_call m (Fail b) = PutStateMachine_fail m b"

inductive put_reachable :: "put_machine \<Rightarrow> bool" where
  created: "put_reachable PutStateMachine_init"
| called: "put_reachable m \<Longrightarrow> put_reachable (snd (run_call m c))"

inductive_cases put_reachableE: "put_reachable m"

section \<open>Runs of the machine\<close>

lemma PutState_of_value [simp]: "PutState_of (put_state_value p) = Inr p"
  by (cases p) (simp_all add: PutState_of_def all_put_states_def)

lemma PutState_of_ok: "PutState_of s = Inr p \<longleftrightarrow> s = put_state_value p"
proof
  assume "PutState_of s = Inr p"
  then have "p \<in> set (filter (\<lambda>p. put_state_value p = s) all_put_states)"
    by (auto simp: PutState_of_def split: list.splits simp del: set_filter)
  then show "s = put_state_value p" by simp
qed simp

fun put_rank :: "put_state \<Rightarrow> nat" where
  "put_rank NEW = 3"
| "put_rank UPLOADING = 2"
| "put_rank VERIFYING = 1"
| "put_rank _ = 0"

interpretation put_graph: progress_graph TRANSITIONS put_rank
proof
  show "t \<in> set (TRANSITIONS s) \<Longrightarrow> put_rank t < put_rank s" for s t
    by (cases s) auto
qed

definition put_wf :: "put_machine \<Rightarrow> bool" where
  "put_wf m \<longleftrightarrow> (\<exists>p. pm_history m = NEW # p) \<and> last (pm_history m) = pm_state m
     \<and> path TRANSITIONS (pm_history m)"

lemma transition_cases:
  obtains (refused) e where "PutStateMachine_transition m s = (Inl e, m)"
    "\<And>q. s = put_state_value q \<Longrightarrow> e = ObjectError ObjectInvalidRequest \<and> q \<notin> set (TRANSITIONS (pm_state m))"
  | (taken) q where "s = put_state_value q" "q \<in> set (TRANSITIONS (pm_state m))"
    "PutStateMachine_transition m s = (Inr q, m\<lparr>pm_state := q, pm_history := pm_history m @ [q]\<rparr>)"
  by (cases "PutState_of s")
    (fastforce simp: PutStateMachine_transition_def PutState_of_ok split: if_splits)+

lemma transition_wf: "put_wf m \<Longrightarrow> put_wf (snd (PutStateMachine_transition m s))"
proof (rule transition_cases [of m s])
  fix q
  assume wf: "put_wf m" and q: "q \<in> set (TRANSITIONS (pm_state m))"
    "PutStateMachine_transition m s = (Inr q, m\<lparr>pm_state := q, pm_history := pm_history m @ [q]\<rparr>)"
  then have "path TRANSITIONS (pm_history m @ [q])"
    by (subst path_snoc) (auto simp: put_wf_def)
  with wf q show "put_wf (snd (PutStateMachine_transition m s))"
    by (auto simp: put_wf_def)
qed simp

lemma run_call_wf: "put_wf m \<Longrightarrow> put_wf (snd (run_call m c))"
  by (cases c) (simp_all add: transition_wf PutStateMachine_fail_def Let_def)

lemma put_reachable_wf: "put_reachable m \<Longrightarrow> put_wf m"
proof (induction rule: put_reachable.induct)
  case created
  show ?case by (simp add: put_wf_def PutStateMachine_init_def)
next
  case (called m c)
  then show ?case by (simp add: run_call_wf)
qed

lemma path_from_terminal: "TRANSITIONS s = [] \<Longrightarrow> path TRANSITIONS (s # p) \<longleftrightarrow> p = []"
  by (cases p) auto

text \<open>All life cycles of a put.\<close>

definition put_lives :: "put_state list list" where
  "put_lives =
     [[NEW], [NEW, ABORTED],
      [NEW, UPLOADING], [NEW, UPLOADING, ABORTED], [NEW, UPLOADING, ORPHAN_CANDIDATE],
      [NEW, UPLOADING, VERIFYING], [NEW, UPLOADING, VERIFYING, COMMITTED],
      [NEW, UPLOADING, VERIFYING, ABORTED], [NEW, UPLOADING, VERIFYING, ORPHAN_CANDIDATE]]"

lemma path_Cons_cases:
  "path nexts (s # p) \<longleftrightarrow> p = [] \<or> (\<exists>t q. p = t # q \<and> t \<in> set (nexts s) \<and> path nexts (t # q))"
  by (cases p) auto

lemma paths_from_NEW: "path TRANSITIONS (NEW # p) \<longleftrightarrow> NEW # p \<in> set put_lives"
  unfolding path_Cons_cases [of _ NEW]
  by (auto simp: path_Cons_cases [of _ UPLOADING] path_Cons_cases [of _ VERIFYING] path_from_terminal
      put_lives_def)

text \<open>
  C10. Whatever calls are made, in whatever order, the recorded history of a put is one of nine
  life cycles that start at \<open>NEW\<close>, its last entry is the current state, and \<open>COMMITTED\<close> occurs
  only at the end of \<open>NEW, UPLOADING, VERIFYING, COMMITTED\<close>.
\<close>

theorem put_history:
  assumes "put_reachable m"
  shows "pm_history m \<in> set put_lives \<and> last (pm_history m) = pm_state m
    \<and> (COMMITTED \<in> set (pm_history m) \<longrightarrow> pm_history m = [NEW, UPLOADING, VERIFYING, COMMITTED])"
proof -
  have wf: "put_wf m" using assms by (rule put_reachable_wf)
  then obtain p where p: "pm_history m = NEW # p" "path TRANSITIONS (NEW # p)" "last (pm_history m) = pm_state m"
    by (auto simp: put_wf_def)
  then have "NEW # p \<in> set put_lives" by (simp add: paths_from_NEW)
  with p show ?thesis by (auto simp: put_lives_def)
qed

lemma put_committed_run:
  "put_reachable \<lparr>pm_state = COMMITTED, pm_history = [NEW, UPLOADING, VERIFYING, COMMITTED]\<rparr>"
proof -
  let ?t = "\<lambda>m p. snd (run_call m (Transition (put_state_value p)))"
  have "put_reachable (?t (?t (?t PutStateMachine_init UPLOADING) VERIFYING) COMMITTED)"
    by (intro put_reachable.intros)
  then show ?thesis
    by (simp add: PutStateMachine_transition_def PutStateMachine_init_def del: put_state_value.simps)
qed

theorem put_history_witness:
  "put_reachable \<lparr>pm_state = COMMITTED, pm_history = [NEW, UPLOADING, VERIFYING, COMMITTED]\<rparr>
   \<and> [NEW, UPLOADING, VERIFYING, COMMITTED] \<in> set put_lives"
  using put_committed_run put_history [OF put_committed_run] by simp

text \<open>
  C28. A terminal state cannot be reopened: in \<open>COMMITTED\<close>, \<open>ABORTED\<close> and \<open>ORPHAN_CANDIDATE\<close> every
  call raises and leaves the machine as it was, so after any sequence of calls the machine is
  still the same.
\<close>

theorem put_terminal:
  assumes "pm_state m \<in> {COMMITTED, ABORTED, ORPHAN_CANDIDATE}"
  shows "(\<exists>e. fst (run_call m c) = Inl e) \<and> fold (\<lambda>c m. snd (run_call m c)) cs m = m"
proof -
  have none: "TRANSITIONS (pm_state m) = []" using assms by auto
  have refused: "\<exists>e. PutStateMachine_transition m s = (Inl e, m)" for s
    by (rule transition_cases [of m s]) (auto simp: none)
  have call: "\<exists>e. run_call m c = (Inl e, m)" for c
    using refused by (cases c) (auto simp: PutStateMachine_fail_def Let_def)
  have "fold (\<lambda>c m. snd (run_call m c)) cs m = m"
  proof (induction cs)
    case (Cons c cs)
    then show ?case using call [of c] by auto
  qed simp
  with call [of c] show ?thesis by auto
qed

theorem put_terminal_witness:
  "fold (\<lambda>c m. snd (run_call m c)) [Fail False, Transition (lit ''UPLOADING'')]
     \<lparr>pm_state = ABORTED, pm_history = [NEW, ABORTED]\<rparr> = \<lparr>pm_state = ABORTED, pm_history = [NEW, ABORTED]\<rparr>"
  by (rule put_terminal [THEN conjunct2]) simp

text \<open>
  \<open>transition\<close> decides every request: it moves, returning the new state and recording it,
  exactly for the successors of the current state; it raises \<open>ObjectInvalidRequest\<close> for another
  state and \<open>ValueError\<close> for a text that names no state, the machine being unchanged.
\<close>

lemma put_transition_decided:
  "PutStateMachine_transition m (put_state_value q) =
     (if q \<in> set (TRANSITIONS (pm_state m))
      then (Inr q, m\<lparr>pm_state := q, pm_history := pm_history m @ [q]\<rparr>)
      else (Inl (ObjectError ObjectInvalidRequest), m))
   \<and> ((\<forall>q. s \<noteq> put_state_value q) \<longrightarrow> PutStateMachine_transition m s = (Inl ValueError, m))"
proof -
  have "PutState_of s = Inl ValueError" if "\<forall>q. s \<noteq> put_state_value q"
  proof -
    have "filter (\<lambda>p. put_state_value p = s) all_put_states = []"
      using that by (auto simp: filter_empty_conv)
    then show ?thesis by (simp add: PutState_of_def)
  qed
  then show ?thesis by (auto simp: PutStateMachine_transition_def)
qed

end
