(* ===== verification/Regex.thy ===== *)
theory Regex
  imports Prelude
begin

text \<open>
  The fragment of Python's regular expressions that the code uses, as data, with an executable
  \<open>fullmatch\<close> that computes the remainders a pattern can leave, and its adequacy with respect
  to the language of the pattern.
\<close>

datatype citem = Ch nat | Rng nat nat | Whitespace

text \<open>The code points \<open>\s\<close> matches in a Unicode pattern.\<close>

definition py_space :: "nat \<Rightarrow> bool" where
  "py_space c \<longleftrightarrow> 9 \<le> c \<and> c \<le> 13 \<or> 28 \<le> c \<and> c \<le> 32 \<or> c = 133 \<or> c = 160 \<or> c = 5760
     \<or> 8192 \<le> c \<and> c \<le> 8202 \<or> c = 8232 \<or> c = 8233 \<or> c = 8239 \<or> c = 8287 \<or> c = 12288"

fun in_item :: "nat \<Rightarrow> citem \<Rightarrow> bool" where
  "in_item c (Ch d) \<longleftrightarrow> c = d"
| "in_item c (Rng a b) \<longleftrightarrow> a \<le> c \<and> c \<le> b"
| "in_item c Whitespace \<longleftrightarrow> py_space c"

datatype cclass = Any_of "citem list" | None_of "citem list"

fun in_class :: "cclass \<Rightarrow> nat \<Rightarrow> bool" where
  "in_class (Any_of is) c \<longleftrightarrow> (\<exists>i\<in>set is. in_item c i)"
| "in_class (None_of is) c \<longleftrightarrow> \<not> (\<exists>i\<in>set is. in_item c i)"

text \<open>
  \<open>Lit s\<close> is the text \<open>s\<close>, \<open>Cls\<close> one character, \<open>Many\<close> the greedy \<open>[...]+\<close>,
  \<open>Rep m n r\<close> the bounded \<open>r{m,n}\<close>; \<open>(?:r)?\<close> is \<open>Rep 0 1 r\<close>.
\<close>

datatype rx = Lit pystr | Cls cclass | Many cclass | Seq rx rx | Rep nat nat rx

section \<open>The executable matcher\<close>

fun rest_upto :: "nat \<Rightarrow> (pystr \<Rightarrow> pystr list) \<Rightarrow> pystr \<Rightarrow> pystr list" where
  "rest_upto 0 f s = [s]"
| "rest_upto (Suc n) f s = s # concat (map (rest_upto n f) (f s))"

fun rest_exact :: "nat \<Rightarrow> (pystr \<Rightarrow> pystr list) \<Rightarrow> pystr \<Rightarrow> pystr list" where
  "rest_exact 0 f s = [s]"
| "rest_exact (Suc n) f s = concat (map (rest_exact n f) (f s))"

fun strip_prefix :: "pystr \<Rightarrow> pystr \<Rightarrow> pystr list" where
  "strip_prefix [] s = [s]"
| "strip_prefix (c # cs) [] = []"
| "strip_prefix (c # cs) (d # s) = (if c = d then strip_prefix cs s else [])"

definition rest_class :: "cclass \<Rightarrow> pystr \<Rightarrow> pystr list" where
  "rest_class k s = (case s of [] \<Rightarrow> [] | c # cs \<Rightarrow> if in_class k c then [cs] else [])"

primrec rx_rest :: "rx \<Rightarrow> pystr \<Rightarrow> pystr list" where
  "rx_rest (Lit t) s = strip_prefix t s"
| "rx_rest (Cls k) s = rest_class k s"
| "rx_rest (Many k) s = concat (map (rest_upto (length s) (rest_class k)) (rest_class k s))"
| "rx_rest (Seq a b) s = concat (map (rx_rest b) (rx_rest a s))"
| "rx_rest (Rep m n a) s =
     concat (map (rest_upto (n - m) (rx_rest a)) (rest_exact m (rx_rest a) s))"

definition fullmatch :: "rx \<Rightarrow> pystr \<Rightarrow> bool" where
  "fullmatch r s \<longleftrightarrow> [] \<in> set (rx_rest r s)"

section \<open>The language of a pattern\<close>

fun lang_pow :: "nat \<Rightarrow> pystr set \<Rightarrow> pystr set" where
  "lang_pow 0 L = {[]}"
| "lang_pow (Suc n) L = {u @ v | u v. u \<in> L \<and> v \<in> lang_pow n L}"

primrec rx_lang :: "rx \<Rightarrow> pystr set" where
  "rx_lang (Lit t) = {t}"
| "rx_lang (Cls k) = {[c] | c. in_class k c}"
| "rx_lang (Many k) = {s. s \<noteq> [] \<and> (\<forall>c\<in>set s. in_class k c)}"
| "rx_lang (Seq a b) = {u @ v | u v. u \<in> rx_lang a \<and> v \<in> rx_lang b}"
| "rx_lang (Rep m n a) = {u @ v | u v k. u \<in> lang_pow m (rx_lang a) \<and> k \<le> n - m \<and> v \<in> lang_pow k (rx_lang a)}"

definition remainders :: "(pystr \<Rightarrow> pystr list) \<Rightarrow> pystr set \<Rightarrow> bool" where
  "remainders f L \<longleftrightarrow> (\<forall>s t. t \<in> set (f s) \<longleftrightarrow> (\<exists>u\<in>L. s = u @ t))"

lemma remainders_class: "remainders (rest_class k) {[c] | c. in_class k c}"
  by (auto simp: remainders_def rest_class_def split: list.splits)

lemma strip_prefix_iff: "t \<in> set (strip_prefix p s) \<longleftrightarrow> s = p @ t"
  by (induction p s rule: strip_prefix.induct) auto

lemma remainders_concat:
  assumes f: "remainders f L" and g: "remainders g M"
  shows "remainders (\<lambda>s. concat (map g (f s))) {u @ v | u v. u \<in> L \<and> v \<in> M}"
  unfolding remainders_def
proof (intro allI iffI)
  fix s t
  assume "t \<in> set (concat (map g (f s)))"
  then obtain s' where "s' \<in> set (f s)" "t \<in> set (g s')" by auto
  then obtain u v where "u \<in> L" "s = u @ s'" "v \<in> M" "s' = v @ t"
    using f g unfolding remainders_def by blast
  then show "\<exists>w\<in>{u @ v | u v. u \<in> L \<and> v \<in> M}. s = w @ t"
    by (intro bexI [of _ "u @ v"]) auto
next
  fix s t
  assume "\<exists>w\<in>{u @ v | u v. u \<in> L \<and> v \<in> M}. s = w @ t"
  then obtain u v where uv: "u \<in> L" "v \<in> M" "s = u @ (v @ t)" by auto
  then have "v @ t \<in> set (f s)" "t \<in> set (g (v @ t))"
    using f g unfolding remainders_def by blast+
  then show "t \<in> set (concat (map g (f s)))" by auto
qed

lemma remainders_cong: "remainders f L \<Longrightarrow> (\<And>s. f s = g s) \<Longrightarrow> L = M \<Longrightarrow> remainders g M"
  by (simp add: remainders_def)

lemma remainders_exact: "remainders f L \<Longrightarrow> remainders (rest_exact n f) (lang_pow n L)"
proof (induction n)
  case 0
  then show ?case by (auto simp: remainders_def)
next
  case (Suc n)
  have "remainders (\<lambda>s. concat (map (rest_exact n f) (f s))) {u @ v | u v. u \<in> L \<and> v \<in> lang_pow n L}"
    using Suc by (intro remainders_concat) simp_all
  then show ?case by (rule remainders_cong) simp_all
qed

lemma UN_lang_pow_Suc:
  "(\<Union>k\<le>Suc n. lang_pow k L) = insert [] {u @ v | u v. u \<in> L \<and> v \<in> (\<Union>k\<le>n. lang_pow k L)}"
proof -
  have "(\<Union>k\<le>Suc n. lang_pow k L) = insert [] (\<Union>k\<le>n. lang_pow (Suc k) L)"
    by (subst atMost_Suc_eq_insert_0) auto
  also have "(\<Union>k\<le>n. lang_pow (Suc k) L) = {u @ v | u v. u \<in> L \<and> v \<in> (\<Union>k\<le>n. lang_pow k L)}"
    by auto
  finally show ?thesis .
qed

lemma remainders_insert_Nil:
  "remainders f L \<Longrightarrow> remainders (\<lambda>s. s # f s) (insert [] L)"
  by (auto simp: remainders_def)

lemma remainders_upto: "remainders f L \<Longrightarrow> remainders (rest_upto n f) (\<Union>k\<le>n. lang_pow k L)"
proof (induction n)
  case 0
  then show ?case by (auto simp: remainders_def)
next
  case (Suc n)
  have "remainders (\<lambda>s. s # concat (map (rest_upto n f) (f s)))
      (insert [] {u @ v | u v. u \<in> L \<and> v \<in> (\<Union>k\<le>n. lang_pow k L)})"
    using Suc by (intro remainders_insert_Nil remainders_concat) simp_all
  then show ?case by (rule remainders_cong) (simp_all only: UN_lang_pow_Suc rest_upto.simps)
qed

lemma lang_pow_class:
  "lang_pow n {[c] | c. P c} = {s. length s = n \<and> (\<forall>c\<in>set s. P c)}"
proof (induction n)
  case (Suc n)
  have "lang_pow (Suc n) {[c] | c. P c} = {c # v | c v. P c \<and> length v = n \<and> (\<forall>c\<in>set v. P c)}"
  proof (rule set_eqI)
    fix x
    have "(\<exists>u v. x = u @ v \<and> (\<exists>c. u = [c] \<and> P c) \<and> Q v) \<longleftrightarrow> (\<exists>c v. x = c # v \<and> P c \<and> Q v)" for Q
      by (metis append_Cons append_Nil)
    then show "x \<in> lang_pow (Suc n) {[c] | c. P c} \<longleftrightarrow>
        x \<in> {c # v | c v. P c \<and> length v = n \<and> (\<forall>c\<in>set v. P c)}"
      by (simp add: Suc)
  qed
  then show ?case by (auto simp: length_Suc_conv)
qed auto

lemma remainders_many:
  "remainders (\<lambda>s. concat (map (rest_upto (length s) (rest_class k)) (rest_class k s)))
     {s. s \<noteq> [] \<and> (\<forall>c\<in>set s. in_class k c)}"
proof -
  have bounded: "t \<in> set (rest_upto n (rest_class k) s) \<longleftrightarrow>
      (\<exists>u. length u \<le> n \<and> (\<forall>c\<in>set u. in_class k c) \<and> s = u @ t)" for n s t
    using remainders_upto [OF remainders_class, of n k]
    by (simp add: remainders_def lang_pow_class Bex_def)
  have upto: "t \<in> set (rest_upto (Suc (length s)) (rest_class k) s) \<longleftrightarrow>
      (\<exists>u. (\<forall>c\<in>set u. in_class k c) \<and> s = u @ t)" for s t
  proof -
    have "length u \<le> Suc (length s)" if "s = u @ t" for u using that by simp
    then show ?thesis unfolding bounded by blast
  qed
  have "t \<in> set (concat (map (rest_upto (length s) (rest_class k)) (rest_class k s))) \<longleftrightarrow>
      (\<exists>u. u \<noteq> [] \<and> (\<forall>c\<in>set u. in_class k c) \<and> s = u @ t)" for s t
  proof (cases s)
    case (Cons c cs)
    have "(\<exists>u. u \<noteq> [] \<and> (\<forall>d\<in>set u. in_class k d) \<and> c # cs = u @ t) \<longleftrightarrow>
        in_class k c \<and> (\<exists>u. (\<forall>d\<in>set u. in_class k d) \<and> cs = u @ t)"
      by (auto simp: Cons_eq_append_conv)
    then show ?thesis using Cons upto [of t cs] by (simp add: rest_class_def)
  qed (simp add: rest_class_def)
  then show ?thesis by (simp add: remainders_def Bex_def)
qed

lemma remainders_strip: "remainders (strip_prefix p) {p}"
  by (simp add: remainders_def strip_prefix_iff)

lemma rx_lang_Rep:
  "rx_lang (Rep m n a) = {u @ v | u v. u \<in> lang_pow m (rx_lang a) \<and> v \<in> (\<Union>k\<le>n - m. lang_pow k (rx_lang a))}"
  by auto

lemma rx_rest_remainders: "remainders (rx_rest r) (rx_lang r)"
proof (induction r)
  case (Rep m n a)
  have "remainders (\<lambda>s. concat (map (rest_upto (n - m) (rx_rest a)) (rest_exact m (rx_rest a) s))) (rx_lang (Rep m n a))"
    unfolding rx_lang_Rep by (intro remainders_concat remainders_exact remainders_upto Rep)
  then show ?case by (rule remainders_cong) simp_all
next
  case (Seq a b)
  then have "remainders (\<lambda>s. concat (map (rx_rest b) (rx_rest a s))) (rx_lang (Seq a b))"
    unfolding rx_lang.simps by (intro remainders_concat)
  then show ?case by (rule remainders_cong) simp_all
next
  case (Many k)
  show ?case using remainders_many [of k] by (rule remainders_cong) simp_all
next
  case (Cls k)
  show ?case using remainders_class [of k] by (rule remainders_cong) simp_all
next
  case (Lit p)
  show ?case using remainders_strip [of p] by (rule remainders_cong) simp_all
qed

text \<open>Adequacy: \<open>fullmatch\<close> decides membership in the language of the pattern.\<close>

lemma fullmatch_iff: "fullmatch r s \<longleftrightarrow> s \<in> rx_lang r"
  using rx_rest_remainders [of r] by (simp add: fullmatch_def remainders_def)

lemma rx_lang_Rep_class:
  "m \<le> n \<Longrightarrow> rx_lang (Rep m n (Cls k)) = {s. m \<le> length s \<and> length s \<le> n \<and> (\<forall>c\<in>set s. in_class k c)}"
proof -
  assume mn: "m \<le> n"
  have "s \<in> rx_lang (Rep m n (Cls k)) \<longleftrightarrow> m \<le> length s \<and> length s \<le> n \<and> (\<forall>c\<in>set s. in_class k c)" for s
  proof
    assume "s \<in> rx_lang (Rep m n (Cls k))"
    then show "m \<le> length s \<and> length s \<le> n \<and> (\<forall>c\<in>set s. in_class k c)"
      using mn by (auto simp: lang_pow_class)
  next
    assume r: "m \<le> length s \<and> length s \<le> n \<and> (\<forall>c\<in>set s. in_class k c)"
    then have "s = take m s @ drop m s" "length (take m s) = m" "length (drop m s) \<le> n - m"
      "\<forall>c\<in>set (take m s). in_class k c" "\<forall>c\<in>set (drop m s). in_class k c"
      by (auto dest: in_set_takeD in_set_dropD)
    then show "s \<in> rx_lang (Rep m n (Cls k))"
      unfolding rx_lang_Rep rx_lang.simps lang_pow_class by blast
  qed
  then show ?thesis by blast
qed

lemma rx_lang_option: "rx_lang (Rep 0 1 r) = insert [] (rx_lang r)"
proof -
  have "(\<Union>k\<le>1. lang_pow k L) = insert [] L" for L
    using UN_lang_pow_Suc [of L 0] by simp
  then show ?thesis unfolding rx_lang_Rep by (auto simp del: UN_simps)
qed

end
