(* ===== verification/Validation.thy ===== *)
theory Validation
  imports Regex
begin

text \<open>
  The checks of \<open>_validation.py\<close> on dynamically typed values. Each is a partial function from
  \<^typ>\<open>pyval\<close> to the validated value; the \<open>field\<close> and \<open>path\<close> arguments of the code only
  feed message texts and are left out. The \<open>ok_iff\<close> facts say exactly when a check passes.
\<close>

section \<open>Patterns\<close>

abbreviation alnum_items :: "citem list" where
  "alnum_items \<equiv> [Rng 65 90, Rng 97 122, Rng 48 57]"

abbreviation alnum :: cclass where
  "alnum \<equiv> Any_of alnum_items"

text \<open>\<open>[A-Za-z0-9._~-]\<close>, and \<open>digits n\<close> for \<open>[0-9]{n}\<close>.\<close>

abbreviation token_class :: cclass where
  "token_class \<equiv> Any_of (alnum_items @ [Ch 46, Ch 95, Ch 126, Ch 45])"

abbreviation digit_class :: cclass where
  "digit_class \<equiv> Any_of [Rng 48 57]"

abbreviation digits_rx :: "nat \<Rightarrow> rx" where
  "digits_rx n \<equiv> Rep n n (Cls digit_class)"

definition DIGEST_RE :: rx where
  "DIGEST_RE = Seq (Lit (lit ''sha256:'')) (Rep 64 64 (Cls (Any_of [Rng 48 57, Rng 97 102])))"

definition TOKEN_RE :: rx where
  "TOKEN_RE = Seq (Cls alnum) (Rep 0 1 (Seq (Rep 0 510 (Cls token_class)) (Cls alnum)))"

definition MEDIA_TYPE_RE :: rx where
  "MEDIA_TYPE_RE =
     Seq (Many (None_of [Ch 47, Whitespace])) (Seq (Lit (lit ''/'')) (Many (None_of [Ch 47, Whitespace])))"

definition TIMESTAMP_RE :: rx where
  "TIMESTAMP_RE =
     Seq (digits_rx 4) (Seq (Lit (lit ''-'')) (Seq (digits_rx 2) (Seq (Lit (lit ''-'')) (Seq (digits_rx 2)
    (Seq (Lit (lit ''T'')) (Seq (digits_rx 2) (Seq (Lit (lit '':'')) (Seq (digits_rx 2)
    (Seq (Lit (lit '':'')) (Seq (digits_rx 2) (Seq (Lit (lit ''.'')) (Seq (digits_rx 6) (Lit (lit ''Z''))))))))))))))"

section \<open>Strings\<close>

text \<open>\<open>str.encode("utf-8")\<close>; a lone surrogate has no encoding.\<close>

definition utf8_char :: "nat \<Rightarrow> nat list" where
  "utf8_char c =
     (if c < 128 then [c]
      else if c < 2048 then [192 + c div 64, 128 + c mod 64]
      else if c < 65536 then [224 + c div 4096, 128 + (c div 64) mod 64, 128 + c mod 64]
      else [240 + c div 262144, 128 + (c div 4096) mod 64, 128 + (c div 64) mod 64, 128 + c mod 64])"

definition is_surrogate :: "nat \<Rightarrow> bool" where
  "is_surrogate c \<longleftrightarrow> 55296 \<le> c \<and> c \<le> 57343"

definition utf8_encode :: "pystr \<Rightarrow> nat list result" where
  "utf8_encode s =
     (if list_ex is_surrogate s then Inl UnicodeEncodeError else Inr (concat (map utf8_char s)))"

definition is_control :: "nat \<Rightarrow> bool" where
  "is_control c \<longleftrightarrow> c < 32 \<or> c = 127"

definition bounded_string :: "nat \<Rightarrow> pyval \<Rightarrow> pystr result" where
  "bounded_string maximum value =
     (case value of
        PStr s \<Rightarrow>
          if s = [] then Inl ValueError
          else bindE (utf8_encode s) (\<lambda>raw.
            if length raw > maximum then Inl ValueError
            else if list_ex is_control s then Inl ValueError
            else Inr s)
      | _ \<Rightarrow> Inl ValueError)"

definition token :: "pyval \<Rightarrow> pystr result" where
  \<comment> \<open>every caller uses the default \<open>maximum = 512\<close>\<close>
  "token value = bindE (bounded_string 512 value) (\<lambda>s.
     if fullmatch TOKEN_RE s then Inr s else Inl ValueError)"

definition digest :: "pyval \<Rightarrow> pystr result" where
  "digest value =
     (case value of PStr s \<Rightarrow> if fullmatch DIGEST_RE s then Inr s else Inl ValueError
      | _ \<Rightarrow> Inl ValueError)"

definition media_type :: "pyval \<Rightarrow> pystr result" where
  "media_type value = bindE (bounded_string 255 value) (\<lambda>s.
     if fullmatch MEDIA_TYPE_RE s then Inr s else Inl ValueError)"

section \<open>Integers and booleans\<close>

text \<open>\<open>bool\<close> is a subclass of \<open>int\<close> in Python: the code refuses it by name.\<close>

definition non_negative_int :: "pyval \<Rightarrow> int result" where
  "non_negative_int value =
     (case value of PInt n \<Rightarrow> if n < 0 then Inl ValueError else Inr n | _ \<Rightarrow> Inl ValueError)"

definition positive_int :: "pyval \<Rightarrow> int result" where
  "positive_int value =
     bindE (non_negative_int value) (\<lambda>n. if n = 0 then Inl ValueError else Inr n)"

section \<open>Mappings and sequences\<close>

fun string_entries :: "nat \<Rightarrow> nat \<Rightarrow> pydict \<Rightarrow> (pystr \<times> pystr) list \<Rightarrow> (pystr \<times> pystr) list result" where
  \<comment> \<open>the loop of \<open>string_mapping\<close>, over the result dict built so far\<close>
  "string_entries mk mv [] acc = Inr acc"
| "string_entries mk mv ((k, item) # rest) acc =
     bindE (bounded_string mv item) (\<lambda>v.
     bindE (case k of KStr s \<Rightarrow> bounded_string mk (PStr s) | KOther _ \<Rightarrow> Inl ValueError) (\<lambda>key.
     string_entries mk mv rest (AList.update key v acc)))"

definition string_mapping :: "nat \<Rightarrow> nat \<Rightarrow> nat \<Rightarrow> pyval \<Rightarrow> (pystr \<times> pystr) list result" where
  "string_mapping maximum_entries maximum_key_bytes maximum_value_bytes value =
     (case value of
        PDict d \<Rightarrow>
          if length d > maximum_entries then Inl ValueError
          else bindE (string_entries maximum_key_bytes maximum_value_bytes d []) (\<lambda>result.
            Inr (sort_key fst result))
      | _ \<Rightarrow> Inl ValueError)"

definition json_mapping :: "pyval \<Rightarrow> pydict result" where
  "json_mapping value = (case value of PDict d \<Rightarrow> Inr d | _ \<Rightarrow> Inl TypeError)"

definition string_sequence :: "pyval \<Rightarrow> pystr list result" where
  "string_sequence value =
     (case value of
        PList xs \<Rightarrow> bindE (mapE (bounded_string 128) xs) (\<lambda>items.
          let result = sort items
          in if distinct result then Inr result else Inl ValueError)
      | _ \<Rightarrow> Inl TypeError)"

definition is_other_key :: "pykey \<Rightarrow> bool" where
  "is_other_key k = (case k of KStr _ \<Rightarrow> False | KOther _ \<Rightarrow> True)"

definition exact_fields :: "pydict \<Rightarrow> string list \<Rightarrow> string list \<Rightarrow> unit result" where
  "exact_fields value required optional =
     (let missing = filter (\<lambda>k. dget value k = None) required;
          known = map (\<lambda>k. KStr (lit k)) (required @ optional);
          unknown = filter (\<lambda>k. k \<notin> set known) (map fst value)
      in if missing = [] \<and> unknown = [] then Inr ()
         else if 2 \<le> length unknown \<and> list_ex is_other_key unknown
         then Inl TypeError \<comment> \<open>\<open>sorted(unknown)\<close> compares keys without an order\<close>
         else Inl ValueError)"

section \<open>Private configuration\<close>

definition private_keys :: "pystr list" where
  "private_keys = map lit
     [''accesskey'', ''acl'', ''adapter'', ''adapterid'', ''bucket'', ''cloudcredential'',
      ''credential'', ''credentials'', ''endpoint'', ''engine'', ''engineid'', ''kmskey'',
      ''lifecycle'', ''password'', ''physicalkey'', ''physicallocator'', ''region'',
      ''repository'', ''secret'', ''secretkey'', ''storagebinding'']"

text \<open>
  \<open>re.sub("[^a-z0-9]", "", key.casefold())\<close> works code point by code point: \<open>folded c\<close> are the
  characters of \<open>[a-z0-9]\<close> in the case folding of \<open>c\<close>. Besides ASCII letters and digits these
  are the few code points whose full case folding (Unicode's \<open>CaseFolding.txt\<close>) has an ASCII part.
\<close>

definition folded_special :: "(nat \<times> string) list" where
  "folded_special =
     [(0xDF, ''ss''), (0x130, ''i''), (0x149, ''n''), (0x17F, ''s''), (0x1F0, ''j''),
      (0x1E96, ''h''), (0x1E97, ''t''), (0x1E98, ''w''), (0x1E99, ''y''), (0x1E9A, ''a''),
      (0x1E9E, ''ss''), (0x212A, ''k''), (0xFB00, ''ff''), (0xFB01, ''fi''), (0xFB02, ''fl''),
      (0xFB03, ''ffi''), (0xFB04, ''ffl''), (0xFB05, ''st''), (0xFB06, ''st'')]"

definition folded :: "nat \<Rightarrow> pystr" where
  "folded c =
     (if 65 \<le> c \<and> c \<le> 90 then [c + 32]
      else if 97 \<le> c \<and> c \<le> 122 \<or> 48 \<le> c \<and> c \<le> 57 then [c]
      else case map_of folded_special c of None \<Rightarrow> [] | Some s \<Rightarrow> lit s)"

definition normalized_key :: "pystr \<Rightarrow> pystr" where
  "normalized_key key = concat (map folded key)"

fun reject_private_configuration :: "pyval \<Rightarrow> unit result"
  and reject_private_items :: "pydict \<Rightarrow> unit result"
  and reject_private_elements :: "pyval list \<Rightarrow> unit result" where
  "reject_private_configuration (PDict d) = reject_private_items d"
| "reject_private_configuration (PList xs) = reject_private_elements xs"
| "reject_private_configuration v = Inr ()"
| "reject_private_items [] = Inr ()"
| "reject_private_items ((key, item) # rest) =
     (case key of
        KOther _ \<Rightarrow> Inl TypeError
      | KStr s \<Rightarrow>
          if normalized_key s \<in> set private_keys then Inl ValueError
          else bindE (reject_private_configuration item) (\<lambda>_. reject_private_items rest))"
| "reject_private_elements [] = Inr ()"
| "reject_private_elements (item # rest) =
     bindE (reject_private_configuration item) (\<lambda>_. reject_private_elements rest)"

section \<open>When the checks pass\<close>

definition plain_text :: "nat \<Rightarrow> pystr \<Rightarrow> bool" where
  "plain_text maximum s \<longleftrightarrow>
     s \<noteq> [] \<and> (\<forall>c\<in>set s. \<not> is_surrogate c \<and> \<not> is_control c)
     \<and> length (concat (map utf8_char s)) \<le> maximum"

definition opaque_token :: "pystr \<Rightarrow> bool" where
  "opaque_token s \<longleftrightarrow>
     s \<noteq> [] \<and> length s \<le> 512 \<and> in_class alnum (hd s) \<and> in_class alnum (last s)
     \<and> (\<forall>c\<in>set s. in_class token_class c)"

definition sha256_digest :: "pystr \<Rightarrow> bool" where
  "sha256_digest s \<longleftrightarrow>
     (\<exists>h. s = lit ''sha256:'' @ h \<and> length h = 64
        \<and> (\<forall>c\<in>set h. 48 \<le> c \<and> c \<le> 57 \<or> 97 \<le> c \<and> c \<le> 102))"

lemma bounded_string_ok [ok_iff]:
  "bounded_string m v = Inr s \<longleftrightarrow> v = PStr s \<and> plain_text m s"
  by (auto simp: bounded_string_def utf8_encode_def plain_text_def list_ex_iff split: pyval.splits if_splits)

lemma bounded_string_error: "bounded_string m v = Inl e \<Longrightarrow> is_value_error e"
  by (auto simp: bounded_string_def utf8_encode_def bindE_eq_Inl split: pyval.splits if_splits)

lemma utf8_ascii: "\<forall>c\<in>set s. c < 128 \<Longrightarrow> concat (map utf8_char s) = s"
  by (induction s) (simp_all add: utf8_char_def)

lemma token_class_ascii: "in_class token_class c \<Longrightarrow> 45 \<le> c \<and> c \<le> 126"
  by auto

lemma opaque_token_plain: "opaque_token s \<Longrightarrow> plain_text 512 s"
proof -
  assume t: "opaque_token s"
  then have "\<forall>c\<in>set s. 45 \<le> c \<and> c \<le> 126"
    unfolding opaque_token_def using token_class_ascii by blast
  then have "\<forall>c\<in>set s. c < 128 \<and> \<not> is_surrogate c \<and> \<not> is_control c"
    by (fastforce simp: is_surrogate_def is_control_def)
  then show ?thesis using t utf8_ascii [of s] by (simp add: plain_text_def opaque_token_def)
qed

lemma Rep_Cls_iff:
  "m \<le> n \<Longrightarrow> s \<in> rx_lang (Rep m n (Cls k)) \<longleftrightarrow>
     m \<le> length s \<and> length s \<le> n \<and> (\<forall>c\<in>set s. in_class k c)"
  by (simp only: rx_lang_Rep_class mem_Collect_eq)

lemma Seq_iff: "s \<in> rx_lang (Seq a b) \<longleftrightarrow> (\<exists>u v. s = u @ v \<and> u \<in> rx_lang a \<and> v \<in> rx_lang b)"
  by auto

lemma one_character: "(\<exists>u v. s = u @ v \<and> (\<exists>c. u = [c] \<and> P c) \<and> Q v) \<longleftrightarrow> (\<exists>c t. s = c # t \<and> P c \<and> Q t)"
  by (metis append_Cons append_Nil)

lemma Seq_Cls_iff:
  "s \<in> rx_lang (Seq (Cls k) b) \<longleftrightarrow> (\<exists>c t. s = c # t \<and> in_class k c \<and> t \<in> rx_lang b)"
  unfolding Seq_iff rx_lang.simps(2) mem_Collect_eq by (rule one_character)

lemma TOKEN_RE_iff: "fullmatch TOKEN_RE s \<longleftrightarrow> opaque_token s"
proof -
  have inner: "t \<in> rx_lang (Rep 0 1 (Seq (Rep 0 510 (Cls token_class)) (Cls alnum))) \<longleftrightarrow>
      t = [] \<or> (\<exists>m b. t = m @ [b] \<and> length m \<le> 510 \<and> (\<forall>c\<in>set m. in_class token_class c) \<and> in_class alnum b)" for t
    unfolding rx_lang_option insert_iff rx_lang.simps(2,4) mem_Collect_eq
    by (simp add: Rep_Cls_iff del: rx_lang.simps) blast
  have sub: "in_class alnum c \<Longrightarrow> in_class token_class c" for c by auto
  have "fullmatch TOKEN_RE s \<longleftrightarrow> (\<exists>a t. s = a # t \<and> in_class alnum a \<and>
      (t = [] \<or> (\<exists>m b. t = m @ [b] \<and> length m \<le> 510 \<and> (\<forall>c\<in>set m. in_class token_class c) \<and> in_class alnum b)))"
    unfolding fullmatch_iff TOKEN_RE_def Seq_Cls_iff inner ..
  also have "\<dots> \<longleftrightarrow> opaque_token s"
  proof (cases s)
    case (Cons a t)
    show ?thesis
    proof (cases t rule: rev_cases)
      case Nil
      then show ?thesis using Cons sub [of a] by (auto simp: opaque_token_def simp del: in_class.simps)
    next
      case (snoc m b)
      then show ?thesis using Cons sub [of a] sub [of b]
        by (auto simp: opaque_token_def simp del: in_class.simps)
    qed
  qed (simp add: opaque_token_def)
  finally show ?thesis .
qed

lemma token_ok [ok_iff]: "token v = Inr s \<longleftrightarrow> v = PStr s \<and> opaque_token s"
  using opaque_token_plain [of s] by (auto simp: token_def TOKEN_RE_iff bounded_string_ok split: if_splits)

lemma token_error: "token v = Inl e \<Longrightarrow> is_value_error e"
  by (auto simp: token_def bindE_eq_Inl dest: bounded_string_error split: if_splits)

lemma DIGEST_RE_iff: "fullmatch DIGEST_RE s \<longleftrightarrow> sha256_digest s"
  unfolding fullmatch_iff DIGEST_RE_def rx_lang.simps(1,4) mem_Collect_eq sha256_digest_def
  by (simp add: Rep_Cls_iff del: rx_lang.simps) auto

lemma digest_ok [ok_iff]: "digest v = Inr s \<longleftrightarrow> v = PStr s \<and> sha256_digest s"
  by (auto simp: digest_def DIGEST_RE_iff split: pyval.splits if_splits)

lemma digest_error: "digest v = Inl e \<Longrightarrow> is_value_error e"
  by (auto simp: digest_def split: pyval.splits if_splits)

lemma media_type_ok [ok_iff]:
  "media_type v = Inr s \<longleftrightarrow> v = PStr s \<and> plain_text 255 s \<and> fullmatch MEDIA_TYPE_RE s"
  by (auto simp: media_type_def bounded_string_ok split: if_splits)

lemma media_type_error: "media_type v = Inl e \<Longrightarrow> is_value_error e"
  by (auto simp: media_type_def bindE_eq_Inl dest: bounded_string_error split: if_splits)

lemma non_negative_int_ok [ok_iff]: "non_negative_int v = Inr n \<longleftrightarrow> v = PInt n \<and> 0 \<le> n"
  by (auto simp: non_negative_int_def split: pyval.splits if_splits)

lemma non_negative_int_error: "non_negative_int v = Inl e \<Longrightarrow> is_value_error e"
  by (auto simp: non_negative_int_def split: pyval.splits if_splits)

lemma positive_int_ok [ok_iff]: "positive_int v = Inr n \<longleftrightarrow> v = PInt n \<and> 0 < n"
  by (cases v) (auto simp: positive_int_def non_negative_int_def split: if_splits)

lemma positive_int_error: "positive_int v = Inl e \<Longrightarrow> is_value_error e"
  by (auto simp: positive_int_def bindE_eq_Inl dest: non_negative_int_error split: if_splits)

lemma json_mapping_ok [ok_iff]: "json_mapping v = Inr d \<longleftrightarrow> v = PDict d"
  by (auto simp: json_mapping_def split: pyval.splits)

lemma exact_fields_ok [ok_iff]:
  "exact_fields d req opt = Inr u \<longleftrightarrow>
     (\<forall>k\<in>set req. KStr (lit k) \<in> dkeys d) \<and> dkeys d \<subseteq> (\<lambda>k. KStr (lit k)) ` (set req \<union> set opt)"
proof -
  have "filter (\<lambda>k. dget d k = None) req = [] \<longleftrightarrow> (\<forall>k\<in>set req. KStr (lit k) \<in> dkeys d)"
    by (auto simp: filter_empty_conv dget_def map_of_eq_None_iff dkeys_def)
  moreover have "filter (\<lambda>k. k \<notin> set (map (\<lambda>k. KStr (lit k)) (req @ opt))) (map fst d) = []
      \<longleftrightarrow> dkeys d \<subseteq> (\<lambda>k. KStr (lit k)) ` (set req \<union> set opt)"
    by (auto simp: filter_empty_conv dkeys_def)
  ultimately show ?thesis by (simp add: exact_fields_def Let_def)
qed

lemma exact_fields_error: "exact_fields d req opt = Inl e \<Longrightarrow> is_type_or_value_error e"
  by (auto simp: exact_fields_def Let_def split: if_splits)

section \<open>Mappings and sequences of strings\<close>

definition str_item :: "pystr \<times> pystr \<Rightarrow> pykey \<times> pyval" where
  "str_item = (\<lambda>(k, v). (KStr k, PStr v))"

definition plain_pairs :: "nat \<Rightarrow> nat \<Rightarrow> (pystr \<times> pystr) list \<Rightarrow> bool" where
  "plain_pairs mk mv ps \<longleftrightarrow> (\<forall>(k, v)\<in>set ps. plain_text mk k \<and> plain_text mv v)"

lemma AList_update_fresh: "k \<notin> fst ` set al \<Longrightarrow> AList.update k v al = al @ [(k, v)]"
  by (induction al) auto

lemma string_entries_ok:
  assumes "distinct (map fst d)" and "\<forall>k\<in>fst ` set acc. KStr k \<notin> fst ` set d"
  shows "string_entries mk mv d acc = Inr r \<longleftrightarrow>
    (\<exists>ps. d = map str_item ps \<and> plain_pairs mk mv ps \<and> r = acc @ ps)"
  using assms
proof (induction d arbitrary: acc)
  case Nil
  then show ?case by (auto simp: plain_pairs_def)
next
  case (Cons x d)
  obtain k item where x: "x = (k, item)" by (cases x)
  have step: "string_entries mk mv d (AList.update s v acc) = Inr r \<longleftrightarrow>
      (\<exists>ps. d = map str_item ps \<and> plain_pairs mk mv ps \<and> r = acc @ (s, v) # ps)"
    if "k = KStr s" for s v
  proof -
    have "s \<notin> fst ` set acc" using Cons.prems(2) that x by auto
    then have "AList.update s v acc = acc @ [(s, v)]" by (rule AList_update_fresh)
    moreover have "\<forall>j\<in>fst ` set (acc @ [(s, v)]). KStr j \<notin> fst ` set d"
      using Cons.prems that x by auto
    ultimately show ?thesis using Cons.IH [of "acc @ [(s, v)]"] Cons.prems(1) by simp
  qed
  show ?case
  proof (cases k)
    case (KStr s)
    have "string_entries mk mv (x # d) acc = Inr r \<longleftrightarrow> (\<exists>v. item = PStr v \<and> plain_text mv v \<and> plain_text mk s \<and>
        (\<exists>ps. d = map str_item ps \<and> plain_pairs mk mv ps \<and> r = acc @ (s, v) # ps))"
      using x KStr by (auto simp: ok_iff step [OF KStr])
    also have "\<dots> \<longleftrightarrow> (\<exists>ps. x # d = map str_item ps \<and> plain_pairs mk mv ps \<and> r = acc @ ps)"
      using x KStr by (fastforce simp: Cons_eq_map_conv str_item_def plain_pairs_def split: prod.splits)
    finally show ?thesis .
  qed (auto simp: x str_item_def split: prod.splits)
qed

lemma string_mapping_ok:
  assumes "distinct (map fst d)"
  shows "string_mapping n mk mv (PDict d) = Inr m \<longleftrightarrow>
    length d \<le> n \<and> (\<exists>ps. d = map str_item ps \<and> plain_pairs mk mv ps \<and> m = sort_key fst ps)"
  using string_entries_ok [OF assms, of "[]"] by (auto simp: string_mapping_def)

lemma string_mapping_error: "string_mapping n mk mv v = Inl e \<Longrightarrow> is_value_error e"
proof -
  have "string_entries mk mv d acc = Inl e \<Longrightarrow> is_value_error e" for d acc
    by (induction mk mv d acc rule: string_entries.induct)
      (auto simp: bindE_eq_Inl dest: bounded_string_error split: pykey.splits)
  then show "string_mapping n mk mv v = Inl e \<Longrightarrow> is_value_error e"
    by (auto simp: string_mapping_def bindE_eq_Inl split: pyval.splits if_splits)
qed

lemma distinct_str_items: "distinct (map fst (map str_item ps)) \<Longrightarrow> distinct (map fst ps)"
proof -
  have "map fst (map str_item ps) = map KStr (map fst ps)" by (simp add: str_item_def split_def)
  then show "distinct (map fst (map str_item ps)) \<Longrightarrow> distinct (map fst ps)"
    by (simp only: distinct_map [of KStr])
qed

lemma mset_str_items: "mset (map str_item ps) = mset (map str_item qs) \<Longrightarrow> mset ps = mset qs"
proof -
  have "inj str_item" by (auto simp: inj_def str_item_def)
  then have inv: "image_mset (inv str_item) (mset (map str_item xs)) = mset xs" for xs
    by (simp flip: mset_map)
  show "mset (map str_item ps) = mset (map str_item qs) \<Longrightarrow> mset ps = mset qs"
    using inv [of ps] inv [of qs] by simp
qed

text \<open>The order in which a caller inserted the entries does not show in the result.\<close>

lemma string_mapping_order:
  assumes "distinct (map fst d)" and "mset d' = mset d"
    and "string_mapping n mk mv (PDict d) = Inr m"
  shows "string_mapping n mk mv (PDict d') = Inr m"
proof -
  obtain ps where ps: "d = map str_item ps" "plain_pairs mk mv ps" "m = sort_key fst ps" "length d \<le> n"
    using assms(3) string_mapping_ok [OF assms(1)] by blast
  have "\<forall>x\<in>set d'. \<exists>q. x = str_item q"
    using mset_eq_setD [OF assms(2)] ps(1) by auto
  then have "\<exists>qs. d' = map str_item qs" by (simp add: ex_map_conv)
  then obtain qs where qs: "d' = map str_item qs" ..
  have m: "mset qs = mset ps" using assms(2) ps(1) qs mset_str_items by metis
  have "mset (map fst d') = mset (map fst d)" using assms(2) by simp
  then have "distinct (map fst d')" using assms(1) mset_eq_imp_distinct_iff by blast
  moreover have "plain_pairs mk mv qs" using ps(2) mset_eq_setD [OF m] by (simp add: plain_pairs_def)
  moreover have "sort_key fst qs = m"
    using sort_key_unique [OF distinct_str_items m [symmetric]] assms(1) ps by simp
  moreover have "length d' \<le> n" using ps(4) assms(2) by (metis size_mset)
  ultimately show ?thesis using string_mapping_ok qs by blast
qed

lemma string_sequence_ok [ok_iff]:
  "string_sequence v = Inr r \<longleftrightarrow>
     (\<exists>ss. v = PList (map PStr ss) \<and> (\<forall>s\<in>set ss. plain_text 128 s) \<and> distinct ss \<and> r = sort ss)"
proof -
  have "list_all2 (\<lambda>x y. x = PStr y \<and> plain_text 128 y) xs ss \<longleftrightarrow>
      xs = map PStr ss \<and> (\<forall>s\<in>set ss. plain_text 128 s)" for xs ss
    by (induction xs arbitrary: ss) (auto simp: list_all2_Cons1)
  then show ?thesis
    by (auto simp: string_sequence_def ok_iff Let_def split: pyval.splits if_splits)
qed

lemma string_sequence_error: "string_sequence v = Inl e \<Longrightarrow> is_type_or_value_error e"
  using bounded_string_error
  by (fastforce simp: string_sequence_def bindE_eq_Inl Let_def is_type_or_value_error_def
      dest!: mapE_Inl_mem split: pyval.splits if_splits)

section \<open>Where a private key can hide\<close>

text \<open>\<open>occurs_key k v\<close>: some mapping at any depth of \<open>v\<close> has the key \<open>k\<close>.\<close>

inductive occurs_key :: "pykey \<Rightarrow> pyval \<Rightarrow> bool" where
  here: "(k, v) \<in> set d \<Longrightarrow> occurs_key k (PDict d)"
| in_item: "(j, v) \<in> set d \<Longrightarrow> occurs_key k v \<Longrightarrow> occurs_key k (PDict d)"
| in_element: "v \<in> set xs \<Longrightarrow> occurs_key k v \<Longrightarrow> occurs_key k (PList xs)"

inductive_simps occurs_key_PDict: "occurs_key k (PDict d)"
inductive_simps occurs_key_PList: "occurs_key k (PList xs)"
inductive_simps occurs_key_scalar [simp]:
  "occurs_key k PNone" "occurs_key k (PBool b)" "occurs_key k (PInt n)"
  "occurs_key k (PStr s)" "occurs_key k (POther i)"

definition public_key :: "pykey \<Rightarrow> bool" where
  "public_key k \<longleftrightarrow> (\<exists>s. k = KStr s \<and> normalized_key s \<notin> set private_keys)"

lemma public_items_Cons:
  "(\<forall>k. occurs_key k (PDict ((key, item) # rest)) \<longrightarrow> public_key k) \<longleftrightarrow>
     public_key key \<and> (\<forall>k. occurs_key k item \<longrightarrow> public_key k)
     \<and> (\<forall>k. occurs_key k (PDict rest) \<longrightarrow> public_key k)"
  by (auto simp: occurs_key_PDict)

lemma public_elements_Cons:
  "(\<forall>k. occurs_key k (PList (item # rest)) \<longrightarrow> public_key k) \<longleftrightarrow>
     (\<forall>k. occurs_key k item \<longrightarrow> public_key k) \<and> (\<forall>k. occurs_key k (PList rest) \<longrightarrow> public_key k)"
  by (auto simp: occurs_key_PList)

lemma no_key_empty [simp]: "\<not> occurs_key k (PDict [])" "\<not> occurs_key k (PList [])"
  by (simp_all add: occurs_key_PDict occurs_key_PList)

lemma public_key_simps [simp]:
  "\<not> public_key (KOther n)" "public_key (KStr s) \<longleftrightarrow> normalized_key s \<notin> set private_keys"
  by (simp_all add: public_key_def)

lemma reject_private_ok:
  "reject_private_configuration v = Inr () \<longleftrightarrow> (\<forall>k. occurs_key k v \<longrightarrow> public_key k)"
  "reject_private_items d = Inr () \<longleftrightarrow> (\<forall>k. occurs_key k (PDict d) \<longrightarrow> public_key k)"
  "reject_private_elements xs = Inr () \<longleftrightarrow> (\<forall>k. occurs_key k (PList xs) \<longrightarrow> public_key k)"
  by (induction v and d and xs rule:
      reject_private_configuration_reject_private_items_reject_private_elements.induct,
      simp_all add: public_items_Cons public_elements_Cons split: pykey.splits)
    blast+

lemma reject_private_error:
  "reject_private_configuration v = Inl e \<Longrightarrow> is_type_or_value_error e"
  "reject_private_items d = Inl e \<Longrightarrow> is_type_or_value_error e"
  "reject_private_elements xs = Inl e \<Longrightarrow> is_type_or_value_error e"
  by (induction v and d and xs rule:
      reject_private_configuration_reject_private_items_reject_private_elements.induct)
    (auto simp: bindE_eq_Inl split: pykey.splits if_splits)

end
