(* ===== verification/Wire.thy ===== *)
theory Wire
  imports Validation
begin

text \<open>
  The contract shared by the wire documents of the package: a class with \<open>to_dict\<close> and
  \<open>from_mapping\<close>, whose constructor keeps an invariant \<open>wf\<close>. The locale is interpreted for every
  such class in the theory that models it.
\<close>

definition canonical :: "(pydict \<Rightarrow> 'a result) \<Rightarrow> ('a \<Rightarrow> pydict) \<Rightarrow> pydict \<Rightarrow> pydict result" where
  \<comment> \<open>\<open>C.from_mapping(d).to_dict()\<close>\<close>
  "canonical from_mapping to_dict d = bindE (from_mapping d) (\<lambda>x. Inr (to_dict x))"

locale wire_document =
  fixes wf :: "'a \<Rightarrow> bool"
    and to_dict :: "'a \<Rightarrow> pydict"
    and from_mapping :: "pydict \<Rightarrow> 'a result"
  assumes parse_print: "wf x \<Longrightarrow> from_mapping (to_dict x) = Inr x"
    and parse_wf: "from_mapping d = Inr x \<Longrightarrow> wf x"
begin

lemma reparse: "from_mapping d = Inr x \<Longrightarrow> wf x \<and> from_mapping (to_dict x) = Inr x"
  using parse_wf parse_print by blast

lemma print_inject: "wf x \<Longrightarrow> wf y \<Longrightarrow> to_dict x = to_dict y \<longleftrightarrow> x = y"
  by (metis parse_print sum.inject(2))

lemma canonical_ok:
  "canonical from_mapping to_dict d = Inr d' \<longleftrightarrow> (\<exists>x. wf x \<and> from_mapping d = Inr x \<and> d' = to_dict x)"
  by (auto simp: canonical_def dest: parse_wf)

lemma canonical_fixpoint:
  "canonical from_mapping to_dict d = Inr d' \<Longrightarrow> canonical from_mapping to_dict d' = Inr d'"
  by (auto simp: canonical_ok parse_print)

lemma canonical_same_value:
  "canonical from_mapping to_dict d = Inr d' \<Longrightarrow> from_mapping d' = from_mapping d"
  by (auto simp: canonical_ok parse_print)

end

text \<open>Optional fields on the wire: \<open>None\<close> is \<open>null\<close>.\<close>

definition opt_int :: "int option \<Rightarrow> pyval" where
  "opt_int x = (case x of None \<Rightarrow> PNone | Some n \<Rightarrow> PInt n)"

definition opt_str :: "pystr option \<Rightarrow> pyval" where
  "opt_str x = (case x of None \<Rightarrow> PNone | Some s \<Rightarrow> PStr s)"

lemma opt_simps [simp]:
  "opt_int None = PNone" "opt_int (Some n) = PInt n" "opt_str None = PNone" "opt_str (Some s) = PStr s"
  by (simp_all add: opt_int_def opt_str_def)

text \<open>\<open>if value is not None: value = check(value)\<close>\<close>

definition optional_field :: "(pyval \<Rightarrow> 'a result) \<Rightarrow> pyval \<Rightarrow> 'a option result" where
  "optional_field check v = (if v = PNone then Inr None else bindE (check v) (\<lambda>x. Inr (Some x)))"

lemma optional_field_ok [ok_iff]:
  "optional_field check v = Inr r \<longleftrightarrow>
     (v = PNone \<and> r = None) \<or> (v \<noteq> PNone \<and> (\<exists>x. check v = Inr x \<and> r = Some x))"
  by (auto simp: optional_field_def)

lemma optional_field_error:
  "optional_field check v = Inl e \<Longrightarrow> check v = Inl e"
  by (auto simp: optional_field_def bindE_eq_Inl split: if_splits)

definition dget_req :: "pydict \<Rightarrow> string \<Rightarrow> pyval result" where
  \<comment> \<open>\<open>d[k]\<close>\<close>
  "dget_req d k = (case dget d k of None \<Rightarrow> Inl KeyError | Some v \<Rightarrow> Inr v)"

lemma dget_req_ok [ok_iff]: "dget_req d k = Inr v \<longleftrightarrow> dget d k = Some v"
  by (auto simp: dget_req_def split: option.splits)

lemma dget_req_present: "KStr (lit k) \<in> dkeys d \<Longrightarrow> dget_req d k \<noteq> Inl e"
  using dget_mem [of k d] by (auto simp: dget_req_def)

definition py_bool :: "pyval \<Rightarrow> bool result" where
  \<comment> \<open>\<open>if not isinstance(v, bool): raise TypeError\<close>\<close>
  "py_bool v = (case v of PBool b \<Rightarrow> Inr b | _ \<Rightarrow> Inl TypeError)"

lemma py_bool_ok [ok_iff]: "py_bool v = Inr b \<longleftrightarrow> v = PBool b"
  by (auto simp: py_bool_def split: pyval.splits)

definition str_equal :: "pyval \<Rightarrow> string \<Rightarrow> bool" where
  "str_equal v k \<longleftrightarrow> v = PStr (lit k)"

section \<open>Checks that report bad input with \<open>TypeError\<close> or \<open>ValueError\<close>\<close>

lemma checked_fields [raises_intros]:
  "checked (bounded_string m v)" "checked (token v)" "checked (digest v)" "checked (media_type v)"
  "checked (non_negative_int v)" "checked (positive_int v)" "checked (string_mapping n mk mv v)"
  "checked (json_mapping v)" "checked (string_sequence v)" "checked (exact_fields d req opt)"
  "checked (reject_private_configuration v)" "checked (py_bool v)"
  using bounded_string_error token_error digest_error media_type_error non_negative_int_error
    positive_int_error string_mapping_error string_sequence_error exact_fields_error reject_private_error(1)
  by (auto intro!: raises_onlyI simp: is_type_or_value_error_def json_mapping_def py_bool_def split: pyval.splits)

lemma checked_optional_field [raises_intros]:
  "(\<And>x. checked (check x)) \<Longrightarrow> checked (optional_field check v)"
  by (auto intro!: raises_intros simp: optional_field_def)

lemma checked_dget_req:
  "exact_fields d req opt = Inr u \<Longrightarrow> k \<in> set req \<Longrightarrow> checked (dget_req d k)"
  by (rule raises_onlyI) (simp add: ok_iff dget_req_present)

end
