(* ===== verification/Sha256.thy ===== *)
theory Sha256
  imports Main "HOL-Library.Word"
begin

text \<open>
  What the code uses of \<open>hashlib\<close> and \<open>hmac\<close>: SHA-256 (FIPS 180-4) as a function of a byte string,
  as an incremental hasher, and HMAC-SHA-256 (RFC 2104). The incremental hasher is proved to
  compute the one-shot function of all bytes fed to it; the locale \<open>digest_stream\<close> is the
  interface the transfer code relies on.
\<close>

unbundle bit_operations_syntax

type_synonym byte = "8 word"
type_synonym bytes = "8 word list"
type_synonym u32 = "32 word"

section \<open>The compression function\<close>

definition rotr :: "nat \<Rightarrow> u32 \<Rightarrow> u32" where
  "rotr n w = drop_bit n w OR push_bit (32 - n) w"

definition big_sigma0 :: "u32 \<Rightarrow> u32" where
  "big_sigma0 x = rotr 2 x XOR rotr 13 x XOR rotr 22 x"

definition big_sigma1 :: "u32 \<Rightarrow> u32" where
  "big_sigma1 x = rotr 6 x XOR rotr 11 x XOR rotr 25 x"

definition small_sigma0 :: "u32 \<Rightarrow> u32" where
  "small_sigma0 x = rotr 7 x XOR rotr 18 x XOR drop_bit 3 x"

definition small_sigma1 :: "u32 \<Rightarrow> u32" where
  "small_sigma1 x = rotr 17 x XOR rotr 19 x XOR drop_bit 10 x"

definition ch :: "u32 \<Rightarrow> u32 \<Rightarrow> u32 \<Rightarrow> u32" where
  "ch x y z = (x AND y) XOR (NOT x AND z)"

definition maj :: "u32 \<Rightarrow> u32 \<Rightarrow> u32 \<Rightarrow> u32" where
  "maj x y z = (x AND y) XOR (x AND z) XOR (y AND z)"

definition round_constants :: "u32 list" where
  \<comment> \<open>32 bits of the fractional parts of the cube roots of the first 64 primes\<close>
  "round_constants =
     [1116352408, 1899447441, 3049323471, 3921009573, 961987163, 1508970993, 2453635748, 2870763221,
      3624381080, 310598401, 607225278, 1426881987, 1925078388, 2162078206, 2614888103, 3248222580,
      3835390401, 4022224774, 264347078, 604807628, 770255983, 1249150122, 1555081692, 1996064986,
      2554220882, 2821834349, 2952996808, 3210313671, 3336571891, 3584528711, 113926993, 338241895,
      666307205, 773529912, 1294757372, 1396182291, 1695183700, 1986661051, 2177026350, 2456956037,
      2730485921, 2820302411, 3259730800, 3345764771, 3516065817, 3600352804, 4094571909, 275423344,
      430227734, 506948616, 659060556, 883997877, 958139571, 1322822218, 1537002063, 1747873779,
      1955562222, 2024104815, 2227730452, 2361852424, 2428436474, 2756734187, 3204031479, 3329325298]"

datatype chain = Chain u32 u32 u32 u32 u32 u32 u32 u32

definition initial_chain :: chain where
  "initial_chain =
     Chain 1779033703 3144134277 1013904242 2773480762
       1359893119 2600822924 528734635 1541459225"

fun schedule :: "nat \<Rightarrow> u32 list \<Rightarrow> u32 list" where
  \<comment> \<open>the latest word first\<close>
  "schedule 0 ws = rev ws"
| "schedule (Suc n) ws =
     schedule n ((small_sigma1 (ws ! 1) + ws ! 6 + small_sigma0 (ws ! 14) + ws ! 15) # ws)"

fun sha_round :: "u32 \<times> u32 \<Rightarrow> chain \<Rightarrow> chain" where
  "sha_round (k, w) (Chain a b c d e f g h) =
     (let t1 = h + big_sigma1 e + ch e f g + k + w; t2 = big_sigma0 a + maj a b c
      in Chain (t1 + t2) a b c (d + t1) e f g)"

fun chain_add :: "chain \<Rightarrow> chain \<Rightarrow> chain" where
  "chain_add (Chain a b c d e f g h) (Chain a' b' c' d' e' f' g' h') =
     Chain (a + a') (b + b') (c + c') (d + d') (e + e') (f + f') (g + g') (h + h')"

fun be_words :: "bytes \<Rightarrow> u32 list" where
  "be_words (a # b # c # d # rest) =
     (push_bit 24 (ucast a) OR push_bit 16 (ucast b) OR push_bit 8 (ucast c) OR ucast d) # be_words rest"
| "be_words _ = []"

definition compress :: "chain \<Rightarrow> bytes \<Rightarrow> chain" where
  "compress c block =
     chain_add c (fold sha_round (zip round_constants (schedule 48 (rev (be_words block)))) c)"

section \<open>Messages\<close>

function absorb :: "chain \<Rightarrow> bytes \<Rightarrow> chain \<times> bytes" where
  \<comment> \<open>compress every full block and return what is left\<close>
  "absorb c m = (if length m < 64 then (c, m) else absorb (compress c (take 64 m)) (drop 64 m))"
  by pat_completeness auto
termination
  by (relation "measure (\<lambda>(c, m). length m)") auto

declare absorb.simps [simp del]

definition length_bytes :: "nat \<Rightarrow> bytes" where
  "length_bytes n =
     map (\<lambda>i. ucast (drop_bit (8 * i) (of_nat (8 * n) :: 64 word))) [7, 6, 5, 4, 3, 2, 1, 0]"

definition padding :: "nat \<Rightarrow> bytes" where
  "padding n = 0x80 # replicate ((119 - n mod 64) mod 64) 0 @ length_bytes n"

fun chain_bytes :: "chain \<Rightarrow> bytes" where
  "chain_bytes (Chain a b c d e f g h) =
     concat (map (\<lambda>w. map (\<lambda>i. ucast (drop_bit i w)) [24, 16, 8, 0]) [a, b, c, d, e, f, g, h])"

definition sha256 :: "bytes \<Rightarrow> bytes" where
  "sha256 m = chain_bytes (fst (absorb initial_chain (m @ padding (length m))))"

lemma length_chain_bytes [simp]: "length (chain_bytes c) = 32"
  by (cases c) simp

lemma length_sha256 [simp]: "length (sha256 m) = 32"
  by (simp add: sha256_def)

section \<open>The incremental hasher\<close>

record hasher =
  hs_chain :: chain
  hs_buffer :: bytes
  hs_count :: nat

definition hasher_new :: hasher where
  "hasher_new = \<lparr>hs_chain = initial_chain, hs_buffer = [], hs_count = 0\<rparr>"

definition hasher_update :: "hasher \<Rightarrow> bytes \<Rightarrow> hasher" where
  "hasher_update h data =
     (let (c, rest) = absorb (hs_chain h) (hs_buffer h @ data)
      in \<lparr>hs_chain = c, hs_buffer = rest, hs_count = hs_count h + length data\<rparr>)"

definition hasher_digest :: "hasher \<Rightarrow> bytes" where
  "hasher_digest h = chain_bytes (fst (absorb (hs_chain h) (hs_buffer h @ padding (hs_count h))))"

definition hasher_after :: "bytes \<Rightarrow> hasher" where
  "hasher_after m =
     \<lparr>hs_chain = fst (absorb initial_chain m), hs_buffer = snd (absorb initial_chain m), hs_count = length m\<rparr>"

lemma absorb_append:
  "absorb c (m @ n) = absorb (fst (absorb c m)) (snd (absorb c m) @ n)"
proof (induction c m rule: absorb.induct)
  case (1 c m)
  show ?case
  proof (cases "length m < 64")
    case True
    then show ?thesis by (simp add: absorb.simps [of c m])
  next
    case False
    then have "absorb c (m @ n) = absorb (compress c (take 64 m)) (drop 64 m @ n)"
      by (simp add: absorb.simps [of c "m @ n"])
    also have "\<dots> = absorb (fst (absorb c m)) (snd (absorb c m) @ n)"
      using 1 [OF False] False by (simp add: absorb.simps [of c m])
    finally show ?thesis .
  qed
qed

lemma hasher_new_after: "hasher_new = hasher_after []"
  by (simp add: hasher_new_def hasher_after_def absorb.simps)

lemma hasher_update_after: "hasher_update (hasher_after m) n = hasher_after (m @ n)"
  by (simp add: hasher_update_def hasher_after_def absorb_append [of _ m n] split_def Let_def)

lemma hasher_digest_after: "hasher_digest (hasher_after m) = sha256 m"
  by (simp add: hasher_digest_def hasher_after_def sha256_def absorb_append [of _ m "padding (length m)"])

text \<open>
  The interface: a digest that can be fed in pieces. \<open>fed\<close> is the concatenation law every client
  needs, whatever the pieces.
\<close>

locale digest_stream =
  fixes new :: 'h
    and update :: "'h \<Rightarrow> bytes \<Rightarrow> 'h"
    and final :: "'h \<Rightarrow> bytes"
    and hash :: "bytes \<Rightarrow> bytes"
    and after :: "bytes \<Rightarrow> 'h"
  assumes new_after: "new = after []"
    and update_after: "update (after m) n = after (m @ n)"
    and final_after: "final (after m) = hash m"
begin

lemma fed: "final (foldl update new chunks) = hash (concat chunks)"
proof -
  have "foldl update (after m) chunks = after (m @ concat chunks)" for m
    by (induction chunks arbitrary: m) (simp_all add: update_after)
  from this [of "[]"] show ?thesis by (simp add: new_after final_after)
qed

lemma pieces_do_not_matter:
  "concat chunks = concat chunks' \<Longrightarrow> final (foldl update new chunks) = final (foldl update new chunks')"
  by (simp add: fed)

end

interpretation sha: digest_stream hasher_new hasher_update hasher_digest sha256 hasher_after
  by unfold_locales (rule hasher_new_after hasher_update_after hasher_digest_after)+

section \<open>HMAC\<close>

definition hmac_key_block :: "bytes \<Rightarrow> bytes" where
  "hmac_key_block key =
     (let k = (if length key > 64 then sha256 key else key) in k @ replicate (64 - length k) 0)"

definition hmac_sha256 :: "bytes \<Rightarrow> bytes \<Rightarrow> bytes" where
  "hmac_sha256 key message =
     sha256 (map (\<lambda>b. b XOR 0x5c) (hmac_key_block key)
       @ sha256 (map (\<lambda>b. b XOR 0x36) (hmac_key_block key) @ message))"

lemma length_hmac_sha256 [simp]: "length (hmac_sha256 key message) = 32"
  by (simp add: hmac_sha256_def)

end
