(* ===== verification/Base64.thy ===== *)
theory Base64
  imports Validation Sha256
begin

text \<open>
  What the code uses of \<open>base64\<close>, \<open>hashlib\<close>'s \<open>hexdigest\<close> and \<open>secrets\<close>: the URL-safe
  alphabet, encoding with padding, decoding of a text whose padding was completed to a multiple of
  four, and the texts that \<open>secrets.token_urlsafe\<close> and \<open>secrets.token_hex\<close> make of random bytes.
\<close>

section \<open>The alphabet\<close>

definition b64_char :: "nat \<Rightarrow> nat" where
  "b64_char v =
     (if v < 26 then 65 + v else if v < 52 then 71 + v else if v < 62 then v - 4 else if v = 62 then 45 else 95)"

definition b64_value :: "nat \<Rightarrow> nat option" where
  "b64_value c =
     (if 65 \<le> c \<and> c \<le> 90 then Some (c - 65)
      else if 97 \<le> c \<and> c \<le> 122 then Some (c - 71)
      else if 48 \<le> c \<and> c \<le> 57 then Some (c + 4)
      else if c = 45 then Some 62 else if c = 95 then Some 63 else None)"

abbreviation b64_class :: cclass where
  "b64_class \<equiv> Any_of (alnum_items @ [Ch 95, Ch 45])"

lemma b64_value_char [simp]: "v < 64 \<Longrightarrow> b64_value (b64_char v) = Some v"
  by (auto simp: b64_char_def b64_value_def)

lemma b64_value_bound: "b64_value c = Some v \<Longrightarrow> v < 64 \<and> b64_char v = c"
  by (auto simp: b64_char_def b64_value_def split: if_splits)

lemma b64_value_iff: "(\<exists>v. b64_value c = Some v) \<longleftrightarrow> in_class b64_class c"
  by (auto simp: b64_value_def)

lemma b64_char_not_pad: "v < 64 \<Longrightarrow> b64_char v \<noteq> 61"
  by (auto simp: b64_char_def)

section \<open>Groups of six bits\<close>

fun b64_sextets :: "nat list \<Rightarrow> nat list" where
  "b64_sextets (a # b # c # rest) =
     [a div 4, (a mod 4) * 16 + b div 16, (b mod 16) * 4 + c div 64, c mod 64] @ b64_sextets rest"
| "b64_sextets [a, b] = [a div 4, (a mod 4) * 16 + b div 16, (b mod 16) * 4]"
| "b64_sextets [a] = [a div 4, (a mod 4) * 16]"
| "b64_sextets [] = []"

fun b64_octets :: "nat list \<Rightarrow> nat list result" where
  \<comment> \<open>the low bits of an incomplete last group are dropped\<close>
  "b64_octets (x # y # z # w # rest) =
     bindE (b64_octets rest) (\<lambda>r.
     Inr ([x * 4 + y div 16, (y mod 16) * 16 + z div 4, (z mod 4) * 64 + w] @ r))"
| "b64_octets [x, y, z] = Inr [x * 4 + y div 16, (y mod 16) * 16 + z div 4]"
| "b64_octets [x, y] = Inr [x * 4 + y div 16]"
| "b64_octets [x] = Inl ValueError"
| "b64_octets [] = Inr []"

definition urlsafe_b64encode :: "bytes \<Rightarrow> pystr" where
  "urlsafe_b64encode bs =
     map b64_char (b64_sextets (map unat bs)) @ replicate ((3 - length bs mod 3) mod 3) 61"

definition rstrip_pad :: "pystr \<Rightarrow> pystr" where
  \<comment> \<open>\<open>s.rstrip("=")\<close>\<close>
  "rstrip_pad s = rev (dropWhile (\<lambda>c. c = 61) (rev s))"

definition b64decode_completed :: "pystr \<Rightarrow> bytes result" where
  \<comment> \<open>\<open>base64.b64decode(s + "=" * (-len(s) % 4), altchars=b"-_", validate=True)\<close>\<close>
  "b64decode_completed s =
     (if list_ex (\<lambda>c. b64_value c = None) s then Inl ValueError
      else bindE (b64_octets (map (the \<circ> b64_value) s)) (\<lambda>os. Inr (map of_nat os)))"

lemma b64_sextets_bound: "\<forall>a\<in>set bs. a < 256 \<Longrightarrow> \<forall>v\<in>set (b64_sextets bs). v < 64"
  by (induction bs rule: b64_sextets.induct) (auto simp: less_mult_imp_div_less)

text \<open>A byte and the group it is cut into: joining two digits and splitting them again.\<close>

lemma join_digits:
  fixes x y k :: nat
  assumes "y < k"
  shows "(x * k + y) div k = x" "(x * k + y) mod k = y" "x < j \<Longrightarrow> x * k + y < j * k"
proof -
  show "(x * k + y) div k = x" "(x * k + y) mod k = y" using assms by simp_all
  assume "x < j"
  then have "Suc x * k \<le> j * k" by (intro mult_le_mono1) simp
  then show "x * k + y < j * k" using assms by simp
qed

lemma octet_bounds:
  fixes x y z w :: nat
  assumes "x < 64" "y < 64" "z < 64" "w < 64"
  shows "x * 4 + y div 16 < 256" "y mod 16 * 16 + z div 4 < 256" "z mod 4 * 64 + w < 256"
  using join_digits(3) [of "y div 16" 4 x 64] join_digits(3) [of "z div 4" 16 "y mod 16" 16]
    join_digits(3) [of w 64 "z mod 4" 4] assms
  by (simp_all add: less_mult_imp_div_less)

lemma b64_octets_bound:
  "\<forall>v\<in>set vs. v < 64 \<Longrightarrow> b64_octets vs = Inr os \<Longrightarrow> \<forall>b\<in>set os. b < 256"
  by (induction vs arbitrary: os rule: b64_octets.induct) (auto simp: octet_bounds octet_bounds [where w = 0])

lemma group_join:
  fixes a b c :: nat
  assumes "b < 256" "c < 256"
  shows "a div 4 * 4 + (a mod 4 * 16 + b div 16) div 16 = a"
    "(a mod 4 * 16 + b div 16) mod 16 * 16 + (b mod 16 * 4 + c div 64) div 4 = b"
    "(b mod 16 * 4 + c div 64) mod 4 * 64 + c mod 64 = c"
  using assms join_digits(1,2) [of "b div 16" 16 "a mod 4"] join_digits(1,2) [of "c div 64" 4 "b mod 16"]
  by (simp_all add: less_mult_imp_div_less)

lemma sextets_octets:
  "\<forall>a\<in>set bs. a < 256 \<Longrightarrow> b64_octets (b64_sextets bs) = Inr bs"
proof (induction bs rule: b64_sextets.induct)
  case (1 a b c rest)
  then have "b < 256" "c < 256" "b64_octets (b64_sextets rest) = Inr rest" by simp_all
  then show ?case by (simp only: b64_sextets.simps b64_octets.simps append.simps bindE_simps group_join)
next
  case (2 a b)
  then have "b < 256" by simp
  then show ?case using group_join(1,2) [of b 0 a] by simp
next
  case (3 a)
  then show ?case using group_join(1) [of 0 0 a] by simp
qed simp

lemma length_b64_sextets: "length (b64_sextets bs) = (4 * length bs + 2) div 3"
  by (induction bs rule: b64_sextets.induct) simp_all

lemma b64_octets_ok: "(\<exists>os. b64_octets vs = Inr os) \<longleftrightarrow> length vs mod 4 \<noteq> 1"
  by (induction vs rule: b64_octets.induct) (auto simp: mod_Suc)

lemma length_b64_octets: "b64_octets vs = Inr os \<Longrightarrow> length os = 3 * length vs div 4"
  by (induction vs arbitrary: os rule: b64_octets.induct) auto

lemma b64_octets_error: "b64_octets vs = Inl e \<Longrightarrow> e = ValueError"
  by (induction vs rule: b64_octets.induct) (auto simp: bindE_eq_Inl)

section \<open>Texts\<close>

abbreviation b64_text :: "bytes \<Rightarrow> pystr" where
  "b64_text bs \<equiv> map b64_char (b64_sextets (map unat bs))"

lemma unat_byte [simp]: "unat (b :: byte) < 256"
  using unsigned_less [of b] by simp

lemma b64_text_values: "v \<in> set (b64_sextets (map unat (bs :: bytes))) \<Longrightarrow> v < 64"
  using b64_sextets_bound [of "map unat bs"] by simp

lemma rstrip_b64: "rstrip_pad (urlsafe_b64encode bs) = b64_text bs"
proof -
  have np: "c \<in> set (rev (b64_text bs)) \<Longrightarrow> c \<noteq> 61" for c
    using b64_text_values b64_char_not_pad by fastforce
  have "dropWhile (\<lambda>c. c = 61) (rev (b64_text bs)) = rev (b64_text bs)"
    using np by (cases "rev (b64_text bs)") auto
  then have "dropWhile (\<lambda>c. c = 61) (replicate n 61 @ rev (b64_text bs)) = rev (b64_text bs)" for n
    by (induction n) (simp_all add: rev_map)
  then show ?thesis by (simp add: rstrip_pad_def urlsafe_b64encode_def rev_map)
qed

lemma b64_text_alphabet: "c \<in> set (b64_text bs) \<Longrightarrow> in_class b64_class c"
  using b64_text_values b64_value_char b64_value_iff by (metis (no_types, lifting) image_iff list.set_map)

lemma b64decode_encode: "b64decode_completed (b64_text bs) = Inr bs"
proof -
  have vals: "b64_value c \<noteq> None" if "c \<in> set (b64_text bs)" for c
    using b64_text_alphabet [OF that] b64_value_iff [of c] by blast
  have values_back: "map (the \<circ> b64_value) (b64_text bs) = b64_sextets (map unat bs)"
    using b64_text_values by (simp add: map_idI)
  have "b64_octets (b64_sextets (map unat bs)) = Inr (map unat bs)"
    by (rule sextets_octets) simp
  moreover have "\<not> list_ex (\<lambda>c. b64_value c = None) (b64_text bs)"
    using vals unfolding list_ex_iff by blast
  ultimately show ?thesis
    unfolding b64decode_completed_def values_back by (simp add: map_idI)
qed

lemma b64decode_ok:
  "(\<exists>raw. b64decode_completed s = Inr raw) \<longleftrightarrow> (\<forall>c\<in>set s. in_class b64_class c) \<and> length s mod 4 \<noteq> 1"
proof -
  have "list_ex (\<lambda>c. b64_value c = None) s \<longleftrightarrow> \<not> (\<forall>c\<in>set s. in_class b64_class c)"
    unfolding list_ex_iff b64_value_iff [symmetric] by simp
  then show ?thesis
    using b64_octets_ok [of "map (the \<circ> b64_value) s"]
    by (auto simp: b64decode_completed_def simp del: in_class.simps)
qed

lemma length_b64decode:
  "b64decode_completed s = Inr raw \<Longrightarrow> length raw = 3 * length s div 4"
  by (auto simp: b64decode_completed_def dest: length_b64_octets split: if_splits)

lemma b64decode_error: "b64decode_completed s = Inl e \<Longrightarrow> e = ValueError"
  by (auto simp: b64decode_completed_def bindE_eq_Inl dest: b64_octets_error split: if_splits)

section \<open>Hexadecimal\<close>

definition hex_char :: "nat \<Rightarrow> nat" where
  "hex_char v = (if v < 10 then 48 + v else 87 + v)"

definition hexdigest :: "bytes \<Rightarrow> pystr" where
  "hexdigest bs = concat (map (\<lambda>b. [hex_char (unat b div 16), hex_char (unat b mod 16)]) bs)"

lemma length_hexdigest [simp]: "length (hexdigest bs) = 2 * length bs"
  by (induction bs) (simp_all add: hexdigest_def)

lemma hexdigest_lower:
  "c \<in> set (hexdigest bs) \<Longrightarrow> 48 \<le> c \<and> c \<le> 57 \<or> 97 \<le> c \<and> c \<le> 102"
proof -
  have hc: "v < 16 \<Longrightarrow> 48 \<le> hex_char v \<and> hex_char v \<le> 57 \<or> 97 \<le> hex_char v \<and> hex_char v \<le> 102" for v
    by (auto simp: hex_char_def)
  have "unat (b :: byte) div 16 < 16" for b
    by (simp add: less_mult_imp_div_less)
  then show "c \<in> set (hexdigest bs) \<Longrightarrow> ?thesis"
    using hc [of "unat b div 16" for b :: byte] hc [of "unat b mod 16" for b :: byte]
    by (auto simp: hexdigest_def)
qed

lemma hexdigest_inject: "hexdigest a = hexdigest b \<longleftrightarrow> a = b"
proof -
  have hc: "u < 16 \<Longrightarrow> v < 16 \<Longrightarrow> hex_char u = hex_char v \<Longrightarrow> u = v" for u v
    by (auto simp: hex_char_def split: if_splits)
  have hi: "unat (x :: byte) div 16 < 16" for x
    by (simp add: less_mult_imp_div_less)
  have byte: "x = y" if "hex_char (unat x div 16) = hex_char (unat y div 16)"
    "hex_char (unat x mod 16) = hex_char (unat y mod 16)" for x y :: byte
  proof -
    have "unat x div 16 = unat y div 16" "unat x mod 16 = unat y mod 16"
      using hc [OF hi hi that(1)] hc [OF _ _ that(2)] by simp_all
    then have "unat x = unat y" by (metis div_mult_mod_eq)
    then show ?thesis by (simp only: unsigned_word_eqI)
  qed
  show ?thesis
  proof (induction a arbitrary: b)
    case Nil
    then show ?case by (cases b) (simp_all add: hexdigest_def)
  next
    case (Cons x a)
    then show ?case using byte by (cases b) (auto simp: hexdigest_def)
  qed
qed

section \<open>Random tokens\<close>

definition token_urlsafe :: "bytes \<Rightarrow> pystr" where
  \<comment> \<open>\<open>secrets.token_urlsafe(n)\<close> for the \<open>n\<close> random bytes it draws\<close>
  "token_urlsafe random = rstrip_pad (urlsafe_b64encode random)"

definition token_hex :: "bytes \<Rightarrow> pystr" where
  "token_hex random = hexdigest random"

text \<open>
  A token of 32 random bytes ends in a character that stands for four bits, which is a letter or a
  digit; so such a token is opaque after any prefix of token characters that starts with one.
\<close>

lemma last_sextet: "length bs mod 3 = 2 \<Longrightarrow> last (b64_sextets bs) = (last bs mod 16) * 4"
proof (induction bs rule: b64_sextets.induct)
  case (1 a b c rest)
  then have "length rest mod 3 = 2" by (simp add: mod_Suc split: if_splits)
  moreover from this have "rest \<noteq> []" "b64_sextets rest \<noteq> []"
    by (auto, cases rest rule: b64_sextets.cases) auto
  ultimately show ?case using 1 by simp
qed simp_all

lemma b64_in_token_class: "in_class b64_class c \<Longrightarrow> in_class token_class c"
  by auto

lemma token_urlsafe_opaque:
  assumes "length random = 32" and "length pre \<le> 400" "pre \<noteq> []" "in_class alnum (hd pre)"
    and "\<forall>c\<in>set pre. in_class token_class c"
  shows "opaque_token (pre @ token_urlsafe random)"
proof -
  let ?t = "token_urlsafe random"
  have t: "?t = b64_text random" by (simp add: token_urlsafe_def rstrip_b64)
  have len: "length ?t = 43" by (simp add: t length_b64_sextets assms)
  then have ne: "b64_sextets (map unat random) \<noteq> []" "random \<noteq> []" using t assms(1) by auto
  have "last ?t = b64_char ((unat (last random) mod 16) * 4)"
    using last_sextet [of "map unat random"] ne by (simp add: t last_map assms)
  moreover have "in_class alnum (b64_char (k * 4))" if "k < 16" for k
    using that by (auto simp: b64_char_def)
  ultimately have last: "in_class alnum (last ?t)" by (simp del: in_class.simps)
  have "\<forall>c\<in>set ?t. in_class token_class c"
    using b64_text_alphabet b64_in_token_class unfolding t by blast
  moreover have "?t \<noteq> []" using len by auto
  ultimately show ?thesis
    using assms last len by (auto simp: opaque_token_def simp del: in_class.simps)
qed

lemma token_hex_opaque:
  assumes "length random \<le> 50" and "length pre \<le> 400" "pre \<noteq> []" "in_class alnum (hd pre)" "random \<noteq> []"
    and "\<forall>c\<in>set pre. in_class token_class c"
  shows "opaque_token (pre @ token_hex random)"
proof -
  let ?t = "token_hex random"
  have len: "length ?t = 2 * length random" by (simp add: token_hex_def)
  then have ne: "?t \<noteq> []" using assms(5) by auto
  have hex: "in_class alnum c" if "c \<in> set ?t" for c
    using hexdigest_lower [of c random] that by (auto simp: token_hex_def)
  have "in_class alnum (last ?t)" using hex last_in_set [OF ne] by blast
  moreover have "\<forall>c\<in>set ?t. in_class token_class c" using hex by auto
  ultimately show ?thesis
    using assms ne len by (auto simp: opaque_token_def simp del: in_class.simps)
qed

end
