(* ===== verification/Core.thy ===== *)
theory Core
  imports Wire Base64
begin

text \<open>
  What the package takes from \<open>meridian_storage\<close> (Core and Semantics), which is not in this
  repository: the classes whose attributes the code reads are records, and every constructor,
  parser and printer of them is a field of the record \<open>core\<close>, an argument of all definitions that
  use one. What the code relies on is stated by the predicates \<open>checked_errors\<close> and
  \<open>reference_contract\<close>; \<open>sample_core\<close> is a small instance that satisfies them.
\<close>

record resource_ref =
  \<comment> \<open>\<open>meridian_storage.ResourceRef\<close>\<close>
  rs_catalog :: pystr
  rs_namespace :: pystr
  rs_name :: pystr

record resource_reference =
  \<comment> \<open>\<open>meridian_storage.semantics.ResourceReference\<close>; the catalog by its \<open>value\<close>\<close>
  sr_catalog :: pystr
  sr_namespace :: pystr
  sr_name :: pystr

record object_reference =
  or_resource :: resource_reference
  or_object_id :: pystr
  or_digest :: "pystr option"

record object_metadata =
  om_object_ref :: object_reference
  om_digest :: pyval
  om_byte_length :: pyval
  om_media_type :: pyval
  om_created_at :: pyval
  om_creation_context :: pyval
  om_user_metadata :: pyval
  om_mutability :: pyval
  om_provenance :: pyval
  om_format_version :: pyval

record object_profile =
  op_profile :: pystr
  op_mutability :: pystr
  op_range_reads :: pyval
  op_conditional_create :: pyval
  op_bounded_prefix_list :: pyval
  op_metadata :: pyval

datatype semantic_profile = Object_profile object_profile | Other_profile nat

record core =
  new_ResourceRef :: "pyval \<Rightarrow> pyval \<Rightarrow> resource_ref result"
    \<comment> \<open>\<open>ResourceRef("object", namespace, name)\<close>\<close>
  parse_ResourceRef :: "pyval \<Rightarrow> resource_ref result"
    \<comment> \<open>\<open>ResourceRef.parse(value, catalog="object")\<close>\<close>
  new_SchemaRef :: "pyval \<Rightarrow> pyval \<Rightarrow> pyval \<Rightarrow> unit result"
  new_ResourceReference :: "pystr \<Rightarrow> pystr \<Rightarrow> resource_reference result"
    \<comment> \<open>\<open>ResourceReference(CatalogName.OBJECT, namespace, name)\<close>\<close>
  parse_ResourceReference :: "pydict \<Rightarrow> resource_reference result"
    \<comment> \<open>\<open>ResourceReference.parse(value, catalog=CatalogName.OBJECT)\<close>\<close>
  new_ObjectReference :: "resource_reference \<Rightarrow> pyval \<Rightarrow> pyval \<Rightarrow> object_reference result"
  ObjectReference_to_dict :: "object_reference \<Rightarrow> pydict"
  new_ObjectMetadata :: "object_metadata \<Rightarrow> object_metadata result"
  new_ObjectProfile :: "object_profile \<Rightarrow> object_profile result"
  ObjectProfile_to_dict :: "object_profile \<Rightarrow> pydict"
  default_ObjectProfile :: object_profile
  profile_from_mapping :: "pydict \<Rightarrow> semantic_profile result"
  canonical_json_bytes :: "pydict \<Rightarrow> bytes result"

section \<open>What the code relies on\<close>

text \<open>The constructors and parsers report bad input with \<open>TypeError\<close> or \<open>ValueError\<close> only.\<close>

definition raises_checked :: "('a \<Rightarrow> 'b result) \<Rightarrow> bool" where
  "raises_checked f \<longleftrightarrow> (\<forall>x. checked (f x))"

definition checked_errors :: "('m) core_scheme \<Rightarrow> bool" where
  "checked_errors c \<longleftrightarrow>
     (\<forall>a. raises_checked (new_ResourceRef c a)) \<and> raises_checked (parse_ResourceRef c)
     \<and> (\<forall>a b. raises_checked (new_SchemaRef c a b)) \<and> (\<forall>a. raises_checked (new_ResourceReference c a))
     \<and> raises_checked (parse_ResourceReference c) \<and> (\<forall>a b. raises_checked (new_ObjectReference c a b))
     \<and> raises_checked (new_ObjectMetadata c) \<and> raises_checked (new_ObjectProfile c)
     \<and> raises_checked (profile_from_mapping c)"

text \<open>
  \<open>ObjectReference\<close> is a frozen value: the constructor stores its arguments unchanged, and the
  mapping it prints has the fields of the wire contract, from which the same arguments are read.
\<close>

definition constructed :: "('m) core_scheme \<Rightarrow> object_reference \<Rightarrow> bool" where
  "constructed c r \<longleftrightarrow>
     new_ObjectReference c (or_resource r) (PStr (or_object_id r)) (opt_str (or_digest r)) = Inr r"

definition prints_back :: "('m) core_scheme \<Rightarrow> object_reference \<Rightarrow> bool" where
  "prints_back c r \<longleftrightarrow>
     (let doc = ObjectReference_to_dict c r
      in dkeys doc \<subseteq> (\<lambda>k. KStr (lit k)) ` {''resourceRef'', ''objectId'', ''digest''}
         \<and> (\<exists>d. dget doc ''resourceRef'' = Some (PDict d) \<and> parse_ResourceReference c d = Inr (or_resource r))
         \<and> dget doc ''objectId'' = Some (PStr (or_object_id r))
         \<and> dget_none doc ''digest'' = opt_str (or_digest r))"

definition reference_contract :: "('m) core_scheme \<Rightarrow> bool" where
  "reference_contract c \<longleftrightarrow>
     (\<forall>res i d r. new_ObjectReference c res i d = Inr r \<longrightarrow>
        or_resource r = res \<and> i = PStr (or_object_id r) \<and> d = opt_str (or_digest r))
     \<and> (\<forall>r. constructed c r \<longrightarrow> prints_back c r)"

lemma checked_core:
  assumes "checked_errors c"
  shows "checked (new_ResourceRef c a b)" "checked (parse_ResourceRef c v)" "checked (new_SchemaRef c a b v)"
    "checked (new_ResourceReference c s t)" "checked (parse_ResourceReference c d)"
    "checked (new_ObjectReference c res a b)" "checked (new_ObjectMetadata c om)"
    "checked (new_ObjectProfile c op)" "checked (profile_from_mapping c d)"
  using assms by (simp_all add: checked_errors_def raises_checked_def)

lemma reference_stored:
  assumes "reference_contract c" and "new_ObjectReference c res i d = Inr r"
  shows "or_resource r = res" "i = PStr (or_object_id r)" "d = opt_str (or_digest r)" "constructed c r"
  using assms unfolding reference_contract_def constructed_def by metis+

section \<open>A sample instance\<close>

text \<open>
  References are any three names and a non-empty object id; the printed forms follow the wire
  schemas of the repository; mappings of other shapes are refused.
\<close>

definition sample_parse_resource :: "pydict \<Rightarrow> (pystr \<times> pystr) result" where
  "sample_parse_resource d =
     (case (dget d ''namespace'', dget d ''name'') of
        (Some (PStr ns), Some (PStr n)) \<Rightarrow> Inr (ns, n)
      | _ \<Rightarrow> Inl ValueError)"

definition sample_profile :: object_profile where
  "sample_profile = \<lparr>op_profile = lit ''object'', op_mutability = lit ''immutable'', op_range_reads = PBool True,
     op_conditional_create = PBool True, op_bounded_prefix_list = PBool True, op_metadata = PDict []\<rparr>"

definition sample_profile_dict :: "object_profile \<Rightarrow> pydict" where
  "sample_profile_dict p =
     [fld ''profile'' (PStr (op_profile p)), fld ''mutability'' (PStr (op_mutability p)),
      fld ''rangeReads'' (op_range_reads p), fld ''conditionalCreate'' (op_conditional_create p),
      fld ''boundedPrefixList'' (op_bounded_prefix_list p), fld ''metadata'' (op_metadata p)]"

definition sample_profile_of :: "pydict \<Rightarrow> semantic_profile result" where
  "sample_profile_of d =
     (case (dget d ''profile'', dget d ''mutability'') of
        (Some (PStr p), Some (PStr m)) \<Rightarrow>
          Inr (Object_profile (sample_profile\<lparr>op_profile := p, op_mutability := m\<rparr>))
      | _ \<Rightarrow> Inl ValueError)"

definition sample_field_bytes :: "pykey \<times> pyval \<Rightarrow> bytes" where
  "sample_field_bytes x =
     (case x of (KStr k, PStr s) \<Rightarrow> map of_nat (concat (map utf8_char (k @ lit '':'' @ s))) | _ \<Rightarrow> [])"

definition sample_core :: core where
  "sample_core = \<lparr>
     new_ResourceRef = (\<lambda>ns n. case (ns, n) of
       (PStr a, PStr b) \<Rightarrow> Inr \<lparr>rs_catalog = lit ''object'', rs_namespace = a, rs_name = b\<rparr> | _ \<Rightarrow> Inl TypeError),
     parse_ResourceRef = (\<lambda>v. case v of
       PDict d \<Rightarrow> bindE (sample_parse_resource d) (\<lambda>(a, b).
         Inr \<lparr>rs_catalog = lit ''object'', rs_namespace = a, rs_name = b\<rparr>)
       | _ \<Rightarrow> Inl TypeError),
     new_SchemaRef = (\<lambda>ns n v. case v of PStr _ \<Rightarrow> Inr () | _ \<Rightarrow> Inl TypeError),
     new_ResourceReference = (\<lambda>a b. Inr \<lparr>sr_catalog = lit ''object'', sr_namespace = a, sr_name = b\<rparr>),
     parse_ResourceReference = (\<lambda>d. bindE (sample_parse_resource d) (\<lambda>(a, b).
       Inr \<lparr>sr_catalog = lit ''object'', sr_namespace = a, sr_name = b\<rparr>)),
     new_ObjectReference = (\<lambda>res i d. case (i, d) of
       (PStr s, PNone) \<Rightarrow> if s = [] \<or> sr_catalog res \<noteq> lit ''object'' then Inl ValueError
         else Inr \<lparr>or_resource = res, or_object_id = s, or_digest = None\<rparr>
       | (PStr s, PStr t) \<Rightarrow> if s = [] \<or> sr_catalog res \<noteq> lit ''object'' then Inl ValueError
         else Inr \<lparr>or_resource = res, or_object_id = s, or_digest = Some t\<rparr>
       | _ \<Rightarrow> Inl TypeError),
     ObjectReference_to_dict = (\<lambda>r.
       [fld ''resourceRef'' (PDict [fld ''catalog'' (PStr (lit ''object'')),
          fld ''namespace'' (PStr (sr_namespace (or_resource r))), fld ''name'' (PStr (sr_name (or_resource r)))]),
        fld ''objectId'' (PStr (or_object_id r)), fld ''digest'' (opt_str (or_digest r))]),
     new_ObjectMetadata = (\<lambda>m. Inr m),
     new_ObjectProfile = (\<lambda>p. Inr p),
     ObjectProfile_to_dict = sample_profile_dict,
     default_ObjectProfile = sample_profile,
     profile_from_mapping = sample_profile_of,
     canonical_json_bytes = (\<lambda>d. Inr (concat (map sample_field_bytes d)))\<rparr>"

lemma sample_core_checked: "checked_errors sample_core"
  by (auto simp: checked_errors_def raises_checked_def sample_core_def sample_parse_resource_def sample_profile_of_def
      intro!: raises_intros split: pyval.splits option.splits if_splits)

lemma sample_reference_made:
  "new_ObjectReference sample_core res i d = Inr r \<Longrightarrow>
      or_resource r = res \<and> i = PStr (or_object_id r) \<and> d = opt_str (or_digest r) \<and> sr_catalog res = lit ''object''"
  by (auto simp: sample_core_def split: pyval.splits if_splits)

lemma sample_reference_printed:
  assumes "sr_catalog (or_resource r) = lit ''object''"
  shows "prints_back sample_core r"
  using assms by (auto simp: prints_back_def sample_core_def sample_parse_resource_def wire_simps dget_none_def)

lemma sample_core_references: "reference_contract sample_core"
  unfolding reference_contract_def
proof (intro conjI allI impI)
  fix r
  assume "constructed sample_core r"
  then show "prints_back sample_core r"
    unfolding constructed_def using sample_reference_made sample_reference_printed by blast
qed (use sample_reference_made in blast)+

end
