(* ===== verification/Metadata.thy ===== *)
theory Metadata
  imports Core
begin

text \<open>
  \<open>metadata/__init__.py\<close>: content identities, and the parsers of exact object references and of
  object metadata in front of the classes of Semantics.
\<close>

section \<open>Content identity\<close>

record content_identity =
  ci_digest :: pystr
  ci_byte_length :: int

definition ContentIdentity_init :: "pyval \<Rightarrow> pyval \<Rightarrow> content_identity result" where
  "ContentIdentity_init digest_value byte_length =
     bindE (digest digest_value) (\<lambda>d.
     bindE (non_negative_int byte_length) (\<lambda>n.
     Inr \<lparr>ci_digest = d, ci_byte_length = n\<rparr>))"

definition ContentIdentity_to_dict :: "content_identity \<Rightarrow> pydict" where
  "ContentIdentity_to_dict i =
     [fld ''digest'' (PStr (ci_digest i)), fld ''byteLength'' (PInt (ci_byte_length i))]"

definition ContentIdentity_from_mapping :: "pydict \<Rightarrow> content_identity result" where
  "ContentIdentity_from_mapping value =
     bindE (exact_fields value [''digest'', ''byteLength''] []) (\<lambda>_.
     bindE (dget_req value ''digest'') (\<lambda>d.
     bindE (dget_req value ''byteLength'') (\<lambda>n.
     ContentIdentity_init d n)))"

definition wf_identity :: "content_identity \<Rightarrow> bool" where
  "wf_identity i \<longleftrightarrow> sha256_digest (ci_digest i) \<and> 0 \<le> ci_byte_length i"

lemma ContentIdentity_init_ok [ok_iff]:
  "ContentIdentity_init d n = Inr i \<longleftrightarrow>
     wf_identity i \<and> d = PStr (ci_digest i) \<and> n = PInt (ci_byte_length i)"
  by (cases i) (auto simp: ContentIdentity_init_def ok_iff wf_identity_def)

lemma ContentIdentity_init_error: "ContentIdentity_init d n = Inl e \<Longrightarrow> is_value_error e"
  by (auto simp: ContentIdentity_init_def bindE_eq_Inl dest: digest_error non_negative_int_error)

interpretation identity_wire: wire_document wf_identity ContentIdentity_to_dict ContentIdentity_from_mapping
  by unfold_locales
    (auto simp: ContentIdentity_from_mapping_def ContentIdentity_to_dict_def ok_iff wire_simps)

section \<open>Object references\<close>

datatype reference_arg = Ref_object object_reference | Ref_mapping pydict

definition parse_object_reference ::
    "('m) core_scheme \<Rightarrow> reference_arg \<Rightarrow> bool \<Rightarrow> object_reference result" where
  "parse_object_reference c value require_digest =
     bindE
       (case value of
          Ref_object r \<Rightarrow>
            new_ObjectReference c (or_resource r) (PStr (or_object_id r)) (opt_str (or_digest r))
        | Ref_mapping d \<Rightarrow>
            bindE (exact_fields d [''resourceRef'', ''objectId''] [''digest'']) (\<lambda>_.
            bindE (dget_req d ''resourceRef'') (\<lambda>raw_resource.
            bindE (json_mapping raw_resource) (\<lambda>rd.
            bindE (parse_ResourceReference c rd) (\<lambda>resource.
            bindE (dget_req d ''objectId'') (\<lambda>object_id.
            new_ObjectReference c resource object_id (dget_none d ''digest'')))))))
       (\<lambda>result. if require_digest \<and> or_digest result = None then Inl ValueError else Inr result)"

lemma parse_reference_constructed:
  assumes "reference_contract c" and "parse_object_reference c v q = Inr r"
  shows "constructed c r" and "q \<Longrightarrow> or_digest r \<noteq> None"
  using assms reference_stored(4) [OF assms(1)]
  by (auto simp: parse_object_reference_def ok_iff split: reference_arg.splits)

lemma parse_reference_print:
  assumes "reference_contract c" and "constructed c r" and "q \<Longrightarrow> or_digest r \<noteq> None"
  shows "parse_object_reference c (Ref_mapping (ObjectReference_to_dict c r)) q = Inr r"
proof -
  have p: "prints_back c r" using assms by (simp add: reference_contract_def)
  then obtain d where d: "dget (ObjectReference_to_dict c r) ''resourceRef'' = Some (PDict d)"
    "parse_ResourceReference c d = Inr (or_resource r)" by (auto simp: prints_back_def Let_def)
  have "exact_fields (ObjectReference_to_dict c r) [''resourceRef'', ''objectId''] [''digest''] = Inr ()"
    using p d(1) dget_Some_iff [of "ObjectReference_to_dict c r"]
    by (auto simp: ok_iff prints_back_def Let_def)
  then show ?thesis
    using p d assms by (simp add: parse_object_reference_def ok_iff prints_back_def Let_def constructed_def)
qed

lemma parse_reference_again:
  assumes "constructed c r" and "q \<Longrightarrow> or_digest r \<noteq> None"
  shows "parse_object_reference c (Ref_object r) q = Inr r"
  using assms by (auto simp: parse_object_reference_def constructed_def)

lemma parse_reference_object_same:
  assumes "reference_contract c" and "parse_object_reference c (Ref_object r) q = Inr r'"
  shows "r' = r"
proof -
  have "new_ObjectReference c (or_resource r) (PStr (or_object_id r)) (opt_str (or_digest r)) = Inr r'"
    using assms(2) by (simp add: parse_object_reference_def)
  from reference_stored [OF assms(1) this] show ?thesis
    by (cases r; cases r') (auto simp: opt_str_def split: option.splits)
qed

lemma checked_reference:
  assumes "checked_errors c"
  shows "checked (parse_object_reference c v q)"
  unfolding parse_object_reference_def
  by (cases v) (auto intro!: raises_intros checked_core [OF assms] intro: checked_dget_req)

section \<open>Object metadata\<close>

datatype metadata_arg = Meta_object object_metadata | Meta_mapping pydict

definition is_mapping :: "pyval \<Rightarrow> bool" where
  "is_mapping v \<longleftrightarrow> (case v of PDict _ \<Rightarrow> True | _ \<Rightarrow> False)"

definition metadata_fields :: "string list" where
  "metadata_fields =
     [''formatVersion'', ''objectRef'', ''digest'', ''byteLength'', ''mediaType'', ''createdAt'',
      ''creationContext'', ''userMetadata'', ''mutability'', ''provenance'']"

definition parse_object_metadata :: "('m) core_scheme \<Rightarrow> metadata_arg \<Rightarrow> object_metadata result" where
  "parse_object_metadata c value =
     (case value of
        Meta_object m \<Rightarrow> new_ObjectMetadata c m
      | Meta_mapping d \<Rightarrow>
          bindE (exact_fields d metadata_fields []) (\<lambda>_.
          bindE (dget_req d ''objectRef'') (\<lambda>raw_ref.
          bindE (json_mapping raw_ref) (\<lambda>rd.
              if list_ex (\<lambda>f. \<not> is_mapping (dget_none d f)) [''creationContext'', ''userMetadata'', ''provenance'']
              then Inl TypeError
              else bindE (parse_object_reference c (Ref_mapping rd) False) (\<lambda>ref.
                new_ObjectMetadata c
                  \<lparr>om_object_ref = ref, om_digest = dget_none d ''digest'',
                   om_byte_length = dget_none d ''byteLength'', om_media_type = dget_none d ''mediaType'',
                   om_created_at = dget_none d ''createdAt'', om_creation_context = dget_none d ''creationContext'',
                   om_user_metadata = dget_none d ''userMetadata'', om_mutability = dget_none d ''mutability'',
                   om_provenance = dget_none d ''provenance'', om_format_version = dget_none d ''formatVersion''\<rparr>)))))"

lemma checked_metadata:
  assumes "checked_errors c"
  shows "checked (parse_object_metadata c v)"
  unfolding parse_object_metadata_def
  by (cases v) (auto intro!: raises_intros checked_core [OF assms] checked_reference [OF assms]
      intro: checked_dget_req simp: metadata_fields_def)

text \<open>
  Exact references: under the contract of \<open>ObjectReference\<close>, a parsed reference is one the
  constructor accepts, it carries a digest where one is required, and printing it and parsing it
  again, as a mapping or as an object, gives the same reference.
\<close>

lemma reference_documents:
  assumes "reference_contract c" and "parse_object_reference c v q = Inr r"
  shows "constructed c r \<and> (q \<longrightarrow> or_digest r \<noteq> None)
    \<and> parse_object_reference c (Ref_mapping (ObjectReference_to_dict c r)) q = Inr r
    \<and> parse_object_reference c (Ref_object r) q = Inr r"
  using parse_reference_constructed [OF assms] parse_reference_print [OF assms(1)] parse_reference_again
  by blast

definition sample_reference :: object_reference where
  "sample_reference = \<lparr>or_resource = \<lparr>sr_catalog = lit ''object'', sr_namespace = lit ''acme'', sr_name = lit ''media''\<rparr>,
     or_object_id = lit ''a/1'', or_digest = Some (lit ''sha256:'' @ replicate 64 48)\<rparr>"

lemma sample_reference_ok: "constructed sample_core sample_reference"
  by (simp add: constructed_def sample_core_def sample_reference_def)

end
