(* ===== verification/Digest.thy ===== *)
theory Digest
  imports Metadata
begin

text \<open>
  \<open>codec/digest.py\<close>: the incremental content-identity accumulator, and the identity
  \<open>identity_of data\<close> that it and the payload transfer compute. The accumulator is single-use:
  \<open>finish\<close> closes it, also when it raises \<open>DigestMismatch\<close>.
\<close>

definition sha256_text :: "bytes \<Rightarrow> pystr" where
  \<comment> \<open>\<open>f"sha256:{hashlib.sha256(data).hexdigest()}"\<close>\<close>
  "sha256_text data = lit ''sha256:'' @ hexdigest (sha256 data)"

definition identity_of :: "bytes \<Rightarrow> content_identity" where
  "identity_of data = \<lparr>ci_digest = sha256_text data, ci_byte_length = int (length data)\<rparr>"

lemma hexdigest_is_digest: "length h = 32 \<Longrightarrow> sha256_digest (lit ''sha256:'' @ hexdigest h)"
  using hexdigest_lower [of _ h] by (auto simp: sha256_digest_def)

lemma sha256_text_digest [simp]: "sha256_digest (sha256_text data)"
  by (simp add: sha256_text_def hexdigest_is_digest)

lemma sha256_text_inject: "sha256_text a = sha256_text b \<longleftrightarrow> sha256 a = sha256 b"
  by (simp add: sha256_text_def hexdigest_inject)

lemma identity_of_wf [simp]: "wf_identity (identity_of data)"
  by (simp add: identity_of_def wf_identity_def)

section \<open>The accumulator\<close>

record accumulator =
  ac_hasher :: hasher
  ac_length :: int
  ac_finished :: bool

definition Sha256Accumulator_init :: accumulator where
  "Sha256Accumulator_init = \<lparr>ac_hasher = hasher_new, ac_length = 0, ac_finished = False\<rparr>"

definition Sha256Accumulator_byte_length :: "accumulator \<Rightarrow> int" where
  "Sha256Accumulator_byte_length a = ac_length a"

definition Sha256Accumulator_update :: "accumulator \<Rightarrow> bytes \<Rightarrow> accumulator result" where
  "Sha256Accumulator_update a chunk =
     (if ac_finished a then Inl RuntimeError
      else Inr (a\<lparr>ac_hasher := hasher_update (ac_hasher a) chunk,
                  ac_length := ac_length a + int (length chunk)\<rparr>))"

definition Sha256Accumulator_finish ::
    "accumulator \<Rightarrow> pystr option \<Rightarrow> content_identity result \<times> accumulator" where
  \<comment> \<open>the result and the accumulator afterwards, on an exception too\<close>
  "Sha256Accumulator_finish a expected_digest =
     (if ac_finished a then (Inl RuntimeError, a)
      else
        (bindE (ContentIdentity_init (PStr (lit ''sha256:'' @ hexdigest (hasher_digest (ac_hasher a))))
            (PInt (ac_length a))) (\<lambda>identity.
          if expected_digest \<noteq> None \<and> Some (ci_digest identity) \<noteq> expected_digest
          then Inl (ObjectError DigestMismatch) else Inr identity),
         a\<lparr>ac_finished := True\<rparr>))"

fun feed :: "accumulator \<Rightarrow> bytes list \<Rightarrow> accumulator result" where
  \<comment> \<open>a sequence of \<open>update\<close> calls\<close>
  "feed a [] = Inr a"
| "feed a (chunk # chunks) = bindE (Sha256Accumulator_update a chunk) (\<lambda>a'. feed a' chunks)"

lemma feed_open:
  "\<not> ac_finished a \<Longrightarrow>
     feed a chunks = Inr (a\<lparr>ac_hasher := foldl hasher_update (ac_hasher a) chunks,
                           ac_length := ac_length a + int (length (concat chunks))\<rparr>)"
  by (induction chunks arbitrary: a) (simp_all add: Sha256Accumulator_update_def)

lemma finish_open:
  assumes "feed Sha256Accumulator_init chunks = Inr a"
  shows "Sha256Accumulator_finish a expected =
    (if expected = None \<or> expected = Some (sha256_text (concat chunks)) then Inr (identity_of (concat chunks))
     else Inl (ObjectError DigestMismatch), a\<lparr>ac_finished := True\<rparr>)"
proof -
  have a: "a = \<lparr>ac_hasher = foldl hasher_update hasher_new chunks,
      ac_length = int (length (concat chunks)), ac_finished = False\<rparr>"
    using assms feed_open [of Sha256Accumulator_init chunks] by (simp add: Sha256Accumulator_init_def)
  have "ContentIdentity_init (PStr (sha256_text (concat chunks))) (PInt (int (length (concat chunks))))
      = Inr (identity_of (concat chunks))"
    by (simp add: ok_iff) (simp add: identity_of_def)
  then show ?thesis
    by (auto simp: a Sha256Accumulator_finish_def sha.fed identity_of_def sha256_text_def)
qed

text \<open>
  C27. Refinement: whatever the pieces, feeding them to a fresh accumulator never fails and \<open>finish\<close>
  returns the identity of the concatenated bytes, checked against the expected digest; from then on
  the accumulator refuses every call, also when \<open>finish\<close> itself raised.
\<close>

theorem accumulator_identity:
  "\<exists>a. feed Sha256Accumulator_init chunks = Inr a
     \<and> Sha256Accumulator_byte_length a = int (length (concat chunks))
     \<and> fst (Sha256Accumulator_finish a expected) =
         (if expected = None \<or> expected = Some (sha256_text (concat chunks)) then Inr (identity_of (concat chunks))
          else Inl (ObjectError DigestMismatch))
     \<and> Sha256Accumulator_update (snd (Sha256Accumulator_finish a expected)) chunk = Inl RuntimeError
     \<and> Sha256Accumulator_finish (snd (Sha256Accumulator_finish a expected)) again
         = (Inl RuntimeError, snd (Sha256Accumulator_finish a expected))"
proof -
  obtain a where a: "feed Sha256Accumulator_init chunks = Inr a"
    "a = Sha256Accumulator_init\<lparr>ac_hasher := foldl hasher_update hasher_new chunks,
           ac_length := int (length (concat chunks))\<rparr>"
    using feed_open [of Sha256Accumulator_init chunks] by (simp add: Sha256Accumulator_init_def)
  note fin = finish_open [OF a(1)]
  show ?thesis
    by (intro exI [of _ a] conjI)
      (simp_all add: a(1) fin, simp_all add: a(2) Sha256Accumulator_byte_length_def Sha256Accumulator_update_def
        Sha256Accumulator_finish_def)
qed

end
