(* ===== verification/Payloads.thy ===== *)
theory Payloads
  imports Base64 Wire
begin

text \<open>
  The handles of \<open>contracts/payloads.py\<close>: serialized payload references, the two payload sources and
  the registry that resolves references. Sources are shared mutable objects, so they live at
  addresses of a store, and the registry maps tokens to addresses. Streams, factories and every
  other object of the caller belong to an outside world \<open>'w\<close>; the record \<open>callbacks\<close> holds what the
  code calls on them, with an arbitrary effect on the world.
\<close>

section \<open>Payload references\<close>

record payload_reference =
  pr_token :: pystr
  pr_expected_length :: "int option"
  pr_expected_digest :: "pystr option"
  pr_replayable :: bool

definition PAYLOAD_REFERENCE_FORMAT_VERSION :: string where
  "PAYLOAD_REFERENCE_FORMAT_VERSION = ''meridian.object.payload-reference.v1''"

definition PayloadReference_init ::
    "pyval \<Rightarrow> pyval \<Rightarrow> pyval \<Rightarrow> pyval \<Rightarrow> pyval \<Rightarrow> payload_reference result" where
  \<comment> \<open>the constructor admits one \<open>format_version\<close> only, so it is not a field\<close>
  "PayloadReference_init token_value expected_length expected_digest replayable format_version =
     bindE (token token_value) (\<lambda>t.
     bindE (optional_field non_negative_int expected_length) (\<lambda>n.
     bindE (optional_field digest expected_digest) (\<lambda>d.
     bindE (py_bool replayable) (\<lambda>r.
     if \<not> str_equal format_version PAYLOAD_REFERENCE_FORMAT_VERSION then Inl ValueError
     else Inr \<lparr>pr_token = t, pr_expected_length = n, pr_expected_digest = d, pr_replayable = r\<rparr>))))"

definition PayloadReference_to_dict :: "payload_reference \<Rightarrow> pydict" where
  "PayloadReference_to_dict p =
     [fld ''formatVersion'' (PStr (lit PAYLOAD_REFERENCE_FORMAT_VERSION)),
      fld ''token'' (PStr (pr_token p)),
      fld ''expectedLength'' (opt_int (pr_expected_length p)),
      fld ''expectedDigest'' (opt_str (pr_expected_digest p)),
      fld ''replayable'' (PBool (pr_replayable p))]"

definition PayloadReference_from_mapping :: "pydict \<Rightarrow> payload_reference result" where
  "PayloadReference_from_mapping value =
     bindE (exact_fields value
       [''formatVersion'', ''token'', ''expectedLength'', ''expectedDigest'', ''replayable''] []) (\<lambda>_.
     bindE (dget_req value ''token'') (\<lambda>t.
     bindE (dget_req value ''expectedLength'') (\<lambda>n.
     bindE (dget_req value ''expectedDigest'') (\<lambda>d.
     bindE (dget_req value ''replayable'') (\<lambda>r.
     bindE (dget_req value ''formatVersion'') (\<lambda>f.
     PayloadReference_init t n d r f))))))"

definition wf_payload_reference :: "payload_reference \<Rightarrow> bool" where
  "wf_payload_reference p \<longleftrightarrow>
     opaque_token (pr_token p) \<and> (\<forall>n. pr_expected_length p = Some n \<longrightarrow> 0 \<le> n)
     \<and> (\<forall>d. pr_expected_digest p = Some d \<longrightarrow> sha256_digest d)"

lemma PayloadReference_init_ok [ok_iff]:
  "PayloadReference_init t n d r f = Inr p \<longleftrightarrow>
     wf_payload_reference p \<and> t = PStr (pr_token p) \<and> n = opt_int (pr_expected_length p)
     \<and> d = opt_str (pr_expected_digest p) \<and> r = PBool (pr_replayable p)
     \<and> f = PStr (lit PAYLOAD_REFERENCE_FORMAT_VERSION)"
  by (cases p)
    (auto simp: PayloadReference_init_def ok_iff wf_payload_reference_def str_equal_def opt_int_def opt_str_def
      split: option.splits)

lemma checked_payload_reference [raises_intros]: "checked (PayloadReference_init t n d r f)"
  unfolding PayloadReference_init_def by (intro raises_intros) simp_all

lemma checked_payload_mapping [raises_intros]: "checked (PayloadReference_from_mapping d)"
  unfolding PayloadReference_from_mapping_def by (auto intro!: raises_intros intro: checked_dget_req)

interpretation payload_wire:
  wire_document wf_payload_reference PayloadReference_to_dict PayloadReference_from_mapping
  by unfold_locales
    (auto simp: PayloadReference_from_mapping_def PayloadReference_to_dict_def ok_iff wire_simps)

datatype payload_arg = Payload_object payload_reference | Payload_mapping pydict

definition parse_payload :: "payload_arg \<Rightarrow> payload_reference result" where
  \<comment> \<open>\<open>reference if isinstance(reference, PayloadReference) else PayloadReference.from_mapping(reference)\<close>\<close>
  "parse_payload reference =
     (case reference of
        Payload_object p \<Rightarrow> Inr p
      | Payload_mapping d \<Rightarrow> PayloadReference_from_mapping d)"

section \<open>The world outside\<close>

text \<open>
  \<open>Readable a\<close> is the object at address \<open>a\<close> of the world and has a \<open>read\<close> method;
  \<open>Not_readable\<close> has none. What \<open>read\<close> returns is bytes-like or not.
\<close>

datatype stream_object = Readable nat | Not_readable

datatype chunk_value = Bytes_like bytes | Not_bytes

record 'w callbacks =
  cb_factory :: "nat \<Rightarrow> 'w \<Rightarrow> stream_object result \<times> 'w"
  cb_read :: "nat \<Rightarrow> int \<Rightarrow> 'w \<Rightarrow> chunk_value result \<times> 'w"
  cb_close :: "nat \<Rightarrow> 'w \<Rightarrow> unit result \<times> 'w"
  cb_write :: "bytes \<Rightarrow> 'w \<Rightarrow> int option result \<times> 'w"
  cb_cancelled :: "('w \<Rightarrow> bool result \<times> 'w) option"

section \<open>Sources\<close>

datatype source_kind = Stream_source nat | Factory_source nat bool

record source =
  so_kind :: source_kind
  so_opened :: bool \<comment> \<open>\<open>_consumed\<close> of a stream source, \<open>_opened\<close> of a factory source\<close>

record 'w payload_state =
  ps_sources :: "source list"
  ps_registry :: "(pystr \<times> nat) list"
  ps_world :: 'w

definition source_replayable :: "source \<Rightarrow> bool" where
  "source_replayable s = (case so_kind s of Stream_source _ \<Rightarrow> False | Factory_source _ r \<Rightarrow> r)"

definition StreamPayloadSource_init :: "stream_object \<Rightarrow> 'w payload_state \<Rightarrow> nat result \<times> 'w payload_state" where
  "StreamPayloadSource_init stream s =
     (case stream of
        Not_readable \<Rightarrow> (Inl TypeError, s)
      | Readable a \<Rightarrow>
          (Inr (length (ps_sources s)),
           s\<lparr>ps_sources := ps_sources s @ [\<lparr>so_kind = Stream_source a, so_opened = False\<rparr>]\<rparr>))"

definition FactoryPayloadSource_init ::
    "nat option \<Rightarrow> bool \<Rightarrow> 'w payload_state \<Rightarrow> nat result \<times> 'w payload_state" where
  \<comment> \<open>\<open>None\<close> for a factory that is not callable\<close>
  "FactoryPayloadSource_init factory replayable s =
     (case factory of
        None \<Rightarrow> (Inl TypeError, s)
      | Some f \<Rightarrow>
          (Inr (length (ps_sources s)),
           s\<lparr>ps_sources := ps_sources s @ [\<lparr>so_kind = Factory_source f replayable, so_opened = False\<rparr>]\<rparr>))"

definition source_claim :: "nat \<Rightarrow> 'w payload_state \<Rightarrow> unit result \<times> 'w payload_state" where
  \<comment> \<open>the \<open>with self._lock\<close> block of both \<open>open\<close> methods\<close>
  "source_claim i s =
     (let src = ps_sources s ! i
      in if \<not> source_replayable src \<and> so_opened src then (Inl (ObjectError PayloadUnavailable), s)
         else (Inr (), s\<lparr>ps_sources := (ps_sources s)[i := src\<lparr>so_opened := True\<rparr>]\<rparr>))"

definition source_enter :: "'w callbacks \<Rightarrow> nat \<Rightarrow> 'w payload_state \<Rightarrow> nat result \<times> 'w payload_state" where
  \<comment> \<open>\<open>open\<close> up to its \<open>yield\<close>: the address of the stream\<close>
  "source_enter cb i s =
     (case source_claim i s of
        (Inl e, s1) \<Rightarrow> (Inl e, s1)
      | (Inr _, s1) \<Rightarrow>
          (case so_kind (ps_sources s ! i) of
             Stream_source a \<Rightarrow> (Inr a, s1)
           | Factory_source f _ \<Rightarrow>
               (case cb_factory cb f (ps_world s1) of
                  (Inl e, w) \<Rightarrow> (Inl e, s1\<lparr>ps_world := w\<rparr>)
                | (Inr Not_readable, w) \<Rightarrow> (Inl TypeError, s1\<lparr>ps_world := w\<rparr>)
                | (Inr (Readable a), w) \<Rightarrow> (Inr a, s1\<lparr>ps_world := w\<rparr>))))"

definition source_exit ::
    "'w callbacks \<Rightarrow> nat \<Rightarrow> nat \<Rightarrow> 'a result \<Rightarrow> 'w payload_state \<Rightarrow> 'a result \<times> 'w payload_state" where
  \<comment> \<open>the end of the \<open>with\<close> body whose outcome is \<open>r\<close>: a factory's stream is closed, and an
    exception of \<open>close\<close> replaces the outcome\<close>
  "source_exit cb i a r s =
     (case so_kind (ps_sources s ! i) of
        Stream_source _ \<Rightarrow> (r, s)
      | Factory_source _ _ \<Rightarrow>
          (case cb_close cb a (ps_world s) of
             (Inl e, w) \<Rightarrow> (Inl e, s\<lparr>ps_world := w\<rparr>)
           | (Inr _, w) \<Rightarrow> (r, s\<lparr>ps_world := w\<rparr>)))"

section \<open>The registry\<close>

definition payload_token :: "bytes \<Rightarrow> pystr" where
  \<comment> \<open>\<open>f"p_{secrets.token_urlsafe(32)}"\<close> for the random bytes drawn\<close>
  "payload_token random = lit ''p_'' @ token_urlsafe random"

definition PayloadRegistry_init :: "'w \<Rightarrow> 'w payload_state" where
  "PayloadRegistry_init w = \<lparr>ps_sources = [], ps_registry = [], ps_world = w\<rparr>"

definition PayloadRegistry_register ::
    "bytes \<Rightarrow> nat option \<Rightarrow> pyval \<Rightarrow> pyval \<Rightarrow> 'w payload_state \<Rightarrow> payload_reference result \<times> 'w payload_state" where
  \<comment> \<open>\<open>None\<close> for an object that is no \<open>PayloadSource\<close>\<close>
  "PayloadRegistry_register random source expected_length expected_digest s =
     (case source of
        None \<Rightarrow> (Inl TypeError, s)
      | Some i \<Rightarrow>
          (case PayloadReference_init (PStr (payload_token random)) expected_length expected_digest
              (PBool (source_replayable (ps_sources s ! i))) (PStr (lit PAYLOAD_REFERENCE_FORMAT_VERSION)) of
             Inl e \<Rightarrow> (Inl e, s)
           | Inr reference \<Rightarrow>
               (Inr reference, s\<lparr>ps_registry := AList.update (pr_token reference) i (ps_registry s)\<rparr>)))"

definition PayloadRegistry_register_stream ::
    "bytes \<Rightarrow> stream_object \<Rightarrow> pyval \<Rightarrow> pyval \<Rightarrow> 'w payload_state \<Rightarrow> payload_reference result \<times> 'w payload_state" where
  "PayloadRegistry_register_stream random stream expected_length expected_digest s =
     (case StreamPayloadSource_init stream s of
        (Inl e, s1) \<Rightarrow> (Inl e, s1)
      | (Inr i, s1) \<Rightarrow> PayloadRegistry_register random (Some i) expected_length expected_digest s1)"

definition registry_claim :: "payload_reference \<Rightarrow> 'w payload_state \<Rightarrow> nat result \<times> 'w payload_state" where
  \<comment> \<open>the \<open>with self._lock\<close> block of \<open>PayloadRegistry.open\<close>\<close>
  "registry_claim parsed s =
     (case map_of (ps_registry s) (pr_token parsed) of
        None \<Rightarrow> (Inl (ObjectError PayloadUnavailable), s)
      | Some i \<Rightarrow>
          if source_replayable (ps_sources s ! i) \<noteq> pr_replayable parsed
          then (Inl (ObjectError PayloadUnavailable), s)
          else if \<not> source_replayable (ps_sources s ! i)
          then (Inr i, s\<lparr>ps_registry := AList.delete (pr_token parsed) (ps_registry s)\<rparr>)
          else (Inr i, s))"

definition registry_enter ::
    "'w callbacks \<Rightarrow> payload_arg \<Rightarrow> 'w payload_state \<Rightarrow> (nat \<times> nat) result \<times> 'w payload_state" where
  \<comment> \<open>\<open>PayloadRegistry.open\<close> up to its \<open>yield\<close>: the source and the stream\<close>
  "registry_enter cb reference s =
     (case parse_payload reference of
        Inl e \<Rightarrow> (Inl e, s)
      | Inr parsed \<Rightarrow>
          (case registry_claim parsed s of
             (Inl e, s1) \<Rightarrow> (Inl e, s1)
           | (Inr i, s1) \<Rightarrow>
               (case source_enter cb i s1 of
                  (Inl e, s2) \<Rightarrow> (Inl e, s2)
                | (Inr a, s2) \<Rightarrow> (Inr (i, a), s2))))"

datatype release_arg = Release_object payload_reference | Release_token pyval

definition PayloadRegistry_release :: "release_arg \<Rightarrow> 'w payload_state \<Rightarrow> bool result \<times> 'w payload_state" where
  "PayloadRegistry_release reference s =
     (case token (case reference of Release_object p \<Rightarrow> PStr (pr_token p) | Release_token v \<Rightarrow> v) of
        Inl e \<Rightarrow> (Inl e, s)
      | Inr selected \<Rightarrow>
          (Inr (map_of (ps_registry s) selected \<noteq> None),
           s\<lparr>ps_registry := AList.delete selected (ps_registry s)\<rparr>))"

definition PayloadRegistry_len :: "'w payload_state \<Rightarrow> nat" where
  "PayloadRegistry_len s = length (ps_registry s)"

text \<open>
  A registry in a boolean context: Python asks \<open>__len__\<close>, so that an empty registry is false, but the
  shared \<open>_DefaultPayloadRegistry\<close> is always true and survives \<open>x or default\<close>.
\<close>

datatype registry_class = PayloadRegistry | DefaultPayloadRegistry

definition registry_bool :: "registry_class \<Rightarrow> 'w payload_state \<Rightarrow> bool" where
  "registry_bool k s \<longleftrightarrow> (case k of PayloadRegistry \<Rightarrow> PayloadRegistry_len s \<noteq> 0 | DefaultPayloadRegistry \<Rightarrow> True)"

lemma default_registry_kept: "(if registry_bool DefaultPayloadRegistry s then given else other) = given"
  by (simp add: registry_bool_def)

section \<open>Laws of the registry\<close>

text \<open>
  The interface of the token table inside the registry, and what its clients use of it.
\<close>

locale token_table =
  fixes find :: "'t \<Rightarrow> pystr \<Rightarrow> 'v option"
    and put :: "pystr \<Rightarrow> 'v \<Rightarrow> 't \<Rightarrow> 't"
    and drop_key :: "pystr \<Rightarrow> 't \<Rightarrow> 't"
    and size_of :: "'t \<Rightarrow> nat"
    and good :: "'t \<Rightarrow> bool"
  assumes find_put: "find (put k v t) j = (if j = k then Some v else find t j)"
    and find_drop: "find (drop_key k t) j = (if j = k then None else find t j)"
    and size_put: "good t \<Longrightarrow> size_of (put k v t) = (if find t k = None then Suc (size_of t) else size_of t)"
    and size_drop: "good t \<Longrightarrow> size_of (drop_key k t) = (if find t k = None then size_of t else size_of t - 1)"
    and good_put: "good t \<Longrightarrow> good (put k v t)"
    and good_drop: "good t \<Longrightarrow> good (drop_key k t)"
begin

lemma put_drop_find: "find (drop_key k (put k v t)) j = (if j = k then None else find t j)"
  by (simp add: find_put find_drop)

lemma put_drop_size:
  "good t \<Longrightarrow> find t k = None \<Longrightarrow> size_of (drop_key k (put k v t)) = size_of t"
  by (simp add: size_put size_drop find_put good_put)

lemma drop_twice: "good t \<Longrightarrow> size_of (drop_key k (drop_key k t)) = size_of (drop_key k t)"
  by (simp add: size_drop find_drop good_drop)

end

lemma length_update_alist:
  "distinct (map fst al) \<Longrightarrow> length (AList.update k v al) = (if map_of al k = None then Suc (length al) else length al)"
  by (induction al) (auto simp: map_of_eq_None_iff intro: rev_image_eqI)

lemma length_delete_alist:
  "distinct (map fst al) \<Longrightarrow> length (AList.delete k al) = (if map_of al k = None then length al else length al - 1)"
proof (induction al)
  case (Cons x al)
  then have "length al = 0 \<Longrightarrow> map_of al k = None" by simp
  moreover have "map_of al k \<noteq> None \<Longrightarrow> 0 < length al" by auto
  moreover have "fst x = k \<Longrightarrow> AList.delete k al = al"
    using Cons.prems by (simp add: delete_notin_dom)
  ultimately show ?case using Cons by (auto simp: map_of_eq_None_iff intro: rev_image_eqI)
qed simp

interpretation tokens: token_table "\<lambda>r. map_of r" AList.update AList.delete length "\<lambda>r. distinct (map fst r)"
  by unfold_locales
    (auto simp: update_conv' delete_conv' length_update_alist length_delete_alist
      intro: distinct_update distinct_delete)

definition store_ok :: "'w payload_state \<Rightarrow> bool" where
  "store_ok s \<longleftrightarrow>
     distinct (map fst (ps_registry s)) \<and> (\<forall>t i. map_of (ps_registry s) t = Some i \<longrightarrow> i < length (ps_sources s))"

lemma payload_token_opaque: "length random = 32 \<Longrightarrow> opaque_token (payload_token random)"
  unfolding payload_token_def by (rule token_urlsafe_opaque) (auto simp: set_lit lit_def)

lemma register_ok:
  assumes "length random = 32" and "optional_field non_negative_int n = Inr n'"
    and "optional_field digest d = Inr d'"
  shows "PayloadRegistry_register random (Some i) n d s =
    (Inr \<lparr>pr_token = payload_token random, pr_expected_length = n', pr_expected_digest = d',
          pr_replayable = source_replayable (ps_sources s ! i)\<rparr>,
     s\<lparr>ps_registry := AList.update (payload_token random) i (ps_registry s)\<rparr>)"
proof -
  have "token (PStr (payload_token random)) = Inr (payload_token random)"
    using payload_token_opaque [OF assms(1)] by (simp add: token_ok)
  then show ?thesis
    using assms by (simp add: PayloadRegistry_register_def PayloadReference_init_def str_equal_def py_bool_def)
qed

text \<open>
  C18. Life of a handle: for every 32 random bytes, registering a source with well-formed
  expectations succeeds; the returned reference carries those expectations, survives its wire
  document, and resolves to that source; a one-shot reference is gone after it was resolved once,
  a replayable one stays; after \<open>release\<close> it is unavailable, and a second \<open>release\<close> reports \<open>False\<close>.
\<close>

theorem handle_life:
  assumes "length random = 32" and "i < length (ps_sources s)"
    and "optional_field non_negative_int n = Inr n'" and "optional_field digest d = Inr d'"
  shows "\<exists>p s1. PayloadRegistry_register random (Some i) n d s = (Inr p, s1)
    \<and> pr_expected_length p = n' \<and> pr_expected_digest p = d'
    \<and> PayloadReference_from_mapping (PayloadReference_to_dict p) = Inr p
    \<and> (\<exists>s2. registry_claim p s1 = (Inr i, s2)
         \<and> fst (registry_claim p s2)
             = (if source_replayable (ps_sources s ! i) then Inr i else Inl (ObjectError PayloadUnavailable)))
    \<and> (\<exists>s3. PayloadRegistry_release (Release_object p) s1 = (Inr True, s3)
         \<and> fst (registry_claim p s3) = Inl (ObjectError PayloadUnavailable)
         \<and> fst (PayloadRegistry_release (Release_object p) s3) = Inr False)"
proof -
  let ?r = "source_replayable (ps_sources s ! i)"
  let ?p = "\<lparr>pr_token = payload_token random, pr_expected_length = n', pr_expected_digest = d', pr_replayable = ?r\<rparr>"
  let ?s1 = "s\<lparr>ps_registry := AList.update (payload_token random) i (ps_registry s)\<rparr>"
  have reg: "PayloadRegistry_register random (Some i) n d s = (Inr ?p, ?s1)"
    by (rule register_ok [OF assms(1,3,4)])
  have tok: "token (PStr (payload_token random)) = Inr (payload_token random)"
    using payload_token_opaque [OF assms(1)] by (simp add: token_ok)
  have "wf_payload_reference ?p"
    using payload_token_opaque [OF assms(1)] assms(3,4)
    by (auto simp: wf_payload_reference_def ok_iff)
  then have wire: "PayloadReference_from_mapping (PayloadReference_to_dict ?p) = Inr ?p"
    by (rule payload_wire.parse_print)
  have claim: "\<exists>s2. registry_claim ?p ?s1 = (Inr i, s2)
      \<and> fst (registry_claim ?p s2) = (if ?r then Inr i else Inl (ObjectError PayloadUnavailable))"
    by (cases ?r) (simp_all add: registry_claim_def tokens.find_put tokens.find_drop)
  have release: "\<exists>s3. PayloadRegistry_release (Release_object ?p) ?s1 = (Inr True, s3)
      \<and> fst (registry_claim ?p s3) = Inl (ObjectError PayloadUnavailable)
      \<and> fst (PayloadRegistry_release (Release_object ?p) s3) = Inr False"
    by (simp add: PayloadRegistry_release_def registry_claim_def tok tokens.find_put tokens.find_drop)
  show ?thesis
    using reg wire claim release by (intro exI [of _ ?p] exI [of _ ?s1]) simp
qed

theorem handle_life_witness:
  "\<exists>p s1. PayloadRegistry_register (replicate 32 255) (Some 0) (PInt 3) PNone
       \<lparr>ps_sources = [\<lparr>so_kind = Stream_source 0, so_opened = False\<rparr>], ps_registry = [], ps_world = ()\<rparr> = (Inr p, s1)
     \<and> pr_expected_length p = Some 3"
proof -
  have "optional_field non_negative_int (PInt 3) = Inr (Some 3)" "optional_field digest PNone = Inr None"
    by (simp_all add: optional_field_def non_negative_int_def)
  from handle_life [OF _ _ this, of "replicate 32 255" 0
      "\<lparr>ps_sources = [\<lparr>so_kind = Stream_source 0, so_opened = False\<rparr>], ps_registry = [], ps_world = ()\<rparr>"]
  show ?thesis by auto
qed

section \<open>Interleaved use by several threads\<close>

text \<open>
  The critical sections of sources and registry are the atomic steps of all threads that share
  them; between the section of the registry and that of the source a thread may be overtaken.
  A step appends what happened to a trace.
\<close>

datatype handle_event = Registered pystr nat | Claimed pystr nat | Opened nat

inductive handle_step :: "'w payload_state \<Rightarrow> handle_event list \<Rightarrow> 'w payload_state \<Rightarrow> bool" where
  new_stream: "StreamPayloadSource_init stream s = (r, s') \<Longrightarrow> handle_step s [] s'"
| new_factory: "FactoryPayloadSource_init factory replayable s = (r, s') \<Longrightarrow> handle_step s [] s'"
| register: "i < length (ps_sources s) \<Longrightarrow> PayloadRegistry_register random (Some i) n d s = (Inr p, s') \<Longrightarrow>
    handle_step s [Registered (pr_token p) i] s'"
| claim: "registry_claim p s = (Inr i, s') \<Longrightarrow> handle_step s [Claimed (pr_token p) i] s'"
| open_source: "i < length (ps_sources s) \<Longrightarrow> source_claim i s = (Inr u, s') \<Longrightarrow> handle_step s [Opened i] s'"
| release: "PayloadRegistry_release ref s = (b, s') \<Longrightarrow> handle_step s [] s'"
| outside: "handle_step s [] (s\<lparr>ps_world := w\<rparr>)"

inductive handle_run :: "'w payload_state \<Rightarrow> handle_event list \<Rightarrow> 'w payload_state \<Rightarrow> bool" where
  run_start: "handle_run s [] s"
| run_step: "handle_run s es s1 \<Longrightarrow> handle_step s1 e s2 \<Longrightarrow> handle_run s (es @ e) s2"

inductive_cases handle_stepE: "handle_step s es s'"

definition one_shot :: "'w payload_state \<Rightarrow> nat \<Rightarrow> bool" where
  "one_shot s i \<longleftrightarrow> i < length (ps_sources s) \<and> \<not> source_replayable (ps_sources s ! i)"

text \<open>
  The books of a trace: a one-shot source was opened once if it is marked and not at all otherwise,
  and the claims of a token on it, with the claim still outstanding in the registry, do not exceed
  its registrations.
\<close>

definition balanced :: "handle_event list \<Rightarrow> 'w payload_state \<Rightarrow> pystr \<Rightarrow> nat \<Rightarrow> bool" where
  "balanced es s t i \<longleftrightarrow>
     count_list es (Claimed t i) + (if map_of (ps_registry s) t = Some i then 1 else 0)
       \<le> count_list es (Registered t i)"

definition trace_ok :: "handle_event list \<Rightarrow> 'w payload_state \<Rightarrow> bool" where
  "trace_ok es s \<longleftrightarrow> store_ok s
     \<and> (\<forall>i t. length (ps_sources s) \<le> i \<longrightarrow> count_list es (Opened i) = 0 \<and> count_list es (Claimed t i) = 0)
     \<and> (\<forall>i. one_shot s i \<longrightarrow> count_list es (Opened i) = (if so_opened (ps_sources s ! i) then 1 else 0))
     \<and> (\<forall>i t. one_shot s i \<longrightarrow> balanced es s t i)"

lemma trace_okD:
  assumes "trace_ok es s"
  shows "store_ok s"
    and "length (ps_sources s) \<le> i \<Longrightarrow> count_list es (Opened i) = 0"
    and "length (ps_sources s) \<le> i \<Longrightarrow> count_list es (Claimed t i) = 0"
    and "one_shot s i \<Longrightarrow> count_list es (Opened i) = (if so_opened (ps_sources s ! i) then 1 else 0)"
    and "one_shot s i \<Longrightarrow> balanced es s t i"
  using assms by (simp_all add: trace_ok_def)

lemma trace_okI:
  assumes "store_ok s"
    and "\<And>i. length (ps_sources s) \<le> i \<Longrightarrow> count_list es (Opened i) = 0"
    and "\<And>i t. length (ps_sources s) \<le> i \<Longrightarrow> count_list es (Claimed t i) = 0"
    and "\<And>i. one_shot s i \<Longrightarrow> count_list es (Opened i) = (if so_opened (ps_sources s ! i) then 1 else 0)"
    and "\<And>i t. one_shot s i \<Longrightarrow> balanced es s t i"
  shows "trace_ok es s"
  using assms by (simp add: trace_ok_def)

lemma store_okD:
  "store_ok s \<Longrightarrow> map_of (ps_registry s) t = Some i \<Longrightarrow> i < length (ps_sources s)"
  "store_ok s \<Longrightarrow> distinct (map fst (ps_registry s))"
  by (simp_all add: store_ok_def)

lemma trace_new_source:
  assumes "trace_ok es s"
  shows "trace_ok es (s\<lparr>ps_sources := ps_sources s @ [\<lparr>so_kind = k, so_opened = False\<rparr>]\<rparr>)" (is "trace_ok es ?s")
proof (rule trace_okI)
  note ok = trace_okD [OF assms]
  have cases: "one_shot s i \<and> ps_sources ?s ! i = ps_sources s ! i
      \<or> i = length (ps_sources s) \<and> \<not> so_opened (ps_sources ?s ! i)" if "one_shot ?s i" for i
    using that by (auto simp: one_shot_def nth_append split: if_splits)
  show "store_ok ?s"
    using store_okD [OF ok(1)] by (auto simp: store_ok_def less_Suc_eq simp del: map_of_eq_Some_iff)
  show "one_shot ?s i \<Longrightarrow> count_list es (Opened i) = (if so_opened (ps_sources ?s ! i) then 1 else 0)" for i
    using cases [of i] ok(2,4) [of i] by auto
  show "balanced es ?s t i" if "one_shot ?s i" for i t
    using cases [OF that]
  proof (elim disjE conjE)
    assume "one_shot s i"
    then show ?thesis using ok(5) [of i t] by (simp add: balanced_def)
  next
    assume i: "i = length (ps_sources s)"
    then have "map_of (ps_registry s) t \<noteq> Some i" using store_okD(1) [OF ok(1)] by blast
    then show ?thesis using ok(3) [of i t] i by (simp add: balanced_def)
  qed
qed (use trace_okD [OF assms] in simp_all)

lemma trace_register:
  assumes "trace_ok es s" and "i < length (ps_sources s)"
  shows "trace_ok (es @ [Registered t i]) (s\<lparr>ps_registry := AList.update t i (ps_registry s)\<rparr>)"
proof (rule trace_okI)
  note ok = trace_okD [OF assms(1)]
  show "store_ok (s\<lparr>ps_registry := AList.update t i (ps_registry s)\<rparr>)"
    using store_okD [OF ok(1)] assms(2) tokens.good_put [of "ps_registry s" t i]
    by (auto simp: store_ok_def tokens.find_put simp del: map_of_eq_Some_iff split: if_splits)
  show "balanced (es @ [Registered t i]) (s\<lparr>ps_registry := AList.update t i (ps_registry s)\<rparr>) u j"
    if "one_shot (s\<lparr>ps_registry := AList.update t i (ps_registry s)\<rparr>) j" for j u
    using that ok(5) [of j u] by (auto simp: balanced_def one_shot_def tokens.find_put split: if_splits)
qed (use trace_okD [OF assms(1)] in \<open>simp_all add: one_shot_def\<close>)

lemma trace_drop:
  assumes "trace_ok es s"
  shows "trace_ok es (s\<lparr>ps_registry := AList.delete t (ps_registry s)\<rparr>)"
proof (rule trace_okI)
  note ok = trace_okD [OF assms]
  show "store_ok (s\<lparr>ps_registry := AList.delete t (ps_registry s)\<rparr>)"
    using store_okD [OF ok(1)] tokens.good_drop [of "ps_registry s" t]
    by (auto simp: store_ok_def tokens.find_drop simp del: map_of_eq_Some_iff split: if_splits)
  show "balanced es (s\<lparr>ps_registry := AList.delete t (ps_registry s)\<rparr>) u j"
    if "one_shot (s\<lparr>ps_registry := AList.delete t (ps_registry s)\<rparr>) j" for j u
    using that ok(5) [of j u] by (auto simp: balanced_def one_shot_def tokens.find_drop split: if_splits)
qed (use trace_okD [OF assms] in \<open>simp_all add: one_shot_def\<close>)

lemma trace_claim:
  assumes "trace_ok es s" and "registry_claim p s = (Inr i, s')"
  shows "trace_ok (es @ [Claimed (pr_token p) i]) s'"
proof -
  note ok = trace_okD [OF assms(1)]
  have found: "map_of (ps_registry s) (pr_token p) = Some i"
    and s': "s' = (if source_replayable (ps_sources s ! i) then s
      else s\<lparr>ps_registry := AList.delete (pr_token p) (ps_registry s)\<rparr>)"
    using assms(2) by (auto simp: registry_claim_def split: option.splits if_splits)
  have same: "ps_sources s' = ps_sources s" "one_shot s' j \<longleftrightarrow> one_shot s j" for j
    by (simp_all add: s' one_shot_def)
  have i: "i < length (ps_sources s)" using store_okD(1) [OF ok(1) found] .
  have "trace_ok es s'" using assms(1) trace_drop [OF assms(1)] by (simp add: s')
  note ok' = trace_okD [OF this]
  show ?thesis
  proof (rule trace_okI)
    show "balanced (es @ [Claimed (pr_token p) i]) s' t j" if "one_shot s' j" for j t
    proof (cases "t = pr_token p \<and> j = i")
      case True
      then have shot: "one_shot s i" "\<not> source_replayable (ps_sources s ! i)"
        using that same by (simp_all add: one_shot_def)
      then have "map_of (ps_registry s') t = None" using True s' by (simp add: tokens.find_drop)
      then show ?thesis using True ok(5) [OF shot(1), of t] found by (simp add: balanced_def)
    next
      case False
      then show ?thesis using ok'(5) [OF that, of t] by (auto simp: balanced_def)
    qed
    show "count_list (es @ [Claimed (pr_token p) i]) (Claimed t j) = 0" if "length (ps_sources s') \<le> j" for j t
      using ok'(3) [OF that] that i same(1) by auto
  qed (use ok' in simp_all)
qed

lemma trace_open:
  assumes "trace_ok es s" and "i < length (ps_sources s)" and "source_claim i s = (Inr u, s')"
  shows "trace_ok (es @ [Opened i]) s'"
proof -
  note ok = trace_okD [OF assms(1)]
  have s': "s' = s\<lparr>ps_sources := (ps_sources s)[i := (ps_sources s ! i)\<lparr>so_opened := True\<rparr>]\<rparr>"
    and closed: "\<not> source_replayable (ps_sources s ! i) \<Longrightarrow> \<not> so_opened (ps_sources s ! i)"
    using assms(3) by (auto simp: source_claim_def Let_def split: if_splits)
  have rep: "source_replayable (ps_sources s' ! j) = source_replayable (ps_sources s ! j)" for j
    using assms(2) by (cases "j = i") (simp_all add: s' source_replayable_def)
  then have same: "one_shot s' j \<longleftrightarrow> one_shot s j" for j
    by (simp add: one_shot_def s')
  show ?thesis
  proof (rule trace_okI)
    show "store_ok s'" using ok(1) by (simp add: store_ok_def s')
    show "count_list (es @ [Opened i]) (Opened j) = (if so_opened (ps_sources s' ! j) then 1 else 0)"
      if "one_shot s' j" for j
      using that ok(4) [of j] closed assms(2) unfolding same
      by (cases "j = i") (simp_all add: s' one_shot_def)
    show "balanced (es @ [Opened i]) s' t j" if "one_shot s' j" for j t
      using that ok(5) [of j t] same by (simp add: balanced_def s')
    show "count_list (es @ [Opened i]) (Opened j) = 0" if "length (ps_sources s') \<le> j" for j
      using that ok(2) [of j] assms(2) by (auto simp: s')
    show "count_list (es @ [Opened i]) (Claimed t j) = 0" if "length (ps_sources s') \<le> j" for j t
      using that ok(3) [of j t] by (simp add: s')
  qed
qed

lemma trace_step: "trace_ok es s \<Longrightarrow> handle_step s e s' \<Longrightarrow> trace_ok (es @ e) s'"
proof (erule handle_stepE)
  assume t: "trace_ok es s"
  note ok = trace_okD [OF t]
  { fix stream r assume "e = []" "StreamPayloadSource_init stream s = (r, s')"
    then show "trace_ok (es @ e) s'"
      using t trace_new_source [OF t] by (auto simp: StreamPayloadSource_init_def split: stream_object.splits) }
  { fix factory replayable r assume "e = []" "FactoryPayloadSource_init factory replayable s = (r, s')"
    then show "trace_ok (es @ e) s'"
      using t trace_new_source [OF t] by (auto simp: FactoryPayloadSource_init_def split: option.splits) }
  { fix i random n d p
    assume "e = [Registered (pr_token p) i]" "i < length (ps_sources s)"
      "PayloadRegistry_register random (Some i) n d s = (Inr p, s')"
    then show "trace_ok (es @ e) s'"
      using trace_register [OF t] by (auto simp: PayloadRegistry_register_def split: sum.splits) }
  { fix p i assume "e = [Claimed (pr_token p) i]" "registry_claim p s = (Inr i, s')"
    then show "trace_ok (es @ e) s'" using trace_claim [OF t] by simp }
  { fix i u assume "e = [Opened i]" "i < length (ps_sources s)" "source_claim i s = (Inr u, s')"
    then show "trace_ok (es @ e) s'" using trace_open [OF t] by simp }
  { fix ref b assume "e = []" "PayloadRegistry_release ref s = (b, s')"
    then show "trace_ok (es @ e) s'"
      using t trace_drop [OF t] by (auto simp: PayloadRegistry_release_def split: sum.splits) }
  { fix w assume "e = []" "s' = s\<lparr>ps_world := w\<rparr>"
    then show "trace_ok (es @ e) s'"
      using ok by (intro trace_okI) (simp_all add: store_ok_def one_shot_def balanced_def) }
qed

lemma trace_run: "handle_run s es s' \<Longrightarrow> trace_ok [] s \<Longrightarrow> trace_ok es s'"
  by (induction rule: handle_run.induct) (auto intro: trace_step)

lemma trace_start: "trace_ok [] (PayloadRegistry_init w)"
  by (simp add: trace_ok_def store_ok_def balanced_def PayloadRegistry_init_def one_shot_def)

text \<open>
  C11. One-shot handles under any interleaving: in every run of the critical sections from an empty
  registry, a source that is not replayable is opened at most once, and each registration of it is
  resolved at most once, whatever other threads register, resolve, open or release meanwhile.
\<close>

theorem one_shot_once:
  assumes "handle_run (PayloadRegistry_init w) es s" and "one_shot s i"
  shows "count_list es (Opened i) \<le> 1
    \<and> count_list es (Claimed t i) \<le> count_list es (Registered t i)"
proof -
  have ok: "trace_ok es s" using trace_run [OF assms(1) trace_start] .
  show ?thesis
    using trace_okD(4) [OF ok assms(2)] trace_okD(5) [OF ok assms(2), of t]
    unfolding balanced_def by (auto dest: add_leD1 simp del: map_of_eq_Some_iff)
qed

theorem one_shot_once_witness:
  "let s = \<lparr>ps_sources = [\<lparr>so_kind = Stream_source 7, so_opened = True\<rparr>], ps_registry = [], ps_world = ()\<rparr>
   in handle_run (PayloadRegistry_init ()) [Opened 0] s \<and> one_shot s 0 \<and> count_list [Opened 0] (Opened 0) \<le> 1"
proof -
  let ?s0 = "PayloadRegistry_init ()"
  let ?s1 = "?s0\<lparr>ps_sources := [\<lparr>so_kind = Stream_source 7, so_opened = False\<rparr>]\<rparr>"
  let ?s2 = "?s0\<lparr>ps_sources := [\<lparr>so_kind = Stream_source 7, so_opened = True\<rparr>]\<rparr>"
  have made: "StreamPayloadSource_init (Readable 7) ?s0 = (Inr 0, ?s1)"
    by (simp add: StreamPayloadSource_init_def PayloadRegistry_init_def)
  have opened: "source_claim 0 ?s1 = (Inr (), ?s2)"
    by (simp add: source_claim_def Let_def)
  have steps: "handle_step ?s0 [] ?s1" "handle_step ?s1 [Opened 0] ?s2"
    by (rule new_stream [OF made]) (rule open_source [OF _ opened], simp)
  have run: "handle_run ?s0 [Opened 0] ?s2"
    using run_step [OF run_step [OF run_start steps(1)] steps(2)] by simp
  have shot: "one_shot ?s2 0" by (simp add: one_shot_def source_replayable_def)
  from run one_shot_once [OF run shot] shot show ?thesis by (simp add: PayloadRegistry_init_def)
qed

end
