(* ===== verification/PayloadTransfer.thy ===== *)
theory PayloadTransfer
  imports Payloads Digest
begin

text \<open>
  \<open>iter_payload_chunks\<close> and \<open>transfer_payload\<close> of \<open>contracts/payloads.py\<close>: the loop that reads
  bounded chunks, polls for cancellation, writes to the sink, hashes, and compares with what the
  reference declared. The loop may run forever on an endless stream, so it is a partial function
  whose value is \<open>None\<close> then; when it returns is proved separately.
\<close>

section \<open>Chunks\<close>

definition DEFAULT_CHUNK_SIZE :: int where
  "DEFAULT_CHUNK_SIZE = 1024 * 1024"

definition MAX_CHUNK_SIZE :: int where
  "MAX_CHUNK_SIZE = 16 * 1024 * 1024"

definition chunk_size_check :: "pyval \<Rightarrow> int result" where
  \<comment> \<open>the checks before the loop of \<open>iter_payload_chunks\<close>\<close>
  "chunk_size_check chunk_size =
     bindE (positive_int chunk_size) (\<lambda>sz.
     if sz > MAX_CHUNK_SIZE then Inl (ObjectError ObjectInvalidRequest) else Inr sz)"

definition next_chunk :: "'w callbacks \<Rightarrow> int \<Rightarrow> nat \<Rightarrow> 'w \<Rightarrow> bytes option result \<times> 'w" where
  \<comment> \<open>one turn of its loop: the chunk that is yielded, or \<open>None\<close> at the end\<close>
  "next_chunk cb sz a w =
     (case cb_read cb a sz w of
        (Inl e, w1) \<Rightarrow> (Inl e, w1)
      | (Inr Not_bytes, w1) \<Rightarrow> (Inl TypeError, w1)
      | (Inr (Bytes_like raw), w1) \<Rightarrow>
          if raw = [] then (Inr None, w1)
          else if int (length raw) > sz then (Inl (ObjectError ObjectInvalidRequest), w1)
          else (Inr (Some raw), w1))"

section \<open>The transfer loop\<close>

definition poll_cancelled :: "'w callbacks \<Rightarrow> 'w \<Rightarrow> unit result \<times> 'w" where
  "poll_cancelled cb w =
     (case cb_cancelled cb of
        None \<Rightarrow> (Inr (), w)
      | Some cancelled \<Rightarrow>
          (case cancelled w of
             (Inl e, w1) \<Rightarrow> (Inl e, w1)
           | (Inr b, w1) \<Rightarrow> (if b then Inl (ObjectError TransferCancelled) else Inr (), w1)))"

definition consume_chunk ::
    "'w callbacks \<Rightarrow> int option \<Rightarrow> bytes \<Rightarrow> hasher \<Rightarrow> int \<Rightarrow> 'w \<Rightarrow> (hasher \<times> int) result \<times> 'w" where
  \<comment> \<open>the body of the \<open>for\<close> loop\<close>
  "consume_chunk cb expected_length chunk h n w =
     (case poll_cancelled cb w of
        (Inl e, w1) \<Rightarrow> (Inl e, w1)
      | (Inr _, w1) \<Rightarrow>
          (case cb_write cb chunk w1 of
             (Inl e, w2) \<Rightarrow> (Inl e, w2)
           | (Inr written, w2) \<Rightarrow>
               if written \<noteq> None \<and> written \<noteq> Some (int (length chunk))
               then (Inl (ObjectError IncompleteUpload), w2)
               else
                 let n' = n + int (length chunk)
                 in (case expected_length of
                      None \<Rightarrow> (Inr (hasher_update h chunk, n'), w2)
                    | Some k \<Rightarrow>
                        if n' > k then (Inl (ObjectError IncompleteUpload), w2)
                        else (Inr (hasher_update h chunk, n'), w2))))"

partial_function (option) pump ::
    "'w callbacks \<Rightarrow> int \<Rightarrow> int option \<Rightarrow> nat \<Rightarrow> hasher \<Rightarrow> int \<Rightarrow> 'w \<Rightarrow> ((hasher \<times> int) result \<times> 'w) option" where
  "pump cb sz expected_length a h n w =
     (case next_chunk cb sz a w of
        (Inl e, w1) \<Rightarrow> Some (Inl e, w1)
      | (Inr None, w1) \<Rightarrow> Some (Inr (h, n), w1)
      | (Inr (Some chunk), w1) \<Rightarrow>
          (case consume_chunk cb expected_length chunk h n w1 of
             (Inl e, w2) \<Rightarrow> Some (Inl e, w2)
           | (Inr (h', n'), w2) \<Rightarrow> pump cb sz expected_length a h' n' w2))"

declare pump.simps [code]

definition transfer_verdict :: "payload_reference \<Rightarrow> hasher \<Rightarrow> int \<Rightarrow> content_identity result" where
  \<comment> \<open>after the loop\<close>
  "transfer_verdict parsed h n =
     (if pr_expected_length parsed \<noteq> None \<and> Some n \<noteq> pr_expected_length parsed
      then Inl (ObjectError IncompleteUpload)
      else
        let observed = lit ''sha256:'' @ hexdigest (hasher_digest h)
        in if pr_expected_digest parsed \<noteq> None \<and> Some observed \<noteq> pr_expected_digest parsed
           then Inl (ObjectError DigestMismatch)
           else ContentIdentity_init (PStr observed) (PInt n))"

definition transfer_payload ::
    "'w callbacks \<Rightarrow> payload_arg \<Rightarrow> pyval \<Rightarrow> 'w payload_state \<Rightarrow>
     (content_identity result \<times> 'w payload_state) option" where
  "transfer_payload cb reference chunk_size s =
     (case parse_payload reference of
        Inl e \<Rightarrow> Some (Inl e, s)
      | Inr parsed \<Rightarrow>
          (case registry_enter cb (Payload_object parsed) s of
             (Inl e, s1) \<Rightarrow> Some (Inl e, s1)
           | (Inr (i, a), s1) \<Rightarrow>
               (case (case chunk_size_check chunk_size of
                        Inl e \<Rightarrow> Some (Inl e, ps_world s1)
                      | Inr sz \<Rightarrow> pump cb sz (pr_expected_length parsed) a hasher_new 0 (ps_world s1)) of
                  None \<Rightarrow> None
                | Some (r, w) \<Rightarrow>
                    (case source_exit cb i a r (s1\<lparr>ps_world := w\<rparr>) of
                       (Inl e, s2) \<Rightarrow> Some (Inl e, s2)
                     | (Inr (h, n), s2) \<Rightarrow> Some (transfer_verdict parsed h n, s2)))))"

lemma chunk_size_check_ok [ok_iff]:
  "chunk_size_check v = Inr sz \<longleftrightarrow> v = PInt sz \<and> 0 < sz \<and> sz \<le> 16777216"
  by (auto simp: chunk_size_check_def ok_iff MAX_CHUNK_SIZE_def)

lemma transfer_verdict_after:
  "transfer_verdict p (hasher_after data) (int (length data)) =
     (if pr_expected_length p \<noteq> None \<and> pr_expected_length p \<noteq> Some (int (length data))
      then Inl (ObjectError IncompleteUpload)
      else if pr_expected_digest p \<noteq> None \<and> pr_expected_digest p \<noteq> Some (sha256_text data)
      then Inl (ObjectError DigestMismatch)
      else Inr (identity_of data))"
proof -
  have "ContentIdentity_init (PStr (sha256_text data)) (PInt (int (length data))) = Inr (identity_of data)"
    by (simp add: ok_iff) (simp add: identity_of_def)
  then show ?thesis
    by (auto simp: transfer_verdict_def hasher_digest_after Let_def simp flip: sha256_text_def)
qed

section \<open>Whatever the callbacks do\<close>

text \<open>
  \<open>logged cb\<close> behaves as \<open>cb\<close> and keeps, beside the world, the list of all byte strings passed to
  the sink's \<open>write\<close>.
\<close>

definition logged :: "'w callbacks \<Rightarrow> (bytes list \<times> 'w) callbacks" where
  "logged cb =
     \<lparr>cb_factory = (\<lambda>f (l, w). case cb_factory cb f w of (r, w') \<Rightarrow> (r, (l, w'))),
      cb_read = (\<lambda>a k (l, w). case cb_read cb a k w of (r, w') \<Rightarrow> (r, (l, w'))),
      cb_close = (\<lambda>a (l, w). case cb_close cb a w of (r, w') \<Rightarrow> (r, (l, w'))),
      cb_write = (\<lambda>b (l, w). case cb_write cb b w of (r, w') \<Rightarrow> (r, (l @ [b], w'))),
      cb_cancelled = map_option (\<lambda>f (l, w). case f w of (r, w') \<Rightarrow> (r, (l, w'))) (cb_cancelled cb)\<rparr>"

lemma next_chunk_logged:
  assumes "next_chunk (logged cb) sz a (l, w) = (r, lw)"
  shows "fst lw = l"
    and "r = Inr (Some chunk) \<Longrightarrow> chunk \<noteq> [] \<and> int (length chunk) \<le> sz"
  using assms
  by (auto simp: next_chunk_def logged_def split: prod.splits sum.splits chunk_value.splits if_splits)

lemma consume_chunk_logged:
  assumes "consume_chunk (logged cb) limit chunk h n (l, w) = (r, lw)"
  shows "fst lw = l \<and> (\<exists>e. r = Inl e) \<or> fst lw = l @ [chunk]"
    and "r = Inr (h', n') \<Longrightarrow> fst lw = l @ [chunk] \<and> h' = hasher_update h chunk \<and> n' = n + int (length chunk)
      \<and> (\<forall>k. limit = Some k \<longrightarrow> n' \<le> k)"
  using assms
  by (auto simp: consume_chunk_def poll_cancelled_def logged_def Let_def
      split: prod.splits sum.splits option.splits if_splits)

text \<open>What the loop has done when it returns, with any result.\<close>

definition pumped :: "int \<Rightarrow> int option \<Rightarrow> bytes \<Rightarrow> int \<Rightarrow> (hasher \<times> int) result \<Rightarrow> bytes list \<Rightarrow> bool" where
  "pumped sz limit m n r chunks \<longleftrightarrow>
     (\<forall>c\<in>set chunks. c \<noteq> [] \<and> int (length c) \<le> sz)
     \<and> (\<forall>k. limit = Some k \<longrightarrow> n \<le> k \<longrightarrow> n + int (length (concat chunks)) \<le> k + sz)
     \<and> (\<forall>h' n'. r = Inr (h', n') \<longrightarrow>
          h' = hasher_after (m @ concat chunks) \<and> n' = n + int (length (concat chunks)))"

text \<open>Induction over the turns of a loop that returned.\<close>

lemma pump_induct [consumes 1, case_names stop refuse turn]:
  assumes pumps: "pump cb sz limit a h n w = Some rw"
    and stop: "\<And>h n w r1 w1. next_chunk cb sz a w = (r1, w1) \<Longrightarrow> (\<And>chunk. r1 \<noteq> Inr (Some chunk)) \<Longrightarrow>
      P h n w (case r1 of Inl e \<Rightarrow> Inl e | Inr _ \<Rightarrow> Inr (h, n), w1)"
    and refuse: "\<And>h n w chunk w1 e w2. next_chunk cb sz a w = (Inr (Some chunk), w1) \<Longrightarrow>
      consume_chunk cb limit chunk h n w1 = (Inl e, w2) \<Longrightarrow> P h n w (Inl e, w2)"
    and turn: "\<And>h n w chunk w1 h' n' w2 rw. next_chunk cb sz a w = (Inr (Some chunk), w1) \<Longrightarrow>
      consume_chunk cb limit chunk h n w1 = (Inr (h', n'), w2) \<Longrightarrow> P h' n' w2 rw \<Longrightarrow> P h n w rw"
  shows "P h n w rw"
proof -
  let ?Q = "\<lambda>cb' sz' limit' a' h n w rw. cb' = cb \<longrightarrow> sz' = sz \<longrightarrow> limit' = limit \<longrightarrow> a' = a \<longrightarrow> P h n w rw"
  have "?Q cb sz limit a h n w rw"
  proof (rule pump.raw_induct [OF _ pumps, where P = ?Q], intro impI)
    fix loop cb' sz' limit' a' h n w rw
    assume ih: "\<And>cb' sz' limit' a' h n w rw. loop cb' sz' limit' a' h n w = Some rw \<Longrightarrow> ?Q cb' sz' limit' a' h n w rw"
      and body: "(case next_chunk cb' sz' a' w of (Inl e, w1) \<Rightarrow> Some (Inl e, w1)
        | (Inr None, w1) \<Rightarrow> Some (Inr (h, n), w1)
        | (Inr (Some chunk), w1) \<Rightarrow>
            (case consume_chunk cb' limit' chunk h n w1 of (Inl e, w2) \<Rightarrow> Some (Inl e, w2)
             | (Inr (h', n'), w2) \<Rightarrow> loop cb' sz' limit' a' h' n' w2)) = Some rw"
      and same: "cb' = cb" "sz' = sz" "limit' = limit" "a' = a"
    obtain r1 w1 where nc: "next_chunk cb sz a w = (r1, w1)" by (cases "next_chunk cb sz a w")
    show "P h n w rw"
    proof (cases "\<exists>chunk. r1 = Inr (Some chunk)")
      case True
      then obtain chunk where chunk: "r1 = Inr (Some chunk)" by blast
      obtain r2 w2 where cc: "consume_chunk cb limit chunk h n w1 = (r2, w2)"
        by (cases "consume_chunk cb limit chunk h n w1")
      show ?thesis
      proof (cases r2)
        case (Inl e)
        then show ?thesis using refuse [of w chunk w1 h n e w2] body same nc chunk cc by simp
      next
        case (Inr hn)
        obtain h' n' where hn: "hn = (h', n')" by (cases hn)
        have "loop cb sz limit a h' n' w2 = Some rw" using body same nc chunk cc Inr hn by simp
        then have "P h' n' w2 rw" using ih by blast
        then show ?thesis using turn [of w chunk w1 h n h' n' w2 rw] nc chunk cc Inr hn by simp
      qed
    next
      case False
      then have "rw = (case r1 of Inl e \<Rightarrow> Inl e | Inr _ \<Rightarrow> Inr (h, n), w1)"
        using body same nc by (auto split: sum.splits option.splits)
      then show ?thesis using stop [OF nc] False by simp
    qed
  qed
  then show ?thesis by simp
qed

lemma pump_logged:
  assumes "pump (logged cb) sz limit a h n lw = Some rw" and "h = hasher_after m" and "0 < sz"
  shows "\<exists>chunks. fst (snd rw) = fst lw @ chunks \<and> pumped sz limit m n (fst rw) chunks"
  using assms(1,2)
proof (induction arbitrary: m rule: pump_induct)
  case (stop h n lw r1 lw1)
  then have "fst lw1 = fst lw" using next_chunk_logged(1) by (metis prod.collapse)
  with stop show ?case
    using assms(3) by (intro exI [of _ "[]"]) (auto simp: pumped_def split: sum.splits)
next
  case (refuse h n lw chunk lw1 e lw2)
  then have nc: "fst lw1 = fst lw" "chunk \<noteq> [] \<and> int (length chunk) \<le> sz"
    using next_chunk_logged(1) [of cb sz a "fst lw" "snd lw" _ lw1]
      next_chunk_logged(2) [of cb sz a "fst lw" "snd lw" _ lw1 chunk] by auto
  have "fst lw2 = fst lw1 \<or> fst lw2 = fst lw1 @ [chunk]"
    using consume_chunk_logged(1) [of cb limit chunk h n "fst lw1" "snd lw1"] refuse(2) by auto
  then show ?case
    using nc assms(3) by (elim disjE) (rule exI [of _ "[]"] exI [of _ "[chunk]"]; simp add: pumped_def)+
next
  case (turn h n lw chunk lw1 h' n' lw2 rw)
  then have nc: "fst lw1 = fst lw" "chunk \<noteq> [] \<and> int (length chunk) \<le> sz"
    using next_chunk_logged(1) [of cb sz a "fst lw" "snd lw" _ lw1]
      next_chunk_logged(2) [of cb sz a "fst lw" "snd lw" _ lw1 chunk] by auto
  have cc: "fst lw2 = fst lw1 @ [chunk] \<and> h' = hasher_update h chunk \<and> n' = n + int (length chunk)
      \<and> (\<forall>k. limit = Some k \<longrightarrow> n' \<le> k)"
    using consume_chunk_logged(2) [of cb limit chunk h n "fst lw1" "snd lw1" _ lw2 h' n'] turn(2) by auto
  then have "h' = hasher_after (m @ chunk)" using turn.prems hasher_update_after by simp
  from turn.IH [OF this] obtain chunks where
    ch: "fst (snd rw) = fst lw2 @ chunks" "pumped sz limit (m @ chunk) n' (fst rw) chunks" by blast
  have "pumped sz limit m n (fst rw) (chunk # chunks)"
    using ch(2) nc(2) cc by (auto simp: pumped_def)
  moreover have "fst (snd rw) = fst lw @ chunk # chunks" using ch(1) cc nc(1) by simp
  ultimately show ?case by blast
qed

lemma registry_enter_logged:
  "registry_enter (logged cb) ref s = (r, s1) \<Longrightarrow> fst (ps_world s1) = fst (ps_world s)"
  by (cases "ps_world s")
    (auto simp: registry_enter_def registry_claim_def source_enter_def source_claim_def logged_def Let_def
      split: sum.splits prod.splits option.splits if_splits source_kind.splits stream_object.splits)

lemma source_exit_result:
  "source_exit cb i a r s = (Inr x, s') \<Longrightarrow> r = Inr x"
  by (auto simp: source_exit_def split: source_kind.splits prod.splits sum.splits)

lemma source_exit_logged:
  "source_exit (logged cb) i a r s = (r', s') \<Longrightarrow> fst (ps_world s') = fst (ps_world s)"
  by (cases "ps_world s")
    (auto simp: source_exit_def logged_def split: source_kind.splits prod.splits sum.splits)

text \<open>The phases of a transfer that returned.\<close>

lemma transfer_phases:
  assumes "transfer_payload cb ref c s = Some (r, s')" and "parse_payload ref = Inr p"
  obtains (not_opened) e s1 where "registry_enter cb (Payload_object p) s = (Inl e, s1)" "r = Inl e" "s' = s1"
  | (bad_size) i a s1 e r1 where "registry_enter cb (Payload_object p) s = (Inr (i, a), s1)"
      "chunk_size_check c = Inl e" "source_exit cb i a (Inl e :: (hasher \<times> int) result) s1 = (r1, s')" "\<exists>e'. r = Inl e'"
  | (ran) i a s1 sz q w r1 where "registry_enter cb (Payload_object p) s = (Inr (i, a), s1)"
      "chunk_size_check c = Inr sz" "pump cb sz (pr_expected_length p) a hasher_new 0 (ps_world s1) = Some (q, w)"
      "source_exit cb i a q (s1\<lparr>ps_world := w\<rparr>) = (r1, s')"
      "r = bindE r1 (\<lambda>(h, n). transfer_verdict p h n)"
proof -
  obtain r0 s1 where enter: "registry_enter cb (Payload_object p) s = (r0, s1)"
    by (cases "registry_enter cb (Payload_object p) s")
  show ?thesis
  proof (cases r0)
    case (Inl e)
    then show ?thesis using assms enter not_opened by (simp add: transfer_payload_def)
  next
    case (Inr ia)
    obtain i a where ia: "ia = (i, a)" by (cases ia)
    show ?thesis
    proof (cases "chunk_size_check c")
      case (Inl e)
      obtain r1 s2 where exit: "source_exit cb i a (Inl e :: (hasher \<times> int) result) s1 = (r1, s2)"
        by (cases "source_exit cb i a (Inl e :: (hasher \<times> int) result) s1")
      then have "r1 \<noteq> Inr x" for x
        using source_exit_result [of cb i a "Inl e :: (hasher \<times> int) result" s1 x s2] by auto
      then show ?thesis
        using assms enter Inr ia Inl exit bad_size [of i a s1 e r1]
        by (auto simp: transfer_payload_def split: sum.splits)
    next
      case ok: (Inr sz)
      obtain q w where pumps: "pump cb sz (pr_expected_length p) a hasher_new 0 (ps_world s1) = Some (q, w)"
        using assms enter Inr ia ok by (auto simp: transfer_payload_def split: option.splits)
      obtain r1 s2 where exit: "source_exit cb i a q (s1\<lparr>ps_world := w\<rparr>) = (r1, s2)"
        by (cases "source_exit cb i a q (s1\<lparr>ps_world := w\<rparr>)")
      have "s' = s2 \<and> r = bindE r1 (\<lambda>(h, n). transfer_verdict p h n)"
        using assms enter Inr ia ok pumps exit by (cases r1) (auto simp: transfer_payload_def split: prod.splits)
      then show ?thesis using ran enter Inr ia ok pumps exit by blast
    qed
  qed
qed

lemma transfer_verdict_ok:
  assumes "transfer_verdict p (hasher_after data) (int (length data)) = Inr identity"
  shows "identity = identity_of data"
    and "pr_expected_length p \<in> {None, Some (int (length data))}"
    and "pr_expected_digest p \<in> {None, Some (sha256_text data)}"
  using assms by (auto simp: transfer_verdict_after split: if_splits)

text \<open>
  C7. Integrity of a transfer, whatever stream, sink, factory and cancellation do: if it returns an
  identity, that is the length and SHA-256 of exactly the bytes handed to the sink, in order, and
  they are the length and digest the reference declared; every write is a non-empty chunk within
  the chunk size, and a declared length is never exceeded by more than one chunk, also on errors.
\<close>

theorem transfer_sound:
  assumes "parse_payload ref = Inr p" and "wf_payload_reference p" and "fst (ps_world s) = []"
    and "transfer_payload (logged cb) ref c s = Some (r, s')"
  shows "let written = fst (ps_world s')
    in (\<forall>x\<in>set written. x \<noteq> [] \<and> (\<exists>sz. c = PInt sz \<and> int (length x) \<le> sz \<and> sz \<le> MAX_CHUNK_SIZE))
       \<and> (\<forall>k sz. pr_expected_length p = Some k \<longrightarrow> c = PInt sz \<longrightarrow> written \<noteq> [] \<longrightarrow>
            int (length (concat written)) \<le> k + sz)
       \<and> (\<forall>identity. r = Inr identity \<longrightarrow> identity = identity_of (concat written)
            \<and> pr_expected_length p \<in> {None, Some (int (length (concat written)))}
            \<and> pr_expected_digest p \<in> {None, Some (sha256_text (concat written))})"
  using assms(4,1)
proof (cases rule: transfer_phases)
  case (not_opened e s1)
  then show ?thesis using registry_enter_logged [OF not_opened(1)] assms(3) by simp
next
  case (bad_size i a s1 e r1)
  then show ?thesis
    using registry_enter_logged [OF bad_size(1)] source_exit_logged [OF bad_size(3)] assms(3) by auto
next
  case (ran i a s1 sz q w r1)
  have c: "c = PInt sz" "0 < sz" "sz \<le> MAX_CHUNK_SIZE"
    using ran(2) by (simp_all add: ok_iff MAX_CHUNK_SIZE_def)
  from pump_logged [OF ran(3) hasher_new_after c(2)] obtain chunks where
    chunks: "fst w = fst (ps_world s1) @ chunks" "pumped sz (pr_expected_length p) [] 0 q chunks" by auto
  then have written: "fst (ps_world s') = chunks"
    using registry_enter_logged [OF ran(1)] source_exit_logged [OF ran(4)] assms(3) by simp
  have "identity = identity_of (concat chunks) \<and> pr_expected_length p \<in> {None, Some (int (length (concat chunks)))}
      \<and> pr_expected_digest p \<in> {None, Some (sha256_text (concat chunks))}" if inr: "r = Inr identity" for identity
  proof -
    obtain h n where "r1 = Inr (h, n)" "transfer_verdict p h n = Inr identity"
      using ran(5) inr by (cases r1) auto
    moreover from this have "q = Inr (h, n)" 
      using source_exit_result [of "logged cb" i a q _ "(h, n)" s'] ran(4) by simp
    then have "h = hasher_after (concat chunks)" "n = int (length (concat chunks))"
      using chunks(2) by (simp_all add: pumped_def)
    ultimately show ?thesis using transfer_verdict_ok by blast
  qed
  moreover have "0 \<le> k" if "pr_expected_length p = Some k" for k
    using assms(2) that by (simp add: wf_payload_reference_def)
  ultimately show ?thesis
    using chunks(2) c unfolding written Let_def by (auto simp: pumped_def)
qed

section \<open>When it returns\<close>

lemma next_chunk_turn:
  "next_chunk cb sz a w = (Inr (Some chunk), w1) \<Longrightarrow> chunk \<noteq> [] \<and> int (length chunk) \<le> sz"
  by (auto simp: next_chunk_def split: prod.splits sum.splits chunk_value.splits if_splits)

lemma consume_chunk_turn:
  "consume_chunk cb limit chunk h n w = (Inr (h', n'), w1) \<Longrightarrow>
     n' = n + int (length chunk) \<and> (\<forall>k. limit = Some k \<longrightarrow> n' \<le> k)"
  by (auto simp: consume_chunk_def poll_cancelled_def Let_def split: prod.splits sum.splits option.splits if_splits)

lemma pump_bounded: "\<exists>rw. pump cb sz (Some k) a h n w = Some rw"
proof (induction "nat (k - n)" arbitrary: h n w rule: less_induct)
  case less
  obtain r1 w1 where nc: "next_chunk cb sz a w = (r1, w1)" by (cases "next_chunk cb sz a w")
  show ?case
  proof (cases "\<exists>chunk. r1 = Inr (Some chunk)")
    case False
    then show ?thesis by (subst pump.simps) (auto simp: nc split: sum.splits option.splits)
  next
    case True
    then obtain chunk where chunk: "r1 = Inr (Some chunk)" by blast
    obtain r2 w2 where cc: "consume_chunk cb (Some k) chunk h n w1 = (r2, w2)"
      by (cases "consume_chunk cb (Some k) chunk h n w1")
    show ?thesis
    proof (cases r2)
      case (Inl e)
      then show ?thesis by (subst pump.simps) (simp add: nc chunk cc)
    next
      case (Inr hn)
      obtain h' n' where hn: "hn = (h', n')" by (cases hn)
      have "0 < int (length chunk)" using next_chunk_turn [of cb sz a w chunk w1] nc chunk by simp
      moreover have "n' = n + int (length chunk)" "n' \<le> k"
        using consume_chunk_turn [of cb "Some k" chunk h n w1 h' n' w2] cc Inr hn by auto
      ultimately have "nat (k - n') < nat (k - n)" by linarith
      from less [OF this] obtain rw where "pump cb sz (Some k) a h' n' w2 = Some rw" by blast
      then show ?thesis by (subst pump.simps) (simp add: nc chunk cc Inr hn)
    qed
  qed
qed

lemma transfer_returns:
  assumes "parse_payload ref = Inr p"
    and "\<And>sz a w. 0 < sz \<Longrightarrow> \<exists>rw. pump cb sz (pr_expected_length p) a hasher_new 0 w = Some rw"
  shows "\<exists>r s'. transfer_payload cb ref c s = Some (r, s')"
proof -
  have body: "\<exists>r w'. (case chunk_size_check c of Inl e \<Rightarrow> Some (Inl e, w)
      | Inr sz \<Rightarrow> pump cb sz (pr_expected_length p) a hasher_new 0 w) = Some (r, w')" for a w
  proof (cases "chunk_size_check c")
    case (Inr sz)
    then have "0 < sz" by (simp add: ok_iff)
    then show ?thesis using assms(2) [of sz a w] Inr by auto
  qed simp
  show ?thesis
  proof (cases "registry_enter cb (Payload_object p) s")
    case (Pair r0 s1)
    show ?thesis
    proof (cases r0)
      case (Inr ia)
      obtain i a where ia: "ia = (i, a)" by (cases ia)
      obtain r w' where "(case chunk_size_check c of Inl e \<Rightarrow> Some (Inl e, ps_world s1)
          | Inr sz \<Rightarrow> pump cb sz (pr_expected_length p) a hasher_new 0 (ps_world s1)) = Some (r, w')"
        using body by blast
      then show ?thesis
        by (simp add: transfer_payload_def assms(1) Pair Inr ia split: prod.splits sum.splits)
    qed (simp add: transfer_payload_def assms(1) Pair)
  qed
qed

text \<open>
  C13. A transfer with a declared length always returns, for every stream, even an endless one, and
  every sink, factory and cancellation: the loop stops at the latest when the length is exceeded.
\<close>

theorem bounded_transfer_returns:
  assumes "parse_payload ref = Inr p" and "pr_expected_length p = Some k"
  shows "\<exists>r s'. transfer_payload cb ref c s = Some (r, s')"
  by (rule transfer_returns [OF assms(1)]) (unfold assms(2), rule pump_bounded)

section \<open>Faithful streams and sinks\<close>

text \<open>
  The contract of binary files: \<open>remaining a w\<close> is what the stream at \<open>a\<close> still has to deliver and
  \<open>written w\<close> what the sink holds. A read may be short, but is empty only at the end; a write takes
  the whole chunk and reports \<open>None\<close> or its length; closing succeeds; nothing is cancelled.
\<close>

definition faithful_read :: "'w callbacks \<Rightarrow> (nat \<Rightarrow> 'w \<Rightarrow> bytes) \<Rightarrow> ('w \<Rightarrow> bytes) \<Rightarrow> bool" where
  "faithful_read cb remaining written \<longleftrightarrow>
     (\<forall>a k w. 0 < k \<longrightarrow> (\<exists>chunk w'. cb_read cb a k w = (Inr (Bytes_like chunk), w')
        \<and> remaining a w = chunk @ remaining a w' \<and> int (length chunk) \<le> k
        \<and> (chunk = [] \<longrightarrow> remaining a w = []) \<and> written w' = written w))"

definition faithful_write :: "'w callbacks \<Rightarrow> (nat \<Rightarrow> 'w \<Rightarrow> bytes) \<Rightarrow> ('w \<Rightarrow> bytes) \<Rightarrow> bool" where
  "faithful_write cb remaining written \<longleftrightarrow>
     (\<forall>b w. \<exists>r w'. cb_write cb b w = (Inr r, w') \<and> r \<in> {None, Some (int (length b))}
        \<and> written w' = written w @ b \<and> (\<forall>a. remaining a w' = remaining a w))"

definition faithful_io :: "'w callbacks \<Rightarrow> (nat \<Rightarrow> 'w \<Rightarrow> bytes) \<Rightarrow> ('w \<Rightarrow> bytes) \<Rightarrow> bool" where
  "faithful_io cb remaining written \<longleftrightarrow>
     faithful_read cb remaining written \<and> faithful_write cb remaining written
     \<and> (\<forall>a w. \<exists>w'. cb_close cb a w = (Inr (), w') \<and> written w' = written w)
     \<and> cb_cancelled cb = None"

lemma faithful_readE:
  assumes "faithful_io cb remaining written" and "0 < k"
  obtains chunk w' where "cb_read cb a k w = (Inr (Bytes_like chunk), w')"
    "remaining a w = chunk @ remaining a w'" "int (length chunk) \<le> k" "chunk = [] \<longrightarrow> remaining a w = []"
    "written w' = written w"
proof -
  have "faithful_read cb remaining written" using assms(1) by (simp add: faithful_io_def)
  from this [unfolded faithful_read_def, rule_format, OF assms(2), of a w] that show ?thesis by blast
qed

lemma faithful_writeE:
  assumes "faithful_io cb remaining written"
  obtains r w' where "cb_write cb b w = (Inr r, w')" "r \<in> {None, Some (int (length b))}"
    "written w' = written w @ b" "\<forall>a. remaining a w' = remaining a w"
proof -
  have "faithful_write cb remaining written" using assms(1) by (simp add: faithful_io_def)
  from this [unfolded faithful_write_def, rule_format, of b w] that show ?thesis by blast
qed

locale byte_stream =
  fixes cb :: "'w callbacks"
    and remaining :: "nat \<Rightarrow> 'w \<Rightarrow> bytes"
    and written :: "'w \<Rightarrow> bytes"
  assumes faithful: "faithful_io cb remaining written"
begin

lemma read_turn:
  assumes "0 < sz"
  shows "remaining a w = [] \<and> (\<exists>w'. next_chunk cb sz a w = (Inr None, w') \<and> written w' = written w)
    \<or> (\<exists>chunk w'. next_chunk cb sz a w = (Inr (Some chunk), w') \<and> chunk \<noteq> []
         \<and> remaining a w = chunk @ remaining a w' \<and> written w' = written w)"
proof -
  obtain chunk w' where "cb_read cb a sz w = (Inr (Bytes_like chunk), w')"
    "remaining a w = chunk @ remaining a w'" "int (length chunk) \<le> sz" "chunk = [] \<longrightarrow> remaining a w = []"
    "written w' = written w"
    using faithful_readE [OF faithful assms] .
  then show ?thesis by (cases "chunk = []") (simp_all add: next_chunk_def)
qed

lemma write_turn:
  "\<exists>w'. written w' = written w @ chunk \<and> (\<forall>a. remaining a w' = remaining a w)
     \<and> consume_chunk cb limit chunk h n w =
         (if \<exists>k. limit = Some k \<and> k < n + int (length chunk) then Inl (ObjectError IncompleteUpload)
          else Inr (hasher_update h chunk, n + int (length chunk)), w')"
proof -
  obtain r w' where "cb_write cb chunk w = (Inr r, w')" "r \<in> {None, Some (int (length chunk))}"
    "written w' = written w @ chunk" "\<forall>a. remaining a w' = remaining a w"
    using faithful_writeE [OF faithful] .
  moreover have "poll_cancelled cb w = (Inr (), w)"
    using faithful by (simp add: faithful_io_def poll_cancelled_def)
  ultimately show ?thesis
    by (intro exI [of _ w']) (auto simp: consume_chunk_def Let_def split: option.splits)
qed

lemma pump_copies:
  assumes "0 < sz" and "\<forall>k. limit = Some k \<longrightarrow> n \<le> k"
  shows "\<exists>w'. pump cb sz limit a (hasher_after m) n w =
      Some (if \<exists>k. limit = Some k \<and> k < n + int (length (remaining a w))
            then Inl (ObjectError IncompleteUpload)
            else Inr (hasher_after (m @ remaining a w), n + int (length (remaining a w))), w')
    \<and> (\<not> (\<exists>k. limit = Some k \<and> k < n + int (length (remaining a w))) \<longrightarrow>
         written w' = written w @ remaining a w)"
  using assms(2)
proof (induction "length (remaining a w)" arbitrary: m n w rule: less_induct)
  case less
  consider (finished) w' where "remaining a w = []" "next_chunk cb sz a w = (Inr None, w')" "written w' = written w"
    | (more) chunk w' where "next_chunk cb sz a w = (Inr (Some chunk), w')" "chunk \<noteq> []"
        "remaining a w = chunk @ remaining a w'" "written w' = written w"
    using read_turn [OF assms(1), of a w] by blast
  then show ?case
  proof cases
    case finished
    then have "pump cb sz limit a (hasher_after m) n w = Some (Inr (hasher_after m, n), w')"
      by (subst pump.simps) simp
    then show ?thesis using finished less.prems by auto
  next
    case more
    obtain w2 where w2: "written w2 = written w' @ chunk" "\<forall>a. remaining a w2 = remaining a w'"
      "consume_chunk cb limit chunk (hasher_after m) n w' =
         (if \<exists>k. limit = Some k \<and> k < n + int (length chunk) then Inl (ObjectError IncompleteUpload)
          else Inr (hasher_update (hasher_after m) chunk, n + int (length chunk)), w2)"
      using write_turn [of w' chunk limit "hasher_after m" n] by auto
    show ?thesis
    proof (cases "\<exists>k. limit = Some k \<and> k < n + int (length chunk)")
      case True
      then have "pump cb sz limit a (hasher_after m) n w = Some (Inl (ObjectError IncompleteUpload), w2)"
        using more w2 by (subst pump.simps) simp
      then show ?thesis using True more(3) less.prems by auto
    next
      case False
      then have step: "pump cb sz limit a (hasher_after m) n w =
          pump cb sz limit a (hasher_after (m @ chunk)) (n + int (length chunk)) w2"
        using more w2(3) unfolding if_not_P [OF False] by (subst pump.simps) (simp add: hasher_update_after)
      have shorter: "length (remaining a w2) < length (remaining a w)" using more w2 by simp
      have fits: "\<forall>k. limit = Some k \<longrightarrow> n + int (length chunk) \<le> k" using False by force
      show ?thesis
        using less.hyps [OF shorter fits, of "m @ chunk"] more(3,4) w2(1,2) unfolding step
        by (simp add: add.assoc cong: if_cong split del: if_split)
    qed
  qed
qed

end

lemma faithful_transfer_returns:
  assumes "faithful_io cb remaining written"
  shows "\<exists>r s'. transfer_payload cb ref c s = Some (r, s')"
proof (cases "parse_payload ref")
  case (Inr p)
  show ?thesis
  proof (rule transfer_returns [OF Inr])
    fix sz :: int and a :: nat and w :: 'a
    assume sz: "0 < sz"
    show "\<exists>rw. pump cb sz (pr_expected_length p) a hasher_new 0 w = Some rw"
    proof (cases "pr_expected_length p")
      case None
      then show ?thesis
        using byte_stream.pump_copies [OF byte_stream.intro [OF assms] sz, of None 0 a "[]" w]
        by (auto simp: hasher_new_after)
    next
      case (Some k)
      then show ?thesis using pump_bounded [of cb sz k a hasher_new 0 w] by simp
    qed
  qed
qed (simp add: transfer_payload_def)

text \<open>
  The files of the standard library that the code itself uses in this role are \<open>io.BytesIO\<close>
  objects: factory \<open>f\<close> opens a fresh one over \<open>data f\<close>, and the sink is another one.
\<close>

record bytesio_world =
  bio_rest :: "nat \<Rightarrow> bytes"
  bio_next :: nat
  bio_sink :: bytes

definition bytesio :: "(nat \<Rightarrow> bytes) \<Rightarrow> bytesio_world callbacks" where
  "bytesio data =
     \<lparr>cb_factory = (\<lambda>f w. (Inr (Readable (bio_next w)),
        w\<lparr>bio_rest := (bio_rest w)(bio_next w := data f), bio_next := Suc (bio_next w)\<rparr>)),
      cb_read = (\<lambda>a k w. (Inr (Bytes_like (take (nat k) (bio_rest w a))),
        w\<lparr>bio_rest := (bio_rest w)(a := drop (nat k) (bio_rest w a))\<rparr>)),
      cb_close = (\<lambda>a w. (Inr (), w)),
      cb_write = (\<lambda>b w. (Inr (Some (int (length b))), w\<lparr>bio_sink := bio_sink w @ b\<rparr>)),
      cb_cancelled = None\<rparr>"

lemma bytesio_faithful: "faithful_io (bytesio data) (\<lambda>a w. bio_rest w a) bio_sink"
  by (auto simp: faithful_io_def faithful_read_def faithful_write_def bytesio_def)

interpretation bio: byte_stream "bytesio data" "\<lambda>a w. bio_rest w a" bio_sink for data
  by unfold_locales (rule bytesio_faithful)

lemma transfer_runs:
  assumes "parse_payload ref = Inr p" and "registry_enter cb (Payload_object p) s = (Inr (i, a), s1)"
    and "chunk_size_check c = Inr sz"
    and "pump cb sz (pr_expected_length p) a hasher_new 0 (ps_world s1) = Some (q, w)"
    and "source_exit cb i a q (s1\<lparr>ps_world := w\<rparr>) = (q, s2)"
  shows "transfer_payload cb ref c s = Some (bindE q (\<lambda>(h, n). transfer_verdict p h n), s2)"
  using assms by (cases q) (auto simp: transfer_payload_def split: prod.splits)

definition declared_outcome :: "payload_reference \<Rightarrow> bytes \<Rightarrow> content_identity result" where
  \<comment> \<open>what a transfer of \<open>data\<close> under the reference must report\<close>
  "declared_outcome p data =
     (if pr_expected_length p \<notin> {None, Some (int (length data))} then Inl (ObjectError IncompleteUpload)
      else if pr_expected_digest p \<notin> {None, Some (sha256_text data)} then Inl (ObjectError DigestMismatch)
      else Inr (identity_of data))"

lemma transfer_of_faithful:
  assumes "faithful_io cb remaining written" and "parse_payload ref = Inr p" and "wf_payload_reference p"
    and "registry_enter cb (Payload_object p) s = (Inr (i, a), s1)"
    and "0 < sz" and "sz \<le> MAX_CHUNK_SIZE" and "remaining a (ps_world s1) = data"
  shows "\<exists>s'. transfer_payload cb ref (PInt sz) s = Some (declared_outcome p data, s')
    \<and> (\<not> (\<exists>k. pr_expected_length p = Some k \<and> k < int (length data)) \<longrightarrow>
         written (ps_world s') = written (ps_world s1) @ data)"
proof -
  have c: "chunk_size_check (PInt sz) = Inr sz" using assms(5,6) by (simp add: ok_iff MAX_CHUNK_SIZE_def)
  have wf: "\<forall>k. pr_expected_length p = Some k \<longrightarrow> 0 \<le> k" using assms(3) by (simp add: wf_payload_reference_def)
  let ?over = "\<exists>k. pr_expected_length p = Some k \<and> k < int (length data)"
  let ?q = "if ?over then Inl (ObjectError IncompleteUpload)
    else Inr (hasher_after data, int (length data)) :: (hasher \<times> int) result"
  obtain w where w: "pump cb sz (pr_expected_length p) a hasher_new 0 (ps_world s1) = Some (?q, w)"
    "\<not> ?over \<longrightarrow> written w = written (ps_world s1) @ data"
    using byte_stream.pump_copies [OF byte_stream.intro [OF assms(1)] assms(5) wf, of a "[]" "ps_world s1"]
    by (auto simp: assms(7) hasher_new_after cong: if_cong split del: if_split)
  obtain w' where close: "cb_close cb a w = (Inr (), w')" "written w' = written w"
    using assms(1) unfolding faithful_io_def by blast
  obtain s2 where exit: "source_exit cb i a ?q (s1\<lparr>ps_world := w\<rparr>) = (?q, s2)" "written (ps_world s2) = written w"
    using close by (cases "so_kind (ps_sources s1 ! i)") (simp_all add: source_exit_def split del: if_split)
  have "bindE ?q (\<lambda>(h, n). transfer_verdict p h n) = declared_outcome p data"
    by (auto simp: declared_outcome_def transfer_verdict_after)
  then show ?thesis
    using transfer_runs [OF assms(2,4) c w(1) exit(1)] exit(2) w(2) by auto
qed

text \<open>
  C8. Completeness and chunk independence: over faithful files, a reference that resolves to a
  stream with content \<open>data\<close> is transferred with the outcome \<open>declared_outcome p data\<close>, which does
  not depend on the chunk size or on short reads; unless \<open>data\<close> is longer than declared, the sink
  then holds exactly \<open>data\<close> more.
\<close>

theorem transfer_complete:
  assumes "faithful_io cb remaining written" and "parse_payload ref = Inr p" and "wf_payload_reference p"
    and "registry_enter cb (Payload_object p) s = (Inr (i, a), s1)"
    and "0 < sz" and "sz \<le> MAX_CHUNK_SIZE" and "remaining a (ps_world s1) = data"
  shows "\<exists>s'. transfer_payload cb ref (PInt sz) s = Some (declared_outcome p data, s')
    \<and> (\<not> (\<exists>k. pr_expected_length p = Some k \<and> k < int (length data)) \<longrightarrow>
         written (ps_world s') = written (ps_world s1) @ data)"
  using transfer_of_faithful [OF assms] .

section \<open>What a transfer leaves alone\<close>

definition keeps_world :: "'w callbacks \<Rightarrow> ('w \<Rightarrow> 'v) \<Rightarrow> bool" where
  "keeps_world cb g \<longleftrightarrow>
     (\<forall>f w. g (snd (cb_factory cb f w)) = g w) \<and> (\<forall>a k w. g (snd (cb_read cb a k w)) = g w)
     \<and> (\<forall>a w. g (snd (cb_close cb a w)) = g w) \<and> (\<forall>b w. g (snd (cb_write cb b w)) = g w)
     \<and> (\<forall>cancelled w. cb_cancelled cb = Some cancelled \<longrightarrow> g (snd (cancelled w)) = g w)"

lemma keeps_worldD:
  assumes "keeps_world cb g"
  shows "cb_factory cb f w = (r1, w1) \<Longrightarrow> g w1 = g w" "cb_read cb a k w = (r2, w1) \<Longrightarrow> g w1 = g w"
    "cb_close cb a w = (r3, w1) \<Longrightarrow> g w1 = g w" "cb_write cb b w = (r4, w1) \<Longrightarrow> g w1 = g w"
    "cb_cancelled cb = Some cancelled \<Longrightarrow> cancelled w = (r5, w1) \<Longrightarrow> g w1 = g w"
  using assms unfolding keeps_world_def by (metis snd_conv)+

lemma next_chunk_keeps: "keeps_world cb g \<Longrightarrow> next_chunk cb sz a w = (r, w1) \<Longrightarrow> g w1 = g w"
  by (auto simp: next_chunk_def dest!: keeps_worldD(2) split: prod.splits sum.splits chunk_value.splits if_splits)

lemma poll_keeps: "keeps_world cb g \<Longrightarrow> poll_cancelled cb w = (r, w1) \<Longrightarrow> g w1 = g w"
  by (auto simp: poll_cancelled_def dest: keeps_worldD(5) split: prod.splits sum.splits option.splits)

lemma consume_chunk_keeps:
  assumes "keeps_world cb g" and "consume_chunk cb limit chunk h n w = (r, w1)"
  shows "g w1 = g w"
proof -
  obtain r0 w0 where poll: "poll_cancelled cb w = (r0, w0)" by (cases "poll_cancelled cb w")
  obtain r2 w2 where written: "cb_write cb chunk w0 = (r2, w2)" by (cases "cb_write cb chunk w0")
  have "g w0 = g w" "g w2 = g w0" using poll_keeps [OF assms(1) poll] keeps_worldD(4) [OF assms(1) written] by auto
  then show ?thesis
    using assms(2) poll written
    by (auto simp: consume_chunk_def Let_def split: sum.splits option.splits if_splits)
qed

lemma pump_keeps:
  assumes "keeps_world cb g" and "pump cb sz limit a h n w = Some rw"
  shows "g (snd rw) = g w"
  using assms(2)
proof (induction rule: pump_induct)
  case (stop h n w r1 w1)
  then show ?case using next_chunk_keeps [OF assms(1)] by simp
next
  case (refuse h n w chunk w1 e w2)
  then show ?case using next_chunk_keeps [OF assms(1)] consume_chunk_keeps [OF assms(1)] by fastforce
next
  case (turn h n w chunk w1 h' n' w2 rw)
  then show ?case using next_chunk_keeps [OF assms(1)] consume_chunk_keeps [OF assms(1)] by metis
qed

lemma registry_enter_keeps:
  "keeps_world cb g \<Longrightarrow> registry_enter cb ref s = (r, s1) \<Longrightarrow> g (ps_world s1) = g (ps_world s)"
  by (auto simp: registry_enter_def registry_claim_def source_enter_def source_claim_def Let_def
      dest!: keeps_worldD(1) split: sum.splits prod.splits option.splits if_splits source_kind.splits stream_object.splits)

lemma source_exit_keeps:
  "keeps_world cb g \<Longrightarrow> source_exit cb i a r s = (r', s') \<Longrightarrow> g (ps_world s') = g (ps_world s)"
  by (auto simp: source_exit_def dest!: keeps_worldD(3) split: source_kind.splits prod.splits sum.splits)

lemma transfer_keeps:
  assumes "keeps_world cb g" and "transfer_payload cb ref c s = Some (r, s')"
  shows "g (ps_world s') = g (ps_world s)"
proof (cases "parse_payload ref")
  case (Inl e)
  then show ?thesis using assms(2) by (simp add: transfer_payload_def)
next
  case (Inr p)
  from assms(2) Inr show ?thesis
  proof (cases rule: transfer_phases)
    case not_opened
    then show ?thesis using registry_enter_keeps [OF assms(1)] by metis
  next
    case bad_size
    then show ?thesis using registry_enter_keeps [OF assms(1)] source_exit_keeps [OF assms(1)] by metis
  next
    case (ran i a s1 sz q w r1)
    have "g (ps_world s1) = g (ps_world s)" by (rule registry_enter_keeps [OF assms(1) ran(1)])
    moreover have "g w = g (ps_world s1)" using pump_keeps [OF assms(1) ran(3)] by simp
    moreover have "g (ps_world s') = g w" using source_exit_keeps [OF assms(1) ran(4)] by simp
    ultimately show ?thesis by simp
  qed
qed

section \<open>A concrete transfer\<close>

definition demo_reference :: payload_reference where
  "demo_reference = \<lparr>pr_token = lit ''p_1'', pr_expected_length = Some 3, pr_expected_digest = None, pr_replayable = True\<rparr>"

definition demo_world :: bytesio_world where
  "demo_world = \<lparr>bio_rest = (\<lambda>_. []), bio_next = 0, bio_sink = []\<rparr>"

definition demo_state :: "'w \<Rightarrow> 'w payload_state" where
  "demo_state w = \<lparr>ps_sources = [\<lparr>so_kind = Factory_source 0 True, so_opened = False\<rparr>],
     ps_registry = [(lit ''p_1'', 0)], ps_world = w\<rparr>"

lemma demo_reference_wf: "wf_payload_reference demo_reference"
  by (auto simp: wf_payload_reference_def demo_reference_def opaque_token_def lit_def)

lemma demo_enter:
  "registry_enter (bytesio (\<lambda>_. [1, 2, 3])) (Payload_object demo_reference) (demo_state demo_world) =
     (Inr (0, 0), \<lparr>ps_sources = [\<lparr>so_kind = Factory_source 0 True, so_opened = True\<rparr>],
        ps_registry = [(lit ''p_1'', 0)],
        ps_world = demo_world\<lparr>bio_rest := (\<lambda>_. [])(0 := [1, 2, 3]), bio_next := 1\<rparr>\<rparr>)"
  by (simp add: registry_enter_def parse_payload_def registry_claim_def source_enter_def source_claim_def
      source_replayable_def demo_reference_def demo_state_def demo_world_def bytesio_def Let_def)

theorem transfer_complete_witness:
  "\<exists>s'. transfer_payload (bytesio (\<lambda>_. [1, 2, 3])) (Payload_object demo_reference) (PInt 2) (demo_state demo_world)
      = Some (Inr (identity_of [1, 2, 3]), s') \<and> bio_sink (ps_world s') = [1, 2, 3]"
proof -
  have "parse_payload (Payload_object demo_reference) = Inr demo_reference" by (simp add: parse_payload_def)
  from transfer_complete [OF bytesio_faithful this demo_reference_wf demo_enter, of 2]
  show ?thesis
    by (auto simp: declared_outcome_def demo_reference_def MAX_CHUNK_SIZE_def demo_world_def)
qed

theorem bounded_transfer_returns_witness:
  "\<exists>r s'. transfer_payload (bytesio (\<lambda>_. [1, 2, 3, 4, 5])) (Payload_object demo_reference) (PInt 1)
      (demo_state demo_world) = Some (r, s')"
  by (rule bounded_transfer_returns [where p = demo_reference and k = 3])
    (simp_all add: parse_payload_def demo_reference_def)

lemma logged_faithful:
  assumes "faithful_io cb remaining written"
  shows "faithful_io (logged cb) (\<lambda>a w. remaining a (snd w)) (\<lambda>w. written (snd w))"
  unfolding faithful_io_def
proof (intro conjI)
  show "faithful_read (logged cb) (\<lambda>a w. remaining a (snd w)) (\<lambda>w. written (snd w))"
    unfolding faithful_read_def
  proof (intro allI impI)
    fix a :: nat and k :: int and lw :: "bytes list \<times> 'a"
    assume k: "0 < k"
    obtain chunk w' where "cb_read cb a k (snd lw) = (Inr (Bytes_like chunk), w')"
      "remaining a (snd lw) = chunk @ remaining a w'" "int (length chunk) \<le> k"
      "chunk = [] \<longrightarrow> remaining a (snd lw) = []" "written w' = written (snd lw)"
      using faithful_readE [OF assms k] .
    then show "\<exists>chunk lw'. cb_read (logged cb) a k lw = (Inr (Bytes_like chunk), lw')
        \<and> remaining a (snd lw) = chunk @ remaining a (snd lw') \<and> int (length chunk) \<le> k
        \<and> (chunk = [] \<longrightarrow> remaining a (snd lw) = []) \<and> written (snd lw') = written (snd lw)"
      by (intro exI [of _ chunk] exI [of _ "(fst lw, w')"]) (simp add: logged_def split_def)
  qed
  show "faithful_write (logged cb) (\<lambda>a w. remaining a (snd w)) (\<lambda>w. written (snd w))"
    unfolding faithful_write_def
  proof (intro allI)
    fix b :: bytes and lw :: "bytes list \<times> 'a"
    obtain r w' where "cb_write cb b (snd lw) = (Inr r, w')" "r \<in> {None, Some (int (length b))}"
      "written w' = written (snd lw) @ b" "\<forall>a. remaining a w' = remaining a (snd lw)"
      using faithful_writeE [OF assms] .
    then show "\<exists>r lw'. cb_write (logged cb) b lw = (Inr r, lw') \<and> r \<in> {None, Some (int (length b))}
        \<and> written (snd lw') = written (snd lw) @ b \<and> (\<forall>a. remaining a (snd lw') = remaining a (snd lw))"
      by (intro exI [of _ r] exI [of _ "(fst lw @ [b], w')"]) (simp add: logged_def split_def)
  qed
  show "\<forall>a lw. \<exists>lw'. cb_close (logged cb) a lw = (Inr (), lw') \<and> written (snd lw') = written (snd lw)"
  proof (intro allI)
    fix a :: nat and lw :: "bytes list \<times> 'a"
    obtain w' where "cb_close cb a (snd lw) = (Inr (), w')" "written w' = written (snd lw)"
      using assms unfolding faithful_io_def by blast
    then show "\<exists>lw'. cb_close (logged cb) a lw = (Inr (), lw') \<and> written (snd lw') = written (snd lw)"
      by (intro exI [of _ "(fst lw, w')"]) (simp add: logged_def split_def)
  qed
qed (use assms in \<open>simp add: faithful_io_def logged_def\<close>)

theorem transfer_sound_witness:
  "\<exists>s'. transfer_payload (logged (bytesio (\<lambda>_. [1, 2, 3]))) (Payload_object demo_reference) (PInt 2)
      (demo_state ([], demo_world)) = Some (Inr (identity_of [1, 2, 3]), s')
    \<and> identity_of [1, 2, 3] = identity_of (concat (fst (ps_world s')))"
proof -
  have parsed: "parse_payload (Payload_object demo_reference) = Inr demo_reference"
    by (simp add: parse_payload_def)
  have enter: "registry_enter (logged (bytesio (\<lambda>_. [1, 2, 3]))) (Payload_object demo_reference)
      (demo_state ([], demo_world)) =
     (Inr (0, 0), \<lparr>ps_sources = [\<lparr>so_kind = Factory_source 0 True, so_opened = True\<rparr>],
        ps_registry = [(lit ''p_1'', 0)],
        ps_world = ([], demo_world\<lparr>bio_rest := (\<lambda>_. [])(0 := [1, 2, 3]), bio_next := 1\<rparr>)\<rparr>)"
    by (simp add: registry_enter_def parse_payload_def registry_claim_def source_enter_def source_claim_def
        source_replayable_def demo_reference_def demo_state_def demo_world_def bytesio_def logged_def Let_def)
  obtain s' where run: "transfer_payload (logged (bytesio (\<lambda>_. [1, 2, 3]))) (Payload_object demo_reference) (PInt 2)
      (demo_state ([], demo_world)) = Some (Inr (identity_of [1, 2, 3]), s')"
    using transfer_of_faithful [OF logged_faithful [OF bytesio_faithful] parsed demo_reference_wf enter, of 2]
    by (auto simp: declared_outcome_def demo_reference_def MAX_CHUNK_SIZE_def)
  from transfer_sound [OF parsed demo_reference_wf _ run] show ?thesis
    using run by (auto simp: demo_state_def Let_def)
qed

end
