(* ===== verification/Timestamps.thy ===== *)
theory Timestamps
  imports Wire
begin

text \<open>
  \<open>_validation.utc_timestamp\<close> and what it uses of Python's \<open>datetime\<close>: the proleptic Gregorian
  calendar, \<open>astimezone(UTC)\<close>, \<open>strftime\<close> and \<open>strptime\<close> with \<open>%Y-%m-%dT%H:%M:%S.%fZ\<close>. An instant
  is the number of microseconds since 0001-01-01T00:00:00 UTC.
\<close>

section \<open>The calendar\<close>

definition is_leap :: "int \<Rightarrow> bool" where
  "is_leap y \<longleftrightarrow> y mod 4 = 0 \<and> (y mod 100 \<noteq> 0 \<or> y mod 400 = 0)"

definition days_before_year :: "int \<Rightarrow> int" where
  "days_before_year year =
     (let y = year - 1 in y * 365 + y div 4 - y div 100 + y div 400)"

definition year_length :: "int \<Rightarrow> int" where
  "year_length y = (if is_leap y then 366 else 365)"

definition month_lengths :: "int \<Rightarrow> int list" where
  "month_lengths y = [31, if is_leap y then 29 else 28, 31, 30, 31, 30, 31, 31, 30, 31, 30, 31]"

record civil =
  cv_year :: int
  cv_month :: int
  cv_day :: int
  cv_hour :: int
  cv_minute :: int
  cv_second :: int
  cv_micro :: int

definition valid_civil :: "civil \<Rightarrow> bool" where
  \<comment> \<open>what the constructor of \<open>datetime\<close> accepts\<close>
  "valid_civil c \<longleftrightarrow> 1 \<le> cv_year c \<and> cv_year c \<le> 9999 \<and> 1 \<le> cv_month c \<and> cv_month c \<le> 12
     \<and> 1 \<le> cv_day c \<and> cv_day c \<le> month_lengths (cv_year c) ! nat (cv_month c - 1)
     \<and> 0 \<le> cv_hour c \<and> cv_hour c < 24 \<and> 0 \<le> cv_minute c \<and> cv_minute c < 60
     \<and> 0 \<le> cv_second c \<and> cv_second c < 60 \<and> 0 \<le> cv_micro c \<and> cv_micro c < 1000000"

definition day_micros :: int where
  "day_micros = 86400000000"

definition instant_of :: "civil \<Rightarrow> int" where
  "instant_of c =
     (days_before_year (cv_year c) + sum_list (take (nat (cv_month c - 1)) (month_lengths (cv_year c)))
        + cv_day c - 1) * day_micros
     + ((cv_hour c * 60 + cv_minute c) * 60 + cv_second c) * 1000000 + cv_micro c"

text \<open>Back from instants: the year is estimated from the mean length and corrected by one.\<close>

definition year_of_day :: "int \<Rightarrow> int" where
  \<comment> \<open>the year of the day \<open>n\<close>, day 0 being 0001-01-01\<close>
  "year_of_day n =
     (let y = n * 400 div 146097 + 1
      in if n < days_before_year y then y - 1
         else if days_before_year (y + 1) \<le> n then y + 1 else y)"

fun split_days :: "int list \<Rightarrow> int \<Rightarrow> int \<Rightarrow> int \<times> int" where
  "split_days [] n m = (m, n)"
| "split_days (l # ls) n m = (if n \<le> l then (m, n) else split_days ls (n - l) (m + 1))"

definition civil_of :: "int \<Rightarrow> civil" where
  "civil_of i =
     (let n = i div day_micros; us = i mod day_micros; y = year_of_day n;
          (m, d) = split_days (month_lengths y) (n - days_before_year y + 1) 1
      in \<lparr>cv_year = y, cv_month = m, cv_day = d, cv_hour = us div 3600000000,
          cv_minute = us div 60000000 mod 60, cv_second = us div 1000000 mod 60,
          cv_micro = us mod 1000000\<rparr>)"

definition max_instant :: int where
  \<comment> \<open>0001-01-01 to 9999-12-31 is 3652059 days\<close>
  "max_instant = 3652059 * day_micros"

section \<open>The calendar is exact\<close>

lemma div_succ:
  fixes a k :: int
  assumes "0 < k"
  shows "(a + 1) div k = a div k + (if (a + 1) mod k = 0 then 1 else 0)"
proof -
  have r: "0 \<le> a mod k" "a mod k < k" using assms by simp_all
  show ?thesis
  proof (cases "a mod k = k - 1")
    case True
    have "a + 1 = k * (a div k) + (a mod k + 1)" by simp
    also have "\<dots> = (a div k + 1) * k" using True by (simp add: algebra_simps)
    finally have e: "a + 1 = (a div k + 1) * k" .
    then have "(a + 1) mod k = 0" "(a + 1) div k = a div k + 1" using assms by simp_all
    then show ?thesis by simp
  next
    case False
    with r have b: "0 \<le> a mod k + 1" "a mod k + 1 < k" by simp_all
    have "a + 1 = k * (a div k) + (a mod k + 1)" by simp
    from int_div_pos_eq [OF this b] int_mod_pos_eq [OF this b] r show ?thesis by simp
  qed
qed

lemma div_bounds:
  fixes x k :: int
  assumes "0 < k"
  shows "x - (k - 1) \<le> k * (x div k)" and "k * (x div k) \<le> x"
proof -
  have "k * (x div k) = x - x mod k" by (simp add: minus_mod_eq_mult_div)
  then show "x - (k - 1) \<le> k * (x div k)" "k * (x div k) \<le> x"
    using pos_mod_bound [OF assms, of x] pos_mod_sign [OF assms, of x] by linarith+
qed

lemma leap_days:
  fixes y a b c :: int
  assumes "p400 \<longrightarrow> p100" "p100 \<longrightarrow> p4"
    and "a' = a + (if p4 then 1 else 0)" "b' = b + (if p100 then 1 else 0)" "c' = c + (if p400 then 1 else 0)"
  shows "y * 365 + a' - b' + c' =
    (y - 1) * 365 + a - b + c + (if p4 \<and> (\<not> p100 \<or> p400) then 366 else 365)"
  unfolding assms(3-5) using assms(1,2) by (cases p4; cases p100; cases p400) simp_all

lemma days_before_year_Suc: "days_before_year (y + 1) = days_before_year y + year_length y"
proof -
  have "400 dvd y \<longrightarrow> 100 dvd y" "100 dvd y \<longrightarrow> 4 dvd y"
    by (auto intro: dvd_trans [of 100 400] dvd_trans [of 4 100])
  then have m: "y mod 400 = 0 \<longrightarrow> y mod 100 = 0" "y mod 100 = 0 \<longrightarrow> y mod 4 = 0"
    by (simp_all only: dvd_eq_mod_eq_0)
  have d: "y div k = (y - 1) div k + (if y mod k = 0 then 1 else 0)" if "0 < k" for k
    using div_succ [OF that, of "y - 1"] by (simp only: diff_add_cancel)
  show ?thesis
    unfolding days_before_year_def year_length_def is_leap_def Let_def add_diff_cancel_right'
    by (rule leap_days [OF m]) (rule d; simp)+
qed

lemma days_before_year_bounds:
  "146097 * (y - 1) - 699 \<le> 400 * days_before_year y"
  "400 * days_before_year y \<le> 146097 * (y - 1) + 396"
proof -
  define x where "x = y - 1"
  note bounds = div_bounds [of 4 x] div_bounds [of 100 x] div_bounds [of 400 x]
  have "400 * days_before_year y =
      146000 * x + 100 * (4 * (x div 4)) - 4 * (100 * (x div 100)) + 400 * (x div 400)"
    by (simp add: days_before_year_def x_def Let_def algebra_simps)
  then show "146097 * (y - 1) - 699 \<le> 400 * days_before_year y"
    "400 * days_before_year y \<le> 146097 * (y - 1) + 396"
    unfolding x_def [symmetric] using bounds by simp_all
qed

lemma year_of_day_bounds:
  "days_before_year (year_of_day n) \<le> n \<and> n < days_before_year (year_of_day n + 1)"
proof -
  define y where "y = n * 400 div 146097 + 1"
  have q: "146097 * (y - 1) \<le> 400 * n" "400 * n < 146097 * y"
    using div_bounds(1) [of 146097 "n * 400"] div_bounds(2) [of 146097 "n * 400"]
    unfolding y_def by simp_all
  have lo: "days_before_year (y - 1) \<le> n"
    using days_before_year_bounds(2) [of "y - 1"] q by simp
  have hi: "n < days_before_year (y + 2)"
    using days_before_year_bounds(1) [of "y + 2"] q by simp
  show ?thesis
    using lo hi by (auto simp: add.commute [of 2] year_of_day_def Let_def y_def [symmetric])
qed

lemma split_days_inverse:
  "1 \<le> n \<Longrightarrow> n \<le> sum_list ls \<Longrightarrow> \<exists>k d. split_days ls n m = (m + int k, d)
     \<and> k < length ls \<and> 1 \<le> d \<and> d \<le> ls ! k \<and> n = sum_list (take k ls) + d"
proof (induction ls arbitrary: n m)
  case (Cons l ls)
  show ?case
  proof (cases "n \<le> l")
    case True
    then show ?thesis using Cons.prems by (intro exI [of _ 0] exI [of _ n]) simp
  next
    case False
    then have "1 \<le> n - l" "n - l \<le> sum_list ls" using Cons.prems by simp_all
    from Cons.IH [OF this, of "m + 1"] obtain k d where
      "split_days ls (n - l) (m + 1) = (m + 1 + int k, d)" "k < length ls" "1 \<le> d" "d \<le> ls ! k"
      "n - l = sum_list (take k ls) + d" by blast
    with False show ?thesis by (intro exI [of _ "Suc k"] exI [of _ d]) simp
  qed
qed simp

lemma month_lengths_sum: "sum_list (month_lengths y) = year_length y"
  by (simp add: month_lengths_def year_length_def)

lemma length_month_lengths [simp]: "length (month_lengths y) = 12"
  by (simp add: month_lengths_def)

lemma days_before_year_mono: "y \<le> z \<Longrightarrow> days_before_year y \<le> days_before_year z"
proof -
  have step: "days_before_year y \<le> days_before_year (y + int k)" for k
  proof (induction k)
    case (Suc k)
    have "days_before_year (y + int (Suc k)) = days_before_year (y + int k) + year_length (y + int k)"
      using days_before_year_Suc [of "y + int k"] by (simp add: ac_simps)
    with Suc show ?case by (simp add: year_length_def split: if_splits)
  qed simp
  assume "y \<le> z"
  then show ?thesis using step [of "nat (z - y)"] by simp
qed

lemma year_of_day_range:
  assumes "0 \<le> n" "n < 3652059"
  shows "1 \<le> year_of_day n \<and> year_of_day n \<le> 9999"
proof (rule ccontr)
  assume "\<not> ?thesis"
  then consider "year_of_day n + 1 \<le> 1" | "10000 \<le> year_of_day n" by linarith
  then show False
  proof cases
    case 1
    then have "days_before_year (year_of_day n + 1) \<le> days_before_year 1" by (rule days_before_year_mono)
    then show False using year_of_day_bounds [of n] assms by (simp add: days_before_year_def)
  next
    case 2
    then have "days_before_year 10000 \<le> days_before_year (year_of_day n)" by (rule days_before_year_mono)
    then show False using year_of_day_bounds [of n] assms by (simp add: days_before_year_def)
  qed
qed

lemma time_of_day_split:
  fixes us :: int
  assumes "0 \<le> us" "us < 86400000000"
  shows "((us div 3600000000 * 60 + us div 60000000 mod 60) * 60 + us div 1000000 mod 60) * 1000000
      + us mod 1000000 = us"
    and "us div 3600000000 < 24"
proof -
  define s where "s = us div 1000000"
  define m where "m = s div 60"
  have "us div 60000000 = m" "us div 3600000000 = m div 60"
    by (simp_all add: s_def m_def flip: zdiv_zmult2_eq)
  moreover have "us = s * 1000000 + us mod 1000000" "s = m * 60 + s mod 60" "m = m div 60 * 60 + m mod 60"
    by (simp_all add: s_def m_def)
  ultimately show "((us div 3600000000 * 60 + us div 60000000 mod 60) * 60 + us div 1000000 mod 60) * 1000000
      + us mod 1000000 = us" by (simp add: s_def [symmetric])
  show "us div 3600000000 < 24" using assms by linarith
qed

lemma civil_of_inverse:
  assumes "0 \<le> i" "i < max_instant"
  shows "valid_civil (civil_of i) \<and> instant_of (civil_of i) = i"
proof -
  define n where "n = i div day_micros"
  define us where "us = i mod day_micros"
  have i: "i = n * day_micros + us" by (simp add: n_def us_def)
  have us: "0 \<le> us" "us < 86400000000" by (simp_all add: us_def day_micros_def)
  have "0 \<le> n" "n < 3652059"
    using assms us unfolding i max_instant_def day_micros_def by linarith+
  then have y: "1 \<le> year_of_day n" "year_of_day n \<le> 9999" using year_of_day_range by blast+
  let ?y = "year_of_day n"
  have b: "1 \<le> n - days_before_year ?y + 1" "n - days_before_year ?y + 1 \<le> sum_list (month_lengths ?y)"
    using year_of_day_bounds [of n] by (simp_all add: days_before_year_Suc month_lengths_sum)
  obtain k d where kd: "split_days (month_lengths ?y) (n - days_before_year ?y + 1) 1 = (1 + int k, d)"
    "k < 12" "1 \<le> d" "d \<le> month_lengths ?y ! k"
    "n - days_before_year ?y + 1 = sum_list (take k (month_lengths ?y)) + d"
    using split_days_inverse [OF b, of 1] by auto
  have c: "civil_of i = \<lparr>cv_year = ?y, cv_month = 1 + int k, cv_day = d, cv_hour = us div 3600000000,
      cv_minute = us div 60000000 mod 60, cv_second = us div 1000000 mod 60, cv_micro = us mod 1000000\<rparr>"
    by (simp add: civil_of_def Let_def kd(1) flip: n_def us_def)
  have h: "0 \<le> us div 3600000000" using us(1) by (simp only: pos_imp_zdiv_nonneg_iff)
  have k: "nat (1 + int k - 1) = k" by simp
  have "valid_civil (civil_of i)"
    unfolding c valid_civil_def civil.simps k
    using y kd(2-4) h time_of_day_split(2) [OF us] by (intro conjI) simp_all
  moreover have "instant_of (civil_of i) = i"
  proof -
    have days: "days_before_year ?y + (sum_list (take k (month_lengths ?y)) + d) - 1 = n"
      using kd(5) by simp
    show ?thesis
      unfolding c instant_of_def civil.simps k add.assoc days time_of_day_split(1) [OF us]
      by (rule i [symmetric])
  qed
  ultimately show ?thesis by simp
qed

section \<open>Reading and writing timestamps\<close>

definition digits_val :: "pystr \<Rightarrow> int" where
  "digits_val s = foldl (\<lambda>a c. a * 10 + (int c - 48)) 0 s"

definition piece :: "nat \<Rightarrow> nat \<Rightarrow> pystr \<Rightarrow> int" where
  "piece i n s = digits_val (take n (drop i s))"

definition civil_of_text :: "pystr \<Rightarrow> civil" where
  \<comment> \<open>the fields of a text that \<open>TIMESTAMP_RE\<close> matches\<close>
  "civil_of_text s =
     \<lparr>cv_year = piece 0 4 s, cv_month = piece 5 2 s, cv_day = piece 8 2 s, cv_hour = piece 11 2 s,
      cv_minute = piece 14 2 s, cv_second = piece 17 2 s, cv_micro = piece 20 6 s\<rparr>"

definition strptime_utc :: "pystr \<Rightarrow> int result" where
  \<comment> \<open>\<open>datetime.strptime(s, "%Y-%m-%dT%H:%M:%S.%fZ").replace(tzinfo=UTC)\<close>, on the texts of
    \<open>TIMESTAMP_RE\<close>, the only ones the code passes\<close>
  "strptime_utc s =
     (if fullmatch TIMESTAMP_RE s \<and> valid_civil (civil_of_text s)
      then Inr (instant_of (civil_of_text s)) else Inl ValueError)"

fun digits_text :: "nat \<Rightarrow> int \<Rightarrow> pystr" where
  "digits_text 0 n = []"
| "digits_text (Suc k) n = digits_text k (n div 10) @ [48 + nat (n mod 10)]"

definition strftime_utc :: "int \<Rightarrow> pystr" where
  \<comment> \<open>\<open>strftime("%Y-%m-%dT%H:%M:%S.%fZ")\<close>, whose documented \<open>%Y\<close> is 0001 to 9999\<close>
  "strftime_utc i =
     (let c = civil_of i
      in digits_text 4 (cv_year c) @ lit ''-'' @ digits_text 2 (cv_month c) @ lit ''-'' @ digits_text 2 (cv_day c)
         @ lit ''T'' @ digits_text 2 (cv_hour c) @ lit '':'' @ digits_text 2 (cv_minute c) @ lit '':''
         @ digits_text 2 (cv_second c) @ lit ''.'' @ digits_text 6 (cv_micro c) @ lit ''Z'')"

text \<open>
  A \<open>datetime\<close>: its local fields, as microseconds since 0001-01-01, and its UTC offset, \<open>None\<close> for a
  naive one. Conversion to UTC overflows outside years 1 to 9999.
\<close>

record py_datetime =
  dt_local :: int
  dt_offset :: "int option"

definition astimezone_utc :: "py_datetime \<Rightarrow> int result" where
  \<comment> \<open>the code's check that a \<open>datetime\<close> is aware, then \<open>astimezone(UTC)\<close>\<close>
  "astimezone_utc t =
     (case dt_offset t of
        None \<Rightarrow> Inl ValueError
      | Some offset \<Rightarrow>
          let i = dt_local t - offset
          in if 0 \<le> i \<and> i < max_instant then Inr i else Inl OverflowError)"

datatype time_value = Wire_value pyval | Datetime py_datetime

definition utc_timestamp :: "time_value \<Rightarrow> pystr result" where
  "utc_timestamp value =
     (case value of
        Datetime t \<Rightarrow> bindE (astimezone_utc t) (\<lambda>i. Inr (strftime_utc i))
      | Wire_value v \<Rightarrow>
          (case v of
             PStr s \<Rightarrow>
               if \<not> fullmatch TIMESTAMP_RE s then Inl ValueError
               else bindE (catchE (strptime_utc s) is_value_error ValueError) (\<lambda>_. Inr s)
           | _ \<Rightarrow> Inl ValueError))"

definition timestamp_text :: "pystr \<Rightarrow> bool" where
  "timestamp_text s \<longleftrightarrow> fullmatch TIMESTAMP_RE s \<and> valid_civil (civil_of_text s)"

lemma utc_timestamp_wire_ok [ok_iff]:
  "utc_timestamp (Wire_value v) = Inr s \<longleftrightarrow> v = PStr s \<and> timestamp_text s"
  by (auto simp: utc_timestamp_def strptime_utc_def timestamp_text_def split: pyval.splits)

lemma utc_timestamp_error: "utc_timestamp (Wire_value v) = Inl e \<Longrightarrow> e = ValueError"
  by (auto simp: utc_timestamp_def strptime_utc_def bindE_eq_Inl split: pyval.splits if_splits)

lemma strptime_utc_ok [ok_iff]:
  "strptime_utc s = Inr i \<longleftrightarrow> timestamp_text s \<and> i = instant_of (civil_of_text s)"
  by (auto simp: strptime_utc_def timestamp_text_def)

definition optional_timestamp :: "time_value \<Rightarrow> pystr option result" where
  \<comment> \<open>\<open>if value is not None: value = utc_timestamp(value)\<close>\<close>
  "optional_timestamp t =
     (if t = Wire_value PNone then Inr None else bindE (utc_timestamp t) (\<lambda>s. Inr (Some s)))"

lemma optional_timestamp_wire_ok [ok_iff]:
  "optional_timestamp (Wire_value v) = Inr t \<longleftrightarrow>
     v = opt_str t \<and> (\<forall>s. t = Some s \<longrightarrow> timestamp_text s)"
  by (cases t) (auto simp: optional_timestamp_def ok_iff)

lemma length_digits_text [simp]: "length (digits_text k n) = k"
  by (induction k arbitrary: n) simp_all

lemma digits_text_digits: "c \<in> set (digits_text k n) \<Longrightarrow> in_class digit_class c"
  by (induction k arbitrary: n) auto

lemma digits_val_text: "digits_val (digits_text k n) = n mod 10 ^ k"
proof (induction k arbitrary: n)
  case 0
  then show ?case by (simp add: digits_val_def)
next
  case (Suc k)
  have "digits_val (digits_text (Suc k) n) = digits_val (digits_text k (n div 10)) * 10 + n mod 10"
    by (simp add: digits_val_def)
  also have "\<dots> = n mod (10 * 10 ^ k)" by (simp add: Suc mod_mult2_eq zmod_zmult2_eq mult.commute)
  finally show ?case by simp
qed

lemma TIMESTAMP_RE_intro:
  assumes "length a = 4" "length b = 2" "length c = 2" "length d = 2" "length e = 2" "length f = 2"
    and "length g = 6" and "\<forall>x\<in>set (a @ b @ c @ d @ e @ f @ g). in_class digit_class x"
  shows "fullmatch TIMESTAMP_RE (a @ lit ''-'' @ b @ lit ''-'' @ c @ lit ''T'' @ d @ lit '':'' @ e @ lit '':'' @ f
    @ lit ''.'' @ g @ lit ''Z'')"
proof -
  have dig: "x \<in> rx_lang (digits_rx (length x))" if "\<forall>y\<in>set x. in_class digit_class y" for x
    using that by (simp only: Rep_Cls_iff order_refl)
  have seq: "u \<in> rx_lang p \<Longrightarrow> v \<in> rx_lang q \<Longrightarrow> u @ v \<in> rx_lang (Seq p q)" for u v p q
    by auto
  have one: "t \<in> rx_lang (Lit t)" for t by simp
  show ?thesis
    unfolding fullmatch_iff TIMESTAMP_RE_def
    using dig [of a] dig [of b] dig [of c] dig [of d] dig [of e] dig [of f] dig [of g] assms
    by (intro seq one) auto
qed

lemma month_length_bound: "k < 12 \<Longrightarrow> month_lengths y ! k \<le> 31"
proof -
  have "\<forall>l\<in>set (month_lengths y). l \<le> 31" by (simp add: month_lengths_def)
  then show "k < 12 \<Longrightarrow> month_lengths y ! k \<le> 31" by (simp add: list_all_iff [symmetric] list_all_length)
qed

lemma valid_civil_day: "valid_civil c \<Longrightarrow> cv_day c \<le> 31"
proof -
  assume v: "valid_civil c"
  then have "nat (cv_month c - 1) < 12" by (auto simp: valid_civil_def nat_less_iff)
  from month_length_bound [OF this, of "cv_year c"] v show "cv_day c \<le> 31"
    by (simp add: valid_civil_def)
qed

lemma civil_of_strftime:
  assumes "0 \<le> i" "i < max_instant"
  shows "timestamp_text (strftime_utc i) \<and> civil_of_text (strftime_utc i) = civil_of i"
proof -
  have v: "valid_civil (civil_of i)" using civil_of_inverse [OF assms] by simp
  let ?c = "civil_of i"
  have "fullmatch TIMESTAMP_RE (strftime_utc i)"
    unfolding strftime_utc_def Let_def
    by (intro TIMESTAMP_RE_intro) (auto dest!: digits_text_digits simp del: digits_text.simps)
  moreover have civ: "civil_of_text (strftime_utc i) = ?c"
  proof (rule civil.equality)
  qed (use v valid_civil_day [OF v] in \<open>simp_all add: civil_of_text_def piece_def strftime_utc_def Let_def digits_val_text
      valid_civil_def del: digits_text.simps\<close>)
  ultimately show ?thesis using v by (simp add: timestamp_text_def)
qed


lemma epoch_2099: "civil_of 66206505600000000 = \<lparr>cv_year = 2099, cv_month = 1, cv_day = 1, cv_hour = 0,
    cv_minute = 0, cv_second = 0, cv_micro = 0\<rparr>"
  by code_simp


end
