(* ===== verification/Multipart.thy ===== *)
theory Multipart
  imports Digest Timestamps
begin

text \<open>
  \<open>contracts/multipart.py\<close>: the advertised limits and the part count they allow, sessions, parts, and
  the check of a completed upload. The protocol \<open>MultipartAdapter\<close> declares operations of adapters
  and has no code.
\<close>

section \<open>Limits\<close>

record multipart_limits =
  ml_min_part_bytes :: int
  ml_max_part_bytes :: int
  ml_max_parts :: int

definition MultipartLimits_init :: "pyval \<Rightarrow> pyval \<Rightarrow> pyval \<Rightarrow> multipart_limits result" where
  "MultipartLimits_init min_part_bytes max_part_bytes max_parts =
     bindE (positive_int min_part_bytes) (\<lambda>minimum.
     bindE (positive_int max_part_bytes) (\<lambda>maximum.
     bindE (positive_int max_parts) (\<lambda>parts.
     if minimum > maximum then Inl (ObjectError MultipartInvalid)
     else Inr \<lparr>ml_min_part_bytes = minimum, ml_max_part_bytes = maximum, ml_max_parts = parts\<rparr>)))"

definition MultipartLimits_validate :: "multipart_limits \<Rightarrow> pyval \<Rightarrow> int option \<Rightarrow> int option result" where
  "MultipartLimits_validate limits part_size total_length =
     bindE (positive_int part_size) (\<lambda>bytes.
     if \<not> (ml_min_part_bytes limits \<le> bytes \<and> bytes \<le> ml_max_part_bytes limits)
     then Inl (ObjectError MultipartInvalid)
     else
       (case total_length of
          None \<Rightarrow> Inr None
        | Some whole \<Rightarrow>
            if whole < 0 then Inl (ObjectError MultipartInvalid)
            else
              let needed = max 1 ((whole + bytes - 1) div bytes)
              in if needed > ml_max_parts limits then Inl (ObjectError MultipartInvalid) else Inr (Some needed)))"

definition MultipartLimits_to_dict :: "multipart_limits \<Rightarrow> pydict" where
  "MultipartLimits_to_dict limits =
     [fld ''minPartBytes'' (PInt (ml_min_part_bytes limits)),
      fld ''maxPartBytes'' (PInt (ml_max_part_bytes limits)),
      fld ''maxParts'' (PInt (ml_max_parts limits))]"

definition wf_limits :: "multipart_limits \<Rightarrow> bool" where
  "wf_limits l \<longleftrightarrow>
     0 < ml_min_part_bytes l \<and> ml_min_part_bytes l \<le> ml_max_part_bytes l \<and> 0 < ml_max_parts l"

lemma MultipartLimits_init_ok [ok_iff]:
  "MultipartLimits_init a b c = Inr l \<longleftrightarrow>
     wf_limits l \<and> a = PInt (ml_min_part_bytes l) \<and> b = PInt (ml_max_part_bytes l) \<and> c = PInt (ml_max_parts l)"
  by (cases l) (auto simp: MultipartLimits_init_def ok_iff wf_limits_def)

lemma ceiling_count:
  fixes whole bytes :: int
  assumes "0 < bytes" and "0 \<le> whole"
  defines "needed \<equiv> max 1 ((whole + bytes - 1) div bytes)"
  shows "1 \<le> needed" and "whole \<le> needed * bytes" and "1 \<le> n \<Longrightarrow> whole \<le> n * bytes \<Longrightarrow> needed \<le> n"
proof -
  let ?q = "(whole + bytes - 1) div bytes"
  have q: "?q * bytes \<le> whole + bytes - 1" "whole + bytes - 1 < ?q * bytes + bytes"
    using assms(1) div_mult_mod_eq [of "whole + bytes - 1" bytes] pos_mod_bound [OF assms(1), of "whole + bytes - 1"]
      pos_mod_sign [OF assms(1), of "whole + bytes - 1"] by linarith+
  show "1 \<le> needed" by (simp add: needed_def)
  have "?q * bytes \<le> needed * bytes" using assms(1) by (intro mult_right_mono) (simp_all add: needed_def)
  then show "whole \<le> needed * bytes" using q by linarith
  assume n: "1 \<le> n" "whole \<le> n * bytes"
  have "?q * bytes < (n + 1) * bytes" using q(1) n(2) by (simp add: algebra_simps)
  then have "?q < n + 1" using assms(1) by (simp only: mult_less_cancel_right)
  then show "needed \<le> n" using n(1) by (simp add: needed_def)
qed

definition plan_exists :: "multipart_limits \<Rightarrow> int \<Rightarrow> int \<Rightarrow> bool" where
  \<comment> \<open>an object of \<open>whole\<close> bytes can be uploaded in parts of at most \<open>bytes\<close> within the limits\<close>
  "plan_exists l bytes whole \<longleftrightarrow>
     ml_min_part_bytes l \<le> bytes \<and> bytes \<le> ml_max_part_bytes l
     \<and> (\<exists>n. 1 \<le> n \<and> n \<le> ml_max_parts l \<and> whole \<le> n * bytes)"



section \<open>Sessions\<close>

definition MULTIPART_SESSION_FORMAT_VERSION :: string where
  "MULTIPART_SESSION_FORMAT_VERSION = ''meridian.object.multipart-session.v1''"

record multipart_session =
  ms_session_id :: pystr
  ms_object_ref :: object_reference
  ms_part_size :: int
  ms_expires_at :: "pystr option"

definition MultipartSession_init ::
    "('m) core_scheme \<Rightarrow> pyval \<Rightarrow> object_reference \<Rightarrow> pyval \<Rightarrow> time_value \<Rightarrow> pyval \<Rightarrow> multipart_session result" where
  "MultipartSession_init c session_id object_ref part_size expires_at format_version =
     bindE (token session_id) (\<lambda>i.
     bindE (parse_object_reference c (Ref_object object_ref) False) (\<lambda>r.
     bindE (positive_int part_size) (\<lambda>n.
     bindE (optional_timestamp expires_at) (\<lambda>t.
     if \<not> str_equal format_version MULTIPART_SESSION_FORMAT_VERSION then Inl ValueError
     else Inr \<lparr>ms_session_id = i, ms_object_ref = r, ms_part_size = n, ms_expires_at = t\<rparr>))))"

definition MultipartSession_to_dict :: "('m) core_scheme \<Rightarrow> multipart_session \<Rightarrow> pydict" where
  "MultipartSession_to_dict c m =
     [fld ''formatVersion'' (PStr (lit MULTIPART_SESSION_FORMAT_VERSION)),
      fld ''sessionId'' (PStr (ms_session_id m)),
      fld ''objectRef'' (PDict (ObjectReference_to_dict c (ms_object_ref m))),
      fld ''partSize'' (PInt (ms_part_size m)),
      fld ''expiresAt'' (opt_str (ms_expires_at m))]"

definition MultipartSession_from_mapping :: "('m) core_scheme \<Rightarrow> pydict \<Rightarrow> multipart_session result" where
  "MultipartSession_from_mapping c value =
     bindE (exact_fields value [''formatVersion'', ''sessionId'', ''objectRef'', ''partSize'', ''expiresAt''] []) (\<lambda>_.
     bindE (dget_req value ''objectRef'') (\<lambda>raw_ref.
     bindE (json_mapping raw_ref) (\<lambda>rd.
     bindE (dget_req value ''sessionId'') (\<lambda>i.
     bindE (parse_object_reference c (Ref_mapping rd) False) (\<lambda>r.
     bindE (dget_req value ''partSize'') (\<lambda>n.
     bindE (dget_req value ''expiresAt'') (\<lambda>t.
     bindE (dget_req value ''formatVersion'') (\<lambda>f.
     MultipartSession_init c i r n (Wire_value t) f))))))))"

text \<open>
  Sessions survive their wire document: under the contract of \<open>ObjectReference\<close>, whatever
  \<open>from_mapping\<close> accepts is printed to a document that parses to the same session.
\<close>

lemma multipart_session_documents:
  assumes "reference_contract c" and "MultipartSession_from_mapping c d = Inr m"
  shows "MultipartSession_from_mapping c (MultipartSession_to_dict c m) = Inr m
    \<and> constructed c (ms_object_ref m) \<and> 0 < ms_part_size m"
proof -
  obtain r0 where m: "opaque_token (ms_session_id m)" "0 < ms_part_size m"
    "\<forall>s. ms_expires_at m = Some s \<longrightarrow> timestamp_text s"
    and r: "parse_object_reference c (Ref_object r0) False = Inr (ms_object_ref m)"
    using assms(2) by (auto simp: MultipartSession_from_mapping_def MultipartSession_init_def ok_iff str_equal_def)
  have con: "constructed c (ms_object_ref m)" using parse_reference_constructed(1) [OF assms(1) r] .
  note again = parse_reference_print [OF assms(1) con, of False] parse_reference_again [OF con, of False]
  have "MultipartSession_init c (PStr (ms_session_id m)) (ms_object_ref m) (PInt (ms_part_size m))
      (Wire_value (opt_str (ms_expires_at m))) (PStr (lit MULTIPART_SESSION_FORMAT_VERSION)) = Inr m"
    using m again
    by (auto simp: MultipartSession_init_def ok_iff str_equal_def intro!: exI [of _ "ms_expires_at m"])
  then show ?thesis
    using con m again
    by (auto simp: MultipartSession_from_mapping_def MultipartSession_to_dict_def ok_iff wire_simps)
qed

section \<open>Parts and completion\<close>

record multipart_part =
  mp_number :: int
  mp_identity :: content_identity
  mp_verification_token :: pystr

definition MultipartPart_init :: "pyval \<Rightarrow> content_identity \<Rightarrow> pyval \<Rightarrow> multipart_part result" where
  "MultipartPart_init number identity verification_token =
     bindE (positive_int number) (\<lambda>n.
     bindE (token verification_token) (\<lambda>t.
     Inr \<lparr>mp_number = n, mp_identity = identity, mp_verification_token = t\<rparr>))"

definition MultipartPart_to_dict :: "multipart_part \<Rightarrow> pydict" where
  "MultipartPart_to_dict p =
     [fld ''number'' (PInt (mp_number p)),
      fld ''identity'' (PDict (ContentIdentity_to_dict (mp_identity p))),
      fld ''verificationToken'' (PStr (mp_verification_token p))]"

record multipart_completion =
  mc_parts :: "multipart_part list"
  mc_identity :: content_identity

definition MultipartCompletion_init :: "multipart_part list \<Rightarrow> content_identity \<Rightarrow> multipart_completion result" where
  "MultipartCompletion_init given identity =
     (let parts = sort_key mp_number given
      in if parts = [] then Inl (ObjectError MultipartInvalid)
         else if map mp_number parts \<noteq> [1..int (length parts)] then Inl (ObjectError MultipartInvalid)
         else if sum_list (map (ci_byte_length \<circ> mp_identity) parts) \<noteq> ci_byte_length identity
         then Inl (ObjectError MultipartInvalid)
         else Inr \<lparr>mc_parts = parts, mc_identity = identity\<rparr>)"

definition MultipartCompletion_to_dict :: "multipart_completion \<Rightarrow> pydict" where
  "MultipartCompletion_to_dict m =
     [fld ''parts'' (PList (map (PDict \<circ> MultipartPart_to_dict) (mc_parts m))),
      fld ''identity'' (PDict (ContentIdentity_to_dict (mc_identity m)))]"

lemma sorted_numbers:
  assumes "mset (map mp_number given) = mset [1..int (length given)]"
  shows "map mp_number (sort_key mp_number given) = [1..int (length given)]"
proof -
  have "sorted (map mp_number (sort_key mp_number given))" by (rule sorted_sort_key)
  moreover have "mset (map mp_number (sort_key mp_number given)) = mset [1..int (length given)]"
    using assms by simp
  moreover have "sorted [1..int (length given)]" by simp
  ultimately show ?thesis by (metis properties_for_sort)
qed

text \<open>
  C26. Completion of a multipart upload, decided: it succeeds exactly when the submitted parts, in
  whatever order, are numbered 1 to n without gap or repetition and their lengths add up to the
  object's; the stored parts are then the submitted ones in part order. Otherwise it raises
  \<open>MultipartInvalid\<close>.
\<close>

theorem completion_decided:
  "if given \<noteq> [] \<and> mset (map mp_number given) = mset [1..int (length given)]
      \<and> sum_list (map (ci_byte_length \<circ> mp_identity) given) = ci_byte_length identity
   then \<exists>c. MultipartCompletion_init given identity = Inr c \<and> mc_identity c = identity
          \<and> mset (mc_parts c) = mset given \<and> map mp_number (mc_parts c) = [1..int (length given)]
   else MultipartCompletion_init given identity = Inl (ObjectError MultipartInvalid)"
proof -
  have whole: "sum_list (map (ci_byte_length \<circ> mp_identity) (sort_key mp_number given)) =
      sum_list (map (ci_byte_length \<circ> mp_identity) given)"
    by (metis mset_map mset_sort sum_mset_sum_list)
  have numbers: "map mp_number (sort_key mp_number given) = [1..int (length given)] \<longleftrightarrow>
      mset (map mp_number given) = mset [1..int (length given)]"
    using sorted_numbers [of given] by (metis mset_map mset_sort)
  have "sort_key mp_number given = [] \<longleftrightarrow> given = []"
    by (metis length_0_conv length_sort)
  then show ?thesis
    using whole numbers by (auto simp: MultipartCompletion_init_def Let_def)
qed

text \<open>
  C29. Assembling an object from its pieces: if the parts submitted, in any order, are the pieces of
  some data with their numbers and content identities, the completion against the identity of the
  whole succeeds, and reading the stored parts in order gives back the identities of the pieces.
\<close>

theorem completion_assembles:
  assumes "pieces \<noteq> []"
    and "mset given = mset (map (\<lambda>(n, piece). \<lparr>mp_number = n, mp_identity = identity_of piece, mp_verification_token = t n\<rparr>)
                            (zip [1..int (length pieces)] pieces))"
  shows "\<exists>c. MultipartCompletion_init given (identity_of (concat pieces)) = Inr c
    \<and> map mp_identity (mc_parts c) = map identity_of pieces"
proof -
  let ?part = "\<lambda>(n, piece). \<lparr>mp_number = n, mp_identity = identity_of piece, mp_verification_token = t n\<rparr>"
  let ?parts = "map ?part (zip [1..int (length pieces)] pieces)"
  have nums: "map mp_number ?parts = [1..int (length pieces)]"
    and ids: "map mp_identity ?parts = map identity_of pieces"
    using map_fst_zip [of "[1..int (length pieces)]" pieces] map_snd_zip [of "[1..int (length pieces)]" pieces]
    by (simp_all add: split_def comp_def del: map_fst_zip map_snd_zip)
      (metis (no_types, lifting) comp_apply map_eq_conv map_map)
  have len: "length ?parts = length pieces" by simp
  have "sorted (map mp_number ?parts)" unfolding nums by simp
  then have sorted: "sort_key mp_number ?parts = ?parts" by (rule sort_key_id_if_sorted)
  have "distinct (map mp_number ?parts)" unfolding nums by simp
  from sort_key_unique [OF this assms(2) [symmetric]] sorted
  have same: "sort_key mp_number given = ?parts" by simp
  have sums: "sum_list (map ci_byte_length (map identity_of pieces)) = ci_byte_length (identity_of (concat pieces))"
    by (induction pieces) (simp_all add: identity_of_def)
  have "sum_list (map (ci_byte_length \<circ> mp_identity) ?parts) = ci_byte_length (identity_of (concat pieces))"
    unfolding map_map [symmetric, of ci_byte_length mp_identity] ids by (rule sums)
  then have "MultipartCompletion_init given (identity_of (concat pieces)) =
      Inr \<lparr>mc_parts = ?parts, mc_identity = identity_of (concat pieces)\<rparr>"
    using assms(1) nums unfolding MultipartCompletion_init_def Let_def same by auto
  then show ?thesis using ids by simp
qed

theorem completion_assembles_witness:
  "\<exists>c. MultipartCompletion_init
       [\<lparr>mp_number = 2, mp_identity = identity_of [3], mp_verification_token = lit ''b''\<rparr>,
        \<lparr>mp_number = 1, mp_identity = identity_of [1, 2], mp_verification_token = lit ''b''\<rparr>]
       (identity_of [1, 2, 3]) = Inr c \<and> map mp_identity (mc_parts c) = [identity_of [1, 2], identity_of [3]]"
  using completion_assembles [of "[[1, 2], [3]]" _ "\<lambda>_. lit ''b''"]
  by (simp add: upto.simps)

end
