(* ===== verification/Capabilities.thy ===== *)
theory Capabilities
  imports Core
begin

text \<open>
  \<open>capabilities.py\<close>: the names of guarantees and limits, requirements on Object operations, and
  negotiation against an Adapter's manifest. Manifests, requirements and the comparison
  \<open>capability_violations\<close> belong to Core; the record \<open>catalog_core\<close> extends \<open>core\<close> by what this
  file and \<open>catalog.py\<close> use of them. \<open>set_order\<close> is the iteration order of a Python set, of which
  only \<open>lists_sets\<close> is known.
\<close>

section \<open>Core's capability and catalog classes\<close>

record capability_requirement =
  cr_operation_contract :: pystr
  cr_operation_version :: pystr
  cr_guarantees :: "string list"
  cr_minimum_limits :: "(string \<times> int) list"

record capability_violation =
  cv_requirement :: capability_requirement
  cv_reason :: pystr

record capability_manifest =
  km_adapter_id :: pystr
  km_fingerprint :: pystr
  km_content :: pyval

record expression =
  ex_catalog :: pystr
  ex_method :: pystr
  ex_arguments :: pydict

record operation_contract =
  oc_method :: pystr
  oc_operation_contract :: pystr
  oc_operation_version :: pystr
  oc_read_only :: bool
  oc_idempotency :: pystr
  oc_guarantees :: "string list"

record catalog_manifest =
  cm_catalog_name :: pystr
  cm_package_name :: pystr
  cm_package_version :: pystr
  cm_catalog_contract_version :: pystr
  cm_operations :: "operation_contract list"
  cm_extensions :: pydict

record operation =
  on_catalog :: pystr
  on_operation_contract :: pystr
  on_operation_version :: pystr
  on_resources :: "resource_ref list"
  on_input :: pydict
  on_requirements :: "capability_requirement list"
  on_read_only :: bool
  on_idempotent :: bool

record catalog_core = core +
  new_Expression :: "expression \<Rightarrow> expression result"
  new_Operation :: "operation \<Rightarrow> operation result"
  new_CapabilityRequirement :: "capability_requirement \<Rightarrow> capability_requirement result"
  operation_for :: "catalog_manifest \<Rightarrow> pystr \<Rightarrow> operation_contract result"
  capability_violations ::
    "capability_manifest \<Rightarrow> capability_requirement list \<Rightarrow> capability_violation list"
  set_order :: "string set \<Rightarrow> string list"

definition lists_sets :: "('m) catalog_core_scheme \<Rightarrow> bool" where
  "lists_sets c \<longleftrightarrow> (\<forall>s. finite s \<longrightarrow> set (set_order c s) = s \<and> distinct (set_order c s))"

section \<open>Names\<close>

definition OBJECT_OPERATION_VERSION :: pystr where
  "OBJECT_OPERATION_VERSION = lit ''1.0.0''"

abbreviation (input) GUARANTEE_STREAMING :: string where "GUARANTEE_STREAMING \<equiv> ''object.streaming''"
abbreviation (input) GUARANTEE_DIGEST_SHA256 :: string where "GUARANTEE_DIGEST_SHA256 \<equiv> ''object.digest-sha256''"
abbreviation (input) GUARANTEE_DIGEST_VERIFICATION :: string where "GUARANTEE_DIGEST_VERIFICATION \<equiv> ''object.digest-verification''"
abbreviation (input) GUARANTEE_METADATA_AFTER_COMMIT :: string where "GUARANTEE_METADATA_AFTER_COMMIT \<equiv> ''object.metadata-after-commit''"
abbreviation (input) GUARANTEE_RANGE_READ :: string where "GUARANTEE_RANGE_READ \<equiv> ''object.range-read''"
abbreviation (input) GUARANTEE_CONDITIONAL_CREATE :: string where "GUARANTEE_CONDITIONAL_CREATE \<equiv> ''object.conditional-create''"
abbreviation (input) GUARANTEE_BOUNDED_PREFIX_LIST :: string where "GUARANTEE_BOUNDED_PREFIX_LIST \<equiv> ''object.bounded-prefix-list''"
abbreviation (input) GUARANTEE_EXACT_VERSION_DELETE :: string where "GUARANTEE_EXACT_VERSION_DELETE \<equiv> ''object.exact-version-delete''"
abbreviation (input) GUARANTEE_MULTIPART :: string where "GUARANTEE_MULTIPART \<equiv> ''object.multipart''"
abbreviation (input) GUARANTEE_IMMUTABILITY_INTENT :: string where "GUARANTEE_IMMUTABILITY_INTENT \<equiv> ''object.immutability-intent''"
abbreviation (input) GUARANTEE_RETENTION_INTENT :: string where "GUARANTEE_RETENTION_INTENT \<equiv> ''object.retention-intent''"
abbreviation (input) GUARANTEE_RETENTION_ENFORCEMENT :: string where "GUARANTEE_RETENTION_ENFORCEMENT \<equiv> ''object.retention-enforcement''"
abbreviation (input) GUARANTEE_SIGNED_REFERENCE :: string where "GUARANTEE_SIGNED_REFERENCE \<equiv> ''object.signed-reference''"
abbreviation (input) LIMIT_MAX_OBJECT_BYTES :: string where "LIMIT_MAX_OBJECT_BYTES \<equiv> ''object.max-object-bytes''"
abbreviation (input) LIMIT_MAX_RANGE_BYTES :: string where "LIMIT_MAX_RANGE_BYTES \<equiv> ''object.max-range-bytes''"
abbreviation (input) LIMIT_MAX_LIST_PAGE_SIZE :: string where "LIMIT_MAX_LIST_PAGE_SIZE \<equiv> ''object.max-list-page-size''"
abbreviation (input) LIMIT_MAX_USER_METADATA_ENTRIES :: string where "LIMIT_MAX_USER_METADATA_ENTRIES \<equiv> ''object.max-user-metadata-entries''"
abbreviation (input) LIMIT_MAX_MULTIPART_PARTS :: string where "LIMIT_MAX_MULTIPART_PARTS \<equiv> ''object.max-multipart-parts''"
abbreviation (input) LIMIT_MAX_MULTIPART_PART_BYTES :: string where "LIMIT_MAX_MULTIPART_PART_BYTES \<equiv> ''object.max-multipart-part-bytes''"

section \<open>Requirements and negotiation\<close>

definition operation_name :: "pystr \<Rightarrow> pystr" where
  "operation_name m = lit ''meridian.object.'' @ m"

definition object_requirement ::
    "('m) catalog_core_scheme \<Rightarrow> pystr \<Rightarrow> string list \<Rightarrow> (string \<times> int) list option \<Rightarrow> capability_requirement result" where
  "object_requirement c m guarantees minimum_limits =
     new_CapabilityRequirement c
       \<lparr>cr_operation_contract = operation_name m,
        cr_operation_version = OBJECT_OPERATION_VERSION,
        cr_guarantees = guarantees,
        cr_minimum_limits = (case minimum_limits of None \<Rightarrow> [] | Some l \<Rightarrow> l)\<rparr>"

record capability_report =
  rp_supported :: bool
  rp_violations :: "capability_violation list"
  rp_capability_fingerprint :: pystr

definition starts_with :: "pystr \<Rightarrow> pystr \<Rightarrow> bool" where
  \<comment> \<open>\<open>s.startswith(pre)\<close>\<close>
  "starts_with s pre \<longleftrightarrow> take (length pre) s = pre"

definition negotiate_object_capabilities ::
    "('m) catalog_core_scheme \<Rightarrow> capability_manifest \<Rightarrow> capability_requirement list \<Rightarrow> capability_report result" where
  "negotiate_object_capabilities c manifest selected =
     (if list_ex (\<lambda>item. \<not> starts_with (cr_operation_contract item) (lit ''meridian.object.'')) selected
      then Inl ValueError
      else
        let violations = capability_violations c manifest selected
        in Inr \<lparr>rp_supported = (violations = []), rp_violations = violations,
                rp_capability_fingerprint = km_fingerprint manifest\<rparr>)"

definition require_object_capabilities ::
    "('m) catalog_core_scheme \<Rightarrow> capability_manifest \<Rightarrow> capability_requirement list \<Rightarrow> pystr result" where
  "require_object_capabilities c manifest requirements =
     bindE (negotiate_object_capabilities c manifest requirements) (\<lambda>report.
     if \<not> rp_supported report then Inl (ObjectError ObjectCapabilityMismatch)
     else Inr (rp_capability_fingerprint report))"

lemma starts_with_iff: "starts_with s pre \<longleftrightarrow> (\<exists>t. s = pre @ t)"
  unfolding starts_with_def by (metis append_eq_conv_conj append_take_drop_id)

text \<open>
  Negotiation is decided: requirements outside the Object contracts are refused with
  \<open>ValueError\<close> before Core is asked; otherwise the manifest's fingerprint is returned exactly when
  Core reports no violation, and \<open>ObjectCapabilityMismatch\<close> is raised when it reports one.
\<close>

lemma negotiation_decided:
  "require_object_capabilities c manifest requirements =
     (if \<exists>q. q \<in> set requirements \<and> \<not> (\<exists>m. cr_operation_contract q = operation_name m) then Inl ValueError
      else if capability_violations c manifest requirements = [] then Inr (km_fingerprint manifest)
      else Inl (ObjectError ObjectCapabilityMismatch))"
  by (auto simp: require_object_capabilities_def negotiate_object_capabilities_def list_ex_iff
      starts_with_iff operation_name_def Let_def)

end
