(* ===== verification/Signed.thy ===== *)
theory Signed
  imports Metadata Timestamps
begin

text \<open>
  \<open>codec/signed.py\<close>: signers, the signature texts, signed logical references, signing and
  verification. A signer is a record of what the code calls on it; the locale
  \<open>reference_signer\<close> is the contract of a lawful one, and the HMAC-SHA-256 key of the package is
  its interpretation. Random bytes and the clock are arguments.
\<close>

section \<open>Signers\<close>

record signer =
  sg_key_id :: pystr
  sg_algorithm :: pystr
  sg_sign :: "bytes \<Rightarrow> bytes result"
  sg_verify :: "bytes \<Rightarrow> bytes \<Rightarrow> bool result"

record hmac_key =
  hk_key_id :: pystr
  hk_key :: bytes

definition HmacSha256Key_init :: "pyval \<Rightarrow> bytes \<Rightarrow> hmac_key result" where
  "HmacSha256Key_init key_id raw =
     (if length raw < 32 then Inl ValueError
      else bindE (token key_id) (\<lambda>i. Inr \<lparr>hk_key_id = i, hk_key = raw\<rparr>))"

definition HmacSha256Key_sign :: "hmac_key \<Rightarrow> bytes \<Rightarrow> bytes" where
  "HmacSha256Key_sign k value = hmac_sha256 (hk_key k) value"

definition HmacSha256Key_verify :: "hmac_key \<Rightarrow> bytes \<Rightarrow> bytes \<Rightarrow> bool" where
  "HmacSha256Key_verify k value signature \<longleftrightarrow> HmacSha256Key_sign k value = signature"

definition HmacSha256Key_repr :: "hmac_key \<Rightarrow> pystr" where
  \<comment> \<open>a token needs no escapes in its \<open>repr\<close>; the secret is not printed\<close>
  "HmacSha256Key_repr k = lit ''HmacSha256Key(key_id='' @ [39] @ hk_key_id k @ [39] @ lit '', key=<redacted>)''"

lemma repr_redacts: "HmacSha256Key_repr (k\<lparr>hk_key := secret\<rparr>) = HmacSha256Key_repr k"
  by (simp add: HmacSha256Key_repr_def)

definition hmac_signer :: "hmac_key \<Rightarrow> signer" where
  \<comment> \<open>the key used through the \<open>ReferenceSigner\<close> protocol\<close>
  "hmac_signer k =
     \<lparr>sg_key_id = hk_key_id k, sg_algorithm = lit ''hmac-sha256'',
      sg_sign = (\<lambda>v. Inr (HmacSha256Key_sign k v)),
      sg_verify = (\<lambda>v s. Inr (HmacSha256Key_verify k v s))\<rparr>"

section \<open>Signature texts\<close>

definition encode_signature :: "bytes \<Rightarrow> pystr result" where
  "encode_signature value =
     (if value = [] then Inl ValueError else Inr (rstrip_pad (urlsafe_b64encode value)))"

definition SIGNATURE_RE :: rx where
  \<comment> \<open>\<open>[A-Za-z0-9_-]+\<close>\<close>
  "SIGNATURE_RE = Many b64_class"

definition decode_signature :: "pystr \<Rightarrow> bytes result" where
  "decode_signature value =
     (if \<not> fullmatch SIGNATURE_RE value then Inl ValueError
      else
        bindE (catchE (b64decode_completed value) is_value_error ValueError) (\<lambda>raw.
        if raw = [] then Inl ValueError else Inr raw))"

definition signature_string :: "pyval \<Rightarrow> pystr result" where
  "signature_string value =
     (case value of
        PStr s \<Rightarrow>
          if s = [] \<or> length s > 2048 then Inl ValueError
          else bindE (decode_signature s) (\<lambda>_. Inr s)
      | _ \<Rightarrow> Inl ValueError)"

lemma SIGNATURE_RE_iff: "fullmatch SIGNATURE_RE s \<longleftrightarrow> s \<noteq> [] \<and> (\<forall>c\<in>set s. in_class b64_class c)"
  unfolding fullmatch_iff SIGNATURE_RE_def rx_lang.simps by blast

lemma decode_signature_ok:
  "(\<exists>raw. decode_signature s = Inr raw) \<longleftrightarrow>
     s \<noteq> [] \<and> (\<forall>c\<in>set s. in_class b64_class c) \<and> length s mod 4 \<noteq> 1"
proof -
  have "raw \<noteq> []" if "b64decode_completed s = Inr raw" "length s mod 4 \<noteq> 1" "s \<noteq> []" for raw
  proof -
    have "2 \<le> length s" using that by (cases s; cases "tl s") auto
    then have "0 < 3 * length s div 4" by (simp add: div_greater_zero_iff)
    then show ?thesis using length_b64decode [OF that(1)] by auto
  qed
  then show ?thesis
    using b64decode_ok [of s] unfolding decode_signature_def SIGNATURE_RE_iff
    by (auto simp del: in_class.simps)
qed

lemma decode_encode_signature:
  "encode_signature value = Inr s \<Longrightarrow> decode_signature s = Inr value"
proof -
  assume "encode_signature value = Inr s"
  then have v: "value \<noteq> []" "s = b64_text value" by (auto simp: encode_signature_def rstrip_b64 split: if_splits)
  have "b64_sextets (map unat value) \<noteq> []"
    using v(1) length_b64_sextets [of "map unat value"] by (cases "value") auto
  then have "s \<noteq> []" using v(2) by simp
  moreover have "\<forall>c\<in>set s. in_class b64_class c" using v(2) b64_text_alphabet by blast
  ultimately show ?thesis
    using v unfolding decode_signature_def SIGNATURE_RE_iff by (simp add: b64decode_encode del: in_class.simps)
qed

lemma decode_signature_error: "decode_signature s = Inl e \<Longrightarrow> e = ValueError"
  by (cases "b64decode_completed s")
    (auto simp: decode_signature_def dest: b64decode_error split: if_splits)

lemma checked_signature [raises_intros]: "checked (signature_string v)"
proof -
  have "checked (decode_signature s)" for s
    using decode_signature_error [of s] by (intro raises_onlyI) auto
  then show ?thesis by (cases v) (auto simp: signature_string_def intro!: raises_intros)
qed

definition signature_text :: "pystr \<Rightarrow> bool" where
  "signature_text s \<longleftrightarrow> length s \<le> 2048 \<and> (\<exists>raw. decode_signature s = Inr raw)"

lemma signature_string_ok [ok_iff]: "signature_string v = Inr s \<longleftrightarrow> v = PStr s \<and> signature_text s"
  using decode_signature_ok [of s]
  by (auto simp: signature_string_def signature_text_def split: pyval.splits simp del: in_class.simps)

section \<open>Signed references\<close>

definition SIGNED_REFERENCE_FORMAT_VERSION :: string where
  "SIGNED_REFERENCE_FORMAT_VERSION = ''meridian.object.signed-reference.v1''"

definition SIGNED_REFERENCE_OPERATIONS :: "pystr list" where
  "SIGNED_REFERENCE_OPERATIONS = map lit [''get'', ''read_range'', ''stat'']"

record signed_reference =
  sd_object_ref :: object_reference
  sd_allowed_operations :: "pystr list"
  sd_expires_at :: pystr
  sd_audience :: pystr
  sd_nonce :: pystr
  sd_key_id :: pystr
  sd_algorithm :: pystr
  sd_signature :: pystr

definition SignedObjectReference_init ::
    "('m) core_scheme \<Rightarrow> object_reference \<Rightarrow> pyval \<Rightarrow> time_value \<Rightarrow> pyval \<Rightarrow> pyval \<Rightarrow> pyval \<Rightarrow> pyval \<Rightarrow> pyval \<Rightarrow> pyval
     \<Rightarrow> signed_reference result" where
  "SignedObjectReference_init c object_ref allowed_operations expires_at audience nonce key_id algorithm signature
       format_version =
     bindE (parse_object_reference c (Ref_object object_ref) True) (\<lambda>reference.
     bindE (string_sequence allowed_operations) (\<lambda>operations.
     if operations = [] \<or> \<not> set operations \<subseteq> set SIGNED_REFERENCE_OPERATIONS then Inl ValueError
     else
       bindE (utc_timestamp expires_at) (\<lambda>t.
       bindE (bounded_string 256 audience) (\<lambda>a.
       bindE (token nonce) (\<lambda>n.
       bindE (token key_id) (\<lambda>k.
       bindE (token algorithm) (\<lambda>g.
       bindE (signature_string signature) (\<lambda>s.
       if \<not> str_equal format_version SIGNED_REFERENCE_FORMAT_VERSION then Inl ValueError
       else Inr \<lparr>sd_object_ref = reference, sd_allowed_operations = operations, sd_expires_at = t,
                 sd_audience = a, sd_nonce = n, sd_key_id = k, sd_algorithm = g, sd_signature = s\<rparr>))))))))"

definition SignedObjectReference_claims :: "('m) core_scheme \<Rightarrow> signed_reference \<Rightarrow> pydict" where
  "SignedObjectReference_claims c r =
     [fld ''formatVersion'' (PStr (lit SIGNED_REFERENCE_FORMAT_VERSION)),
      fld ''objectRef'' (PDict (ObjectReference_to_dict c (sd_object_ref r))),
      fld ''allowedOperations'' (PList (map PStr (sd_allowed_operations r))),
      fld ''expiresAt'' (PStr (sd_expires_at r)),
      fld ''audience'' (PStr (sd_audience r)),
      fld ''nonce'' (PStr (sd_nonce r)),
      fld ''keyId'' (PStr (sd_key_id r)),
      fld ''algorithm'' (PStr (sd_algorithm r))]"

definition SignedObjectReference_to_dict :: "('m) core_scheme \<Rightarrow> signed_reference \<Rightarrow> pydict" where
  "SignedObjectReference_to_dict c r =
     SignedObjectReference_claims c r @ [fld ''signature'' (PStr (sd_signature r))]"

definition SignedObjectReference_from_mapping :: "('m) core_scheme \<Rightarrow> pydict \<Rightarrow> signed_reference result" where
  "SignedObjectReference_from_mapping c value =
     bindE (exact_fields value
       [''formatVersion'', ''objectRef'', ''allowedOperations'', ''expiresAt'', ''audience'', ''nonce'',
        ''keyId'', ''algorithm'', ''signature''] []) (\<lambda>_.
     bindE (dget_req value ''objectRef'') (\<lambda>raw_ref.
     bindE (dget_req value ''allowedOperations'') (\<lambda>raw_operations.
     bindE (json_mapping raw_ref) (\<lambda>rd.
     bindE (case raw_operations of PList xs \<Rightarrow> Inr (PList xs) | _ \<Rightarrow> Inl TypeError) (\<lambda>ops.
     bindE (parse_object_reference c (Ref_mapping rd) True) (\<lambda>r.
     SignedObjectReference_init c r ops
       (Wire_value (dget_none value ''expiresAt'')) (dget_none value ''audience'') (dget_none value ''nonce'')
       (dget_none value ''keyId'') (dget_none value ''algorithm'') (dget_none value ''signature'')
       (dget_none value ''formatVersion'')))))))"

definition wf_signed :: "('m) core_scheme \<Rightarrow> signed_reference \<Rightarrow> bool" where
  "wf_signed c r \<longleftrightarrow>
     constructed c (sd_object_ref r) \<and> or_digest (sd_object_ref r) \<noteq> None
     \<and> sd_allowed_operations r \<noteq> [] \<and> set (sd_allowed_operations r) \<subseteq> set SIGNED_REFERENCE_OPERATIONS
     \<and> sorted (sd_allowed_operations r) \<and> distinct (sd_allowed_operations r)
     \<and> timestamp_text (sd_expires_at r) \<and> plain_text 256 (sd_audience r)
     \<and> opaque_token (sd_nonce r) \<and> opaque_token (sd_key_id r) \<and> opaque_token (sd_algorithm r)
     \<and> signature_text (sd_signature r)"

lemma signed_operations_plain: "s \<in> set SIGNED_REFERENCE_OPERATIONS \<Longrightarrow> plain_text 128 s"
  by (auto simp: SIGNED_REFERENCE_OPERATIONS_def plain_text_def lit_def is_surrogate_def is_control_def utf8_char_def)

lemma timestamp_of_any:
  assumes "utc_timestamp t = Inr s"
  shows "timestamp_text s"
proof (cases t)
  case (Wire_value v)
  then show ?thesis using assms by (simp add: ok_iff)
next
  case (Datetime d)
  then obtain i where i: "astimezone_utc d = Inr i" "s = strftime_utc i"
    using assms by (auto simp: utc_timestamp_def)
  then have "0 \<le> i" "i < max_instant"
    by (auto simp: astimezone_utc_def Let_def split: option.splits if_splits)
  then show ?thesis using civil_of_strftime i(2) by simp
qed

lemma signed_init_wf:
  assumes "reference_contract c" and "SignedObjectReference_init c o0 ops t a n k g s f = Inr r"
  shows "wf_signed c r"
proof -
  obtain operations where parts: "parse_object_reference c (Ref_object o0) True = Inr (sd_object_ref r)"
    "string_sequence ops = Inr operations" "operations = sd_allowed_operations r" "operations \<noteq> []"
    "set operations \<subseteq> set SIGNED_REFERENCE_OPERATIONS" "utc_timestamp t = Inr (sd_expires_at r)"
    "plain_text 256 (sd_audience r)" "opaque_token (sd_nonce r)" "opaque_token (sd_key_id r)"
    "opaque_token (sd_algorithm r)" "signature_text (sd_signature r)"
    using assms(2) by (auto simp: SignedObjectReference_init_def bounded_string_ok token_ok signature_string_ok)
  have "sorted operations" "distinct operations"
    using parts(2) by (auto simp: string_sequence_ok)
  then show ?thesis
    using parts parse_reference_constructed [OF assms(1) parts(1)] timestamp_of_any [OF parts(6)]
    by (simp add: wf_signed_def)
qed

lemma signed_init_again:
  assumes "wf_signed c r"
  shows "SignedObjectReference_init c (sd_object_ref r) (PList (map PStr (sd_allowed_operations r)))
      (Wire_value (PStr (sd_expires_at r))) (PStr (sd_audience r)) (PStr (sd_nonce r)) (PStr (sd_key_id r))
      (PStr (sd_algorithm r)) (PStr s) (PStr (lit SIGNED_REFERENCE_FORMAT_VERSION)) =
    (if signature_text s then Inr (r\<lparr>sd_signature := s\<rparr>) else Inl ValueError)"
proof -
  have wf: "constructed c (sd_object_ref r)" "or_digest (sd_object_ref r) \<noteq> None"
    "sd_allowed_operations r \<noteq> []" "set (sd_allowed_operations r) \<subseteq> set SIGNED_REFERENCE_OPERATIONS"
    "sorted (sd_allowed_operations r)" "distinct (sd_allowed_operations r)"
    "timestamp_text (sd_expires_at r)" "plain_text 256 (sd_audience r)"
    "opaque_token (sd_nonce r)" "opaque_token (sd_key_id r)" "opaque_token (sd_algorithm r)"
    using assms by (simp_all add: wf_signed_def)
  have "parse_object_reference c (Ref_object (sd_object_ref r)) True = Inr (sd_object_ref r)"
    using parse_reference_again wf(1,2) by blast
  moreover have "string_sequence (PList (map PStr (sd_allowed_operations r))) = Inr (sd_allowed_operations r)"
    unfolding string_sequence_ok using wf(4-6) signed_operations_plain
    by (intro exI [of _ "sd_allowed_operations r"]) (auto simp: sorted_sort_id)
  moreover have "utc_timestamp (Wire_value (PStr (sd_expires_at r))) = Inr (sd_expires_at r)"
    using wf(7) by (simp add: ok_iff)
  moreover have "bounded_string 256 (PStr (sd_audience r)) = Inr (sd_audience r)"
    using wf(8) by (simp add: bounded_string_ok)
  moreover have "token (PStr (sd_nonce r)) = Inr (sd_nonce r)" "token (PStr (sd_key_id r)) = Inr (sd_key_id r)"
    "token (PStr (sd_algorithm r)) = Inr (sd_algorithm r)"
    using wf(9-11) by (simp_all add: token_ok)
  moreover have "signature_string (PStr s) = (if signature_text s then Inr s else Inl ValueError)"
  proof (cases "signature_text s")
    case True
    then show ?thesis by (simp add: signature_string_ok)
  next
    case False
    then have "signature_string (PStr s) \<noteq> Inr x" for x by (auto simp: signature_string_ok)
    then show ?thesis
      using False decode_signature_error
      by (cases "decode_signature s") (auto simp: signature_string_def split: if_splits)
  qed
  ultimately show ?thesis
    using wf(3,4) by (simp add: SignedObjectReference_init_def str_equal_def)
qed

lemma signed_from_mapping_wf:
  "reference_contract c \<Longrightarrow> SignedObjectReference_from_mapping c d = Inr r \<Longrightarrow> wf_signed c r"
  by (auto simp: SignedObjectReference_from_mapping_def dest: signed_init_wf)

lemma signed_round_trip:
  assumes "reference_contract c" and "wf_signed c r"
  shows "SignedObjectReference_from_mapping c (SignedObjectReference_to_dict c r) = Inr r"
proof -
  have ref: "parse_object_reference c (Ref_mapping (ObjectReference_to_dict c (sd_object_ref r))) True
      = Inr (sd_object_ref r)"
    using parse_reference_print [OF assms(1)] assms(2) by (simp add: wf_signed_def)
  have "signature_text (sd_signature r)" using assms(2) by (simp add: wf_signed_def)
  then have again: "SignedObjectReference_init c (sd_object_ref r) (PList (map PStr (sd_allowed_operations r)))
      (Wire_value (PStr (sd_expires_at r))) (PStr (sd_audience r)) (PStr (sd_nonce r)) (PStr (sd_key_id r))
      (PStr (sd_algorithm r)) (PStr (sd_signature r)) (PStr (lit SIGNED_REFERENCE_FORMAT_VERSION)) = Inr r"
    using signed_init_again [OF assms(2), of "sd_signature r"] by simp
  show ?thesis
    unfolding SignedObjectReference_from_mapping_def SignedObjectReference_to_dict_def SignedObjectReference_claims_def
    using ref again by (auto simp: ok_iff wire_simps dget_none_def)
qed

section \<open>Signing and verifying\<close>

definition sign_object_reference ::
    "('m) core_scheme \<Rightarrow> bytes \<Rightarrow> reference_arg \<Rightarrow> pyval list \<Rightarrow> time_value \<Rightarrow> pyval \<Rightarrow> signer option \<Rightarrow> pystr option
     \<Rightarrow> signed_reference result" where
  \<comment> \<open>\<open>random\<close> are the 24 bytes of \<open>secrets.token_hex(24)\<close>; an object that is no signer is \<open>None\<close>\<close>
  "sign_object_reference c random object_ref allowed_operations expires_at audience signer nonce =
     (case signer of
        None \<Rightarrow> Inl TypeError
      | Some k \<Rightarrow>
          bindE (parse_object_reference c object_ref True) (\<lambda>reference.
          let selected_nonce = (if nonce = None \<or> nonce = Some [] then lit ''n_'' @ token_hex random else the nonce)
          in
          bindE (SignedObjectReference_init c reference (PList allowed_operations) expires_at audience
              (PStr selected_nonce) (PStr (sg_key_id k)) (PStr (sg_algorithm k)) (PStr (lit ''AA''))
              (PStr (lit SIGNED_REFERENCE_FORMAT_VERSION))) (\<lambda>unsigned.
          bindE (canonical_json_bytes c (SignedObjectReference_claims c unsigned)) (\<lambda>raw.
          bindE (sg_sign k raw) (\<lambda>mac.
          bindE (encode_signature mac) (\<lambda>signature.
          SignedObjectReference_init c (sd_object_ref unsigned) (PList (map PStr (sd_allowed_operations unsigned)))
            (Wire_value (PStr (sd_expires_at unsigned))) (PStr (sd_audience unsigned)) (PStr (sd_nonce unsigned))
            (PStr (sd_key_id unsigned)) (PStr (sd_algorithm unsigned)) (PStr signature)
            (PStr (lit SIGNED_REFERENCE_FORMAT_VERSION))))))))"

definition SignedObjectReference_verify ::
    "('m) core_scheme \<Rightarrow> int \<Rightarrow> signed_reference \<Rightarrow> signer \<Rightarrow> pystr \<Rightarrow> pystr \<Rightarrow> py_datetime option
     \<Rightarrow> object_reference result" where
  \<comment> \<open>\<open>clock\<close> is the instant of \<open>datetime.now(UTC)\<close>\<close>
  "SignedObjectReference_verify c clock r signer operation audience now =
     (if sg_key_id signer \<noteq> sd_key_id r \<or> sg_algorithm signer \<noteq> sd_algorithm r
      then Inl (ObjectError ObjectAuthorizationFailed)
      else if operation \<notin> set (sd_allowed_operations r) then Inl (ObjectError ObjectAuthorizationFailed)
      else if audience \<noteq> sd_audience r then Inl (ObjectError ObjectAuthorizationFailed)
      else
        let selected = (case now of None \<Rightarrow> \<lparr>dt_local = clock, dt_offset = Some 0\<rparr> | Some t \<Rightarrow> t)
        in if dt_offset selected = None then Inl ValueError
           else
             bindE (strptime_utc (sd_expires_at r)) (\<lambda>expiry.
             bindE (astimezone_utc selected) (\<lambda>i.
             if i \<ge> expiry then Inl (ObjectError ObjectAuthorizationFailed)
             else
               bindE (decode_signature (sd_signature r)) (\<lambda>signature.
               bindE (canonical_json_bytes c (SignedObjectReference_claims c r)) (\<lambda>raw.
               bindE (sg_verify signer raw signature) (\<lambda>valid.
               if \<not> valid then Inl (ObjectError ObjectAuthorizationFailed)
               else Inr (sd_object_ref r)))))))"

lemma claims_signature [simp]:
  "SignedObjectReference_claims c (r\<lparr>sd_signature := s\<rparr>) = SignedObjectReference_claims c r"
  by (simp add: SignedObjectReference_claims_def)

text \<open>What a signed reference is when signing succeeded.\<close>

lemma signed_parts:
  assumes "reference_contract c"
    and "sign_object_reference c random o0 ops t aud (Some k) nonce = Inr r"
  obtains raw mac where "wf_signed c r" "canonical_json_bytes c (SignedObjectReference_claims c r) = Inr raw"
    "sg_sign k raw = Inr mac" "decode_signature (sd_signature r) = Inr mac"
    "sd_key_id r = sg_key_id k" "sd_algorithm r = sg_algorithm k"
    "parse_object_reference c o0 True = Inr (sd_object_ref r)"
proof -
  obtain ref selected_nonce unsigned raw mac signature where
    ref: "parse_object_reference c o0 True = Inr ref"
    and unsigned: "SignedObjectReference_init c ref (PList ops) t aud (PStr selected_nonce) (PStr (sg_key_id k))
      (PStr (sg_algorithm k)) (PStr (lit ''AA'')) (PStr (lit SIGNED_REFERENCE_FORMAT_VERSION)) = Inr unsigned"
    and mac: "canonical_json_bytes c (SignedObjectReference_claims c unsigned) = Inr raw" "sg_sign k raw = Inr mac"
    and enc: "encode_signature mac = Inr signature"
    and r: "SignedObjectReference_init c (sd_object_ref unsigned) (PList (map PStr (sd_allowed_operations unsigned)))
        (Wire_value (PStr (sd_expires_at unsigned))) (PStr (sd_audience unsigned)) (PStr (sd_nonce unsigned))
        (PStr (sd_key_id unsigned)) (PStr (sd_algorithm unsigned)) (PStr signature)
        (PStr (lit SIGNED_REFERENCE_FORMAT_VERSION)) = Inr r"
    using assms(2) by (auto simp: sign_object_reference_def Let_def)
  note wf = signed_init_wf [OF assms(1) unsigned]
  have r': "r = unsigned\<lparr>sd_signature := signature\<rparr>" "signature_text signature"
    using r unfolding signed_init_again [OF wf] by (auto split: if_splits)
  have "sd_object_ref unsigned = ref" "sd_key_id unsigned = sg_key_id k" "sd_algorithm unsigned = sg_algorithm k"
    using unsigned parse_reference_object_same [OF assms(1)]
    by (auto simp: SignedObjectReference_init_def token_ok)
  moreover have "wf_signed c r" using wf r' by (simp add: wf_signed_def)
  ultimately show ?thesis
    using that [of raw mac] mac decode_encode_signature [OF enc] r'(1) ref by simp
qed

text \<open>The contract of a signer, and what its clients get from it.\<close>

locale reference_signer =
  fixes k :: signer
  assumes verify_sign: "sg_sign k v = Inr m \<Longrightarrow> sg_verify k v m = Inr True"
begin

lemma signed_verifies:
  assumes "reference_contract c" and "sign_object_reference c random o0 ops t aud (Some k) nonce = Inr r"
    and "dt_offset d = Some offset" and "i = dt_local d - offset" and "0 \<le> i" and "i < max_instant"
  shows "SignedObjectReference_verify c clock r k operation audience (Some d) =
    (if operation \<in> set (sd_allowed_operations r) \<and> audience = sd_audience r
        \<and> i < instant_of (civil_of_text (sd_expires_at r))
     then Inr (sd_object_ref r) else Inl (ObjectError ObjectAuthorizationFailed))"
proof -
  obtain raw mac where parts: "wf_signed c r" "canonical_json_bytes c (SignedObjectReference_claims c r) = Inr raw"
    "sg_sign k raw = Inr mac" "decode_signature (sd_signature r) = Inr mac"
    "sd_key_id r = sg_key_id k" "sd_algorithm r = sg_algorithm k"
    using signed_parts [OF assms(1,2)] by blast
  have "timestamp_text (sd_expires_at r)" using parts(1) by (simp add: wf_signed_def)
  then have "strptime_utc (sd_expires_at r) = Inr (instant_of (civil_of_text (sd_expires_at r)))"
    by (simp add: ok_iff)
  moreover have "astimezone_utc d = Inr i" using assms(3-6) by (simp add: astimezone_utc_def Let_def)
  ultimately show ?thesis
    using parts verify_sign [OF parts(3)] assms(3) by (simp add: SignedObjectReference_verify_def)
qed

end

interpretation hmac: reference_signer "hmac_signer key" for key
  by unfold_locales (simp add: hmac_signer_def HmacSha256Key_verify_def)

text \<open>
  C12. Sign, then verify, with an HMAC-SHA-256 key: a reference that \<open>sign_object_reference\<close> returned
  survives its wire document, and verification with the same key at an aware instant before its
  expiry, for an allowed operation and the right audience, returns exactly the signed object
  reference; in every other case it raises \<open>ObjectAuthorizationFailed\<close>.
\<close>

theorem sign_then_verify:
  assumes "reference_contract c"
    and "sign_object_reference c random o0 ops t aud (Some (hmac_signer key)) nonce = Inr r"
    and "dt_offset d = Some offset" and "i = dt_local d - offset" and "0 \<le> i" and "i < max_instant"
  shows "SignedObjectReference_from_mapping c (SignedObjectReference_to_dict c r) = Inr r
    \<and> parse_object_reference c o0 True = Inr (sd_object_ref r)
    \<and> SignedObjectReference_verify c clock r (hmac_signer key) operation audience (Some d) =
        (if operation \<in> set (sd_allowed_operations r) \<and> audience = sd_audience r
            \<and> i < instant_of (civil_of_text (sd_expires_at r))
         then Inr (sd_object_ref r) else Inl (ObjectError ObjectAuthorizationFailed))"
  using signed_parts [OF assms(1,2)] signed_round_trip [OF assms(1)] hmac.signed_verifies [OF assms]
  by metis

lemma nonce_opaque: "length random = 24 \<Longrightarrow> opaque_token (lit ''n_'' @ token_hex random)"
  by (rule token_hex_opaque) (auto simp: set_lit lit_def)

lemma hmac_signature_text:
  assumes "encode_signature (hmac_sha256 k m) = Inr s"
  shows "signature_text s"
proof -
  have "decode_signature s = Inr (hmac_sha256 k m)" by (rule decode_encode_signature [OF assms])
  moreover have "length s = 43"
    using assms by (auto simp: encode_signature_def rstrip_b64 length_b64_sextets split: if_splits)
  ultimately show ?thesis by (simp add: signature_text_def)
qed

lemma signing_of_valid:
  assumes "parse_object_reference c o0 True = Inr ref" and "reference_contract c"
    and "ops \<noteq> []" and "distinct ops" and "set ops \<subseteq> set SIGNED_REFERENCE_OPERATIONS"
    and "utc_timestamp t = Inr expiry" and "plain_text 256 audience"
    and "HmacSha256Key_init key_id raw_key = Inr key" and "length random = 24"
    and "\<forall>doc. canonical_json_bytes c doc \<in> range Inr"
  shows "\<exists>r. sign_object_reference c random o0 (map PStr ops) t (PStr audience) (Some (hmac_signer key)) None = Inr r
    \<and> sd_object_ref r = ref \<and> sd_allowed_operations r = sort ops \<and> sd_expires_at r = expiry
    \<and> sd_audience r = audience \<and> sd_key_id r = hk_key_id key"
proof -
  have key: "opaque_token (hk_key_id key)" using assms(8) by (auto simp: HmacSha256Key_init_def token_ok split: if_splits)
  have alg: "opaque_token (lit ''hmac-sha256'')" by (simp add: opaque_token_def lit_def)
  have aa: "signature_text (lit ''AA'')"
    using decode_signature_ok [of "lit ''AA''"] by (simp add: signature_text_def lit_def)
  let ?u = "\<lparr>sd_object_ref = ref, sd_allowed_operations = sort ops, sd_expires_at = expiry, sd_audience = audience,
    sd_nonce = lit ''n_'' @ token_hex random, sd_key_id = hk_key_id key, sd_algorithm = lit ''hmac-sha256'',
    sd_signature = lit ''AA''\<rparr>"
  note con = parse_reference_constructed [OF assms(2,1)]
  have "sort ops \<noteq> []" using assms(3) by (metis set_empty set_sort)
  then have wf: "wf_signed c ?u"
    using con assms(3-7) key alg aa nonce_opaque [OF assms(9)] timestamp_of_any [OF assms(6)]
    by (auto simp: wf_signed_def)
  have seq: "string_sequence (PList (map PStr ops)) = Inr (sort ops)"
    unfolding string_sequence_ok using assms(4,5) signed_operations_plain by blast
  have unsigned: "SignedObjectReference_init c ref (PList (map PStr ops)) t (PStr audience)
      (PStr (lit ''n_'' @ token_hex random)) (PStr (hk_key_id key)) (PStr (lit ''hmac-sha256'')) (PStr (lit ''AA''))
      (PStr (lit SIGNED_REFERENCE_FORMAT_VERSION)) = Inr ?u"
    using parse_reference_again [OF con(1), of True] con(2) seq \<open>sort ops \<noteq> []\<close> assms(5,6,7) nonce_opaque [OF assms(9)] key alg aa
    by (simp add: SignedObjectReference_init_def bounded_string_ok token_ok signature_string_ok str_equal_def)
  obtain raw where raw: "canonical_json_bytes c (SignedObjectReference_claims c ?u) = Inr raw"
    using assms(10) by (metis rangeE)
  let ?mac = "hmac_sha256 (hk_key key) raw"
  have "?mac \<noteq> []" using length_hmac_sha256 [of "hk_key key" raw] by (metis list.size(3) zero_neq_numeral)
  then obtain sig where sig: "encode_signature ?mac = Inr sig" by (simp add: encode_signature_def)
  have "sign_object_reference c random o0 (map PStr ops) t (PStr audience) (Some (hmac_signer key)) None =
      Inr (?u\<lparr>sd_signature := sig\<rparr>)"
    using unsigned raw sig signed_init_again [OF wf, of sig] hmac_signature_text [OF sig]
    by (simp add: sign_object_reference_def assms(1) hmac_signer_def HmacSha256Key_sign_def)
  then show ?thesis by simp
qed


section \<open>Signature texts are not unique\<close>

lemma b64_octets_slack:
  "length vs mod 4 = 2 \<Longrightarrow> v div 4 = v' div 4 \<Longrightarrow> b64_octets (vs @ [v]) = b64_octets (vs @ [v'])"
proof (induction vs rule: b64_octets.induct)
  case (1 x y z w rest)
  have "length (x # y # z # w # rest) = length rest + 4" by simp
  then have "length rest mod 4 = 2" using 1(2) by (metis mod_add_self2)
  then show ?case using 1 by simp
qed simp_all

lemma last_sextet_slack:
  assumes "length bs mod 3 = 2"
  obtains vs v where "b64_sextets bs = vs @ [v * 4]" "length vs mod 4 = 2" "v < 16"
proof -
  have len: "length (b64_sextets bs) mod 4 = 3"
    using assms unfolding length_b64_sextets by presburger
  then have ne: "b64_sextets bs \<noteq> []" by auto
  let ?vs = "butlast (b64_sextets bs)"
  have eq: "b64_sextets bs = ?vs @ [(last bs mod 16) * 4]"
    using append_butlast_last_id [OF ne] last_sextet [OF assms] by simp
  moreover have "length (?vs @ [(last bs mod 16) * 4]) mod 4 = 3" using len eq by simp
  then have "length ?vs mod 4 = 2" by (simp add: mod_Suc split: if_splits)
  ultimately show ?thesis using that [of ?vs "last bs mod 16"] by simp
qed

lemma second_text:
  assumes "length mac = 32"
  shows "\<exists>s. s \<noteq> b64_text mac \<and> decode_signature s = Inr mac \<and> length s = 43"
proof -
  obtain vs v where vs: "b64_sextets (map unat mac) = vs @ [v * 4]" "length vs mod 4 = 2" "v < 16"
    using last_sextet_slack [of "map unat mac"] assms by auto
  let ?s = "map b64_char (vs @ [v * 4 + 1])"
  have small: "\<forall>x\<in>set (vs @ [v * 4]). x < 64" using b64_text_values [of _ mac] vs(1) by simp
  then have vals: "map (the \<circ> b64_value) (map b64_char (vs @ [v * 4 + 1])) = vs @ [v * 4 + 1]"
    using vs(3) by (simp add: map_idI)
  have "b64_octets (vs @ [v * 4 + 1]) = b64_octets (vs @ [v * 4])"
    using vs(2) by (intro b64_octets_slack) simp_all
  also have "\<dots> = Inr (map unat mac)"
    unfolding vs(1) [symmetric] by (rule sextets_octets) simp
  finally have octets: "b64_octets (vs @ [v * 4 + 1]) = Inr (map unat mac)" .
  have alphabet: "b64_value c \<noteq> None" if "c \<in> set ?s" for c
    using that small vs(3) b64_value_char by auto
  then have "\<not> list_ex (\<lambda>c. b64_value c = None) ?s" unfolding list_ex_iff by blast
  then have "b64decode_completed ?s = Inr mac"
    unfolding b64decode_completed_def vals octets by (simp add: map_idI)
  moreover have "fullmatch SIGNATURE_RE ?s"
    unfolding SIGNATURE_RE_iff using alphabet b64_value_iff by blast
  moreover have "mac \<noteq> []" using assms by auto
  ultimately have "decode_signature ?s = Inr mac" by (simp add: decode_signature_def)
  moreover have "?s \<noteq> b64_text mac"
  proof
    assume "?s = b64_text mac"
    then have "b64_char (v * 4 + 1) = b64_char (v * 4)" using vs(1) by simp
    then show False using b64_value_char [of "v * 4"] b64_value_char [of "v * 4 + 1"] vs(3) by simp
  qed
  moreover have "length ?s = 43"
    using arg_cong [OF vs(1), of length] assms by (simp add: length_b64_sextets)
  ultimately show ?thesis by blast
qed


section \<open>A concrete signature\<close>

definition sample_key :: hmac_key where
  "sample_key = \<lparr>hk_key_id = lit ''k1'', hk_key = replicate 32 7\<rparr>"

lemma sample_key_made: "HmacSha256Key_init (PStr (lit ''k1'')) (replicate 32 7) = Inr sample_key"
  by (auto simp: HmacSha256Key_init_def token_ok sample_key_def opaque_token_def lit_def)

lemma sample_canonical: "\<forall>doc. canonical_json_bytes sample_core doc \<in> range Inr"
  by (simp add: sample_core_def)

lemma timestamp_2099: "utc_timestamp (Wire_value (PStr (lit ''2099-01-01T00:00:00.000000Z'')))
    = Inr (lit ''2099-01-01T00:00:00.000000Z'')"
  unfolding utc_timestamp_wire_ok by code_simp

lemma instant_2099: "instant_of (civil_of_text (lit ''2099-01-01T00:00:00.000000Z'')) = 66206505600000000"
  by code_simp

lemma sample_exact: "parse_object_reference sample_core (Ref_object sample_reference) True = Inr sample_reference"
  by (rule parse_reference_again [OF sample_reference_ok]) (simp add: sample_reference_def)

lemma sample_audience: "plain_text 256 (lit ''reader'')"
  by (simp add: plain_text_def lit_def is_surrogate_def is_control_def utf8_char_def)

lemma sample_operations:
  "[lit ''stat'', lit ''get''] \<noteq> []" "distinct [lit ''stat'', lit ''get'']"
  "set [lit ''stat'', lit ''get''] \<subseteq> set SIGNED_REFERENCE_OPERATIONS"
  by (simp_all add: SIGNED_REFERENCE_OPERATIONS_def)

abbreviation sample_signing :: "signed_reference result" where
  "sample_signing \<equiv> sign_object_reference sample_core (replicate 24 0) (Ref_object sample_reference)
     (map PStr [lit ''stat'', lit ''get'']) (Wire_value (PStr (lit ''2099-01-01T00:00:00.000000Z'')))
     (PStr (lit ''reader'')) (Some (hmac_signer sample_key)) None"

lemmas sample_signed = signing_of_valid [OF sample_exact sample_core_references sample_operations timestamp_2099
    sample_audience sample_key_made _ sample_canonical, of "replicate 24 0", simplified]

theorem sign_then_verify_witness:
  "\<exists>r. sample_signing = Inr r
     \<and> SignedObjectReference_verify sample_core 0 r (hmac_signer sample_key) (lit ''get'') (lit ''reader'')
         (Some \<lparr>dt_local = 66206505599999999, dt_offset = Some 0\<rparr>) = Inr sample_reference"
proof -
  obtain r where r: "sample_signing = Inr r" "sd_object_ref r = sample_reference"
    "sd_allowed_operations r = sort [lit ''stat'', lit ''get'']" "sd_expires_at r = lit ''2099-01-01T00:00:00.000000Z''"
    "sd_audience r = lit ''reader''"
    using sample_signed by auto
  from sign_then_verify [OF sample_core_references r(1), of "\<lparr>dt_local = 66206505599999999, dt_offset = Some 0\<rparr>" 0
      66206505599999999]
  have "SignedObjectReference_verify sample_core 0 r (hmac_signer sample_key) (lit ''get'') (lit ''reader'')
      (Some \<lparr>dt_local = 66206505599999999, dt_offset = Some 0\<rparr>) = Inr sample_reference"
    by (simp add: r instant_2099 max_instant_def day_micros_def)
  with r(1) show ?thesis by blast
qed


end
