(* ===== verification/Immutability.thy ===== *)
theory Immutability
  imports Metadata Timestamps
begin

text \<open>
  \<open>immutability/policy.py\<close>: immutability and retention intent, the deletion check of a retention
  deadline against a clock, and the resolution of a put's intent against the profile of its Resource.
\<close>

section \<open>Immutability\<close>

record immutability_request =
  im_mutability :: pystr
  im_publish_once :: bool

definition mutability_value :: "pyval \<Rightarrow> pystr result" where
  \<comment> \<open>\<open>if self.mutability not in {"immutable", "mutable"}: raise ValueError\<close>; membership of an
    unhashable value, a list or a mapping, raises \<open>TypeError\<close>\<close>
  "mutability_value v =
     (case v of
        PStr s \<Rightarrow> if s \<in> {lit ''immutable'', lit ''mutable''} then Inr s else Inl ValueError
      | PList _ \<Rightarrow> Inl TypeError
      | PDict _ \<Rightarrow> Inl TypeError
      | _ \<Rightarrow> Inl ValueError)"

definition ImmutabilityRequest_init :: "pyval \<Rightarrow> pyval \<Rightarrow> immutability_request result" where
  "ImmutabilityRequest_init mutability publish_once =
     bindE (mutability_value mutability) (\<lambda>m.
     bindE (py_bool publish_once) (\<lambda>p.
     if p \<and> m \<noteq> lit ''immutable'' then Inl ValueError
     else Inr \<lparr>im_mutability = m, im_publish_once = p\<rparr>))"

definition ImmutabilityRequest_to_dict :: "immutability_request \<Rightarrow> pydict" where
  "ImmutabilityRequest_to_dict q =
     [fld ''mutability'' (PStr (im_mutability q)), fld ''publishOnce'' (PBool (im_publish_once q))]"

definition ImmutabilityRequest_from_mapping :: "pydict \<Rightarrow> immutability_request result" where
  "ImmutabilityRequest_from_mapping value =
     bindE (exact_fields value [''mutability'', ''publishOnce''] []) (\<lambda>_.
     bindE (dget_req value ''mutability'') (\<lambda>m.
     bindE (dget_req value ''publishOnce'') (\<lambda>p.
     ImmutabilityRequest_init m p)))"

definition wf_immutability :: "immutability_request \<Rightarrow> bool" where
  "wf_immutability q \<longleftrightarrow>
     im_mutability q = lit ''immutable'' \<or> im_mutability q = lit ''mutable'' \<and> \<not> im_publish_once q"

lemma mutability_value_ok [ok_iff]:
  "mutability_value v = Inr s \<longleftrightarrow> v = PStr s \<and> s \<in> {lit ''immutable'', lit ''mutable''}"
  by (auto simp: mutability_value_def split: pyval.splits if_splits)

lemma checked_mutability [raises_intros]: "checked (mutability_value v)"
  by (cases v) (simp_all add: mutability_value_def)

lemma ImmutabilityRequest_init_ok [ok_iff]:
  "ImmutabilityRequest_init m p = Inr q \<longleftrightarrow>
     wf_immutability q \<and> m = PStr (im_mutability q) \<and> p = PBool (im_publish_once q)"
  by (cases q) (auto simp: ImmutabilityRequest_init_def ok_iff wf_immutability_def)

lemma checked_immutability [raises_intros]: "checked (ImmutabilityRequest_from_mapping d)"
  unfolding ImmutabilityRequest_from_mapping_def ImmutabilityRequest_init_def
  by (auto intro!: raises_intros intro: checked_dget_req)

interpretation immutability_wire:
  wire_document wf_immutability ImmutabilityRequest_to_dict ImmutabilityRequest_from_mapping
  by unfold_locales
    (auto simp: ImmutabilityRequest_from_mapping_def ImmutabilityRequest_to_dict_def ok_iff wire_simps)

section \<open>Retention\<close>

record retention_request =
  rt_retain_until :: "pystr option"
  rt_policy :: "pystr option"
  rt_require_enforcement :: bool

definition RetentionRequest_init :: "time_value \<Rightarrow> pyval \<Rightarrow> pyval \<Rightarrow> retention_request result" where
  "RetentionRequest_init retain_until policy require_enforcement =
     (if retain_until = Wire_value PNone \<and> policy = PNone then Inl ValueError
      else
        bindE (optional_timestamp retain_until) (\<lambda>t.
        bindE (optional_field (bounded_string 256) policy) (\<lambda>p.
        bindE (py_bool require_enforcement) (\<lambda>e.
        Inr \<lparr>rt_retain_until = t, rt_policy = p, rt_require_enforcement = e\<rparr>))))"

definition RetentionRequest_to_dict :: "retention_request \<Rightarrow> pydict" where
  "RetentionRequest_to_dict q =
     [fld ''retainUntil'' (opt_str (rt_retain_until q)), fld ''policy'' (opt_str (rt_policy q)),
      fld ''requireEnforcement'' (PBool (rt_require_enforcement q))]"

definition RetentionRequest_from_mapping :: "pydict \<Rightarrow> retention_request result" where
  "RetentionRequest_from_mapping value =
     bindE (exact_fields value [''retainUntil'', ''policy'', ''requireEnforcement''] []) (\<lambda>_.
     bindE (dget_req value ''retainUntil'') (\<lambda>t.
     bindE (dget_req value ''policy'') (\<lambda>p.
     bindE (dget_req value ''requireEnforcement'') (\<lambda>e.
     RetentionRequest_init (Wire_value t) p e))))"

definition wf_retention :: "retention_request \<Rightarrow> bool" where
  "wf_retention q \<longleftrightarrow>
     (rt_retain_until q \<noteq> None \<or> rt_policy q \<noteq> None)
     \<and> (\<forall>t. rt_retain_until q = Some t \<longrightarrow> timestamp_text t)
     \<and> (\<forall>p. rt_policy q = Some p \<longrightarrow> plain_text 256 p)"

lemma optional_policy_ok:
  "optional_field (bounded_string 256) v = Inr p \<longleftrightarrow> v = opt_str p \<and> (\<forall>s. p = Some s \<longrightarrow> plain_text 256 s)"
  by (cases p) (auto simp: ok_iff)

lemma RetentionRequest_init_ok [ok_iff]:
  "RetentionRequest_init (Wire_value t) p e = Inr q \<longleftrightarrow>
     wf_retention q \<and> t = opt_str (rt_retain_until q) \<and> p = opt_str (rt_policy q)
     \<and> e = PBool (rt_require_enforcement q)"
proof (cases q)
  case (fields u po en)
  have none: "opt_str x = PNone \<longleftrightarrow> x = None" for x by (cases x) simp_all
  have "RetentionRequest_init (Wire_value t) p e = Inr q \<longleftrightarrow>
      \<not> (t = PNone \<and> p = PNone) \<and> optional_timestamp (Wire_value t) = Inr u
      \<and> optional_field (bounded_string 256) p = Inr po \<and> py_bool e = Inr en"
    unfolding RetentionRequest_init_def fields by auto
  then show ?thesis
    unfolding optional_policy_ok optional_timestamp_wire_ok py_bool_ok
    by (auto simp: fields wf_retention_def none)
qed

lemma checked_retention [raises_intros]: "checked (RetentionRequest_from_mapping d)"
proof -
  have "checked (optional_timestamp (Wire_value v))" for v
    using utc_timestamp_error [of v] unfolding optional_timestamp_def
    by (intro raises_intros) (auto intro: raises_onlyI)
  then show ?thesis
    unfolding RetentionRequest_from_mapping_def RetentionRequest_init_def
    by (auto intro!: raises_intros intro: checked_dget_req)
qed

interpretation retention_wire:
  wire_document wf_retention RetentionRequest_to_dict RetentionRequest_from_mapping
  by unfold_locales
    (auto simp: RetentionRequest_from_mapping_def RetentionRequest_to_dict_def ok_iff wire_simps)

subsection \<open>Deletion\<close>

definition permits_delete :: "int \<Rightarrow> py_datetime option \<Rightarrow> retention_request \<Rightarrow> bool result" where
  \<comment> \<open>\<open>clock\<close> is the instant of \<open>datetime.now(UTC)\<close>\<close>
  "permits_delete clock now q =
     (case rt_retain_until q of
        None \<Rightarrow> Inr False
      | Some deadline_text \<Rightarrow>
          let selected = (case now of None \<Rightarrow> \<lparr>dt_local = clock, dt_offset = Some 0\<rparr> | Some t \<Rightarrow> t)
          in if dt_offset selected = None then Inl ValueError
             else
               bindE (strptime_utc deadline_text) (\<lambda>deadline.
               bindE (astimezone_utc selected) (\<lambda>i.
               Inr (i \<ge> deadline))))"

definition require_delete_allowed :: "int \<Rightarrow> py_datetime option \<Rightarrow> retention_request \<Rightarrow> unit result" where
  "require_delete_allowed clock now q =
     bindE (permits_delete clock now q) (\<lambda>allowed.
     if \<not> allowed then Inl (ObjectError RetentionDenied) else Inr ())"

text \<open>
  C15. Deletion under retention, decided at an aware instant \<open>i\<close> of any time zone: a request without
  a deadline never permits deletion, one with a deadline permits it exactly from the deadline on,
  and \<open>require_delete_allowed\<close> raises \<open>RetentionDenied\<close> in precisely the other cases.
\<close>

theorem retention_decided:
  assumes "wf_retention q" and "dt_offset t = Some offset" and "i = dt_local t - offset"
    and "0 \<le> i" and "i < max_instant"
  shows "let allowed = (case rt_retain_until q of None \<Rightarrow> False | Some d \<Rightarrow> instant_of (civil_of_text d) \<le> i)
    in permits_delete clock (Some t) q = Inr allowed
       \<and> require_delete_allowed clock (Some t) q = (if allowed then Inr () else Inl (ObjectError RetentionDenied))"
proof -
  have "astimezone_utc t = Inr i" using assms by (simp add: astimezone_utc_def Let_def)
  moreover have "strptime_utc d = Inr (instant_of (civil_of_text d))" if "rt_retain_until q = Some d" for d
    using assms(1) that by (simp add: ok_iff wf_retention_def)
  ultimately show ?thesis
    using assms(2) by (auto simp: permits_delete_def require_delete_allowed_def Let_def split: option.splits)
qed

lemma deadline_2099:
  "timestamp_text (lit ''2099-01-01T00:00:00.000000Z'')"
  "instant_of (civil_of_text (lit ''2099-01-01T00:00:00.000000Z'')) = 66206505600000000"
  by code_simp+

theorem retention_decided_witness:
  "let q = \<lparr>rt_retain_until = Some (lit ''2099-01-01T00:00:00.000000Z''), rt_policy = None, rt_require_enforcement = False\<rparr>
   in permits_delete 0 (Some \<lparr>dt_local = 66206509199999999, dt_offset = Some 3600000000\<rparr>) q = Inr False
      \<and> permits_delete 0 (Some \<lparr>dt_local = 66206509200000000, dt_offset = Some 3600000000\<rparr>) q = Inr True"
proof -
  let ?q = "\<lparr>rt_retain_until = Some (lit ''2099-01-01T00:00:00.000000Z''), rt_policy = None, rt_require_enforcement = False\<rparr>"
  have wf: "wf_retention ?q" using deadline_2099(1) by (simp add: wf_retention_def)
  show ?thesis
    using retention_decided [OF wf, of "\<lparr>dt_local = 66206509199999999, dt_offset = Some 3600000000\<rparr>" 3600000000 66206505599999999]
      retention_decided [OF wf, of "\<lparr>dt_local = 66206509200000000, dt_offset = Some 3600000000\<rparr>" 3600000000 66206505600000000]
    by (simp add: deadline_2099 max_instant_def day_micros_def)
qed

section \<open>Effective immutability\<close>

datatype profile_arg = Profile_object object_profile | Profile_mapping pydict

definition parse_object_profile :: "('m) core_scheme \<Rightarrow> profile_arg \<Rightarrow> object_profile result" where
  "parse_object_profile c value =
     (case value of
        Profile_object p \<Rightarrow> new_ObjectProfile c p
      | Profile_mapping d \<Rightarrow>
          bindE (profile_from_mapping c d) (\<lambda>result.
          case result of Object_profile p \<Rightarrow> Inr p | Other_profile _ \<Rightarrow> Inl ValueError))"

datatype immutability_arg =
    No_immutability
  | Immutability_object immutability_request
  | Immutability_mapping pydict

definition effective_immutability ::
    "('m) core_scheme \<Rightarrow> profile_arg \<Rightarrow> immutability_arg \<Rightarrow> immutability_request result" where
  "effective_immutability c profile request =
     bindE (parse_object_profile c profile) (\<lambda>p.
     bindE
       (case request of
          No_immutability \<Rightarrow>
            ImmutabilityRequest_init (PStr (op_mutability p)) (PBool (op_profile p = lit ''artifact''))
        | Immutability_object q \<Rightarrow> Inr q
        | Immutability_mapping d \<Rightarrow> ImmutabilityRequest_from_mapping d) (\<lambda>selected.
     if op_profile p = lit ''artifact''
        \<and> (im_mutability selected \<noteq> lit ''immutable'' \<or> \<not> im_publish_once selected)
     then Inl (ObjectError ImmutableObjectConflict)
     else if op_mutability p = lit ''immutable'' \<and> im_mutability selected \<noteq> lit ''immutable''
     then Inl (ObjectError ImmutableObjectConflict)
     else Inr selected))"

lemma checked_profile:
  assumes "checked_errors c"
  shows "checked (parse_object_profile c v)"
  unfolding parse_object_profile_def
  by (cases v) (auto intro!: raises_intros checked_core [OF assms] split: semantic_profile.splits)

text \<open>\<open>allows p q\<close>: the intent \<open>q\<close> is at least as strict as the profile \<open>p\<close> demands.\<close>

definition allows :: "object_profile \<Rightarrow> immutability_request \<Rightarrow> bool" where
  "allows p q \<longleftrightarrow>
     (op_profile p = lit ''artifact'' \<longrightarrow> im_mutability q = lit ''immutable'' \<and> im_publish_once q)
     \<and> (op_mutability p = lit ''immutable'' \<longrightarrow> im_mutability q = lit ''immutable'')"



end
