(* ===== verification/Ranges.thy ===== *)
theory Ranges
  imports Wire
begin

text \<open>
  \<open>contracts/ranges.py\<close>: inclusive byte ranges, their resolution against an object's length, and
  the abstract meaning of a range as a selection of bytes.
\<close>

section \<open>Resolved ranges\<close>

record resolved_range =
  rr_start :: int
  rr_end :: int
  rr_total :: int

definition ResolvedByteRange_init :: "pyval \<Rightarrow> pyval \<Rightarrow> pyval \<Rightarrow> resolved_range result" where
  "ResolvedByteRange_init start_value end_value total_value =
     bindE (non_negative_int start_value) (\<lambda>start.
     bindE (non_negative_int end_value) (\<lambda>end.
     bindE (non_negative_int total_value) (\<lambda>total.
     if total = 0 \<or> start > end \<or> end \<ge> total then Inl (ObjectError RangeNotSatisfiable)
     else Inr \<lparr>rr_start = start, rr_end = end, rr_total = total\<rparr>)))"

definition ResolvedByteRange_length :: "resolved_range \<Rightarrow> int" where
  "ResolvedByteRange_length r = rr_end r - rr_start r + 1"

definition ResolvedByteRange_to_dict :: "resolved_range \<Rightarrow> pydict" where
  "ResolvedByteRange_to_dict r =
     [fld ''start'' (PInt (rr_start r)), fld ''end'' (PInt (rr_end r)),
      fld ''length'' (PInt (ResolvedByteRange_length r)), fld ''totalLength'' (PInt (rr_total r))]"

definition wf_resolved :: "resolved_range \<Rightarrow> bool" where
  "wf_resolved r \<longleftrightarrow> 0 \<le> rr_start r \<and> rr_start r \<le> rr_end r \<and> rr_end r < rr_total r"

lemma ResolvedByteRange_init_ok [ok_iff]:
  "ResolvedByteRange_init s e t = Inr r \<longleftrightarrow>
     s = PInt (rr_start r) \<and> e = PInt (rr_end r) \<and> t = PInt (rr_total r) \<and> wf_resolved r"
  by (cases r) (auto simp: ResolvedByteRange_init_def ok_iff wf_resolved_def split: if_splits)

section \<open>Requested ranges\<close>

record byte_range =
  br_start :: "int option"
  br_end :: "int option"
  br_suffix :: "int option"

definition ByteRange_init :: "pyval \<Rightarrow> pyval \<Rightarrow> pyval \<Rightarrow> byte_range result" where
  "ByteRange_init start_value end_value suffix_value =
     (if suffix_value \<noteq> PNone then
        if start_value \<noteq> PNone \<or> end_value \<noteq> PNone then Inl ValueError
        else bindE (positive_int suffix_value) (\<lambda>n.
          Inr \<lparr>br_start = None, br_end = None, br_suffix = Some n\<rparr>)
      else if start_value = PNone then Inl ValueError
      else bindE (non_negative_int start_value) (\<lambda>start.
        if end_value \<noteq> PNone then
          bindE (non_negative_int end_value) (\<lambda>end.
            if end < start then Inl ValueError
            else Inr \<lparr>br_start = Some start, br_end = Some end, br_suffix = None\<rparr>)
        else Inr \<lparr>br_start = Some start, br_end = None, br_suffix = None\<rparr>))"

definition ByteRange_requested_length :: "byte_range \<Rightarrow> int option result" where
  "ByteRange_requested_length r =
     (case br_suffix r of Some n \<Rightarrow> Inr (Some n)
      | None \<Rightarrow>
        (case br_end r of None \<Rightarrow> Inr None
         | Some e \<Rightarrow> (case br_start r of None \<Rightarrow> Inl AssertionError | Some s \<Rightarrow> Inr (Some (e - s + 1)))))"

definition ByteRange_resolve :: "byte_range \<Rightarrow> pyval \<Rightarrow> resolved_range result" where
  "ByteRange_resolve r total_length =
     bindE (non_negative_int total_length) (\<lambda>total.
     if total = 0 then Inl (ObjectError RangeNotSatisfiable)
     else case br_suffix r of
       Some n \<Rightarrow>
         let length = min n total
         in ResolvedByteRange_init (PInt (total - length)) (PInt (total - 1)) (PInt total)
     | None \<Rightarrow>
         (case br_start r of
            None \<Rightarrow> Inl AssertionError
          | Some start \<Rightarrow>
              if start \<ge> total then Inl (ObjectError RangeNotSatisfiable)
              else
                let end = (case br_end r of None \<Rightarrow> total - 1 | Some e \<Rightarrow> min e (total - 1))
                in ResolvedByteRange_init (PInt start) (PInt end) (PInt total)))"

definition ByteRange_to_dict :: "byte_range \<Rightarrow> pydict" where
  "ByteRange_to_dict r =
     (case br_suffix r of
        Some n \<Rightarrow> [fld ''suffixLength'' (PInt n)]
      | None \<Rightarrow>
          fld ''start'' (opt_int (br_start r))
          # (case br_end r of None \<Rightarrow> [] | Some e \<Rightarrow> [fld ''end'' (PInt e)]))"

definition ByteRange_from_mapping :: "pydict \<Rightarrow> byte_range result" where
  "ByteRange_from_mapping value =
     (if dget value ''suffixLength'' \<noteq> None then
        bindE (exact_fields value [''suffixLength''] []) (\<lambda>_.
        bindE (dget_req value ''suffixLength'') (\<lambda>n.
        ByteRange_init PNone PNone n))
      else
        bindE (exact_fields value [''start''] [''end'']) (\<lambda>_.
        bindE (dget_req value ''start'') (\<lambda>s.
        ByteRange_init s (dget_none value ''end'') PNone)))"

definition wf_byte_range :: "byte_range \<Rightarrow> bool" where
  "wf_byte_range r \<longleftrightarrow>
     (case br_suffix r of
        Some n \<Rightarrow> 0 < n \<and> br_start r = None \<and> br_end r = None
      | None \<Rightarrow> (\<exists>s. br_start r = Some s \<and> 0 \<le> s \<and> (\<forall>e. br_end r = Some e \<longrightarrow> s \<le> e)))"

lemma ByteRange_init_ok [ok_iff]:
  "ByteRange_init s e n = Inr r \<longleftrightarrow>
     wf_byte_range r \<and> s = opt_int (br_start r) \<and> e = opt_int (br_end r) \<and> n = opt_int (br_suffix r)"
  by (cases r)
    (auto simp: ByteRange_init_def ok_iff wf_byte_range_def opt_int_def split: if_splits option.splits)

lemma ByteRange_from_mapping_wf: "ByteRange_from_mapping d = Inr r \<Longrightarrow> wf_byte_range r"
  by (auto simp: ByteRange_from_mapping_def ok_iff split: if_splits)

lemma ByteRange_round_trip: "wf_byte_range r \<Longrightarrow> ByteRange_from_mapping (ByteRange_to_dict r) = Inr r"
  by (auto simp: ByteRange_from_mapping_def ByteRange_to_dict_def ok_iff wire_simps dget_none_def
      wf_byte_range_def split: option.splits)

interpretation byte_range_wire: wire_document wf_byte_range ByteRange_to_dict ByteRange_from_mapping
  by unfold_locales (simp_all add: ByteRange_round_trip ByteRange_from_mapping_wf)

section \<open>What a range selects\<close>

text \<open>
  The abstract meaning of a request on an object's content, and the slice
  \<open>data[start : end + 1]\<close> that a resolved range stands for.
\<close>

definition selected :: "byte_range \<Rightarrow> 'b list \<Rightarrow> 'b list" where
  "selected r data =
     (case br_suffix r of
        Some n \<Rightarrow> drop (length data - nat n) data
      | None \<Rightarrow>
          (case br_end r of
             None \<Rightarrow> drop (nat (the (br_start r))) data
           | Some e \<Rightarrow> take (nat (e + 1 - the (br_start r))) (drop (nat (the (br_start r))) data)))"

definition resolved_slice :: "resolved_range \<Rightarrow> 'b list \<Rightarrow> 'b list" where
  "resolved_slice r data = take (nat (rr_end r + 1 - rr_start r)) (drop (nat (rr_start r)) data)"

lemma resolve_ok:
  assumes "wf_byte_range r"
  shows "ByteRange_resolve r (PInt n) = Inr q \<longleftrightarrow>
    wf_resolved q \<and> rr_total q = n
    \<and> (case br_suffix r of
         Some k \<Rightarrow> rr_start q = n - min k n \<and> rr_end q = n - 1
       | None \<Rightarrow> rr_start q = the (br_start r)
           \<and> rr_end q = (case br_end r of None \<Rightarrow> n - 1 | Some e \<Rightarrow> min e (n - 1)))"
  using assms
  by (cases q)
    (auto simp: ByteRange_resolve_def ok_iff wf_byte_range_def wf_resolved_def Let_def split: option.splits if_splits)

lemma resolve_satisfiable:
  assumes "wf_byte_range r"
  shows "(\<exists>q. ByteRange_resolve r (PInt n) = Inr q) \<longleftrightarrow>
    0 < n \<and> (\<forall>s. br_start r = Some s \<longrightarrow> s < n)"
  using assms
  by (auto simp: ByteRange_resolve_def ok_iff wf_byte_range_def wf_resolved_def Let_def
      ResolvedByteRange_init_def bindE_def non_negative_int_def split: option.splits if_splits)

lemma slice_selected:
  assumes "wf_byte_range r" and "ByteRange_resolve r (PInt (int (length data))) = Inr q"
  shows "resolved_slice q data = selected r data
    \<and> int (length (resolved_slice q data)) = ResolvedByteRange_length q
    \<and> 0 \<le> rr_start q \<and> rr_start q \<le> rr_end q \<and> rr_end q < int (length data)"
proof -
  have q: "wf_resolved q" "rr_total q = int (length data)"
    using assms resolve_ok by blast+
  have len: "int (length (resolved_slice q data)) = ResolvedByteRange_length q"
    using q by (auto simp: resolved_slice_def ResolvedByteRange_length_def wf_resolved_def)
  have "resolved_slice q data = selected r data"
  proof (cases "br_suffix r")
    case (Some k)
    with assms have k: "0 < k" by (simp add: wf_byte_range_def)
    have se: "rr_start q = int (length data) - min k (int (length data))" "rr_end q = int (length data) - 1"
      using assms Some by (simp_all add: resolve_ok)
    then have "nat (rr_start q) = length data - nat k" using k by auto
    then show ?thesis using Some se k by (auto simp: resolved_slice_def selected_def min_def)
  next
    case None
    have se: "rr_start q = the (br_start r)"
      "rr_end q = (case br_end r of None \<Rightarrow> int (length data) - 1 | Some e \<Rightarrow> min e (int (length data) - 1))"
      using assms None by (simp_all add: resolve_ok)
    then show ?thesis
      using None q by (cases "br_end r") (auto simp: resolved_slice_def selected_def wf_resolved_def min_def)
  qed
  then show ?thesis using len q by (simp add: wf_resolved_def)
qed

text \<open>
  A well-formed request either resolves, exactly when the object is not empty and the start is inside it,
  or raises \<open>RangeNotSatisfiable\<close>; it never reaches the assertion.
\<close>

lemma resolve_decision:
  assumes "wf_byte_range r" and "0 \<le> n"
  shows "if 0 < n \<and> (\<forall>s. br_start r = Some s \<longrightarrow> s < n)
    then \<exists>q k. ByteRange_resolve r (PInt n) = Inr q \<and> ByteRange_requested_length r = Inr k
           \<and> (\<forall>l. k = Some l \<longrightarrow> ResolvedByteRange_length q \<le> l)
    else ByteRange_resolve r (PInt n) = Inl (ObjectError RangeNotSatisfiable)"
proof (cases "0 < n \<and> (\<forall>s. br_start r = Some s \<longrightarrow> s < n)")
  case True
  then obtain q where q: "ByteRange_resolve r (PInt n) = Inr q"
    using resolve_satisfiable [OF assms(1)] by blast
  have "\<exists>k. ByteRange_requested_length r = Inr k \<and> (\<forall>l. k = Some l \<longrightarrow> ResolvedByteRange_length q \<le> l)"
    using q assms(1) by (auto simp: resolve_ok ByteRange_requested_length_def wf_byte_range_def
        ResolvedByteRange_length_def wf_resolved_def min_def split: option.splits)
  with q True show ?thesis by auto
next
  case False
  then show ?thesis
    using assms by (auto simp: ByteRange_resolve_def wf_byte_range_def non_negative_int_def split: option.splits)
qed

text \<open>
  C14. Refinement of the abstract selection, decided for every object: a well-formed request resolves
  exactly when the object is not empty and its start is inside it, and raises \<open>RangeNotSatisfiable\<close>
  otherwise. The resolved range lies inside the object, its slice is exactly what the request selects, its
  declared length is the number of bytes selected, and never more than was requested.
\<close>

theorem resolve_selects:
  assumes "wf_byte_range r"
  shows "if data \<noteq> [] \<and> (\<forall>s. br_start r = Some s \<longrightarrow> s < int (length data))
    then \<exists>q k. ByteRange_resolve r (PInt (int (length data))) = Inr q
      \<and> resolved_slice q data = selected r data \<and> int (length (selected r data)) = ResolvedByteRange_length q
      \<and> 0 \<le> rr_start q \<and> rr_start q \<le> rr_end q \<and> rr_end q < int (length data)
      \<and> ByteRange_requested_length r = Inr k \<and> (\<forall>l. k = Some l \<longrightarrow> ResolvedByteRange_length q \<le> l)
    else ByteRange_resolve r (PInt (int (length data))) = Inl (ObjectError RangeNotSatisfiable)"
  using resolve_decision [OF assms, of "int (length data)"] slice_selected [OF assms] by fastforce

theorem resolve_selects_witness:
  "(\<exists>q. ByteRange_resolve \<lparr>br_start = None, br_end = None, br_suffix = Some 20\<rparr> (PInt 5) = Inr q
       \<and> resolved_slice q ''abcde'' = ''abcde'')
   \<and> ByteRange_resolve \<lparr>br_start = Some 5, br_end = None, br_suffix = None\<rparr> (PInt 5)
     = Inl (ObjectError RangeNotSatisfiable)"
proof -
  have "wf_byte_range \<lparr>br_start = None, br_end = None, br_suffix = Some 20\<rparr>"
    "wf_byte_range \<lparr>br_start = Some 5, br_end = None, br_suffix = None\<rparr>"
    by (simp_all add: wf_byte_range_def)
  note this [THEN resolve_selects, of "''abcde''"]
  then show ?thesis by (auto simp: selected_def)
qed

text \<open>
  Wire documents of ranges: parsing accepts only well-formed ranges, printing a well-formed
  range and parsing it back gives the same range, and re-parsing what normalisation printed
  changes nothing.
\<close>

lemma byte_range_documents:
  "(ByteRange_from_mapping d = Inr r \<longrightarrow>
      wf_byte_range r \<and> ByteRange_from_mapping (ByteRange_to_dict r) = Inr r)
   \<and> (canonical ByteRange_from_mapping ByteRange_to_dict d = Inr d' \<longrightarrow>
      canonical ByteRange_from_mapping ByteRange_to_dict d' = Inr d')"
  using byte_range_wire.parse_wf byte_range_wire.parse_print byte_range_wire.canonical_fixpoint
  by blast

end
