(* ===== verification/Catalog.thy ===== *)
theory Catalog
  imports Capabilities Payloads Signed Immutability Ranges
begin

text \<open>
  \<open>catalog.py\<close>: the table of the eight operations and the manifest, the surface that builds
  Expressions, and \<open>normalize\<close>, which validates the arguments of an Expression, rewrites them to
  their normal form and derives the capability requirements of the Operation. The dict that the
  validators mutate is threaded through them.
\<close>

section \<open>Operations and manifest\<close>

definition OBJECT_OPERATIONS :: "(string \<times> bool \<times> string \<times> string list) list" where
  "OBJECT_OPERATIONS =
     [(''create_resource'', False, ''always'', []),
      (''delete'', False, ''always'', [GUARANTEE_EXACT_VERSION_DELETE]),
      (''get'', True, ''always'', [GUARANTEE_DIGEST_VERIFICATION, GUARANTEE_STREAMING]),
      (''list'', True, ''always'', [GUARANTEE_BOUNDED_PREFIX_LIST]),
      (''publish_schema'', False, ''always'', []),
      (''put'', False, ''conditional'',
        [GUARANTEE_DIGEST_SHA256, GUARANTEE_METADATA_AFTER_COMMIT, GUARANTEE_STREAMING]),
      (''read_range'', True, ''always'', [GUARANTEE_DIGEST_VERIFICATION, GUARANTEE_RANGE_READ]),
      (''stat'', True, ''always'', [])]"

definition OBJECT_REGISTRY_REF :: resource_ref where
  "OBJECT_REGISTRY_REF = \<lparr>rs_catalog = lit ''object'', rs_namespace = lit ''meridian'', rs_name = lit ''registry''\<rparr>"

definition object_manifest :: catalog_manifest where
  "object_manifest =
     \<lparr>cm_catalog_name = lit ''object'',
      cm_package_name = lit ''meridian-storage-object-common'',
      cm_package_version = lit ''1.0.1'',
      cm_catalog_contract_version = lit ''1.0.0'',
      cm_operations = map (\<lambda>(m, read_only, idempotency, guarantees).
        \<lparr>oc_method = lit m, oc_operation_contract = operation_name (lit m),
         oc_operation_version = OBJECT_OPERATION_VERSION, oc_read_only = read_only,
         oc_idempotency = lit idempotency, oc_guarantees = guarantees\<rparr>) OBJECT_OPERATIONS,
      cm_extensions =
        [fld ''design.hldRevision'' (PInt 56), fld ''design.catalogRevision'' (PInt 70),
         fld ''design.objectLldRevision'' (PInt 12),
         fld ''objectMetadataFormat'' (PStr (lit ''meridian.object.v1'')),
         fld ''payloadReferenceFormat'' (PStr (lit ''meridian.object.payload-reference.v1''))]\<rparr>"

text \<open>Core's manifest lookup: the contract of that method, or \<open>KeyError\<close>.\<close>

definition manifest_lookup :: "('m) catalog_core_scheme \<Rightarrow> bool" where
  "manifest_lookup c \<longleftrightarrow>
     (\<forall>m method. operation_for c m method =
        (case find (\<lambda>k. oc_method k = method) (cm_operations m) of None \<Rightarrow> Inl KeyError | Some k \<Rightarrow> Inr k))"

section \<open>References\<close>

datatype logical_reference = Plain_reference object_reference | Signed_reference signed_reference

datatype logical_arg = Logical_object logical_reference | Logical_mapping pydict

definition parse_logical_reference :: "('m) core_scheme \<Rightarrow> logical_arg \<Rightarrow> logical_reference result" where
  "parse_logical_reference c value =
     (case value of
        Logical_object r \<Rightarrow> Inr r
      | Logical_mapping d \<Rightarrow>
          if str_equal (dget_none d ''formatVersion'') SIGNED_REFERENCE_FORMAT_VERSION
          then bindE (SignedObjectReference_from_mapping c d) (\<lambda>r. Inr (Signed_reference r))
          else bindE (catchE (parse_object_reference c (Ref_mapping d) False) is_type_or_value_error
                 (ObjectError ObjectInvalidRequest)) (\<lambda>r. Inr (Plain_reference r)))"

definition require_same_resource :: "object_reference \<Rightarrow> resource_ref \<Rightarrow> unit result" where
  "require_same_resource reference resource =
     (let selected = or_resource reference
      in if (sr_catalog selected, sr_namespace selected, sr_name selected)
            \<noteq> (rs_catalog resource, rs_namespace resource, rs_name resource)
         then Inl ValueError else Inr ())"

definition normalize_reference ::
    "('m) core_scheme \<Rightarrow> pydict \<Rightarrow> resource_ref \<Rightarrow> pystr \<Rightarrow> bool \<Rightarrow> (pydict \<times> bool) result" where
  \<comment> \<open>the mutated \<open>value\<close>, and whether the reference is signed\<close>
  "normalize_reference c value resource m require_digest =
     bindE (dget_req value ''reference'') (\<lambda>raw.
     bindE (json_mapping raw) (\<lambda>rd.
     bindE (parse_logical_reference c (Logical_mapping rd)) (\<lambda>parsed.
     case parsed of
       Signed_reference r \<Rightarrow>
         if m \<notin> set (sd_allowed_operations r) then Inl ValueError
         else
           bindE (require_same_resource (sd_object_ref r) resource) (\<lambda>_.
           Inr (dset value ''reference'' (PDict (SignedObjectReference_to_dict c r)), True))
     | Plain_reference r \<Rightarrow>
         if require_digest \<and> or_digest r = None then Inl ValueError
         else
           bindE (require_same_resource r resource) (\<lambda>_.
           Inr (dset value ''reference'' (PDict (ObjectReference_to_dict c r)), False)))))"

definition parse_resource :: "('m) core_scheme \<Rightarrow> pyval \<Rightarrow> resource_ref result" where
  "parse_resource c value = catchE (parse_ResourceRef c value) is_type_or_value_error ValueError"

section \<open>Registry arguments\<close>

definition validate_registry_arguments :: "('m) core_scheme \<Rightarrow> pystr \<Rightarrow> pydict \<Rightarrow> pydict result" where
  "validate_registry_arguments c m value =
     (if m = lit ''publish_schema'' then
        bindE (exact_fields value
          [''namespace'', ''name'', ''version'', ''definition'', ''allowBreaking'', ''expectedRegistryRevision''] []) (\<lambda>_.
        bindE (dget_req value ''namespace'') (\<lambda>namespace.
        bindE (dget_req value ''name'') (\<lambda>name.
        bindE (new_ResourceRef c namespace name) (\<lambda>_.
        bindE (dget_req value ''version'') (\<lambda>version.
        bindE (new_SchemaRef c namespace name version) (\<lambda>_.
        bindE (json_mapping (dget_none value ''definition'')) (\<lambda>_.
        bindE (py_bool (dget_none value ''allowBreaking'')) (\<lambda>_.
        bindE (optional_field non_negative_int (dget_none value ''expectedRegistryRevision'')) (\<lambda>_.
        Inr value)))))))))
      else
        bindE (exact_fields value [''namespace'', ''name'', ''profile'', ''options''] []) (\<lambda>_.
        bindE (dget_req value ''namespace'') (\<lambda>namespace.
        bindE (dget_req value ''name'') (\<lambda>name.
        bindE (new_ResourceRef c namespace name) (\<lambda>_.
        bindE (json_mapping (dget_none value ''profile'')) (\<lambda>profile_value.
        bindE (parse_object_profile c (Profile_mapping profile_value)) (\<lambda>profile.
        bindE (json_mapping (dget_none value ''options'')) (\<lambda>options.
        Inr (dset (dset value ''profile'' (PDict (ObjectProfile_to_dict c profile))) ''options'' (PDict options))))))))))"

section \<open>The arguments of put\<close>

type_synonym limits = "(string \<times> int) list"
type_synonym demands = "string set \<times> limits \<times> bool"

definition put_fields :: "string list" where
  "put_fields =
     [''resource'', ''objectId'', ''payload'', ''mediaType'', ''expectedDigest'', ''expectedLength'',
      ''userMetadata'', ''creationContext'', ''provenance'', ''immutability'', ''retention'', ''createOnly'']"

definition put_payload :: "pydict \<Rightarrow> (payload_reference \<times> pydict) result" where
  \<comment> \<open>\<open>_validate_put\<close> up to the rewritten \<open>payload\<close>, \<open>expectedDigest\<close> and \<open>expectedLength\<close>\<close>
  "put_payload value =
     bindE (dget_req value ''payload'') (\<lambda>raw_payload.
     bindE (json_mapping raw_payload) (\<lambda>pd.
     bindE (PayloadReference_from_mapping pd) (\<lambda>payload.
     bindE (optional_field digest (dget_none value ''expectedDigest'')) (\<lambda>expected_digest.
     bindE (optional_field non_negative_int (dget_none value ''expectedLength'')) (\<lambda>expected_length.
     if pr_expected_digest payload \<noteq> None \<and> pr_expected_digest payload \<noteq> expected_digest then Inl ValueError
     else if pr_expected_length payload \<noteq> None \<and> pr_expected_length payload \<noteq> expected_length then Inl ValueError
     else
       bindE (PayloadReference_init (PStr (pr_token payload)) (opt_int expected_length) (opt_str expected_digest)
           (PBool (pr_replayable payload)) (PStr (lit PAYLOAD_REFERENCE_FORMAT_VERSION))) (\<lambda>payload'.
       Inr (payload',
         dset (dset (dset value ''payload'' (PDict (PayloadReference_to_dict payload')))
           ''expectedDigest'' (opt_str expected_digest)) ''expectedLength'' (opt_int expected_length))))))))"

definition put_user_metadata :: "pydict \<Rightarrow> ((pystr \<times> pystr) list \<times> pydict) result" where
  "put_user_metadata value =
     bindE (string_mapping 128 128 2048 (dget_none value ''userMetadata'')) (\<lambda>metadata.
     Inr (metadata, dset value ''userMetadata'' (PDict (map str_item metadata))))"

definition put_immutability :: "pydict \<Rightarrow> (string set \<times> pydict) result" where
  "put_immutability value =
     (let raw = dget_none value ''immutability''
      in if raw = PNone then Inr ({}, value)
         else
           bindE (json_mapping raw) (\<lambda>d.
           bindE (ImmutabilityRequest_from_mapping d) (\<lambda>q.
           Inr (if im_mutability q = lit ''immutable'' then {GUARANTEE_IMMUTABILITY_INTENT} else {},
                dset value ''immutability'' (PDict (ImmutabilityRequest_to_dict q))))))"

definition put_retention :: "pydict \<Rightarrow> (string set \<times> pydict) result" where
  "put_retention value =
     (let raw = dget_none value ''retention''
      in if raw = PNone then Inr ({}, value)
         else
           bindE (json_mapping raw) (\<lambda>d.
           bindE (RetentionRequest_from_mapping d) (\<lambda>q.
           Inr ({GUARANTEE_RETENTION_INTENT}
                  \<union> (if rt_require_enforcement q then {GUARANTEE_RETENTION_ENFORCEMENT} else {}),
                dset value ''retention'' (PDict (RetentionRequest_to_dict q))))))"

definition validate_put :: "('m) core_scheme \<Rightarrow> pydict \<Rightarrow> resource_ref \<Rightarrow> (pydict \<times> demands) result" where
  "validate_put c value resource =
     bindE (exact_fields value put_fields []) (\<lambda>_.
     bindE (put_payload value) (\<lambda>(payload, v1).
     bindE (media_type (dget_none v1 ''mediaType'')) (\<lambda>_.
     bindE (bounded_string 1024 (dget_none v1 ''objectId'')) (\<lambda>object_id.
     bindE (new_ResourceReference c (rs_namespace resource) (rs_name resource)) (\<lambda>semantic_resource.
     bindE (new_ObjectReference c semantic_resource (PStr object_id) (opt_str (pr_expected_digest payload))) (\<lambda>_.
     bindE (put_user_metadata v1) (\<lambda>(metadata, v2).
     bindE (json_mapping (dget_none v2 ''creationContext'')) (\<lambda>context.
     let v3 = dset v2 ''creationContext'' (PDict context) in
     bindE (json_mapping (dget_none v3 ''provenance'')) (\<lambda>provenance.
     let v4 = dset v3 ''provenance'' (PDict provenance) in
     bindE (put_immutability v4) (\<lambda>(g1, v5).
     bindE (put_retention v5) (\<lambda>(g2, v6).
     bindE (py_bool (dget_none v6 ''createOnly'')) (\<lambda>create_only.
     let guarantees = g1 \<union> g2 \<union> (if create_only then {GUARANTEE_CONDITIONAL_CREATE} else {});
         limits = (LIMIT_MAX_USER_METADATA_ENTRIES, int (length metadata))
           # (case pr_expected_length payload of None \<Rightarrow> [] | Some n \<Rightarrow> [(LIMIT_MAX_OBJECT_BYTES, n)])
     in Inr (v6, guarantees, limits, create_only \<or> pr_expected_digest payload \<noteq> None)))))))))))))"

section \<open>The arguments of the other data operations\<close>

definition list_prefix :: "pyval \<Rightarrow> unit result" where
  "list_prefix prefix =
     (case prefix of
        PStr s \<Rightarrow>
          bindE (utf8_encode s) (\<lambda>raw.
          if length raw > 1024 then Inl ValueError
          else if list_ex is_control s then Inl ValueError else Inr ())
      | _ \<Rightarrow> Inl ValueError)"

definition validate_data_arguments ::
    "('m) core_scheme \<Rightarrow> pystr \<Rightarrow> pydict \<Rightarrow> resource_ref \<Rightarrow> (pydict \<times> demands) result" where
  "validate_data_arguments c m value resource =
     (if m = lit ''put'' then validate_put c value resource
      else if m \<in> {lit ''get'', lit ''stat''} then
        bindE (exact_fields value [''resource'', ''reference''] []) (\<lambda>_.
        bindE (normalize_reference c value resource m False) (\<lambda>(v, signed).
        Inr (v, if signed then {GUARANTEE_SIGNED_REFERENCE} else {}, [], True)))
      else if m = lit ''read_range'' then
        bindE (exact_fields value [''resource'', ''reference'', ''range''] []) (\<lambda>_.
        bindE (normalize_reference c value resource m False) (\<lambda>(v, signed).
        bindE (json_mapping (dget_none v ''range'')) (\<lambda>raw_range.
        bindE (ByteRange_from_mapping raw_range) (\<lambda>r.
        bindE (ByteRange_requested_length r) (\<lambda>requested.
        Inr (dset v ''range'' (PDict (ByteRange_to_dict r)),
             if signed then {GUARANTEE_SIGNED_REFERENCE} else {},
             case requested of None \<Rightarrow> [] | Some n \<Rightarrow> [(LIMIT_MAX_RANGE_BYTES, n)],
             True))))))
      else if m = lit ''list'' then
        bindE (exact_fields value [''resource'', ''prefix'', ''limit'', ''cursor'', ''purpose''] []) (\<lambda>_.
        bindE (list_prefix (dget_none value ''prefix'')) (\<lambda>_.
        bindE (positive_int (dget_none value ''limit'')) (\<lambda>limit.
        if limit > 1000 then Inl ValueError
        else
          bindE (optional_field (bounded_string 2048) (dget_none value ''cursor'')) (\<lambda>_.
          if \<not> str_equal (dget_none value ''purpose'') ''maintenance'' then Inl ValueError
          else Inr (value, {}, [(LIMIT_MAX_LIST_PAGE_SIZE, limit)], True)))))
      else if m = lit ''delete'' then
        bindE (exact_fields value [''resource'', ''reference'', ''reason''] []) (\<lambda>_.
        bindE (normalize_reference c value resource m True) (\<lambda>(v, signed).
        bindE (optional_field (bounded_string 1024) (dget_none v ''reason'')) (\<lambda>_.
        Inr (v, {}, [], True))))
      else Inl ValueError)"

section \<open>Normalization\<close>

definition validate_arguments ::
    "('m) core_scheme \<Rightarrow> pystr \<Rightarrow> pydict \<Rightarrow> (resource_ref list \<times> pydict \<times> demands) result" where
  \<comment> \<open>the body of the \<open>try\<close> of \<open>normalize\<close>\<close>
  "validate_arguments c m value =
     bindE (reject_private_configuration (PDict value)) (\<lambda>_.
     if m \<in> {lit ''publish_schema'', lit ''create_resource''} then
       bindE (validate_registry_arguments c m value) (\<lambda>v. Inr ([OBJECT_REGISTRY_REF], v, {}, [], True))
     else
       bindE (parse_resource c (dget_none value ''resource'')) (\<lambda>resource.
       bindE (validate_data_arguments c m value resource) (\<lambda>(v, d). Inr ([resource], v, d))))"

definition normalize :: "('m) catalog_core_scheme \<Rightarrow> expression \<Rightarrow> operation result" where
  "normalize c e =
     (if ex_catalog e \<noteq> lit ''object'' then Inl (ObjectError ObjectInvalidRequest)
      else
        bindE (catchE (operation_for c object_manifest (ex_method e)) (\<lambda>x. x = KeyError)
            (ObjectError ObjectInvalidRequest)) (\<lambda>contract.
        bindE (catchE (validate_arguments c (ex_method e) (ex_arguments e)) is_type_or_value_error
            (ObjectError ObjectInvalidRequest)) (\<lambda>(resources, input_value, guarantees, limits, idempotent).
        bindE (if guarantees \<noteq> {} \<or> limits \<noteq> []
               then bindE (object_requirement c (ex_method e) (set_order c guarantees) (Some limits)) (\<lambda>q. Inr [q])
               else Inr []) (\<lambda>requirements.
        new_Operation c
          \<lparr>on_catalog = lit ''object'', on_operation_contract = oc_operation_contract contract,
           on_operation_version = oc_operation_version contract, on_resources = resources,
           on_input = input_value, on_requirements = requirements,
           on_read_only = oc_read_only contract, on_idempotent = idempotent\<rparr>))))"

section \<open>The surface\<close>

text \<open>
  The keyword arguments of the eight methods. A value that the surface puts on the wire by
  \<open>_wire\<close> is a plain value (a mapping or a string), an instance of one of the package's classes
  or of Semantics' with its \<open>to_dict\<close>, or some other object with \<open>to_dict\<close>, which is what it
  returns.
\<close>

datatype wire_arg =
    Wire_plain pyval
  | Wire_printed pydict
  | Wire_reference object_reference
  | Wire_signed signed_reference
  | Wire_profile object_profile
  | Wire_immutability immutability_request
  | Wire_retention retention_request

definition wire :: "('m) core_scheme \<Rightarrow> wire_arg \<Rightarrow> pyval" where
  "wire c value =
     (case value of
        Wire_plain v \<Rightarrow> v
      | Wire_printed d \<Rightarrow> PDict d
      | Wire_reference r \<Rightarrow> PDict (ObjectReference_to_dict c r)
      | Wire_signed r \<Rightarrow> PDict (SignedObjectReference_to_dict c r)
      | Wire_profile p \<Rightarrow> PDict (ObjectProfile_to_dict c p)
      | Wire_immutability q \<Rightarrow> PDict (ImmutabilityRequest_to_dict q)
      | Wire_retention q \<Rightarrow> PDict (RetentionRequest_to_dict q))"

definition wire_optional :: "('m) core_scheme \<Rightarrow> wire_arg option \<Rightarrow> pyval" where
  "wire_optional c value = (case value of None \<Rightarrow> PNone | Some v \<Rightarrow> wire c v)"

definition or_empty :: "pydict option \<Rightarrow> pyval" where
  \<comment> \<open>\<open>dict(value or {})\<close>\<close>
  "or_empty value = PDict (case value of None \<Rightarrow> [] | Some d \<Rightarrow> d)"

definition surface_expression :: "('m) catalog_core_scheme \<Rightarrow> string \<Rightarrow> pydict \<Rightarrow> expression result" where
  "surface_expression c m arguments =
     new_Expression c \<lparr>ex_catalog = lit ''object'', ex_method = lit m, ex_arguments = arguments\<rparr>"

definition surface_publish_schema ::
    "('m) catalog_core_scheme \<Rightarrow> pyval \<Rightarrow> pyval \<Rightarrow> pyval \<Rightarrow> pydict \<Rightarrow> pyval \<Rightarrow> pyval \<Rightarrow> expression result" where
  "surface_publish_schema c namespace name version schema expected_registry_revision allow_breaking =
     surface_expression c ''publish_schema''
       [fld ''namespace'' namespace, fld ''name'' name, fld ''version'' version, fld ''definition'' (PDict schema),
        fld ''allowBreaking'' allow_breaking, fld ''expectedRegistryRevision'' expected_registry_revision]"

definition surface_create_resource ::
    "('m) catalog_core_scheme \<Rightarrow> pyval \<Rightarrow> pyval \<Rightarrow> wire_arg option \<Rightarrow> pydict option \<Rightarrow> expression result" where
  "surface_create_resource c namespace name profile options =
     surface_expression c ''create_resource''
       [fld ''namespace'' namespace, fld ''name'' name,
        fld ''profile'' (wire c (case profile of None \<Rightarrow> Wire_profile (default_ObjectProfile c) | Some p \<Rightarrow> p)),
        fld ''options'' (or_empty options)]"

record put_keywords =
  pc_resource :: wire_arg
  pc_object_id :: pyval
  pc_payload :: payload_arg
  pc_media_type :: pyval
  pc_expected_digest :: pyval
  pc_expected_length :: pyval
  pc_user_metadata :: "pydict option"
  pc_creation_context :: "pydict option"
  pc_provenance :: "pydict option"
  pc_immutability :: "wire_arg option"
  pc_retention :: "wire_arg option"
  pc_create_only :: pyval

definition put_arguments :: "('m) core_scheme \<Rightarrow> put_keywords \<Rightarrow> payload_reference \<Rightarrow> pydict" where
  \<comment> \<open>the mapping of \<open>put\<close> once its payload is parsed\<close>
  "put_arguments c q p =
     (let selected_digest = (if pc_expected_digest q = PNone then opt_str (pr_expected_digest p) else pc_expected_digest q);
          selected_length = (if pc_expected_length q = PNone then opt_int (pr_expected_length p) else pc_expected_length q)
      in [fld ''resource'' (wire c (pc_resource q)), fld ''objectId'' (pc_object_id q),
          fld ''payload'' (PDict (PayloadReference_to_dict p)), fld ''mediaType'' (pc_media_type q),
          fld ''expectedDigest'' selected_digest, fld ''expectedLength'' selected_length,
          fld ''userMetadata'' (or_empty (pc_user_metadata q)),
          fld ''creationContext'' (or_empty (pc_creation_context q)),
          fld ''provenance'' (or_empty (pc_provenance q)),
          fld ''immutability'' (wire_optional c (pc_immutability q)),
          fld ''retention'' (wire_optional c (pc_retention q)),
          fld ''createOnly'' (pc_create_only q)])"

definition surface_put :: "('m) catalog_core_scheme \<Rightarrow> put_keywords \<Rightarrow> expression result" where
  "surface_put c q =
     bindE (parse_payload (pc_payload q)) (\<lambda>p. surface_expression c ''put'' (put_arguments c q p))"

definition surface_reference_expression ::
    "('m) catalog_core_scheme \<Rightarrow> string \<Rightarrow> wire_arg \<Rightarrow> wire_arg \<Rightarrow> expression result" where
  "surface_reference_expression c m resource reference =
     surface_expression c m [fld ''resource'' (wire c resource), fld ''reference'' (wire c reference)]"

definition surface_get :: "('m) catalog_core_scheme \<Rightarrow> wire_arg \<Rightarrow> wire_arg \<Rightarrow> expression result" where
  "surface_get c resource reference = surface_reference_expression c ''get'' resource reference"

definition surface_stat :: "('m) catalog_core_scheme \<Rightarrow> wire_arg \<Rightarrow> wire_arg \<Rightarrow> expression result" where
  "surface_stat c resource reference = surface_reference_expression c ''stat'' resource reference"

datatype range_arg = Range_object byte_range | Range_mapping pydict

definition surface_read_range ::
    "('m) catalog_core_scheme \<Rightarrow> wire_arg \<Rightarrow> wire_arg \<Rightarrow> range_arg \<Rightarrow> expression result" where
  "surface_read_range c resource reference byte_range =
     bindE (case byte_range of Range_object r \<Rightarrow> Inr r | Range_mapping d \<Rightarrow> ByteRange_from_mapping d) (\<lambda>r.
     surface_expression c ''read_range''
       [fld ''resource'' (wire c resource), fld ''reference'' (wire c reference),
        fld ''range'' (PDict (ByteRange_to_dict r))])"

definition surface_list ::
    "('m) catalog_core_scheme \<Rightarrow> wire_arg \<Rightarrow> pyval \<Rightarrow> pyval \<Rightarrow> pyval \<Rightarrow> pyval \<Rightarrow> expression result" where
  "surface_list c resource prefix limit cursor purpose =
     surface_expression c ''list''
       [fld ''resource'' (wire c resource), fld ''prefix'' prefix, fld ''limit'' limit, fld ''cursor'' cursor,
        fld ''purpose'' purpose]"

definition surface_delete :: "('m) catalog_core_scheme \<Rightarrow> wire_arg \<Rightarrow> wire_arg \<Rightarrow> pyval \<Rightarrow> expression result" where
  "surface_delete c resource reference reason =
     surface_expression c ''delete''
       [fld ''resource'' (wire c resource), fld ''reference'' (wire c reference), fld ''reason'' reason]"

end
