(* ===== verification/Normalization.thy ===== *)
theory Normalization
  imports Catalog
begin

text \<open>
  What normalization guarantees: which exceptions leave it, what the Operation is made of, and what
  the listing, reading and deleting operations accept and demand of an Adapter.
\<close>

section \<open>Errors\<close>

definition request_error :: "exn \<Rightarrow> bool" where
  \<comment> \<open>what the body of the \<open>try\<close> may raise\<close>
  "request_error e \<longleftrightarrow> is_type_or_value_error e \<or> e = ObjectError ObjectInvalidRequest"

lemma checked_request: "checked m \<Longrightarrow> raises_only request_error m"
  by (simp add: raises_only_def request_error_def)

lemma request_error_simps [simp]:
  "request_error TypeError" "request_error ValueError" "request_error (ObjectError ObjectInvalidRequest)"
  by (simp_all add: request_error_def)

lemma checked_signed_init:
  assumes "checked_errors c"
  shows "checked (SignedObjectReference_init c r ops (Wire_value t) a n k g s f)"
proof -
  have "checked (utc_timestamp (Wire_value t))"
    by (auto intro!: raises_onlyI dest!: utc_timestamp_error)
  then show ?thesis
    unfolding SignedObjectReference_init_def
    by (intro raises_intros checked_reference [OF assms]) simp_all
qed

lemma checked_signed_mapping:
  assumes "checked_errors c"
  shows "checked (SignedObjectReference_from_mapping c d)"
  unfolding SignedObjectReference_from_mapping_def
  by (intro raises_intros checked_reference [OF assms] checked_signed_init [OF assms])
    (auto intro: checked_dget_req split: pyval.splits)

lemma checked_range: "checked (ByteRange_from_mapping d)"
  unfolding ByteRange_from_mapping_def ByteRange_init_def
  by (intro raises_intros) (auto intro: checked_dget_req)

lemma logical_reference_errors:
  assumes "checked_errors c"
  shows "raises_only request_error (parse_logical_reference c (Logical_mapping d))"
proof -
  have "raises_only request_error
      (catchE (parse_object_reference c (Ref_mapping d) False) is_type_or_value_error (ObjectError ObjectInvalidRequest))"
    using checked_reference [OF assms] by (rule raises_only_catchE) simp
  then show ?thesis
    using checked_signed_mapping [OF assms, THEN checked_request]
    by (simp add: parse_logical_reference_def raises_only_bindE)
qed

lemma requested_length_fine: "wf_byte_range r \<Longrightarrow> raises_only p (ByteRange_requested_length r)"
  by (auto simp: ByteRange_requested_length_def wf_byte_range_def split: option.splits)

lemmas request_errors = raises_intros checked_request

lemma reference_errors:
  assumes "checked_errors c" and "KStr (lit ''reference'') \<in> dkeys v"
  shows "raises_only request_error (normalize_reference c v resource m q)"
proof -
  have "checked (dget_req v ''reference'')"
    using dget_req_present [OF assms(2)] by (auto intro: raises_onlyI)
  then show ?thesis
    unfolding normalize_reference_def require_same_resource_def Let_def
    using checked_request [OF checked_fields(8)] logical_reference_errors [OF assms(1)]
    by (auto intro!: raises_only_bindE dest: checked_request split: logical_reference.splits)
qed

lemma registry_errors:
  assumes "checked_errors c"
  shows "checked (validate_registry_arguments c m v)"
  unfolding validate_registry_arguments_def
  by (intro raises_intros checked_core [OF assms] checked_profile [OF assms])
    (auto intro: checked_dget_req)

lemma put_errors:
  assumes "checked_errors c"
  shows "checked (validate_put c v resource)"
  unfolding validate_put_def put_payload_def put_user_metadata_def put_immutability_def put_retention_def Let_def split_def
  by (intro raises_intros checked_core [OF assms])
    (auto intro: checked_dget_req simp: put_fields_def)

lemma prefix_errors: "checked (list_prefix v)"
  by (cases v) (auto simp: list_prefix_def utf8_encode_def intro!: raises_intros)

lemma data_errors:
  assumes "checked_errors c"
  shows "raises_only request_error (validate_data_arguments c m v resource)"
proof -
  have ref: "exact_fields v req [] = Inr u \<Longrightarrow> ''reference'' \<in> set req \<Longrightarrow>
      raises_only request_error (normalize_reference c v resource k q)" for req u k q
    using reference_errors [OF assms] by (auto simp: ok_iff)
  show ?thesis
    unfolding validate_data_arguments_def split_def
    by (intro raises_intros checked_request [OF put_errors [OF assms]] checked_request [OF prefix_errors]
        checked_request [OF checked_range] requested_length_fine ByteRange_from_mapping_wf)
     (auto intro: ref checked_request intro!: raises_intros)
qed

lemma argument_errors:
  assumes "checked_errors c"
  shows "raises_only request_error (validate_arguments c m v)"
proof -
  have res: "checked (parse_resource c d)" for d
    using checked_core(2) [OF assms] unfolding parse_resource_def by (rule raises_only_catchE) simp
  then show ?thesis
    unfolding validate_arguments_def split_def
    by (intro raises_intros data_errors [OF assms] checked_request [OF registry_errors [OF assms]]
        checked_request [OF checked_fields(11)] checked_request [OF res]) simp_all
qed


lemma object_contracts:
  assumes "manifest_lookup c"
  shows "operation_for c object_manifest m =
    (case find (\<lambda>k. oc_method k = m) (cm_operations object_manifest) of None \<Rightarrow> Inl KeyError | Some k \<Rightarrow> Inr k)"
  using assms by (simp add: manifest_lookup_def)


section \<open>Shape of the Operation\<close>

definition requirements_of ::
    "('m) catalog_core_scheme \<Rightarrow> pystr \<Rightarrow> string set \<Rightarrow> limits \<Rightarrow> capability_requirement list result" where
  "requirements_of c m guarantees limits =
     (if guarantees \<noteq> {} \<or> limits \<noteq> []
      then bindE (object_requirement c m (set_order c guarantees) (Some limits)) (\<lambda>q. Inr [q]) else Inr [])"

lemma normalize_ok:
  "normalize c e = Inr p \<longleftrightarrow>
     ex_catalog e = lit ''object'' \<and>
     (\<exists>k rs v g l i q. operation_for c object_manifest (ex_method e) = Inr k
        \<and> validate_arguments c (ex_method e) (ex_arguments e) = Inr (rs, v, g, l, i)
        \<and> requirements_of c (ex_method e) g l = Inr q
        \<and> new_Operation c \<lparr>on_catalog = lit ''object'', on_operation_contract = oc_operation_contract k,
             on_operation_version = oc_operation_version k, on_resources = rs, on_input = v, on_requirements = q,
             on_read_only = oc_read_only k, on_idempotent = i\<rparr> = Inr p)"
  unfolding normalize_def requirements_of_def [symmetric] by (auto simp: split_def)

lemma contract_found:
  assumes "find (\<lambda>k. oc_method k = m) (cm_operations object_manifest) = Some k"
  shows "oc_operation_contract k = operation_name m" "oc_operation_version k = OBJECT_OPERATION_VERSION"
    "oc_read_only k \<longleftrightarrow> m \<in> lit ` {''get'', ''list'', ''read_range'', ''stat''}"
    "m \<in> lit ` {''create_resource'', ''delete'', ''get'', ''list'', ''publish_schema'', ''put'', ''read_range'', ''stat''}"
  using assms by (auto simp: object_manifest_def OBJECT_OPERATIONS_def split: if_splits)

lemma normalizeE:
  assumes "manifest_lookup c" and "normalize c e = Inr p"
  obtains x g l where "new_Operation c x = Inr p" "ex_catalog e = lit ''object''" "on_catalog x = lit ''object''"
    "validate_arguments c (ex_method e) (ex_arguments e) = Inr (on_resources x, on_input x, g, l, on_idempotent x)"
    "requirements_of c (ex_method e) g l = Inr (on_requirements x)"
    "on_operation_contract x = operation_name (ex_method e)" "on_operation_version x = OBJECT_OPERATION_VERSION"
    "on_read_only x \<longleftrightarrow> ex_method e \<in> lit ` {''get'', ''list'', ''read_range'', ''stat''}"
    "ex_method e \<in> lit ` {''create_resource'', ''delete'', ''get'', ''list'', ''publish_schema'', ''put'', ''read_range'', ''stat''}"
proof -
  obtain k rs v g l i q where n: "ex_catalog e = lit ''object''"
    "operation_for c object_manifest (ex_method e) = Inr k"
    "validate_arguments c (ex_method e) (ex_arguments e) = Inr (rs, v, g, l, i)"
    "requirements_of c (ex_method e) g l = Inr q"
    and x: "new_Operation c \<lparr>on_catalog = lit ''object'', on_operation_contract = oc_operation_contract k,
             on_operation_version = oc_operation_version k, on_resources = rs, on_input = v, on_requirements = q,
             on_read_only = oc_read_only k, on_idempotent = i\<rparr> = Inr p"
    using assms(2) unfolding normalize_ok by blast
  have f: "find (\<lambda>k. oc_method k = ex_method e) (cm_operations object_manifest) = Some k"
    using n(2) unfolding object_contracts [OF assms(1)] by (simp split: option.splits)
  show thesis by (rule that [where g = g and l = l, OF x]) (simp_all only: operation.simps n contract_found [OF f])
qed

definition registry_method :: "pystr \<Rightarrow> bool" where
  "registry_method m \<longleftrightarrow> m \<in> {lit ''publish_schema'', lit ''create_resource''}"

lemma validate_arguments_ok:
  "validate_arguments c m a = Inr (rs, v, d) \<longleftrightarrow>
     (\<forall>k. occurs_key k (PDict a) \<longrightarrow> public_key k) \<and>
     (if registry_method m then validate_registry_arguments c m a = Inr v \<and> rs = [OBJECT_REGISTRY_REF] \<and> d = ({}, [], True)
      else \<exists>r. parse_resource c (dget_none a ''resource'') = Inr r \<and> rs = [r]
         \<and> validate_data_arguments c m a r = Inr (v, d))"
  by (cases d) (auto simp: validate_arguments_def registry_method_def reject_private_ok [symmetric] split_def)

text \<open>
  C2. What an Operation is made of: normalization succeeds only for the eight methods of the
  object Catalog and for arguments without a private key at any depth, and the Operation it
  constructs carries the method's contract, is read-only exactly for the four reading methods, and
  targets the registry for the two schema methods and the parsed Resource for the others.
\<close>

theorem normalize_operation:
  assumes "manifest_lookup c" and "normalize c e = Inr p"
  shows "ex_catalog e = lit ''object''
    \<and> ex_method e \<in> set (map (\<lambda>x. lit (fst x)) OBJECT_OPERATIONS)
    \<and> (\<forall>k. occurs_key k (PDict (ex_arguments e)) \<longrightarrow> public_key k)
    \<and> (\<exists>x. new_Operation c x = Inr p \<and> on_catalog x = lit ''object''
         \<and> on_operation_contract x = lit ''meridian.object.'' @ ex_method e
         \<and> on_operation_version x = lit ''1.0.0''
         \<and> (on_read_only x \<longleftrightarrow> ex_method e \<in> lit ` {''get'', ''list'', ''read_range'', ''stat''})
         \<and> (if ex_method e \<in> lit ` {''publish_schema'', ''create_resource''}
            then on_resources x = [OBJECT_REGISTRY_REF] \<and> on_requirements x = []
            else \<exists>r. parse_ResourceRef c (dget_none (ex_arguments e) ''resource'') = Inr r \<and> on_resources x = [r]))"
proof (rule normalizeE [OF assms], intro conjI)
  fix x g l
  assume x: "new_Operation c x = Inr p" "on_catalog x = lit ''object''"
      "on_operation_contract x = operation_name (ex_method e)" "on_operation_version x = OBJECT_OPERATION_VERSION"
      "on_read_only x \<longleftrightarrow> ex_method e \<in> lit ` {''get'', ''list'', ''read_range'', ''stat''}"
    and q: "requirements_of c (ex_method e) g l = Inr (on_requirements x)"
    and m: "ex_method e \<in> lit ` {''create_resource'', ''delete'', ''get'', ''list'', ''publish_schema'', ''put'', ''read_range'', ''stat''}"
    and v: "validate_arguments c (ex_method e) (ex_arguments e) = Inr (on_resources x, on_input x, g, l, on_idempotent x)"
  note v = v [unfolded validate_arguments_ok]
  show "ex_method e \<in> set (map (\<lambda>x. lit (fst x)) OBJECT_OPERATIONS)"
    using m by (auto simp: OBJECT_OPERATIONS_def)
  show "\<forall>k. occurs_key k (PDict (ex_arguments e)) \<longrightarrow> public_key k" using v by blast
  have "if ex_method e \<in> lit ` {''publish_schema'', ''create_resource''}
      then on_resources x = [OBJECT_REGISTRY_REF] \<and> on_requirements x = []
      else \<exists>r. parse_ResourceRef c (dget_none (ex_arguments e) ''resource'') = Inr r \<and> on_resources x = [r]"
    using v q by (auto simp: registry_method_def parse_resource_def requirements_of_def split: if_splits)
  with x show "\<exists>x. new_Operation c x = Inr p \<and> on_catalog x = lit ''object''
         \<and> on_operation_contract x = lit ''meridian.object.'' @ ex_method e
         \<and> on_operation_version x = lit ''1.0.0''
         \<and> (on_read_only x \<longleftrightarrow> ex_method e \<in> lit ` {''get'', ''list'', ''read_range'', ''stat''})
         \<and> (if ex_method e \<in> lit ` {''publish_schema'', ''create_resource''}
            then on_resources x = [OBJECT_REGISTRY_REF] \<and> on_requirements x = []
            else \<exists>r. parse_ResourceRef c (dget_none (ex_arguments e) ''resource'') = Inr r \<and> on_resources x = [r])"
    unfolding operation_name_def OBJECT_OPERATION_VERSION_def by blast
qed

section \<open>References\<close>

definition belongs :: "object_reference \<Rightarrow> resource_ref \<Rightarrow> bool" where
  "belongs o' r \<longleftrightarrow> sr_catalog (or_resource o') = rs_catalog r \<and> sr_namespace (or_resource o') = rs_namespace r
     \<and> sr_name (or_resource o') = rs_name r"

lemma require_same_resource_ok [ok_iff]: "require_same_resource o' r = Inr u \<longleftrightarrow> belongs o' r"
  by (auto simp: require_same_resource_def belongs_def Let_def)

definition signed_document :: "pydict \<Rightarrow> bool" where
  "signed_document d \<longleftrightarrow> str_equal (dget_none d ''formatVersion'') SIGNED_REFERENCE_FORMAT_VERSION"

lemma parse_logical_reference_ok [ok_iff]:
  "parse_logical_reference c (Logical_mapping d) = Inr x \<longleftrightarrow>
     (if signed_document d then \<exists>r. SignedObjectReference_from_mapping c d = Inr r \<and> x = Signed_reference r
      else \<exists>r. parse_object_reference c (Ref_mapping d) False = Inr r \<and> x = Plain_reference r)"
  by (auto simp: parse_logical_reference_def signed_document_def)

lemma normalize_reference_ok:
  "normalize_reference c v resource m q = Inr (v', sgn') \<longleftrightarrow>
     (\<exists>d. dget v ''reference'' = Some (PDict d) \<and> (sgn' \<longleftrightarrow> signed_document d) \<and>
       (if signed_document d
        then \<exists>r. SignedObjectReference_from_mapping c d = Inr r \<and> m \<in> set (sd_allowed_operations r)
           \<and> belongs (sd_object_ref r) resource
           \<and> v' = dset v ''reference'' (PDict (SignedObjectReference_to_dict c r))
        else \<exists>r. parse_object_reference c (Ref_mapping d) False = Inr r \<and> (q \<longrightarrow> or_digest r \<noteq> None)
           \<and> belongs r resource \<and> v' = dset v ''reference'' (PDict (ObjectReference_to_dict c r))))"
  unfolding normalize_reference_def by (fastforce simp: ok_iff split: if_splits)

lemma signed_operations_known:
  assumes "SignedObjectReference_from_mapping c d = Inr r"
  shows "set (sd_allowed_operations r) \<subseteq> set SIGNED_REFERENCE_OPERATIONS"
  using assms by (auto simp: SignedObjectReference_from_mapping_def SignedObjectReference_init_def)

definition has_fields :: "pydict \<Rightarrow> string list \<Rightarrow> bool" where
  "has_fields v ks \<longleftrightarrow> dkeys v = (\<lambda>k. KStr (lit k)) ` set ks"

lemma exact_fields_only: "exact_fields v ks [] = Inr u \<longleftrightarrow> has_fields v ks"
  by (auto simp: ok_iff has_fields_def)

lemma put_arguments_are: "validate_data_arguments c (lit ''put'') v resource = validate_put c v resource"
  by (simp add: validate_data_arguments_def)

lemma lookup_unfold:
  assumes "m \<in> {lit ''get'', lit ''stat''}"
  shows "validate_data_arguments c m v resource =
      bindE (exact_fields v [''resource'', ''reference''] []) (\<lambda>_.
      bindE (normalize_reference c v resource m False) (\<lambda>(v, sgn').
      Inr (v, if sgn' then {GUARANTEE_SIGNED_REFERENCE} else {}, [], True)))"
  using assms by (auto simp add: validate_data_arguments_def simp del: insert_iff cong: if_cong)

lemma lookup_arguments_ok:
  assumes "m \<in> {lit ''get'', lit ''stat''}"
  shows "validate_data_arguments c m v resource = Inr (v', g, l, i) \<longleftrightarrow>
     has_fields v [''resource'', ''reference''] \<and>
     (\<exists>sgn'. normalize_reference c v resource m False = Inr (v', sgn')
        \<and> g = (if sgn' then {GUARANTEE_SIGNED_REFERENCE} else {})) \<and> l = [] \<and> i"
  unfolding lookup_unfold [OF assms] by (auto simp: exact_fields_only)

lemma range_arguments_ok:
  "validate_data_arguments c (lit ''read_range'') v resource = Inr (v', g, l, i) \<longleftrightarrow>
     has_fields v [''resource'', ''reference'', ''range''] \<and>
     (\<exists>v1 sgn' d r n. normalize_reference c v resource (lit ''read_range'') False = Inr (v1, sgn')
        \<and> dget_none v1 ''range'' = PDict d \<and> ByteRange_from_mapping d = Inr r \<and> ByteRange_requested_length r = Inr n
        \<and> v' = dset v1 ''range'' (PDict (ByteRange_to_dict r))
        \<and> g = (if sgn' then {GUARANTEE_SIGNED_REFERENCE} else {})
        \<and> l = (case n of None \<Rightarrow> [] | Some k \<Rightarrow> [(LIMIT_MAX_RANGE_BYTES, k)])) \<and> i"
  by (simp add: validate_data_arguments_def exact_fields_only json_mapping_ok split_def) blast

lemma delete_arguments_ok:
  "validate_data_arguments c (lit ''delete'') v resource = Inr (v', g, l, i) \<longleftrightarrow>
     has_fields v [''resource'', ''reference'', ''reason''] \<and>
     (\<exists>sgn'. normalize_reference c v resource (lit ''delete'') True = Inr (v', sgn'))
     \<and> (dget_none v' ''reason'' = PNone \<or> (\<exists>s. dget_none v' ''reason'' = PStr s \<and> plain_text 1024 s))
     \<and> g = {} \<and> l = [] \<and> i"
  by (auto simp: validate_data_arguments_def exact_fields_only optional_field_ok bounded_string_ok)

lemma delete_reference:
  "normalize_reference c v resource (lit ''delete'') True = Inr (v', sgn') \<longleftrightarrow> \<not> sgn' \<and>
     (\<exists>d r. dget v ''reference'' = Some (PDict d) \<and> \<not> signed_document d
        \<and> parse_object_reference c (Ref_mapping d) False = Inr r \<and> or_digest r \<noteq> None \<and> belongs r resource
        \<and> v' = dset v ''reference'' (PDict (ObjectReference_to_dict c r)))"
proof -
  have "SignedObjectReference_from_mapping c d = Inr r \<Longrightarrow> lit ''delete'' \<notin> set (sd_allowed_operations r)" for d r
    using signed_operations_known [of c d r] by (auto simp: SIGNED_REFERENCE_OPERATIONS_def)
  then show ?thesis unfolding normalize_reference_ok by (auto split: if_splits)
qed

text \<open>
  C16. Deletion is exact: the arguments of \<open>delete\<close> are accepted exactly when they are the three
  fields with an unsigned reference that carries a digest and belongs to the target Resource, and
  an absent or bounded reason; a signed reference is never accepted. The reference is rewritten to
  its printed form, and nothing more is demanded of the Adapter.
\<close>

theorem delete_exact:
  "validate_data_arguments c (lit ''delete'') v resource = Inr (v', g, l, i) \<longleftrightarrow>
     has_fields v [''resource'', ''reference'', ''reason''] \<and>
     (\<exists>d r. dget v ''reference'' = Some (PDict d) \<and> \<not> signed_document d
        \<and> parse_object_reference c (Ref_mapping d) False = Inr r \<and> or_digest r \<noteq> None \<and> belongs r resource
        \<and> v' = dset v ''reference'' (PDict (ObjectReference_to_dict c r)))
     \<and> (dget_none v ''reason'' = PNone \<or> (\<exists>s. dget_none v ''reason'' = PStr s \<and> plain_text 1024 s))
     \<and> g = {} \<and> l = [] \<and> i"
  unfolding delete_arguments_ok delete_reference by (auto simp: dget_none_def)

section \<open>Listing and range reads\<close>

lemma list_prefix_ok:
  "list_prefix v = Inr u \<longleftrightarrow>
     (\<exists>s raw. v = PStr s \<and> utf8_encode s = Inr raw \<and> length raw \<le> 1024 \<and> \<not> list_ex is_control s)"
  by (auto simp: list_prefix_def split: pyval.splits if_splits)

lemma list_arguments_ok:
  "validate_data_arguments c (lit ''list'') v resource = Inr (v', g, l, i) \<longleftrightarrow>
     has_fields v [''resource'', ''prefix'', ''limit'', ''cursor'', ''purpose''] \<and> v' = v \<and>
     (\<exists>s raw. dget v ''prefix'' = Some (PStr s) \<and> utf8_encode s = Inr raw \<and> length raw \<le> 1024
        \<and> \<not> list_ex is_control s) \<and>
     (\<exists>n. dget v ''limit'' = Some (PInt n) \<and> 1 \<le> n \<and> n \<le> 1000 \<and> l = [(LIMIT_MAX_LIST_PAGE_SIZE, n)]) \<and>
     (dget_none v ''cursor'' = PNone \<or> (\<exists>s. dget_none v ''cursor'' = PStr s \<and> plain_text 2048 s)) \<and>
     dget v ''purpose'' = Some (PStr (lit ''maintenance'')) \<and> g = {} \<and> i"
proof -
  have field: "dget_none v k = x \<longleftrightarrow> dget v k = Some x" if "x \<noteq> PNone" for k x
    using that by (auto simp: dget_none_def split: option.splits)
  have "validate_data_arguments c (lit ''list'') v resource = Inr (v', g, l, i) \<longleftrightarrow>
     has_fields v [''resource'', ''prefix'', ''limit'', ''cursor'', ''purpose''] \<and>
     list_prefix (dget_none v ''prefix'') = Inr () \<and>
     (\<exists>n. positive_int (dget_none v ''limit'') = Inr n \<and> n \<le> 1000 \<and> l = [(LIMIT_MAX_LIST_PAGE_SIZE, n)]) \<and>
     (\<exists>o'. optional_field (bounded_string 2048) (dget_none v ''cursor'') = Inr o') \<and>
     str_equal (dget_none v ''purpose'') ''maintenance'' \<and> v' = v \<and> g = {} \<and> i"
    by (auto simp: validate_data_arguments_def exact_fields_only)
  then show ?thesis
    by (simp add: list_prefix_ok positive_int_ok optional_field_ok bounded_string_ok str_equal_def field) auto
qed

text \<open>
  C21. Listing is bounded: the arguments of \<open>list\<close> are accepted exactly when they are the five
  fields with a UTF-8 prefix of at most 1024 bytes without control characters, a page of 1 to 1000
  entries, an absent or bounded cursor and the maintenance purpose. They are left as they are, and
  the page size is the one limit demanded of the Adapter.
\<close>

theorem list_bounded:
  "validate_data_arguments c (lit ''list'') v resource = Inr (v', g, l, i) \<longleftrightarrow>
     has_fields v [''resource'', ''prefix'', ''limit'', ''cursor'', ''purpose''] \<and> v' = v \<and>
     (\<exists>s raw. dget v ''prefix'' = Some (PStr s) \<and> utf8_encode s = Inr raw \<and> length raw \<le> 1024
        \<and> \<not> list_ex is_control s) \<and>
     (\<exists>n. dget v ''limit'' = Some (PInt n) \<and> 1 \<le> n \<and> n \<le> 1000 \<and> l = [(LIMIT_MAX_LIST_PAGE_SIZE, n)]) \<and>
     (dget_none v ''cursor'' = PNone \<or> (\<exists>s. dget_none v ''cursor'' = PStr s \<and> plain_text 2048 s)) \<and>
     dget v ''purpose'' = Some (PStr (lit ''maintenance'')) \<and> g = {} \<and> i"
  by (rule list_arguments_ok)

lemma requested_length_bounds:
  assumes "wf_byte_range r" and "ByteRange_requested_length r = Inr (Some n)"
  shows "int (length (selected r data)) \<le> n"
  using assms by (auto simp: ByteRange_requested_length_def wf_byte_range_def selected_def split: option.splits)

lemma requested_length_open:
  "wf_byte_range r \<Longrightarrow> ByteRange_requested_length r = Inr None \<longleftrightarrow> br_suffix r = None \<and> br_end r = None"
  by (auto simp: ByteRange_requested_length_def wf_byte_range_def split: option.splits)

text \<open>
  C22. Range reads demand enough: an accepted \<open>read_range\<close> carries the printed form of a valid
  range, and the limit it demands of the Adapter bounds the bytes that this range selects from any
  content; no limit is demanded only for a range that is open at its end.
\<close>

theorem read_range_demand:
  assumes "validate_data_arguments c (lit ''read_range'') v resource = Inr (v', g, l, i)"
  shows "\<exists>r. wf_byte_range r \<and> dget v' ''range'' = Some (PDict (ByteRange_to_dict r))
    \<and> (\<exists>d. dget v ''range'' = Some (PDict d) \<and> ByteRange_from_mapping d = Inr r)
    \<and> (l = [] \<and> br_suffix r = None \<and> br_end r = None
       \<or> (\<exists>n. l = [(LIMIT_MAX_RANGE_BYTES, n)] \<and> (\<forall>data :: 'b list. int (length (selected r data)) \<le> n)))"
proof -
  obtain v1 sgn' d r n where a: "normalize_reference c v resource (lit ''read_range'') False = Inr (v1, sgn')"
    "dget_none v1 ''range'' = PDict d" "ByteRange_from_mapping d = Inr r" "ByteRange_requested_length r = Inr n"
    "v' = dset v1 ''range'' (PDict (ByteRange_to_dict r))"
    "l = (case n of None \<Rightarrow> [] | Some k \<Rightarrow> [(LIMIT_MAX_RANGE_BYTES, k)])"
    using assms unfolding range_arguments_ok by blast
  have wf: "wf_byte_range r" using a(3) by (rule ByteRange_from_mapping_wf)
  have "dget v1 ''range'' = dget v ''range''"
    using a(1) unfolding normalize_reference_ok by (auto split: if_splits)
  then have "dget v ''range'' = Some (PDict d)"
    using a(2) by (auto simp: dget_none_def split: option.splits)
  then show ?thesis
    using wf a requested_length_open [OF wf] requested_length_bounds [OF wf]
    by (cases n) (auto intro!: exI [of _ r])
qed

text \<open>
  C17. Signed references are gated: \<open>get\<close>, \<open>stat\<close> and \<open>read_range\<close> accept a reference only if
  it names an object of the target Resource, and a signed one only if it permits this method; the
  reference is replaced by the printed form of what was parsed, and the signed-reference guarantee
  is demanded of the Adapter exactly for signed references.
\<close>

theorem reading_references:
  assumes "m \<in> {lit ''get'', lit ''stat'', lit ''read_range''}"
    and "validate_data_arguments c m v resource = Inr (v', g, l, i)"
  shows "i \<and> (\<exists>d. dget v ''reference'' = Some (PDict d) \<and>
    (if signed_document d
     then \<exists>r. SignedObjectReference_from_mapping c d = Inr r \<and> m \<in> set (sd_allowed_operations r)
        \<and> belongs (sd_object_ref r) resource \<and> g = {GUARANTEE_SIGNED_REFERENCE}
        \<and> dget v' ''reference'' = Some (PDict (SignedObjectReference_to_dict c r))
     else \<exists>r. parse_object_reference c (Ref_mapping d) False = Inr r \<and> belongs r resource \<and> g = {}
        \<and> dget v' ''reference'' = Some (PDict (ObjectReference_to_dict c r))))"
proof -
  obtain v1 sgn' where "normalize_reference c v resource m False = Inr (v1, sgn')"
    and "g = (if sgn' then {GUARANTEE_SIGNED_REFERENCE} else {})" and i
    and "dget v' ''reference'' = dget v1 ''reference''"
  proof (cases "m = lit ''read_range''")
    case True
    obtain v1 sgn' r where n: "normalize_reference c v resource m False = Inr (v1, sgn')"
      "g = (if sgn' then {GUARANTEE_SIGNED_REFERENCE} else {})" i
      and v': "v' = dset v1 ''range'' (PDict (ByteRange_to_dict r))"
      using assms(2) unfolding True range_arguments_ok by blast
    show ?thesis by (rule that [OF n]) (simp add: v')
  next
    case False
    then have m: "m \<in> {lit ''get'', lit ''stat''}" using assms(1) by simp
    from that assms(2) show ?thesis unfolding lookup_arguments_ok [OF m] by blast
  qed
  then show ?thesis unfolding normalize_reference_ok by (auto split: if_splits)
qed

end
