(* ===== verification/NormalForms.thy ===== *)
theory NormalForms
  imports Normalization
begin

text \<open>
  The normal form of put arguments, the stability of normalization, its independence of the order
  of user metadata, and how the surface's Expressions normalize.
\<close>

section \<open>Puts\<close>

definition normal_metadata :: "(pystr \<times> pystr) list \<Rightarrow> bool" where
  "normal_metadata um \<longleftrightarrow>
     length um \<le> 128 \<and> plain_pairs 128 2048 um \<and> sorted (map fst um) \<and> distinct (map fst um)"

lemma string_entries_distinct:
  assumes "string_entries mk mv d acc = Inr r" and "distinct (map fst acc)" and "plain_pairs mk mv acc"
  shows "distinct (map fst r) \<and> plain_pairs mk mv r \<and> length r \<le> length acc + length d"
  using assms
proof (induction mk mv d acc rule: string_entries.induct)
  case (2 mk mv k item rest acc)
  obtain v key where b: "bounded_string mv item = Inr v" "k = KStr key" "bounded_string mk (PStr key) = Inr key"
    and rest: "string_entries mk mv rest (AList.update key v acc) = Inr r"
    using "2.prems"(1) by (auto simp: ok_iff split: pykey.splits)
  have "plain_text mk key" "plain_text mv v" using b by (auto simp: bounded_string_ok)
  then have "plain_pairs mk mv (AList.update key v acc)"
    using "2.prems"(3) unfolding plain_pairs_def by (induction acc) auto
  moreover have "distinct (map fst (AList.update key v acc))"
    using "2.prems"(2) by (rule distinct_update)
  moreover have "length (AList.update key v acc) \<le> Suc (length acc)"
    by (induction acc) auto
  ultimately show ?case using "2.IH" [OF b(1) _ rest] b by fastforce
qed auto

lemma put_metadata_ok:
  "string_mapping 128 128 2048 v = Inr um \<Longrightarrow> normal_metadata um"
  "normal_metadata um \<Longrightarrow> string_mapping 128 128 2048 (PDict (map str_item um)) = Inr um"
proof -
  assume "string_mapping 128 128 2048 v = Inr um"
  then obtain d r where r: "string_entries 128 2048 d [] = Inr r" "um = sort_key fst r" "length d \<le> 128"
    by (auto simp: string_mapping_def split: pyval.splits if_splits)
  have "distinct (map fst r)" "plain_pairs 128 2048 r" "length r \<le> length d"
    using string_entries_distinct [OF r(1)] by (simp_all add: plain_pairs_def)
  then show "normal_metadata um"
    using r(2,3) by (simp add: normal_metadata_def plain_pairs_def distinct_map)
next
  assume n: "normal_metadata um"
  have "map fst (map str_item um) = map KStr (map fst um)" by (simp add: str_item_def split_def)
  then have "distinct (map fst (map str_item um))"
    using n by (simp only: distinct_map [of KStr] normal_metadata_def inj_on_def pykey.inject) simp
  then show "string_mapping 128 128 2048 (PDict (map str_item um)) = Inr um"
    using n by (auto simp: string_mapping_ok normal_metadata_def sort_key_id_if_sorted intro!: exI [of _ um])
qed

definition put_normal ::
    "('m) core_scheme \<Rightarrow> resource_ref \<Rightarrow> pydict \<Rightarrow> payload_reference \<Rightarrow> (pystr \<times> pystr) list \<Rightarrow> immutability_request option
     \<Rightarrow> retention_request option \<Rightarrow> bool \<Rightarrow> bool" where
  \<comment> \<open>the normal form of the arguments of \<open>put\<close> on a Resource\<close>
  "put_normal c resource v p um im rt create_only \<longleftrightarrow>
     has_fields v put_fields
     \<and> wf_payload_reference p \<and> dget v ''payload'' = Some (PDict (PayloadReference_to_dict p))
     \<and> dget v ''expectedDigest'' = Some (opt_str (pr_expected_digest p))
     \<and> dget v ''expectedLength'' = Some (opt_int (pr_expected_length p))
     \<and> (\<exists>s. dget v ''mediaType'' = Some (PStr s) \<and> plain_text 255 s \<and> fullmatch MEDIA_TYPE_RE s)
     \<and> (\<exists>s sr ref. dget v ''objectId'' = Some (PStr s) \<and> plain_text 1024 s
          \<and> new_ResourceReference c (rs_namespace resource) (rs_name resource) = Inr sr
          \<and> new_ObjectReference c sr (PStr s) (opt_str (pr_expected_digest p)) = Inr ref)
     \<and> normal_metadata um \<and> dget v ''userMetadata'' = Some (PDict (map str_item um))
     \<and> (\<exists>d. dget v ''creationContext'' = Some (PDict d)) \<and> (\<exists>d. dget v ''provenance'' = Some (PDict d))
     \<and> (case im of None \<Rightarrow> dget v ''immutability'' = Some PNone
        | Some q \<Rightarrow> wf_immutability q \<and> dget v ''immutability'' = Some (PDict (ImmutabilityRequest_to_dict q)))
     \<and> (case rt of None \<Rightarrow> dget v ''retention'' = Some PNone
        | Some q \<Rightarrow> wf_retention q \<and> dget v ''retention'' = Some (PDict (RetentionRequest_to_dict q)))
     \<and> dget v ''createOnly'' = Some (PBool create_only)"

definition put_demands ::
    "payload_reference \<Rightarrow> (pystr \<times> pystr) list \<Rightarrow> immutability_request option \<Rightarrow> retention_request option \<Rightarrow> bool \<Rightarrow> demands" where
  "put_demands p um im rt create_only =
     ({g. g = GUARANTEE_IMMUTABILITY_INTENT \<and> (\<exists>q. im = Some q \<and> im_mutability q = lit ''immutable'')
        \<or> g = GUARANTEE_RETENTION_INTENT \<and> rt \<noteq> None
        \<or> g = GUARANTEE_RETENTION_ENFORCEMENT \<and> (\<exists>q. rt = Some q \<and> rt_require_enforcement q)
        \<or> g = GUARANTEE_CONDITIONAL_CREATE \<and> create_only},
      (LIMIT_MAX_USER_METADATA_ENTRIES, int (length um))
        # (case pr_expected_length p of None \<Rightarrow> [] | Some n \<Rightarrow> [(LIMIT_MAX_OBJECT_BYTES, n)]),
      create_only \<or> pr_expected_digest p \<noteq> None)"

lemma put_payload_ok:
  "put_payload v = Inr (p, v1) \<longleftrightarrow>
     (\<exists>d p0. dget v ''payload'' = Some (PDict d) \<and> PayloadReference_from_mapping d = Inr p0
        \<and> wf_payload_reference p \<and> pr_token p = pr_token p0 \<and> pr_replayable p = pr_replayable p0
        \<and> dget_none v ''expectedDigest'' = opt_str (pr_expected_digest p)
        \<and> dget_none v ''expectedLength'' = opt_int (pr_expected_length p)
        \<and> (pr_expected_digest p0 \<noteq> None \<longrightarrow> pr_expected_digest p0 = pr_expected_digest p)
        \<and> (pr_expected_length p0 \<noteq> None \<longrightarrow> pr_expected_length p0 = pr_expected_length p))
     \<and> v1 = dset (dset (dset v ''payload'' (PDict (PayloadReference_to_dict p)))
          ''expectedDigest'' (opt_str (pr_expected_digest p))) ''expectedLength'' (opt_int (pr_expected_length p))"
proof -
  have digest_field: "optional_field digest x = Inr y \<longleftrightarrow> x = opt_str y \<and> (\<forall>s. y = Some s \<longrightarrow> sha256_digest s)" for x y
    by (cases y) (auto simp: ok_iff)
  have length_field: "optional_field non_negative_int x = Inr y \<longleftrightarrow> x = opt_int y \<and> (\<forall>n. y = Some n \<longrightarrow> 0 \<le> n)" for x y
    by (cases y) (auto simp: ok_iff)
  have inj: "opt_str a = opt_str b \<longleftrightarrow> a = b" "opt_int m = opt_int n \<longleftrightarrow> m = n" for a b m n
    by (cases a; cases b; simp) (cases m; cases n; simp)
  show ?thesis
    unfolding put_payload_def
    by (simp add: dget_req_ok json_mapping_ok digest_field length_field PayloadReference_init_ok inj)
      (auto simp: wf_payload_reference_def)
qed

lemma put_immutability_ok:
  "put_immutability v = Inr (g, v') \<longleftrightarrow>
     (dget_none v ''immutability'' = PNone \<and> g = {} \<and> v' = v) \<or>
     (\<exists>d q. dget_none v ''immutability'' = PDict d \<and> ImmutabilityRequest_from_mapping d = Inr q
        \<and> g = (if im_mutability q = lit ''immutable'' then {GUARANTEE_IMMUTABILITY_INTENT} else {})
        \<and> v' = dset v ''immutability'' (PDict (ImmutabilityRequest_to_dict q)))"
  by (auto simp: put_immutability_def Let_def json_mapping_ok)

lemma put_retention_ok:
  "put_retention v = Inr (g, v') \<longleftrightarrow>
     (dget_none v ''retention'' = PNone \<and> g = {} \<and> v' = v) \<or>
     (\<exists>d q. dget_none v ''retention'' = PDict d \<and> RetentionRequest_from_mapping d = Inr q
        \<and> g = {GUARANTEE_RETENTION_INTENT} \<union> (if rt_require_enforcement q then {GUARANTEE_RETENTION_ENFORCEMENT} else {})
        \<and> v' = dset v ''retention'' (PDict (RetentionRequest_to_dict q)))"
  by (auto simp: put_retention_def Let_def json_mapping_ok)

lemma put_user_metadata_ok:
  "put_user_metadata v = Inr (um, v') \<longleftrightarrow>
     string_mapping 128 128 2048 (dget_none v ''userMetadata'') = Inr um \<and> v' = dset v ''userMetadata'' (PDict (map str_item um))"
  by (auto simp: put_user_metadata_def)

lemma validate_putE:
  assumes "validate_put c v resource = Inr (v', g, l, i)"
  obtains p v1 mt s sr ref um v2 ctx prov g1 v5 g2 b where "has_fields v put_fields" "put_payload v = Inr (p, v1)"
    "media_type (dget_none v1 ''mediaType'') = Inr mt"
    "dget_none v1 ''objectId'' = PStr s" "plain_text 1024 s"
    "new_ResourceReference c (rs_namespace resource) (rs_name resource) = Inr sr"
    "new_ObjectReference c sr (PStr s) (opt_str (pr_expected_digest p)) = Inr ref"
    "put_user_metadata v1 = Inr (um, v2)"
    "dget_none v2 ''creationContext'' = PDict ctx"
    "dget_none (dset v2 ''creationContext'' (PDict ctx)) ''provenance'' = PDict prov"
    "put_immutability (dset (dset v2 ''creationContext'' (PDict ctx)) ''provenance'' (PDict prov)) = Inr (g1, v5)"
    "put_retention v5 = Inr (g2, v')"
    "dget_none v' ''createOnly'' = PBool b"
    "g = g1 \<union> g2 \<union> (if b then {GUARANTEE_CONDITIONAL_CREATE} else {})"
    "l = (LIMIT_MAX_USER_METADATA_ENTRIES, int (length um))
       # (case pr_expected_length p of None \<Rightarrow> [] | Some n \<Rightarrow> [(LIMIT_MAX_OBJECT_BYTES, n)])"
    "i \<longleftrightarrow> b \<or> pr_expected_digest p \<noteq> None"
  using assms unfolding validate_put_def Let_def
  by (clarsimp simp: exact_fields_only json_mapping_ok bounded_string_ok py_bool_ok)

lemma dget_none_eq: "x \<noteq> PNone \<Longrightarrow> dget_none u k = x \<longleftrightarrow> dget u k = Some x"
  by (auto simp: dget_none_def split: option.splits)

lemma dget_none_dset [simp]: "dget_none (dset u j x) k = (if k = j then x else dget_none u k)"
  by (simp add: dget_none_def)

lemma dget_none_present: "KStr (lit k) \<in> dkeys u \<Longrightarrow> dget_none u k = x \<longleftrightarrow> dget u k = Some x"
  using dget_mem [of k u] by (auto simp: dget_none_def)

lemma put_immutability_normal:
  assumes "put_immutability v = Inr (g, v')" and "KStr (lit ''immutability'') \<in> dkeys v"
  obtains im where
    "g = {g. g = GUARANTEE_IMMUTABILITY_INTENT \<and> (\<exists>q. im = Some q \<and> im_mutability q = lit ''immutable'')}"
    "case im of None \<Rightarrow> dget v' ''immutability'' = Some PNone
     | Some q \<Rightarrow> wf_immutability q \<and> dget v' ''immutability'' = Some (PDict (ImmutabilityRequest_to_dict q))"
    "\<And>k. k \<noteq> ''immutability'' \<Longrightarrow> dget v' k = dget v k" "dkeys v' = dkeys v"
  using assms(1) unfolding put_immutability_ok dget_none_present [OF assms(2)]
proof (elim disjE exE conjE)
  assume "dget v ''immutability'' = Some PNone" "g = {}" "v' = v"
  then show thesis by (intro that [of None]) simp_all
next
  fix d q
  assume "ImmutabilityRequest_from_mapping d = Inr q"
    "g = (if im_mutability q = lit ''immutable'' then {GUARANTEE_IMMUTABILITY_INTENT} else {})"
    "v' = dset v ''immutability'' (PDict (ImmutabilityRequest_to_dict q))"
  then show thesis
    using assms(2) immutability_wire.parse_wf by (intro that [of "Some q"]) (auto simp: insert_absorb)
qed

lemma put_retention_normal:
  assumes "put_retention v = Inr (g, v')" and "KStr (lit ''retention'') \<in> dkeys v"
  obtains rt where
    "g = {g. g = GUARANTEE_RETENTION_INTENT \<and> rt \<noteq> None
       \<or> g = GUARANTEE_RETENTION_ENFORCEMENT \<and> (\<exists>q. rt = Some q \<and> rt_require_enforcement q)}"
    "case rt of None \<Rightarrow> dget v' ''retention'' = Some PNone
     | Some q \<Rightarrow> wf_retention q \<and> dget v' ''retention'' = Some (PDict (RetentionRequest_to_dict q))"
    "\<And>k. k \<noteq> ''retention'' \<Longrightarrow> dget v' k = dget v k" "dkeys v' = dkeys v"
  using assms(1) unfolding put_retention_ok dget_none_present [OF assms(2)]
proof (elim disjE exE conjE)
  assume "dget v ''retention'' = Some PNone" "g = {}" "v' = v"
  then show thesis by (intro that [of None]) simp_all
next
  fix d q
  assume "RetentionRequest_from_mapping d = Inr q"
    "g = {GUARANTEE_RETENTION_INTENT} \<union> (if rt_require_enforcement q then {GUARANTEE_RETENTION_ENFORCEMENT} else {})"
    "v' = dset v ''retention'' (PDict (RetentionRequest_to_dict q))"
  then show thesis
    using assms(2) retention_wire.parse_wf by (intro that [of "Some q"]) (auto simp: insert_absorb)
qed

lemma put_becomes_normal:
  assumes "validate_put c v resource = Inr (v', g, l, i)"
  shows "\<exists>p um im rt b d p0. put_normal c resource v' p um im rt b \<and> (g, l, i) = put_demands p um im rt b
    \<and> dget v ''payload'' = Some (PDict d) \<and> PayloadReference_from_mapping d = Inr p0
    \<and> pr_token p = pr_token p0 \<and> pr_replayable p = pr_replayable p0
    \<and> (pr_expected_digest p0 \<noteq> None \<longrightarrow> pr_expected_digest p0 = pr_expected_digest p)
    \<and> (pr_expected_length p0 \<noteq> None \<longrightarrow> pr_expected_length p0 = pr_expected_length p)"
proof (rule validate_putE [OF assms])
  fix p v1 mt s sr ref um v2 ctx prov g1 v5 g2 b
  assume f: "has_fields v put_fields" and p: "put_payload v = Inr (p, v1)"
    and v1: "media_type (dget_none v1 ''mediaType'') = Inr mt" "dget_none v1 ''objectId'' = PStr s" "plain_text 1024 s"
    and ref: "new_ResourceReference c (rs_namespace resource) (rs_name resource) = Inr sr"
      "new_ObjectReference c sr (PStr s) (opt_str (pr_expected_digest p)) = Inr ref"
    and v2: "put_user_metadata v1 = Inr (um, v2)" "dget_none v2 ''creationContext'' = PDict ctx"
    and v4: "dget_none (dset v2 ''creationContext'' (PDict ctx)) ''provenance'' = PDict prov"
    and v5: "put_immutability (dset (dset v2 ''creationContext'' (PDict ctx)) ''provenance'' (PDict prov)) = Inr (g1, v5)"
    and v6: "put_retention v5 = Inr (g2, v')" and b: "dget_none v' ''createOnly'' = PBool b"
    and d: "g = g1 \<union> g2 \<union> (if b then {GUARANTEE_CONDITIONAL_CREATE} else {})"
      "l = (LIMIT_MAX_USER_METADATA_ENTRIES, int (length um))
         # (case pr_expected_length p of None \<Rightarrow> [] | Some n \<Rightarrow> [(LIMIT_MAX_OBJECT_BYTES, n)])"
      "i \<longleftrightarrow> b \<or> pr_expected_digest p \<noteq> None"
  obtain d0 p0 where p0: "dget v ''payload'' = Some (PDict d0)" "PayloadReference_from_mapping d0 = Inr p0" "wf_payload_reference p"
      "pr_token p = pr_token p0" "pr_replayable p = pr_replayable p0"
      "pr_expected_digest p0 \<noteq> None \<longrightarrow> pr_expected_digest p0 = pr_expected_digest p"
      "pr_expected_length p0 \<noteq> None \<longrightarrow> pr_expected_length p0 = pr_expected_length p"
    and v1_def: "v1 = dset (dset (dset v ''payload'' (PDict (PayloadReference_to_dict p)))
      ''expectedDigest'' (opt_str (pr_expected_digest p))) ''expectedLength'' (opt_int (pr_expected_length p))"
    using p unfolding put_payload_ok by blast
  have um: "normal_metadata um" and v2_def: "v2 = dset v1 ''userMetadata'' (PDict (map str_item um))"
    using v2(1) put_metadata_ok(1) unfolding put_user_metadata_ok by blast+
  define v4 where "v4 = dset (dset v2 ''creationContext'' (PDict ctx)) ''provenance'' (PDict prov)"
  have keys: "dkeys v4 = dkeys v"
    using f by (auto simp: v4_def v2_def v1_def has_fields_def put_fields_def)
  have present: "KStr (lit ''immutability'') \<in> dkeys v4" "KStr (lit ''retention'') \<in> dkeys v4"
    using f by (simp_all add: keys has_fields_def put_fields_def)
  obtain im where im: "g1 = {g. g = GUARANTEE_IMMUTABILITY_INTENT \<and> (\<exists>q. im = Some q \<and> im_mutability q = lit ''immutable'')}"
      "case im of None \<Rightarrow> dget v5 ''immutability'' = Some PNone
       | Some q \<Rightarrow> wf_immutability q \<and> dget v5 ''immutability'' = Some (PDict (ImmutabilityRequest_to_dict q))"
    and im_kept: "\<And>k. k \<noteq> ''immutability'' \<Longrightarrow> dget v5 k = dget v4 k" and im_keys: "dkeys v5 = dkeys v4"
    by (rule put_immutability_normal [OF v5 [folded v4_def] present(1)]) (rule that; simp)
  obtain rt where rt: "g2 = {g. g = GUARANTEE_RETENTION_INTENT \<and> rt \<noteq> None
       \<or> g = GUARANTEE_RETENTION_ENFORCEMENT \<and> (\<exists>q. rt = Some q \<and> rt_require_enforcement q)}"
      "case rt of None \<Rightarrow> dget v' ''retention'' = Some PNone
       | Some q \<Rightarrow> wf_retention q \<and> dget v' ''retention'' = Some (PDict (RetentionRequest_to_dict q))"
    and rt_kept: "\<And>k. k \<noteq> ''retention'' \<Longrightarrow> dget v' k = dget v5 k" and rt_keys: "dkeys v' = dkeys v5"
    by (rule put_retention_normal [OF v6 present(2) [folded im_keys]]) (rule that; simp)
  have kept: "dget v' k = dget v4 k" if "k \<noteq> ''retention''" "k \<noteq> ''immutability''" for k
    using rt_kept im_kept that by simp
  have imm: "dget v' ''immutability'' = dget v5 ''immutability''" by (rule rt_kept) simp
  have "put_normal c resource v' p um im rt b"
    unfolding put_normal_def imm
  proof (intro conjI im(2) rt(2) um p0(3))
    show "has_fields v' put_fields" using f by (simp add: has_fields_def rt_keys im_keys keys)
    show "\<exists>s. dget v' ''mediaType'' = Some (PStr s) \<and> plain_text 255 s \<and> fullmatch MEDIA_TYPE_RE s"
      using v1(1) by (simp add: kept v4_def v2_def v1_def media_type_ok dget_none_eq)
    show "\<exists>s sr ref. dget v' ''objectId'' = Some (PStr s) \<and> plain_text 1024 s
          \<and> new_ResourceReference c (rs_namespace resource) (rs_name resource) = Inr sr
          \<and> new_ObjectReference c sr (PStr s) (opt_str (pr_expected_digest p)) = Inr ref"
      using v1(2,3) ref by (simp add: kept v4_def v2_def v1_def dget_none_eq)
    show "dget v' ''createOnly'' = Some (PBool b)" using b by (simp add: dget_none_eq)
  qed (simp_all add: kept v4_def v2_def v1_def)
  moreover have "(g, l, i) = put_demands p um im rt b"
    unfolding put_demands_def d im(1) rt(1) by auto
  ultimately show ?thesis using p0 by blast
qed

lemma dset_same: "dget v k = Some x \<Longrightarrow> dset v k x = v"
  by (simp add: dget_def dset_def update_triv)

lemma dget_none_Some: "dget v k = Some x \<Longrightarrow> dget_none v k = x"
  by (simp add: dget_none_def)

lemma normal_is_fixed:
  assumes "put_normal c resource v p um im rt b"
  shows "validate_put c v resource = Inr (v, put_demands p um im rt b)"
proof -
  note n = assms [unfolded put_normal_def]
  have wf: "wf_payload_reference p" and doc: "dget v ''payload'' = Some (PDict (PayloadReference_to_dict p))"
    and ed: "dget v ''expectedDigest'' = Some (opt_str (pr_expected_digest p))"
    and el: "dget v ''expectedLength'' = Some (opt_int (pr_expected_length p))"
    using n by blast+
  have parsed: "PayloadReference_from_mapping (PayloadReference_to_dict p) = Inr p"
    using wf by (rule payload_wire.parse_print)
  have payload: "put_payload v = Inr (p, v)"
    unfolding put_payload_ok using wf doc ed el parsed by (simp add: dset_same dget_none_Some)
  obtain mt where mt: "media_type (dget_none v ''mediaType'') = Inr mt"
    using n by (auto simp: media_type_ok dget_none_Some)
  obtain s sr ref where i: "bounded_string 1024 (dget_none v ''objectId'') = Inr s"
    "new_ResourceReference c (rs_namespace resource) (rs_name resource) = Inr sr"
    "new_ObjectReference c sr (PStr s) (opt_str (pr_expected_digest p)) = Inr ref"
    using n by (auto simp: bounded_string_ok dget_none_Some)
  have um: "put_user_metadata v = Inr (um, v)"
    using n put_metadata_ok(2) by (auto simp: put_user_metadata_ok dset_same dget_none_Some)
  obtain ctx prov where ctx: "dget v ''creationContext'' = Some (PDict ctx)" "dget v ''provenance'' = Some (PDict prov)"
    using n by blast
  have imm: "put_immutability v =
      Inr ({g. g = GUARANTEE_IMMUTABILITY_INTENT \<and> (\<exists>q. im = Some q \<and> im_mutability q = lit ''immutable'')}, v)"
    using n immutability_wire.parse_print
    by (cases im) (auto simp: put_immutability_ok dset_same dget_none_Some)
  have ret: "put_retention v = Inr ({g. g = GUARANTEE_RETENTION_INTENT \<and> rt \<noteq> None
       \<or> g = GUARANTEE_RETENTION_ENFORCEMENT \<and> (\<exists>q. rt = Some q \<and> rt_require_enforcement q)}, v)"
    using n retention_wire.parse_print
    by (cases rt) (auto simp: put_retention_ok dset_same dget_none_Some)
  have "exact_fields v put_fields [] = Inr ()" "dget_none v ''createOnly'' = PBool b"
    using n by (simp_all add: exact_fields_only dget_none_Some)
  then show ?thesis
    unfolding validate_put_def
    by (simp add: payload mt i um ctx imm ret json_mapping_def dget_none_Some dset_same py_bool_def put_demands_def)
      auto
qed


section \<open>Normal forms\<close>

lemma plain_print_unsigned:
  assumes "reference_contract c" and "constructed c r"
  shows "\<not> signed_document (ObjectReference_to_dict c r)"
proof -
  have "prints_back c r" using assms by (simp add: reference_contract_def)
  then have "KStr (lit ''formatVersion'') \<notin> dkeys (ObjectReference_to_dict c r)"
    by (auto simp: prints_back_def Let_def)
  then have "dget (ObjectReference_to_dict c r) ''formatVersion'' = None"
    using dget_Some_iff [of "ObjectReference_to_dict c r" "''formatVersion''"] by (metis not_None_eq)
  then show ?thesis by (simp add: signed_document_def str_equal_def dget_none_def)
qed

lemma signed_print_signed: "signed_document (SignedObjectReference_to_dict c r)"
  by (simp add: signed_document_def str_equal_def dget_none_def SignedObjectReference_to_dict_def
      SignedObjectReference_claims_def wire_simps)

lemma from_mapping_wf:
  assumes "reference_contract c" and "SignedObjectReference_from_mapping c d = Inr r"
  shows "wf_signed c r"
  using assms(2) signed_init_wf [OF assms(1)] by (auto simp: SignedObjectReference_from_mapping_def)

lemma normal_reference_plain:
  assumes "reference_contract c" and "constructed c r" and "belongs r resource" and "q \<longrightarrow> or_digest r \<noteq> None"
    and "dget w ''reference'' = Some (PDict (ObjectReference_to_dict c r))"
  shows "normalize_reference c w resource m q = Inr (w, False)"
  unfolding normalize_reference_ok
  using assms plain_print_unsigned parse_reference_print [OF assms(1,2), of False] by (simp add: dset_same)

lemma normal_reference_signed:
  assumes "reference_contract c" and "wf_signed c r" and "belongs (sd_object_ref r) resource"
    and "m \<in> set (sd_allowed_operations r)"
    and "dget w ''reference'' = Some (PDict (SignedObjectReference_to_dict c r))"
  shows "normalize_reference c w resource m q = Inr (w, True)"
  unfolding normalize_reference_ok
  using assms signed_print_signed signed_round_trip [OF assms(1,2)] by (simp add: dset_same)

lemma normalize_reference_again:
  assumes "reference_contract c" and "normalize_reference c v resource m q = Inr (v', sgn')"
    and "dget w ''reference'' = dget v' ''reference''"
  shows "normalize_reference c w resource m q = Inr (w, sgn')"
proof -
  obtain d where d: "dget v ''reference'' = Some (PDict d)" "sgn' \<longleftrightarrow> signed_document d"
    and n: "if signed_document d
        then \<exists>r. SignedObjectReference_from_mapping c d = Inr r \<and> m \<in> set (sd_allowed_operations r)
           \<and> belongs (sd_object_ref r) resource
           \<and> v' = dset v ''reference'' (PDict (SignedObjectReference_to_dict c r))
        else \<exists>r. parse_object_reference c (Ref_mapping d) False = Inr r \<and> (q \<longrightarrow> or_digest r \<noteq> None)
           \<and> belongs r resource \<and> v' = dset v ''reference'' (PDict (ObjectReference_to_dict c r))"
    using assms(2) unfolding normalize_reference_ok by blast
  show ?thesis
  proof (cases sgn')
    case True
    then obtain r where "SignedObjectReference_from_mapping c d = Inr r" "m \<in> set (sd_allowed_operations r)"
      "belongs (sd_object_ref r) resource" "v' = dset v ''reference'' (PDict (SignedObjectReference_to_dict c r))"
      using n d(2) by auto
    then show ?thesis
      using True normal_reference_signed [OF assms(1) from_mapping_wf [OF assms(1)]] assms(3) by simp
  next
    case False
    then obtain r where r: "parse_object_reference c (Ref_mapping d) False = Inr r" "q \<longrightarrow> or_digest r \<noteq> None"
      "belongs r resource" "v' = dset v ''reference'' (PDict (ObjectReference_to_dict c r))"
      using n d(2) by auto
    have "constructed c r" using parse_reference_constructed(1) [OF assms(1) r(1)] .
    then show ?thesis
      using False normal_reference_plain [OF assms(1)] r(2-4) assms(3) by simp
  qed
qed

lemma has_fields_dset: "has_fields v ks \<Longrightarrow> k \<in> set ks \<Longrightarrow> has_fields (dset v k x) ks"
  by (auto simp: has_fields_def)

lemma normalize_reference_fields:
  assumes "normalize_reference c v resource m q = Inr (v', sgn')"
  shows "\<exists>x. v' = dset v ''reference'' x"
  using assms unfolding normalize_reference_ok by (auto split: if_splits)

text \<open>
  C4. Normalization reaches a normal form: when the arguments of an operation on data have been
  accepted, validating the resulting arguments again changes nothing, and demands the same
  guarantees, limits and idempotence.
\<close>

theorem normalization_stable:
  assumes "reference_contract c" and "validate_data_arguments c m v resource = Inr (v', d)"
  shows "validate_data_arguments c m v' resource = Inr (v', d)"
proof -
  obtain g l i where d: "d = (g, l, i)" by (cases d)
  have known: "m \<in> {lit ''put'', lit ''get'', lit ''stat'', lit ''read_range'', lit ''list'', lit ''delete''}"
    using assms(2) by (auto simp: validate_data_arguments_def split: if_splits)
  then consider "m = lit ''put''" | "m \<in> {lit ''get'', lit ''stat''}" | "m = lit ''read_range''"
    | "m = lit ''list''" | "m = lit ''delete''" by blast
  then show ?thesis
  proof cases
    case 1
    then show ?thesis
      using assms(2) put_becomes_normal [of c v resource v' g l i] normal_is_fixed by (auto simp: put_arguments_are d)
  next
    case 2
    obtain sgn' where a: "has_fields v [''resource'', ''reference'']"
      "normalize_reference c v resource m False = Inr (v', sgn')"
      "g = (if sgn' then {GUARANTEE_SIGNED_REFERENCE} else {})" "l = []" i
      using assms(2) unfolding d lookup_arguments_ok [OF 2] by blast
    show ?thesis
      unfolding d lookup_arguments_ok [OF 2]
      using a normalize_reference_again [OF assms(1) a(2) refl] normalize_reference_fields [OF a(2)]
      by (auto simp: has_fields_dset)
  next
    case 3
    obtain v1 sgn' doc r n where a: "has_fields v [''resource'', ''reference'', ''range'']"
      "normalize_reference c v resource m False = Inr (v1, sgn')"
      "ByteRange_from_mapping doc = Inr r" "ByteRange_requested_length r = Inr n"
      "v' = dset v1 ''range'' (PDict (ByteRange_to_dict r))"
      "g = (if sgn' then {GUARANTEE_SIGNED_REFERENCE} else {})"
      "l = (case n of None \<Rightarrow> [] | Some k \<Rightarrow> [(LIMIT_MAX_RANGE_BYTES, k)])" i
      using assms(2) unfolding d 3 range_arguments_ok by blast
    have again: "normalize_reference c v' resource m False = Inr (v', sgn')"
      by (rule normalize_reference_again [OF assms(1) a(2)]) (simp add: a(5))
    have "ByteRange_from_mapping (ByteRange_to_dict r) = Inr r"
      using a(3) by (intro byte_range_wire.parse_print byte_range_wire.parse_wf)
    moreover have "has_fields v' [''resource'', ''reference'', ''range'']"
      using a(1,5) normalize_reference_fields [OF a(2)] by (auto simp: has_fields_dset)
    moreover have range: "dget v' ''range'' = Some (PDict (ByteRange_to_dict r))" by (simp add: a(5))
    ultimately show ?thesis
      unfolding d 3 range_arguments_ok using a(4,6,7,8) again
      by (auto simp: 3 dget_none_Some [OF range] dset_same [OF range] intro!: exI [of _ r])
  next
    case 4
    then show ?thesis using assms(2) unfolding d 4 list_arguments_ok by blast
  next
    case 5
    obtain sgn' where a: "has_fields v [''resource'', ''reference'', ''reason'']"
      "normalize_reference c v resource m True = Inr (v', sgn')"
      using assms(2) unfolding d 5 delete_arguments_ok by blast
    show ?thesis
      using assms(2) a normalize_reference_again [OF assms(1) a(2) refl] normalize_reference_fields [OF a(2)]
      unfolding d 5 delete_arguments_ok by (auto simp: has_fields_dset)
  qed
qed

section \<open>Insertion order of user metadata\<close>

lemma update_swap_present:
  assumes "j \<in> fst ` set al" and "k \<in> fst ` set al" and "j \<noteq> k"
  shows "AList.update j x (AList.update k y al) = AList.update k y (AList.update j x al)"
  using assms
proof (induction al)
  case (Cons p al)
  obtain a b where p: "p = (a, b)" by (cases p)
  show ?case
  proof (cases "a = j \<or> a = k")
    case True
    then show ?thesis using Cons.prems(3) p by auto
  next
    case False
    then show ?thesis using Cons p by auto
  qed
qed simp

lemma dset_swap:
  assumes "KStr (lit j) \<in> dkeys d" and "KStr (lit k) \<in> dkeys d" and "j \<noteq> k"
  shows "dset (dset d k y) j x = dset (dset d j x) k y"
  using assms update_swap_present [of "KStr (lit j)" d "KStr (lit k)" x y] by (simp add: dset_def dkeys_def)

lemma dset_again: "dset (dset d k x) k y = dset d k y"
  by (induction d) (auto simp: dset_def)

text \<open>
  C25. The order in which a caller built the user metadata does not matter: for a Python mapping of
  entries, any other insertion order of the same entries normalizes to the same Operation input with
  the same demands.
\<close>

theorem metadata_order_irrelevant:
  assumes "dget v ''userMetadata'' = Some (PDict d)" and "distinct (map fst d)" and "mset d' = mset d"
    and "validate_put c v resource = Inr x"
  shows "validate_put c (dset v ''userMetadata'' (PDict d')) resource = Inr x"
proof -
  obtain v' g l i where x: "x = (v', g, l, i)" by (cases x)
  let ?w = "dset v ''userMetadata'' (PDict d')"
  from assms(4) [unfolded x] show ?thesis
  proof (rule validate_putE)
    fix p v1 mt s sr ref um v2 ctx prov g1 v5 g2 b
    assume f: "has_fields v put_fields" and p: "put_payload v = Inr (p, v1)"
      and v1: "media_type (dget_none v1 ''mediaType'') = Inr mt" "dget_none v1 ''objectId'' = PStr s" "plain_text 1024 s"
      and ref: "new_ResourceReference c (rs_namespace resource) (rs_name resource) = Inr sr"
        "new_ObjectReference c sr (PStr s) (opt_str (pr_expected_digest p)) = Inr ref"
      and v2: "put_user_metadata v1 = Inr (um, v2)" and ctx: "dget_none v2 ''creationContext'' = PDict ctx"
      and v4: "dget_none (dset v2 ''creationContext'' (PDict ctx)) ''provenance'' = PDict prov"
      and v5: "put_immutability (dset (dset v2 ''creationContext'' (PDict ctx)) ''provenance'' (PDict prov)) = Inr (g1, v5)"
      and v6: "put_retention v5 = Inr (g2, v')" and b: "dget_none v' ''createOnly'' = PBool b"
      and demands: "g = g1 \<union> g2 \<union> (if b then {GUARANTEE_CONDITIONAL_CREATE} else {})"
        "l = (LIMIT_MAX_USER_METADATA_ENTRIES, int (length um))
           # (case pr_expected_length p of None \<Rightarrow> [] | Some n \<Rightarrow> [(LIMIT_MAX_OBJECT_BYTES, n)])"
        "i \<longleftrightarrow> b \<or> pr_expected_digest p \<noteq> None"
    have fw: "exact_fields ?w put_fields [] = Inr ()"
      unfolding exact_fields_only using f by (rule has_fields_dset) (simp add: put_fields_def)
    have keys: "KStr (lit k) \<in> dkeys v" if "k \<in> set put_fields" for k
      using f that by (simp add: has_fields_def)
    have v1_is: "v1 = dset (dset (dset v ''payload'' (PDict (PayloadReference_to_dict p)))
        ''expectedDigest'' (opt_str (pr_expected_digest p))) ''expectedLength'' (opt_int (pr_expected_length p))"
      using p unfolding put_payload_ok by blast
    have pw: "put_payload ?w = Inr (p, dset v1 ''userMetadata'' (PDict d'))"
      using p unfolding put_payload_ok
      by (auto simp: dset_swap [of "''userMetadata''"] keys put_fields_def)
    have "string_mapping 128 128 2048 (PDict d) = Inr um" and v2_is: "v2 = dset v1 ''userMetadata'' (PDict (map str_item um))"
      using v2 assms(1) by (auto simp: put_user_metadata_ok v1_is dget_none_Some)
    then have "string_mapping 128 128 2048 (PDict d') = Inr um"
      using string_mapping_order [OF assms(2,3)] by blast
    then have uw: "put_user_metadata (dset v1 ''userMetadata'' (PDict d')) = Inr (um, v2)"
      by (simp add: put_user_metadata_ok v2_is dset_again)
    have s: "bounded_string 1024 (PStr s) = Inr s" using v1(3) by (simp add: bounded_string_ok)
    show ?thesis
      unfolding validate_put_def x Let_def
      using fw pw v1 s ref uw ctx v4 v5 v6 b demands by (simp add: json_mapping_def py_bool_def)
  qed
qed

section \<open>Through the surface\<close>

lemma put_arguments_fields:
  "dget (put_arguments c q p) ''payload'' = Some (PDict (PayloadReference_to_dict p))"
  "dget (put_arguments c q p) ''expectedDigest'' =
     Some (if pc_expected_digest q = PNone then opt_str (pr_expected_digest p) else pc_expected_digest q)"
  "dget (put_arguments c q p) ''expectedLength'' =
     Some (if pc_expected_length q = PNone then opt_int (pr_expected_length p) else pc_expected_length q)"
  by (simp_all add: put_arguments_def Let_def wire_simps)

definition contradicts :: "put_keywords \<Rightarrow> payload_reference \<Rightarrow> bool" where
  \<comment> \<open>the call declares a digest or a length other than the one its payload handle carries\<close>
  "contradicts q p \<longleftrightarrow>
     pr_expected_digest p \<noteq> None \<and> pc_expected_digest q \<notin> {PNone, opt_str (pr_expected_digest p)}
     \<or> pr_expected_length p \<noteq> None \<and> pc_expected_length q \<notin> {PNone, opt_int (pr_expected_length p)}"

text \<open>
  C23. The surface completes expectations: when a caller of \<open>put\<close> leaves out the digest and the
  length, the surface sends those of the payload handle, and normalization leaves the three fields
  as they are; a digest or a length that contradicts the handle is never accepted.
\<close>

theorem surface_expectations:
  assumes "parse_payload (pc_payload q) = Inr p" and "wf_payload_reference p"
  shows "surface_put c q = surface_expression c ''put'' (put_arguments c q p)
    \<and> (pc_expected_digest q = PNone \<and> pc_expected_length q = PNone \<longrightarrow>
         put_payload (put_arguments c q p) = Inr (p, put_arguments c q p))
    \<and> (contradicts q p \<longrightarrow> validate_put c (put_arguments c q p) resource \<notin> range Inr)"
proof (intro conjI impI notI)
  show "surface_put c q = surface_expression c ''put'' (put_arguments c q p)"
    using assms(1) by (simp add: surface_put_def)
next
  assume "pc_expected_digest q = PNone \<and> pc_expected_length q = PNone"
  then show "put_payload (put_arguments c q p) = Inr (p, put_arguments c q p)"
    unfolding put_payload_ok using assms(2) payload_wire.parse_print [OF assms(2)]
    by (simp add: put_arguments_fields dget_none_Some dset_same)
next
  assume bad: "contradicts q p" and "validate_put c (put_arguments c q p) resource \<in> range Inr"
  then obtain v' g l i where "validate_put c (put_arguments c q p) resource = Inr (v', g, l, i)"
    by (metis (no_types) prod_cases4 rangeE)
  then obtain p' v1 where "put_payload (put_arguments c q p) = Inr (p', v1)"
    by (rule validate_putE)
  then have "pr_expected_digest p \<noteq> None \<longrightarrow> pr_expected_digest p = pr_expected_digest p'"
      "pr_expected_length p \<noteq> None \<longrightarrow> pr_expected_length p = pr_expected_length p'"
      "dget_none (put_arguments c q p) ''expectedDigest'' = opt_str (pr_expected_digest p')"
      "dget_none (put_arguments c q p) ''expectedLength'' = opt_int (pr_expected_length p')"
    unfolding put_payload_ok using payload_wire.parse_print [OF assms(2)] by (auto simp: put_arguments_fields)
  then show False
    using bad by (auto simp: contradicts_def dget_none_Some put_arguments_fields split: if_splits)
qed

lemma wire_objects:
  "wire c (Wire_reference r) = PDict (ObjectReference_to_dict c r)"
  "wire c (Wire_signed s) = PDict (SignedObjectReference_to_dict c s)"
  by (simp_all add: wire_def)


end
