(* ===== verification/CatalogExamples.thy ===== *)
theory CatalogExamples
  imports NormalForms
begin

text \<open>
  A small instance of Core's classes for the Catalog, concrete arguments over it, and the properties
  of normalization applied to them.
\<close>

section \<open>A sample instance\<close>

definition sample_catalog :: catalog_core where
  "sample_catalog = core.extend sample_core (catalog_core.fields Inr Inr Inr
     (\<lambda>m method. case find (\<lambda>k. oc_method k = method) (cm_operations m) of None \<Rightarrow> Inl KeyError | Some k \<Rightarrow> Inr k)
     (\<lambda>_ _. []) (\<lambda>s. filter (\<lambda>g. g \<in> s)
       [GUARANTEE_CONDITIONAL_CREATE, GUARANTEE_IMMUTABILITY_INTENT, GUARANTEE_RETENTION_ENFORCEMENT,
        GUARANTEE_RETENTION_INTENT, GUARANTEE_SIGNED_REFERENCE]))"

lemma sample_catalog_lookup: "manifest_lookup sample_catalog"
  by (simp add: manifest_lookup_def sample_catalog_def core.defs catalog_core.defs)

lemma contracts_extend:
  "reference_contract (core.extend r m) \<longleftrightarrow> reference_contract r"
  "checked_errors (core.extend r m) \<longleftrightarrow> checked_errors r"
  by (cases r; simp add: reference_contract_def constructed_def prints_back_def checked_errors_def core.defs)+

lemma sample_catalog_checked: "checked_errors sample_catalog"
  using sample_core_checked by (simp add: sample_catalog_def contracts_extend)

lemma sample_catalog_references: "reference_contract sample_catalog"
  using sample_core_references by (simp add: sample_catalog_def contracts_extend)

definition sample_resource :: pyval where
  "sample_resource = PDict [fld ''namespace'' (PStr (lit ''acme'')), fld ''name'' (PStr (lit ''media''))]"

definition sample_listing :: "int \<Rightarrow> expression" where
  "sample_listing limit = \<lparr>ex_catalog = lit ''object'', ex_method = lit ''list'', ex_arguments =
     [fld ''resource'' sample_resource, fld ''prefix'' (PStr (lit ''a/'')), fld ''limit'' (PInt limit),
      fld ''cursor'' PNone, fld ''purpose'' (PStr (lit ''maintenance''))]\<rparr>"


lemma lower_key_public:
  "(\<forall>ch\<in>set s. 97 \<le> (of_char ch :: nat) \<and> (of_char ch :: nat) \<le> 122) \<Longrightarrow>
     public_key (KStr (lit s)) \<longleftrightarrow> lit s \<notin> set private_keys"
proof -
  assume a: "\<forall>ch\<in>set s. 97 \<le> (of_char ch :: nat) \<and> (of_char ch :: nat) \<le> 122"
  then have "normalized_key (lit s) = lit s"
    unfolding normalized_key_def lit_def by (induction s) (simp_all add: folded_def)
  then show ?thesis by simp
qed

lemma listing_keys_public:
  "public_key (KStr (lit ''resource''))" "public_key (KStr (lit ''prefix''))" "public_key (KStr (lit ''limit''))"
  "public_key (KStr (lit ''cursor''))" "public_key (KStr (lit ''purpose''))" "public_key (KStr (lit ''namespace''))"
  "public_key (KStr (lit ''name''))" "public_key (KStr (lit ''reference''))"
  by (subst lower_key_public; simp add: private_keys_def)+

lemma sample_listing_public: "occurs_key k (PDict (ex_arguments (sample_listing n))) \<Longrightarrow> public_key k"
proof -
  have "\<forall>k. occurs_key k (PDict (ex_arguments (sample_listing n))) \<longrightarrow> public_key k"
    by (simp add: sample_listing_def sample_resource_def public_items_Cons listing_keys_public del: public_key_simps)
  then show "occurs_key k (PDict (ex_arguments (sample_listing n))) \<Longrightarrow> public_key k" by blast
qed

lemma sample_listing_accepted:
  assumes "1 \<le> n" and "n \<le> 1000"
  shows "normalize sample_catalog (sample_listing n) \<in> range Inr"
proof -
  let ?a = "ex_arguments (sample_listing n)"
  have "has_fields ?a [''resource'', ''prefix'', ''limit'', ''cursor'', ''purpose'']"
    by (simp add: sample_listing_def has_fields_def dkeys_def)
  moreover have "utf8_encode (lit ''a/'') = Inr (lit ''a/'')" "\<not> list_ex is_control (lit ''a/'')"
    by (simp_all add: lit_def utf8_encode_def is_surrogate_def utf8_char_def is_control_def)
  ultimately have "validate_data_arguments sample_catalog (lit ''list'') ?a r =
      Inr (?a, {}, [(LIMIT_MAX_LIST_PAGE_SIZE, n)], True)" for r
    unfolding list_arguments_ok using assms
    by (simp add: sample_listing_def wire_simps dget_none_def)
  moreover have "parse_resource sample_catalog (dget_none ?a ''resource'') \<in> range Inr"
    by (simp add: sample_listing_def wire_simps dget_none_def parse_resource_def sample_catalog_def core.defs
      sample_core_def sample_resource_def sample_parse_resource_def)
  ultimately have "\<exists>rs. validate_arguments sample_catalog (lit ''list'') ?a = Inr (rs, ?a, {}, [(LIMIT_MAX_LIST_PAGE_SIZE, n)], True)"
    unfolding validate_arguments_ok using sample_listing_public by (auto simp: registry_method_def)
  moreover have "ex_catalog (sample_listing n) = lit ''object''" "ex_method (sample_listing n) = lit ''list''"
    by (simp_all add: sample_listing_def)
  ultimately show ?thesis
    unfolding normalize_def object_contracts [OF sample_catalog_lookup] object_requirement_def
    by (auto simp: object_manifest_def OBJECT_OPERATIONS_def sample_catalog_def core.defs catalog_core.defs)
qed

definition demo_payload :: payload_reference where
  "demo_payload = \<lparr>pr_token = lit ''p_1'', pr_expected_length = Some 3, pr_expected_digest = None, pr_replayable = True\<rparr>"

definition sample_put :: put_keywords where
  "sample_put = \<lparr>pc_resource = Wire_plain sample_resource, pc_object_id = PStr (lit ''a/1''),
     pc_payload = Payload_object demo_payload, pc_media_type = PStr (lit ''a/b''),
     pc_expected_digest = PNone, pc_expected_length = PNone,
     pc_user_metadata = Some [fld ''a'' (PStr (lit ''1'')), fld ''b'' (PStr (lit ''2''))],
     pc_creation_context = None, pc_provenance = None,
     pc_immutability = Some (Wire_immutability \<lparr>im_mutability = lit ''immutable'', im_publish_once = False\<rparr>),
     pc_retention = None, pc_create_only = PBool True\<rparr>"

abbreviation sample_put_arguments :: pydict where
  "sample_put_arguments \<equiv> put_arguments sample_catalog sample_put demo_payload"

abbreviation sample_target :: resource_ref where
  "sample_target \<equiv> \<lparr>rs_catalog = lit ''object'', rs_namespace = lit ''acme'', rs_name = lit ''media''\<rparr>"

lemma demo_payload_wf: "wf_payload_reference demo_payload"
  by (simp add: wf_payload_reference_def demo_payload_def TOKEN_RE_iff [symmetric]) code_simp

lemma sample_media: "fullmatch MEDIA_TYPE_RE (lit ''a/b'')"
proof -
  have "lit ''a'' \<in> rx_lang (Many (None_of [Ch 47, Whitespace]))" "lit ''b'' \<in> rx_lang (Many (None_of [Ch 47, Whitespace]))"
    by (simp_all add: lit_def py_space_def)
  then have "lit ''a'' @ lit ''/'' @ lit ''b'' \<in> rx_lang MEDIA_TYPE_RE"
    unfolding MEDIA_TYPE_RE_def Seq_iff by fastforce
  then show ?thesis by (simp add: fullmatch_iff lit_append [symmetric])
qed

lemma sample_metadata: "normal_metadata [(lit ''a'', lit ''1''), (lit ''b'', lit ''2'')]"
  by (simp add: normal_metadata_def plain_pairs_def plain_text_def lit_def is_surrogate_def is_control_def utf8_char_def)

lemma sample_put_normal:
  "put_normal sample_catalog sample_target sample_put_arguments demo_payload [(lit ''a'', lit ''1''), (lit ''b'', lit ''2'')]
     (Some \<lparr>im_mutability = lit ''immutable'', im_publish_once = False\<rparr>) None True"
proof -
  have texts: "plain_text 255 (lit ''a/b'')" "plain_text 1024 (lit ''a/1'')"
    by (simp_all add: plain_text_def lit_def is_surrogate_def is_control_def utf8_char_def)
  have new: "new_ResourceReference sample_catalog a b = Inr \<lparr>sr_catalog = lit ''object'', sr_namespace = a, sr_name = b\<rparr>"
    "new_ObjectReference sample_catalog \<lparr>sr_catalog = lit ''object'', sr_namespace = a, sr_name = b\<rparr> (PStr (lit ''a/1'')) PNone
      = Inr \<lparr>or_resource = \<lparr>sr_catalog = lit ''object'', sr_namespace = a, sr_name = b\<rparr>, or_object_id = lit ''a/1'', or_digest = None\<rparr>" for a b
    by (simp_all add: sample_catalog_def core.defs sample_core_def)
  show ?thesis
    unfolding put_normal_def
    by (intro conjI demo_payload_wf sample_metadata)
      (simp_all add: put_arguments_def sample_put_def Let_def wire_simps put_fields_def has_fields_def dkeys_def
        wf_immutability_def or_empty_def wire_optional_def wire_def str_item_def texts sample_media new, simp_all add: demo_payload_def new)
qed

definition sample_signed_reference :: signed_reference where
  "sample_signed_reference = \<lparr>sd_object_ref = sample_reference, sd_allowed_operations = [lit ''get'', lit ''stat''],
     sd_expires_at = lit ''2099-01-01T00:00:00.000000Z'', sd_audience = lit ''reader'', sd_nonce = lit ''n1'',
     sd_key_id = lit ''k1'', sd_algorithm = lit ''hmac-sha256'', sd_signature = lit ''AA''\<rparr>"

lemma sample_signed_wf: "wf_signed sample_core sample_signed_reference"
proof -
  have "opaque_token (lit ''n1'')" "opaque_token (lit ''k1'')" "opaque_token (lit ''hmac-sha256'')"
    by (simp_all add: opaque_token_def lit_def)
  moreover have "signature_text (lit ''AA'')"
    using decode_signature_ok [of "lit ''AA''"] by (simp add: signature_text_def lit_def)
  moreover have "timestamp_text (lit ''2099-01-01T00:00:00.000000Z'')"
    using timestamp_2099 unfolding utc_timestamp_wire_ok by blast
  moreover have "sorted [lit ''get'', lit ''stat'']" by (simp add: lit_def)
  ultimately show ?thesis
    using sample_reference_ok sample_audience
    by (simp add: wf_signed_def sample_signed_reference_def SIGNED_REFERENCE_OPERATIONS_def sample_reference_def)
qed

lemma sample_belongs: "belongs sample_reference sample_target"
  by (simp add: belongs_def sample_reference_def)

section \<open>Witnesses\<close>


theorem normalize_operation_witness:
  "\<exists>p. normalize sample_catalog (sample_listing 50) = Inr p
     \<and> (\<exists>x. new_Operation sample_catalog x = Inr p \<and> on_read_only x)"
proof -
  obtain p where p: "normalize sample_catalog (sample_listing 50) = Inr p"
    using sample_listing_accepted [of 50] by auto
  have "ex_method (sample_listing 50) = lit ''list''" by (simp add: sample_listing_def)
  with p normalize_operation [OF sample_catalog_lookup p] show ?thesis by auto
qed

abbreviation sample_range_arguments :: pydict where
  "sample_range_arguments \<equiv>
     [fld ''resource'' sample_resource, fld ''reference'' (PDict (ObjectReference_to_dict sample_core sample_reference)),
      fld ''range'' (PDict [fld ''suffixLength'' (PInt 4)])]"

lemma sample_range_accepted:
  "validate_data_arguments sample_core (lit ''read_range'') sample_range_arguments sample_target =
     Inr (sample_range_arguments, {}, [(LIMIT_MAX_RANGE_BYTES, 4)], True)"
proof -
  have "normalize_reference sample_core sample_range_arguments sample_target (lit ''read_range'') False
      = Inr (sample_range_arguments, False)"
    by (rule normal_reference_plain [OF sample_core_references sample_reference_ok sample_belongs])
      (simp_all add: wire_simps)
  moreover have "ByteRange_from_mapping [fld ''suffixLength'' (PInt 4)] =
      Inr \<lparr>br_start = None, br_end = None, br_suffix = Some 4\<rparr>"
    using byte_range_wire.parse_print [of "\<lparr>br_start = None, br_end = None, br_suffix = Some 4\<rparr>"]
    by (simp add: ByteRange_to_dict_def wf_byte_range_def)
  ultimately show ?thesis
    unfolding range_arguments_ok
    by (auto simp: has_fields_def dkeys_def wire_simps dget_none_def ByteRange_requested_length_def ByteRange_to_dict_def
        dset_def intro!: exI [of _ False] exI [of _ "\<lparr>br_start = None, br_end = None, br_suffix = Some 4\<rparr>"])
qed

theorem read_range_demand_witness:
  "\<exists>r. wf_byte_range r \<and> length (selected r [0 :: nat, 1, 2, 3, 4, 5]) \<le> 4"
  using read_range_demand [OF sample_range_accepted, where 'b = nat] by fastforce

theorem reading_references_witness:
  "\<exists>d r. dget sample_range_arguments ''reference'' = Some (PDict d)
     \<and> parse_object_reference sample_core (Ref_mapping d) False = Inr r \<and> belongs r sample_target"
proof -
  have "\<not> signed_document (ObjectReference_to_dict sample_core sample_reference)"
    by (rule plain_print_unsigned [OF sample_core_references sample_reference_ok])
  with reading_references [OF _ sample_range_accepted] show ?thesis
    by (auto simp: wire_simps)
qed

theorem normalization_stable_witness:
  "validate_data_arguments sample_core (lit ''read_range'') sample_range_arguments sample_target =
     Inr (sample_range_arguments, {}, [(LIMIT_MAX_RANGE_BYTES, 4)], True)"
  by (rule normalization_stable [OF sample_core_references sample_range_accepted])


theorem metadata_order_irrelevant_witness:
  "\<exists>x. validate_put sample_catalog (dset sample_put_arguments ''userMetadata''
     (PDict [fld ''b'' (PStr (lit ''2'')), fld ''a'' (PStr (lit ''1''))])) sample_target = Inr x"
proof -
  have "dget sample_put_arguments ''userMetadata'' = Some (PDict [fld ''a'' (PStr (lit ''1'')), fld ''b'' (PStr (lit ''2''))])"
    by (simp add: put_arguments_def Let_def sample_put_def wire_simps or_empty_def)
  then show ?thesis
    by (intro exI) (rule metadata_order_irrelevant [OF _ _ _ normal_is_fixed [OF sample_put_normal]],
      assumption, simp_all add: add_mset_commute)
qed

theorem surface_expectations_witness:
  "put_payload sample_put_arguments = Inr (demo_payload, sample_put_arguments)
     \<and> validate_put sample_catalog (put_arguments sample_catalog (sample_put\<lparr>pc_expected_length := PInt 4\<rparr>) demo_payload)
         sample_target \<notin> range Inr"
proof (intro conjI)
  have "parse_payload (pc_payload sample_put) = Inr demo_payload" by (simp add: parse_payload_def sample_put_def)
  from surface_expectations [OF this demo_payload_wf, of sample_catalog sample_target]
  show "put_payload sample_put_arguments = Inr (demo_payload, sample_put_arguments)"
    by (simp add: sample_put_def)
  have "parse_payload (pc_payload (sample_put\<lparr>pc_expected_length := PInt 4\<rparr>)) = Inr demo_payload"
    by (simp add: parse_payload_def sample_put_def)
  from surface_expectations [OF this demo_payload_wf, of sample_catalog sample_target]
  show "validate_put sample_catalog (put_arguments sample_catalog (sample_put\<lparr>pc_expected_length := PInt 4\<rparr>) demo_payload)
         sample_target \<notin> range Inr"
    by (simp add: contradicts_def demo_payload_def)
qed


end
