(* ===== verification/Effects.thy ===== *)
theory Effects
  imports Prelude
begin

text \<open>
  Actions on a state that may raise, change the state in any case, or not end (\<open>None\<close>): the shape of
  the methods of the conformance runner and of the in-memory target.
\<close>

type_synonym ('a, 's) effect = "'s \<Rightarrow> ('a result \<times> 's) option"

definition act :: "'a result \<Rightarrow> ('a, 's) effect" where
  "act r s = Some (r, s)"

definition act_bind :: "('a, 's) effect \<Rightarrow> ('a \<Rightarrow> ('b, 's) effect) \<Rightarrow> ('b, 's) effect" where
  "act_bind m f s =
     (case m s of
        None \<Rightarrow> None
      | Some (Inl e, s1) \<Rightarrow> Some (Inl e, s1)
      | Some (Inr x, s1) \<Rightarrow> f x s1)"

definition act_assert :: "bool \<Rightarrow> (unit, 's) effect" where
  "act_assert b = act (raise_unless b AssertionError)"

definition keeps :: "('s \<Rightarrow> 'b) \<Rightarrow> ('a, 's) effect \<Rightarrow> bool" where
  "keeps f m \<longleftrightarrow> (\<forall>s r s'. m s = Some (r, s') \<longrightarrow> f s' = f s)"

definition returns :: "('a, 's) effect \<Rightarrow> bool" where
  "returns m \<longleftrightarrow> (\<forall>s. m s \<noteq> None)"

lemma keepsD: "keeps f m \<Longrightarrow> m s = Some (r, s') \<Longrightarrow> f s' = f s"
  by (simp add: keeps_def)

lemma act_bind_ok:
  "act_bind m f s = Some (Inr y, s') \<longleftrightarrow> (\<exists>x s1. m s = Some (Inr x, s1) \<and> f x s1 = Some (Inr y, s'))"
  by (auto simp: act_bind_def split: option.splits sum.splits)

lemma act_ok: "act r s = Some (Inr y, s') \<longleftrightarrow> r = Inr y \<and> s' = s"
  by (auto simp: act_def)

lemma act_assert_ok: "act_assert b s = Some (Inr u, s') \<longleftrightarrow> b \<and> s' = s"
  by (auto simp: act_assert_def act_def)

lemma keeps_bind:
  assumes "keeps h m" and "\<And>x. keeps h (f x)"
  shows "keeps h (act_bind m f)"
  unfolding keeps_def
proof (intro allI impI)
  fix s r s'
  assume run: "act_bind m f s = Some (r, s')"
  then obtain q s1 where q: "m s = Some (q, s1)"
    by (auto simp: act_bind_def split: option.splits)
  then have "h s1 = h s" using assms(1) by (auto simp: keeps_def)
  then show "h s' = h s"
    using run q assms(2) by (cases q) (auto simp: act_bind_def keeps_def)
qed

lemma returns_bind:
  "returns m \<Longrightarrow> (\<And>x. returns (f x)) \<Longrightarrow> returns (act_bind m f)"
  by (auto simp: returns_def act_bind_def split: option.splits sum.splits)

section \<open>Running\<close>

lemma act_run [simp]:
  "act_bind (act (Inr x)) f s = f x s" "act_bind (act (Inl e)) f s = Some (Inl e, s)" "act_bind (act_assert True) g s = g () s"
  by (simp_all add: act_bind_def act_def act_assert_def)

lemma act_bind_assoc [simp]: "act_bind (act_bind m f) g s = act_bind m (\<lambda>x. act_bind (f x) g) s"
  by (simp add: act_bind_def split: option.splits sum.splits prod.splits)

lemma act_bind_step: "m s = Some (Inr x, s1) \<Longrightarrow> act_bind m f s = f x s1"
  by (simp add: act_bind_def)

lemma act_bind_raise: "m s = Some (Inl e, s1) \<Longrightarrow> act_bind m f s = Some (Inl e, s1)"
  by (simp add: act_bind_def)

end
