(* ===== verification/Conformance.thy ===== *)
theory Conformance
  imports CatalogExamples PayloadTransfer Effects
begin

text \<open>
  \<open>testing/__init__.py\<close>: the reusable conformance runner for Adapters. A run drives a target
  through the surface, the provider and the payload registry, and records one check per step. The
  target, the callbacks of its streams and the random bytes of the registry are arguments. A target
  may not answer, and a transfer from a stream may not end (\<open>None\<close>).
\<close>

section \<open>Checks and reports\<close>

record conformance_check =
  ck_name :: pystr
  ck_passed :: bool
  ck_detail :: pystr

record conformance_report =
  cf_target_id :: pystr
  cf_checks :: "conformance_check list"

record harness_core = catalog_core +
  ObjectMetadata_to_dict :: "object_metadata \<Rightarrow> pydict"
  sha256_fingerprint :: "pydict \<Rightarrow> pystr"

definition check_to_dict :: "conformance_check \<Rightarrow> pydict" where
  "check_to_dict k =
     [fld ''name'' (PStr (ck_name k)), fld ''passed'' (PBool (ck_passed k)), fld ''detail'' (PStr (ck_detail k))]"

definition report_passed :: "conformance_report \<Rightarrow> bool" where
  "report_passed r \<longleftrightarrow> cf_checks r \<noteq> [] \<and> list_all ck_passed (cf_checks r)"

definition report_content :: "conformance_report \<Rightarrow> pydict" where
  \<comment> \<open>\<open>to_dict(include_fingerprint=False)\<close>\<close>
  "report_content r =
     [fld ''formatVersion'' (PStr (lit ''meridian.object-conformance-report.v1'')),
      fld ''targetId'' (PStr (cf_target_id r)), fld ''passed'' (PBool (report_passed r)),
      fld ''checks'' (PList (map (\<lambda>k. PDict (check_to_dict k)) (cf_checks r)))]"

definition report_fingerprint :: "('m) harness_core_scheme \<Rightarrow> conformance_report \<Rightarrow> pystr" where
  "report_fingerprint c r = sha256_fingerprint c (report_content r)"

definition report_to_dict :: "('m) harness_core_scheme \<Rightarrow> conformance_report \<Rightarrow> bool \<Rightarrow> pydict" where
  "report_to_dict c r include_fingerprint =
     (if include_fingerprint then dset (report_content r) ''fingerprint'' (PStr (report_fingerprint c r))
      else report_content r)"

definition require_success :: "conformance_report \<Rightarrow> unit result" where
  "require_success r =
     (let failures = map ck_name (filter (\<lambda>k. \<not> ck_passed k) (cf_checks r))
      in if failures \<noteq> [] then Inl AssertionError else Inr ())"

section \<open>Equality and class names\<close>

fun object_class_name :: "object_exn \<Rightarrow> string" where
  "object_class_name ObjectInvalidRequest = ''ObjectInvalidRequest''"
| "object_class_name ObjectNotFound = ''ObjectNotFound''"
| "object_class_name ConditionalConflict = ''ConditionalConflict''"
| "object_class_name ImmutableObjectConflict = ''ImmutableObjectConflict''"
| "object_class_name RetentionDenied = ''RetentionDenied''"
| "object_class_name DigestMismatch = ''DigestMismatch''"
| "object_class_name IncompleteUpload = ''IncompleteUpload''"
| "object_class_name PayloadUnavailable = ''PayloadUnavailable''"
| "object_class_name RangeNotSatisfiable = ''RangeNotSatisfiable''"
| "object_class_name MultipartInvalid = ''MultipartInvalid''"
| "object_class_name ObjectCapabilityMismatch = ''ObjectCapabilityMismatch''"
| "object_class_name ObjectAuthenticationFailed = ''ObjectAuthenticationFailed''"
| "object_class_name ObjectAuthorizationFailed = ''ObjectAuthorizationFailed''"
| "object_class_name ObjectQuotaExceeded = ''ObjectQuotaExceeded''"
| "object_class_name ObjectRateLimited = ''ObjectRateLimited''"
| "object_class_name TransferCancelled = ''TransferCancelled''"
| "object_class_name ObjectUnavailable = ''ObjectUnavailable''"

fun exn_name :: "(nat \<Rightarrow> pystr) \<Rightarrow> exn \<Rightarrow> pystr" where
  \<comment> \<open>\<open>type(exc).__name__\<close>; the names of foreign exceptions are an argument\<close>
  "exn_name ext TypeError = lit ''TypeError''"
| "exn_name ext ValueError = lit ''ValueError''"
| "exn_name ext UnicodeEncodeError = lit ''UnicodeEncodeError''"
| "exn_name ext OverflowError = lit ''OverflowError''"
| "exn_name ext KeyError = lit ''KeyError''"
| "exn_name ext IndexError = lit ''IndexError''"
| "exn_name ext RuntimeError = lit ''RuntimeError''"
| "exn_name ext AttributeError = lit ''AttributeError''"
| "exn_name ext AssertionError = lit ''AssertionError''"
| "exn_name ext (ObjectError x) = lit (object_class_name x)"
| "exn_name ext (ExternalError n) = ext n"

section \<open>The runner\<close>

record 'w target =
  tg_id :: pystr
  tg_reset :: "'w \<Rightarrow> unit result \<times> 'w"
  tg_execute :: "operation \<Rightarrow> 'w payload_state \<Rightarrow> (pydict result \<times> 'w payload_state) option"
  tg_callbacks :: "'w callbacks" \<comment> \<open>the streams that payload sources open\<close>
  tg_fixture :: nat \<comment> \<open>the factory \<open>lambda: BytesIO(self.payload)\<close>\<close>
  tg_exception_name :: "nat \<Rightarrow> pystr"

record 'w runner =
  rn_payloads :: "'w payload_state"
  rn_checks :: "conformance_check list"
  rn_metadata :: "object_metadata option"
  rn_drawn :: nat \<comment> \<open>how often the registry has drawn random bytes\<close>

definition fixture_payload :: bytes where
  "fixture_payload = map of_char ''Meridian object conformance payload'' @ [0, 255, 10]"

definition fixture_digest :: pystr where
  "fixture_digest = sha256_text fixture_payload"

definition fixture_resource :: wire_arg where
  "fixture_resource = Wire_plain (PStr (lit ''object:conformance.objects''))"

definition fixture_object_id :: pyval where
  "fixture_object_id = PStr (lit ''fixture/object-001'')"

text \<open>Actions of the runner; collecting a payload is an action of the payload state alone.\<close>

type_synonym ('a, 'w) action = "('a, 'w runner) effect"

definition run_operation :: "'w target \<Rightarrow> operation \<Rightarrow> (pydict, 'w) action" where
  "run_operation t operation s =
     (case tg_execute t operation (rn_payloads s) of
        None \<Rightarrow> None
      | Some (r, ps) \<Rightarrow> Some (r, s\<lparr>rn_payloads := ps\<rparr>))"

definition run_execute ::
    "('m) catalog_core_scheme \<Rightarrow> 'w target \<Rightarrow> expression result \<Rightarrow> (pydict, 'w) action" where
  \<comment> \<open>\<open>self._execute(self.surface...)\<close>: the argument is the surface's outcome\<close>
  "run_execute c t e =
     act_bind (act (bindE e (normalize c))) (run_operation t)"

definition run_payload_reference :: "'w target \<Rightarrow> (nat \<Rightarrow> bytes) \<Rightarrow> pystr \<Rightarrow> (payload_reference, 'w) action" where
  "run_payload_reference t random digest_value s =
     (case FactoryPayloadSource_init (Some (tg_fixture t)) True (rn_payloads s) of
        (Inl e, ps) \<Rightarrow> Some (Inl e, s\<lparr>rn_payloads := ps\<rparr>)
      | (Inr i, ps) \<Rightarrow>
          (case PayloadRegistry_register (random (rn_drawn s)) (Some i) PNone (PStr digest_value) ps of
             (r, ps') \<Rightarrow> Some (r, s\<lparr>rn_payloads := ps', rn_drawn := Suc (rn_drawn s)\<rparr>)))"

definition metadata_result :: "('m) core_scheme \<Rightarrow> pydict \<Rightarrow> object_metadata result" where
  "metadata_result c result =
     (case dget_none result ''metadata'' of
        PDict d \<Rightarrow> parse_object_metadata c (Meta_mapping d)
      | _ \<Rightarrow> Inl AssertionError)"

definition run_metadata :: "(object_metadata, 'w) action" where
  \<comment> \<open>\<open>_required_metadata\<close>\<close>
  "run_metadata s = Some (case rn_metadata s of None \<Rightarrow> Inl AssertionError | Some m \<Rightarrow> Inr m, s)"

definition run_reference :: "('m) core_scheme \<Rightarrow> (wire_arg, 'w) action" where
  "run_reference c =
     act_bind run_metadata (\<lambda>m. act (Inr (Wire_plain (PDict (ObjectReference_to_dict c (om_object_ref m))))))"

text \<open>
  \<open>transfer_payload(reference, self.payloads, sink)\<close> into a fresh \<open>BytesIO\<close>: its contents are the
  concatenation of what was written.
\<close>

definition sink_callbacks :: "'w callbacks \<Rightarrow> (bytes list \<times> 'w) callbacks" where
  "sink_callbacks cb =
     logged (cb\<lparr>cb_write := (\<lambda>b w. (Inr (Some (int (length b))), w)), cb_cancelled := None\<rparr>)"

definition collect_payload ::
    "'w callbacks \<Rightarrow> payload_reference \<Rightarrow> int \<Rightarrow> 'w payload_state \<Rightarrow>
     ((content_identity \<times> bytes) result \<times> 'w payload_state) option" where
  "collect_payload cb p chunk_size s =
     (case transfer_payload (sink_callbacks cb) (Payload_object p) (PInt chunk_size)
         \<lparr>ps_sources = ps_sources s, ps_registry = ps_registry s, ps_world = ([], ps_world s)\<rparr> of
        None \<Rightarrow> None
      | Some (r, s') \<Rightarrow>
          Some (bindE r (\<lambda>identity. Inr (identity, concat (fst (ps_world s')))),
            \<lparr>ps_sources = ps_sources s', ps_registry = ps_registry s', ps_world = snd (ps_world s')\<rparr>))"

definition run_transfer :: "'w target \<Rightarrow> pydict \<Rightarrow> (content_identity \<times> bytes, 'w) action" where
  "run_transfer t raw_payload s =
     (case PayloadReference_from_mapping raw_payload of
        Inl e \<Rightarrow> Some (Inl e, s)
      | Inr p \<Rightarrow>
          (case collect_payload (tg_callbacks t) p DEFAULT_CHUNK_SIZE (rn_payloads s) of
             None \<Rightarrow> None
           | Some (r, ps) \<Rightarrow> Some (r, s\<lparr>rn_payloads := ps\<rparr>)))"

section \<open>The steps\<close>

definition fixture_put :: "pyval \<Rightarrow> pystr \<Rightarrow> pydict option \<Rightarrow> wire_arg option \<Rightarrow> payload_reference \<Rightarrow> put_keywords" where
  \<comment> \<open>the puts of the runner: conditional, of an octet stream with a declared digest\<close>
  "fixture_put object_id digest_value user_metadata immutability p =
     \<lparr>pc_resource = fixture_resource, pc_object_id = object_id, pc_payload = Payload_object p,
       pc_media_type = PStr (lit ''application/octet-stream''), pc_expected_digest = PStr digest_value,
       pc_expected_length = PNone, pc_user_metadata = user_metadata, pc_creation_context = None,
       pc_provenance = None, pc_immutability = immutability, pc_retention = None, pc_create_only = PBool True\<rparr>"

definition keep_metadata :: "object_metadata \<Rightarrow> (unit, 'w) action" where
  "keep_metadata m s = Some (Inr (), s\<lparr>rn_metadata := Some m\<rparr>)"

definition run_put :: "('m) catalog_core_scheme \<Rightarrow> 'w target \<Rightarrow> (nat \<Rightarrow> bytes) \<Rightarrow> (unit, 'w) action" where
  "run_put c t random =
     act_bind (run_payload_reference t random fixture_digest) (\<lambda>p.
     act_bind (run_execute c t (surface_put c (fixture_put fixture_object_id fixture_digest
         (Some [fld ''fixture'' (PStr (lit ''v1''))])
         (Some (Wire_plain (PDict [fld ''mutability'' (PStr (lit ''immutable'')), fld ''publishOnce'' (PBool True)]))) p)))
       (\<lambda>result.
     act_bind (act (metadata_result c result)) (\<lambda>m.
     act_bind (act_assert (py_eq (om_digest m) (PStr fixture_digest))) (\<lambda>_.
     act_bind (act_assert (py_eq (om_byte_length m) (PInt (int (length fixture_payload))))) (\<lambda>_.
     act_bind (act_assert (or_digest (om_object_ref m) = Some fixture_digest)) (\<lambda>_.
     keep_metadata m))))))"

definition run_stat :: "('m) harness_core_scheme \<Rightarrow> 'w target \<Rightarrow> (unit, 'w) action" where
  "run_stat c t =
     act_bind (run_reference c) (\<lambda>reference.
     act_bind (run_execute c t (surface_stat c fixture_resource reference)) (\<lambda>result.
     act_bind (act (metadata_result c result)) (\<lambda>m.
     act_bind run_metadata (\<lambda>required.
     act_assert (py_eq (PDict (ObjectMetadata_to_dict c m)) (PDict (ObjectMetadata_to_dict c required)))))))"

definition payload_result :: "pydict \<Rightarrow> pydict result" where
  "payload_result result = (case dget_none result ''payload'' of PDict d \<Rightarrow> Inr d | _ \<Rightarrow> Inl AssertionError)"

definition run_get :: "('m) catalog_core_scheme \<Rightarrow> 'w target \<Rightarrow> (unit, 'w) action" where
  "run_get c t =
     act_bind (run_reference c) (\<lambda>reference.
     act_bind (run_execute c t (surface_get c fixture_resource reference)) (\<lambda>result.
     act_bind (act (metadata_result c result)) (\<lambda>m.
     act_bind (act_assert (py_eq (om_digest m) (PStr fixture_digest))) (\<lambda>_.
     act_bind (act (payload_result result)) (\<lambda>raw_payload.
     act_bind (run_transfer t raw_payload) (\<lambda>(identity, received).
     act_bind (act_assert (ci_digest identity = fixture_digest)) (\<lambda>_.
     act_assert (received = fixture_payload))))))))"

definition fixture_range :: byte_range where
  "fixture_range = \<lparr>br_start = Some 2, br_end = Some 9, br_suffix = None\<rparr>"

definition run_range :: "('m) catalog_core_scheme \<Rightarrow> 'w target \<Rightarrow> (unit, 'w) action" where
  "run_range c t =
     act_bind (run_reference c) (\<lambda>reference.
     act_bind (run_execute c t (surface_read_range c fixture_resource reference (Range_object fixture_range))) (\<lambda>result.
     act_bind (act (payload_result result)) (\<lambda>raw_payload.
     act_bind (run_transfer t raw_payload) (\<lambda>(_, received).
     act_bind (act_assert (received = drop 2 (take 10 fixture_payload))) (\<lambda>_.
     act_bind (act (ByteRange_resolve fixture_range (PInt (int (length fixture_payload))))) (\<lambda>resolved.
     act_assert (py_eq (dget_none result ''range'') (PDict (ResolvedByteRange_to_dict resolved)))))))))"

definition item_class :: "pyval \<Rightarrow> nat" where
  \<comment> \<open>values of the same class have an order; 2 and 3: no order, and no hash either\<close>
  "item_class v =
     (case v of PStr _ \<Rightarrow> 0 | PInt _ \<Rightarrow> 1 | PBool _ \<Rightarrow> 1 | PNone \<Rightarrow> 2 | POther _ \<Rightarrow> 2 | PList _ \<Rightarrow> 3 | PDict _ \<Rightarrow> 3)"

definition not_metadata :: "pyval \<Rightarrow> exn" where
  \<comment> \<open>\<open>parse_object_metadata\<close> on a value that is not a mapping: \<open>exact_fields\<close> takes the set of its
     elements and sorts the unknown ones for the message; a sequence of the very field names gets
     past it and cannot be subscripted by one\<close>
  "not_metadata v =
     (case v of
        PStr _ \<Rightarrow> ValueError
      | PList xs \<Rightarrow>
          (let known = map (\<lambda>f. PStr (lit f)) metadata_fields;
               unknown = remdups (filter (\<lambda>x. x \<notin> set known) xs)
           in if list_ex (\<lambda>x. item_class x = 3) xs then TypeError
              else if 2 \<le> length unknown \<and> \<not> list_all (\<lambda>x. item_class x = item_class (hd unknown) \<and> item_class x < 2) unknown
              then TypeError
              else if unknown = [] \<and> list_all (\<lambda>f. f \<in> set xs) known then TypeError
              else ValueError)
      | _ \<Rightarrow> TypeError)"

definition single_item :: "pydict \<Rightarrow> pydict result" where
  "single_item result =
     (case dget_none result ''items'' of
        PList [item] \<Rightarrow> (case item of PDict d \<Rightarrow> Inr d | v \<Rightarrow> Inl (not_metadata v))
      | _ \<Rightarrow> Inl AssertionError)"

definition cursor_or_none :: "pyval \<Rightarrow> bool" where
  "cursor_or_none v = (case v of PNone \<Rightarrow> True | PStr _ \<Rightarrow> True | _ \<Rightarrow> False)"

definition run_list :: "('m) catalog_core_scheme \<Rightarrow> 'w target \<Rightarrow> (unit, 'w) action" where
  "run_list c t =
     act_bind (run_execute c t (surface_list c fixture_resource (PStr (lit ''fixture/'')) (PInt 1) PNone
         (PStr (lit ''maintenance'')))) (\<lambda>result.
     act_bind (act (single_item result)) (\<lambda>item.
     act_bind (act (parse_object_metadata c (Meta_mapping item))) (\<lambda>m.
     act_bind (act_assert (py_eq (om_digest m) (PStr fixture_digest))) (\<lambda>_.
     act_assert (cursor_or_none (dget_none result ''cursor''))))))"

definition run_duplicate :: "('m) catalog_core_scheme \<Rightarrow> 'w target \<Rightarrow> (nat \<Rightarrow> bytes) \<Rightarrow> (unit, 'w) action" where
  "run_duplicate c t random =
     act_bind (run_payload_reference t random fixture_digest) (\<lambda>p.
     act_bind (run_execute c t (surface_put c (fixture_put fixture_object_id fixture_digest None None p))) (\<lambda>_.
     act (Inr ())))"

definition zero_digest :: pystr where
  "zero_digest = lit ''sha256:'' @ replicate 64 48"

definition run_digest_mismatch :: "('m) catalog_core_scheme \<Rightarrow> 'w target \<Rightarrow> (nat \<Rightarrow> bytes) \<Rightarrow> (unit, 'w) action" where
  "run_digest_mismatch c t random =
     act_bind (run_payload_reference t random zero_digest) (\<lambda>p.
     act_bind (run_execute c t (surface_put c (fixture_put (PStr (lit ''fixture/digest-mismatch'')) zero_digest None None p))) (\<lambda>_.
     act (Inr ())))"

definition run_delete :: "('m) catalog_core_scheme \<Rightarrow> 'w target \<Rightarrow> (unit, 'w) action" where
  "run_delete c t =
     act_bind (run_reference c) (\<lambda>reference.
     act_bind (run_execute c t (surface_delete c fixture_resource reference (PStr (lit ''conformance-cleanup'')))) (\<lambda>result.
     act_assert (py_eq (PDict result) (PDict [fld ''deleted'' (PBool True)]))))"

section \<open>The run\<close>

definition record_check :: "pystr \<Rightarrow> bool \<Rightarrow> pystr \<Rightarrow> 'w runner \<Rightarrow> 'w runner" where
  "record_check name passed detail s =
     s\<lparr>rn_checks := rn_checks s @ [\<lparr>ck_name = name, ck_passed = passed, ck_detail = detail\<rparr>]\<rparr>"

definition run_check :: "'w target \<Rightarrow> string \<Rightarrow> (unit, 'w) action \<Rightarrow> 'w runner \<Rightarrow> 'w runner option" where
  "run_check t name action s =
     (case action s of
        None \<Rightarrow> None
      | Some (Inl e, s1) \<Rightarrow> Some (record_check (lit name) False (exn_name (tg_exception_name t) e) s1)
      | Some (Inr _, s1) \<Rightarrow> Some (record_check (lit name) True (lit ''ok'') s1))"

definition run_expected ::
    "'w target \<Rightarrow> string \<Rightarrow> object_exn \<Rightarrow> (unit, 'w) action \<Rightarrow> 'w runner \<Rightarrow> 'w runner option" where
  "run_expected t name expected action s =
     (case action s of
        None \<Rightarrow> None
      | Some (Inl e, s1) \<Rightarrow>
          if e = ObjectError expected then Some (record_check (lit name) True (lit (object_class_name expected)) s1)
          else Some (record_check (lit name) False (exn_name (tg_exception_name t) e) s1)
      | Some (Inr _, s1) \<Rightarrow> Some (record_check (lit name) False (lit ''no-error'') s1))"

fun run_steps :: "('w runner \<Rightarrow> 'w runner option) list \<Rightarrow> 'w runner \<Rightarrow> 'w runner option" where
  "run_steps [] s = Some s"
| "run_steps (f # fs) s = (case f s of None \<Rightarrow> None | Some s1 \<Rightarrow> run_steps fs s1)"

definition conformance_steps ::
    "('m) harness_core_scheme \<Rightarrow> 'w target \<Rightarrow> (nat \<Rightarrow> bytes) \<Rightarrow> ('w runner \<Rightarrow> 'w runner option) list" where
  "conformance_steps c t random =
     [run_check t ''unknown-length-streaming-put'' (run_put c t random),
      run_check t ''stat-content-identity'' (run_stat c t),
      run_check t ''streaming-get'' (run_get c t),
      run_check t ''inclusive-range-read'' (run_range c t),
      run_check t ''bounded-prefix-list'' (run_list c t),
      run_expected t ''conditional-create-conflict'' ConditionalConflict (run_duplicate c t random),
      run_expected t ''digest-mismatch'' DigestMismatch (run_digest_mismatch c t random),
      run_check t ''exact-version-delete'' (run_delete c t),
      run_expected t ''missing-object'' ObjectNotFound (run_stat c t)]"

definition runner_init :: "'w \<Rightarrow> 'w runner" where
  "runner_init w = \<lparr>rn_payloads = PayloadRegistry_init w, rn_checks = [], rn_metadata = None, rn_drawn = 0\<rparr>"

definition run_object_conformance ::
    "('m) harness_core_scheme \<Rightarrow> 'w target option \<Rightarrow> (nat \<Rightarrow> bytes) \<Rightarrow> 'w \<Rightarrow> (conformance_report result \<times> 'w runner) option" where
  \<comment> \<open>\<open>None\<close> for an object that does not implement \<open>ObjectConformanceTarget\<close>\<close>
  "run_object_conformance c target random w =
     (case target of
        None \<Rightarrow> Some (Inl TypeError, runner_init w)
      | Some t \<Rightarrow>
          (case tg_reset t w of
             (Inl e, w1) \<Rightarrow> Some (Inl e, runner_init w1)
           | (Inr _, w1) \<Rightarrow>
               (case run_steps (conformance_steps c t random) (runner_init w1) of
                  None \<Rightarrow> None
                | Some s \<Rightarrow> Some (Inr \<lparr>cf_target_id = tg_id t, cf_checks = rn_checks s\<rparr>, s))))"

section \<open>What actions leave alone, and that they end\<close>

lemma keeps_checks_basic:
  "keeps rn_checks (act r)" "keeps rn_checks (act_assert b)" "keeps rn_checks run_metadata"
  "keeps rn_checks (keep_metadata m)" "keeps rn_checks (run_payload_reference t random d)"
  "keeps rn_checks (run_operation t op)" "keeps rn_checks (run_transfer t raw)"
  by (auto simp: keeps_def act_def act_assert_def run_metadata_def keep_metadata_def run_payload_reference_def
      run_operation_def run_transfer_def split: sum.splits prod.splits option.splits)

lemma keeps_metadata_basic:
  "keeps rn_metadata (act r)" "keeps rn_metadata (act_assert b)" "keeps rn_metadata run_metadata"
  "keeps rn_metadata (run_payload_reference t random d)"
  "keeps rn_metadata (run_operation t op)" "keeps rn_metadata (run_transfer t raw)"
  by (auto simp: keeps_def act_def act_assert_def run_metadata_def run_payload_reference_def
      run_operation_def run_transfer_def split: sum.splits prod.splits option.splits)

lemma returns_basic:
  "returns (act r)" "returns (act_assert b)" "returns run_metadata" "returns (keep_metadata m)"
  "returns (run_payload_reference t random d)"
  by (auto simp: returns_def act_def act_assert_def run_metadata_def keep_metadata_def run_payload_reference_def
      split: sum.splits prod.splits)

lemmas step_defs = run_put_def run_stat_def run_get_def run_range_def run_list_def run_duplicate_def
  run_digest_mismatch_def run_delete_def run_execute_def run_reference_def split_def

lemma keeps_checks:
  "keeps rn_checks (run_put c t random)" "keeps rn_checks (run_stat d t)" "keeps rn_checks (run_get c t)"
  "keeps rn_checks (run_range c t)" "keeps rn_checks (run_list c t)" "keeps rn_checks (run_duplicate c t random)"
  "keeps rn_checks (run_digest_mismatch c t random)" "keeps rn_checks (run_delete c t)"
  unfolding step_defs by (intro keeps_bind keeps_checks_basic)+

lemma keeps_metadata:
  "keeps rn_metadata (run_stat d t)" "keeps rn_metadata (run_get c t)"
  "keeps rn_metadata (run_range c t)" "keeps rn_metadata (run_list c t)" "keeps rn_metadata (run_duplicate c t random)"
  "keeps rn_metadata (run_digest_mismatch c t random)" "keeps rn_metadata (run_delete c t)"
  unfolding step_defs by (intro keeps_bind keeps_metadata_basic)+

lemma returns_actions:
  assumes "\<And>raw. returns (run_transfer t raw)" and "\<And>op. returns (run_operation t op)"
  shows "returns (run_put c t random)" "returns (run_stat d t)" "returns (run_get c t)"
    "returns (run_range c t)" "returns (run_list c t)" "returns (run_duplicate c t random)"
    "returns (run_digest_mismatch c t random)" "returns (run_delete c t)"
  unfolding step_defs by (intro returns_bind returns_basic assms)+

section \<open>What a report says\<close>

definition conformance_names :: "string list" where
  "conformance_names =
     [''unknown-length-streaming-put'', ''stat-content-identity'', ''streaming-get'', ''inclusive-range-read'',
      ''bounded-prefix-list'', ''conditional-create-conflict'', ''digest-mismatch'', ''exact-version-delete'',
      ''missing-object'']"

definition conformance_outcomes :: "string list" where
  "conformance_outcomes =
     [''ok'', ''ok'', ''ok'', ''ok'', ''ok'', ''ConditionalConflict'', ''DigestMismatch'', ''ok'', ''ObjectNotFound'']"

text \<open>
  What one step adds: \<open>performs f (name, detail, a, good)\<close> says that \<open>f\<close> runs the action \<open>a\<close>
  and records one check under the name, which passes, with that detail, exactly if the action ends
  in \<open>good\<close>.
\<close>

definition performs ::
    "('w runner \<Rightarrow> 'w runner option) \<Rightarrow> string \<times> string \<times> (unit, 'w) action \<times> unit result \<Rightarrow> bool" where
  "performs f q \<longleftrightarrow> (case q of (name, detail, a, good) \<Rightarrow>
     \<forall>s s'. f s = Some s' \<longrightarrow> (\<exists>r s1 k. a s = Some (r, s1) \<and> rn_metadata s' = rn_metadata s1
       \<and> rn_checks s' = rn_checks s @ [k] \<and> ck_name k = lit name \<and> (ck_passed k \<longleftrightarrow> r = good)
       \<and> (ck_passed k \<longrightarrow> ck_detail k = lit detail)))"

lemma run_check_performs:
  assumes "keeps rn_checks a"
  shows "performs (run_check t name a) (name, ''ok'', a, Inr ())"
proof -
  have "\<exists>r s1 k. a s = Some (r, s1) \<and> rn_metadata s' = rn_metadata s1 \<and> rn_checks s' = rn_checks s @ [k]
      \<and> ck_name k = lit name \<and> (ck_passed k \<longleftrightarrow> r = Inr ()) \<and> (ck_passed k \<longrightarrow> ck_detail k = lit ''ok'')"
    if f: "run_check t name a s = Some s'" for s s'
  proof -
    obtain r s1 where a: "a s = Some (r, s1)" using f by (auto simp: run_check_def split: option.splits)
    show ?thesis
      using f keepsD [OF assms a] a by (cases r) (auto simp: run_check_def record_check_def)
  qed
  then show ?thesis by (simp add: performs_def)
qed

lemma run_expected_performs:
  assumes "keeps rn_checks a"
  shows "performs (run_expected t name x a) (name, object_class_name x, a, Inl (ObjectError x))"
proof -
  have "\<exists>r s1 k. a s = Some (r, s1) \<and> rn_metadata s' = rn_metadata s1 \<and> rn_checks s' = rn_checks s @ [k]
      \<and> ck_name k = lit name \<and> (ck_passed k \<longleftrightarrow> r = Inl (ObjectError x))
      \<and> (ck_passed k \<longrightarrow> ck_detail k = lit (object_class_name x))"
    if f: "run_expected t name x a s = Some s'" for s s'
  proof -
    obtain r s1 where a: "a s = Some (r, s1)" using f by (auto simp: run_expected_def split: option.splits)
    show ?thesis
      using f keepsD [OF assms a] a by (cases r) (auto simp: run_expected_def record_check_def split: if_splits)
  qed
  then show ?thesis by (simp add: performs_def)
qed

lemma performsE:
  assumes "performs f (name, detail, a, good)" and "f s = Some s'"
  obtains r s1 k where "a s = Some (r, s1)" "rn_metadata s' = rn_metadata s1" "rn_checks s' = rn_checks s @ [k]"
    "ck_name k = lit name" "ck_passed k \<longleftrightarrow> r = good" "ck_passed k \<longrightarrow> ck_detail k = lit detail"
  using assms unfolding performs_def by simp blast

definition check_answers :: "conformance_check \<Rightarrow> string \<times> string \<times> (unit, 'w) action \<times> unit result \<Rightarrow> bool" where
  "check_answers k q \<longleftrightarrow> (case q of (name, detail, a, good) \<Rightarrow>
     ck_name k = lit name \<and> (ck_passed k \<longrightarrow> ck_detail k = lit detail \<and> (\<exists>s s'. a s = Some (good, s'))))"

lemma run_steps_answers:
  assumes "list_all2 performs fs qs" and "run_steps fs s = Some s'"
  shows "\<exists>ks. rn_checks s' = rn_checks s @ ks \<and> list_all2 check_answers ks qs"
  using assms
proof (induction fs qs arbitrary: s rule: list_all2_induct)
  case (Cons f fs q qs)
  obtain name detail a good where q: "q = (name, detail, a, good)" by (cases q)
  obtain s1 where s1: "f s = Some s1" "run_steps fs s1 = Some s'"
    using Cons.prems by (auto split: option.splits)
  obtain ks where ks: "rn_checks s' = rn_checks s1 @ ks" "list_all2 check_answers ks qs"
    using Cons.IH [OF s1(2)] by blast
  obtain r s2 k where k: "a s = Some (r, s2)" "rn_checks s1 = rn_checks s @ [k]" "ck_name k = lit name"
    "ck_passed k \<longleftrightarrow> r = good" "ck_passed k \<longrightarrow> ck_detail k = lit detail"
    using performsE [OF Cons.hyps(1) [unfolded q] s1(1)] .
  have "check_answers k q" using k unfolding check_answers_def q by auto
  then show ?case using ks k(2) by (intro exI [of _ "k # ks"]) simp
qed simp

definition conformance_plan ::
    "('m) harness_core_scheme \<Rightarrow> 'w target \<Rightarrow> (nat \<Rightarrow> bytes) \<Rightarrow> (string \<times> string \<times> (unit, 'w) action \<times> unit result) list" where
  "conformance_plan c t random =
     [(''unknown-length-streaming-put'', ''ok'', run_put c t random, Inr ()),
      (''stat-content-identity'', ''ok'', run_stat c t, Inr ()),
      (''streaming-get'', ''ok'', run_get c t, Inr ()),
      (''inclusive-range-read'', ''ok'', run_range c t, Inr ()),
      (''bounded-prefix-list'', ''ok'', run_list c t, Inr ()),
      (''conditional-create-conflict'', ''ConditionalConflict'', run_duplicate c t random, Inl (ObjectError ConditionalConflict)),
      (''digest-mismatch'', ''DigestMismatch'', run_digest_mismatch c t random, Inl (ObjectError DigestMismatch)),
      (''exact-version-delete'', ''ok'', run_delete c t, Inr ()),
      (''missing-object'', ''ObjectNotFound'', run_stat c t, Inl (ObjectError ObjectNotFound))]"

lemma conformance_steps_plan: "list_all2 performs (conformance_steps c t random) (conformance_plan c t random)"
proof -
  have e: "performs (run_expected t name x a) (name, n, a, Inl (ObjectError x))"
    if "keeps rn_checks a" "n = object_class_name x" for name x n and a :: "(unit, 'a) action" and t
    using run_expected_performs [OF that(1)] that(2) by simp
  show ?thesis
    unfolding conformance_steps_def conformance_plan_def list_all2_Cons list_all2_Nil
    by (intro conjI run_check_performs e keeps_checks) simp_all
qed

lemma run_report:
  assumes "run_object_conformance c (Some t) random w = Some (Inr report, s)"
  obtains w1 where "tg_reset t w = (Inr (), w1)"
    "run_steps (conformance_steps c t random) (runner_init w1) = Some s"
    "cf_target_id report = tg_id t" "cf_checks report = rn_checks s"
    "list_all2 check_answers (rn_checks s) (conformance_plan c t random)"
proof -
  obtain w1 where w1: "tg_reset t w = (Inr (), w1)"
    "run_steps (conformance_steps c t random) (runner_init w1) = Some s"
    "report = \<lparr>cf_target_id = tg_id t, cf_checks = rn_checks s\<rparr>"
    using assms by (auto simp: run_object_conformance_def split: prod.splits sum.splits option.splits)
  have "list_all2 check_answers (rn_checks s) (conformance_plan c t random)"
    using run_steps_answers [OF conformance_steps_plan w1(2)] by (simp add: runner_init_def)
  then show thesis using that [OF w1(1,2)] w1(3) by simp
qed

lemma answered_names:
  "list_all2 check_answers ks qs \<Longrightarrow> map ck_name ks = map (\<lambda>q. lit (fst q)) qs"
  by (induction ks qs rule: list_all2_induct) (auto simp: check_answers_def split: prod.splits)

lemma answered_details:
  "list_all2 check_answers ks qs \<Longrightarrow> list_all ck_passed ks \<Longrightarrow> map ck_detail ks = map (\<lambda>q. lit (fst (snd q))) qs"
  by (induction ks qs rule: list_all2_induct) (auto simp: check_answers_def split: prod.splits)


lemma run_steps_return:
  assumes "\<And>f s. f \<in> set fs \<Longrightarrow> f s \<noteq> None"
  shows "run_steps fs s \<noteq> None"
  using assms
proof (induction fs arbitrary: s)
  case (Cons f fs)
  obtain s1 where "f s = Some s1" using Cons.prems [of f] by fastforce
  then show ?case using Cons by simp
qed simp

lemma check_returns:
  "returns a \<Longrightarrow> \<exists>s'. run_check t name a s = Some s'"
  "returns a \<Longrightarrow> \<exists>s'. run_expected t name x a s = Some s'"
  by (auto simp: returns_def run_check_def run_expected_def split: option.splits sum.splits)

lemma suite_returns:
  assumes "tg_reset t w = (Inr (), w1)"
    and "\<forall>op ps. tg_execute t op ps \<noteq> None"
    and "\<forall>p s. transfer_payload (sink_callbacks (tg_callbacks t)) (Payload_object p) (PInt DEFAULT_CHUNK_SIZE) s \<noteq> None"
  shows "\<exists>report s. run_object_conformance c (Some t) random w = Some (Inr report, s)"
proof -
  have t: "returns (run_transfer t raw)" for raw
    unfolding returns_def run_transfer_def collect_payload_def using assms(3)
    by (auto simp del: not_None_eq simp: option.case_eq_if case_prod_unfold split: sum.splits)
  have e: "returns (run_operation t op)" for op
    unfolding returns_def run_operation_def using assms(2)
    by (auto simp del: not_None_eq simp: option.case_eq_if case_prod_unfold)
  note a = returns_actions [OF t e]
  have "run_steps (conformance_steps c t random) (runner_init w1) \<noteq> None"
    by (rule run_steps_return) (auto simp: conformance_steps_def intro: check_returns a)
  then show ?thesis using assms(1) by (auto simp: run_object_conformance_def)
qed

text \<open>
  C40. The suite always ends when the target's operations and the transfers from its streams do: a
  target that can be reset gets its report, whatever it answers.
\<close>

theorem conformance_returns:
  assumes "tg_reset t w = (Inr (), w1)"
    and "\<forall>op ps. tg_execute t op ps \<noteq> None"
    and "\<forall>p s. transfer_payload (sink_callbacks (tg_callbacks t)) (Payload_object p) (PInt DEFAULT_CHUNK_SIZE) s \<noteq> None"
  shows "\<exists>report s. run_object_conformance c (Some t) random w = Some (Inr report, s)"
  using suite_returns [OF assms] .

section \<open>A concrete run\<close>

text \<open>The sink of a transfer is faithful whenever the streams of the target are.\<close>

lemma sink_faithful:
  assumes "faithful_read cb remaining written" and "\<forall>a w. \<exists>w'. cb_close cb a w = (Inr (), w')"
  shows "faithful_io (sink_callbacks cb) (\<lambda>a w. remaining a (snd w)) (\<lambda>w. concat (fst w))"
  unfolding faithful_io_def
proof (intro conjI)
  show "faithful_read (sink_callbacks cb) (\<lambda>a w. remaining a (snd w)) (\<lambda>w. concat (fst w))"
    unfolding faithful_read_def
  proof (intro allI impI)
    fix a :: nat and k :: int and w :: "bytes list \<times> 'a"
    assume k: "0 < k"
    obtain chunk w' where "cb_read cb a k (snd w) = (Inr (Bytes_like chunk), w')"
      "remaining a (snd w) = chunk @ remaining a w'" "int (length chunk) \<le> k"
      "chunk = [] \<longrightarrow> remaining a (snd w) = []"
      using assms(1) [unfolded faithful_read_def, rule_format, OF k, of a "snd w"] by blast
    then show "\<exists>chunk w'. cb_read (sink_callbacks cb) a k w = (Inr (Bytes_like chunk), w')
        \<and> remaining a (snd w) = chunk @ remaining a (snd w') \<and> int (length chunk) \<le> k
        \<and> (chunk = [] \<longrightarrow> remaining a (snd w) = []) \<and> concat (fst w') = concat (fst w)"
      by (intro exI [of _ chunk] exI [of _ "(fst w, w')"]) (simp add: sink_callbacks_def logged_def split_def)
  qed
  show "\<forall>a w. \<exists>w'. cb_close (sink_callbacks cb) a w = (Inr (), w') \<and> concat (fst w') = concat (fst w)"
  proof (intro allI)
    fix a :: nat and w :: "bytes list \<times> 'a"
    obtain w' where "cb_close cb a (snd w) = (Inr (), w')" using assms(2) by blast
    then show "\<exists>w'. cb_close (sink_callbacks cb) a w = (Inr (), w') \<and> concat (fst w') = concat (fst w)"
      by (intro exI [of _ "(fst w, w')"]) (simp add: sink_callbacks_def logged_def split_def)
  qed
qed (simp_all add: faithful_write_def sink_callbacks_def logged_def split_def)

definition sample_harness :: harness_core where
  "sample_harness = catalog_core.extend sample_catalog (harness_core.fields
     (\<lambda>m. [fld ''digest'' (om_digest m)]) (\<lambda>d. lit ''sha256:'' @ replicate 64 48))"

definition broken_target :: "bytesio_world target" where
  \<comment> \<open>a target that is down\<close>
  "broken_target = \<lparr>tg_id = lit ''broken/1.0'', tg_reset = (\<lambda>w. (Inr (), w)),
     tg_execute = (\<lambda>_ ps. Some (Inl (ObjectError ObjectUnavailable), ps)),
     tg_callbacks = bytesio (\<lambda>_. fixture_payload), tg_fixture = 0, tg_exception_name = (\<lambda>_. [])\<rparr>"

lemma bytesio_readable: "faithful_read (bytesio data) (\<lambda>a w. bio_rest w a) bio_sink"
  and bytesio_closes: "\<forall>a w. \<exists>w'. cb_close (bytesio data) a w = (Inr (), w')"
  using bytesio_faithful [of data] unfolding faithful_io_def by blast+

lemma broken_transfers:
  "\<forall>p s. transfer_payload (sink_callbacks (tg_callbacks broken_target)) (Payload_object p)
     (PInt DEFAULT_CHUNK_SIZE) s \<noteq> None"
proof (intro allI)
  fix p and s :: "(bytes list \<times> bytesio_world) payload_state"
  obtain r s' where "transfer_payload (sink_callbacks (tg_callbacks broken_target)) (Payload_object p)
      (PInt DEFAULT_CHUNK_SIZE) s = Some (r, s')"
    using faithful_transfer_returns [OF sink_faithful [OF bytesio_readable bytesio_closes]]
    by (simp add: broken_target_def) blast
  then show "transfer_payload (sink_callbacks (tg_callbacks broken_target)) (Payload_object p)
      (PInt DEFAULT_CHUNK_SIZE) s \<noteq> None" by simp
qed

theorem conformance_returns_witness:
  "\<exists>report s. run_object_conformance sample_harness (Some broken_target) (\<lambda>_. replicate 18 0) demo_world
     = Some (Inr report, s)"
  by (rule conformance_returns [OF _ _ broken_transfers]) (simp_all add: broken_target_def)


end
