(* ===== verification/MemoryTarget.thy ===== *)
theory MemoryTarget
  imports Conformance "HOL-Library.Sublist"
begin

text \<open>
  \<open>src/tests/_memory_target.py\<close>: the in-memory target of the conformance suite, an Adapter without a
  provider. Its world holds the stored objects, the byte strings that the factories it registered
  close over, and the \<open>BytesIO\<close> streams that were opened. \<open>random\<close> are the bytes that the registry
  draws for the tokens of its payloads.
\<close>

section \<open>State\<close>

record stored_object =
  st_data :: bytes
  st_metadata :: object_metadata

type_synonym object_key = "pystr \<times> pystr \<times> pystr"

record memory_world =
  mw_objects :: "(object_key \<times> stored_object) list"
  mw_served :: "bytes list"
  mw_rest :: "nat \<Rightarrow> bytes"
  mw_next :: nat
  mw_drawn :: nat

type_synonym memory_state = "memory_world payload_state"

record memory_core = harness_core +
  default_format_version :: pyval \<comment> \<open>of \<open>ObjectMetadata\<close>\<close>

definition served :: "nat \<Rightarrow> memory_world \<Rightarrow> bytes" where
  \<comment> \<open>what a factory's streams deliver: factory 0 is the runner's fixture\<close>
  "served f w = (case f of 0 \<Rightarrow> fixture_payload | Suc k \<Rightarrow> mw_served w ! k)"

definition memory_callbacks :: "memory_world callbacks" where
  "memory_callbacks =
     \<lparr>cb_factory = (\<lambda>f w. (Inr (Readable (mw_next w)),
        w\<lparr>mw_rest := (mw_rest w)(mw_next w := served f w), mw_next := Suc (mw_next w)\<rparr>)),
      cb_read = (\<lambda>a k w. (Inr (Bytes_like (take (nat k) (mw_rest w a))),
        w\<lparr>mw_rest := (mw_rest w)(a := drop (nat k) (mw_rest w a))\<rparr>)),
      cb_close = (\<lambda>a w. (Inr (), w)),
      cb_write = (\<lambda>b w. (Inr (Some (int (length b))), w)),
      cb_cancelled = None\<rparr>"

definition stored_objects :: "((object_key \<times> stored_object) list, memory_state) effect" where
  "stored_objects s = Some (Inr (mw_objects (ps_world s)), s)"

definition keep_objects :: "(object_key \<times> stored_object) list \<Rightarrow> (unit, memory_state) effect" where
  "keep_objects objects s = Some (Inr (), s\<lparr>ps_world := (ps_world s)\<lparr>mw_objects := objects\<rparr>\<rparr>)"

definition serve :: "(nat \<Rightarrow> bytes) \<Rightarrow> bytes \<Rightarrow> pyval \<Rightarrow> pyval \<Rightarrow> (payload_reference, memory_state) effect" where
  \<comment> \<open>\<open>payloads.register(FactoryPayloadSource(lambda: BytesIO(data)), ...)\<close>\<close>
  "serve random data expected_length expected_digest s =
     (let w = ps_world s; s0 = s\<lparr>ps_world := w\<lparr>mw_served := mw_served w @ [data]\<rparr>\<rparr>
      in case FactoryPayloadSource_init (Some (Suc (length (mw_served w)))) True s0 of
           (Inl e, s1) \<Rightarrow> Some (Inl e, s1)
         | (Inr i, s1) \<Rightarrow>
             (case PayloadRegistry_register (random (mw_drawn w)) (Some i) expected_length expected_digest s1 of
                (r, s2) \<Rightarrow> Some (r, s2\<lparr>ps_world := (ps_world s2)\<lparr>mw_drawn := Suc (mw_drawn w)\<rparr>\<rparr>)))"

section \<open>Operations\<close>

text \<open>The fields that the code casts to a string or an integer are such in every normalized input.\<close>

definition str_field :: "pydict \<Rightarrow> string \<Rightarrow> pystr result" where
  "str_field d k = bindE (dget_req d k) (\<lambda>v. case v of PStr s \<Rightarrow> Inr s | _ \<Rightarrow> Inl TypeError)"

definition int_field :: "pydict \<Rightarrow> string \<Rightarrow> int result" where
  "int_field d k = bindE (dget_req d k) (\<lambda>v. case v of PInt n \<Rightarrow> Inr n | _ \<Rightarrow> Inl TypeError)"

definition mapping_field :: "pydict \<Rightarrow> string \<Rightarrow> pydict result" where
  \<comment> \<open>\<open>assert isinstance(value[k], Mapping)\<close>\<close>
  "mapping_field d k = bindE (dget_req d k) (\<lambda>v. case v of PDict m \<Rightarrow> Inr m | _ \<Rightarrow> Inl AssertionError)"

fun truthy :: "pyval \<Rightarrow> bool" where
  "truthy PNone = False"
| "truthy (PBool b) = b"
| "truthy (PInt n) = (n \<noteq> 0)"
| "truthy (PStr s) = (s \<noteq> [])"
| "truthy (PList xs) = (xs \<noteq> [])"
| "truthy (PDict d) = (d \<noteq> [])"
| "truthy (POther i) = True"

definition first_resource :: "operation \<Rightarrow> resource_ref result" where
  "first_resource operation = (case on_resources operation of [] \<Rightarrow> Inl IndexError | r # _ \<Rightarrow> Inr r)"

definition memory_key :: "resource_ref \<Rightarrow> pystr \<Rightarrow> object_key" where
  "memory_key resource object_id = (rs_namespace resource, rs_name resource, object_id)"

definition new_memory_metadata ::
    "('m) memory_core_scheme \<Rightarrow> pydict \<Rightarrow> object_reference \<Rightarrow> content_identity \<Rightarrow> pyval \<Rightarrow> object_metadata result" where
  "new_memory_metadata c input reference identity mutability =
     bindE (dget_req input ''mediaType'') (\<lambda>media_type.
     bindE (dget_req input ''creationContext'') (\<lambda>creation_context.
     bindE (dget_req input ''userMetadata'') (\<lambda>user_metadata.
     bindE (dget_req input ''provenance'') (\<lambda>provenance.
     new_ObjectMetadata c
       \<lparr>om_object_ref = reference, om_digest = PStr (ci_digest identity), om_byte_length = PInt (ci_byte_length identity),
        om_media_type = media_type, om_created_at = PStr (lit ''2026-08-25T00:00:00.000000Z''),
        om_creation_context = creation_context, om_user_metadata = user_metadata, om_mutability = mutability,
        om_provenance = provenance, om_format_version = default_format_version c\<rparr>))))"

definition memory_put :: "('m) memory_core_scheme \<Rightarrow> operation \<Rightarrow> (pydict, memory_state) effect" where
  "memory_put c operation =
     (let input = on_input operation in
     act_bind (act (first_resource operation)) (\<lambda>resource.
     act_bind (act (str_field input ''objectId'')) (\<lambda>object_id.
     let key = memory_key resource object_id in
     act_bind (act (dget_req input ''createOnly'')) (\<lambda>create_only.
     act_bind stored_objects (\<lambda>objects.
     act_bind (act (if truthy create_only \<and> map_of objects key \<noteq> None
                    then Inl (ObjectError ConditionalConflict) else Inr ())) (\<lambda>_.
     act_bind (act (mapping_field input ''payload'')) (\<lambda>raw_payload.
     act_bind (act (PayloadReference_from_mapping raw_payload)) (\<lambda>p.
     act_bind (collect_payload memory_callbacks p 7) (\<lambda>(identity, data).
     act_bind (act (new_ResourceReference c (rs_namespace resource) (rs_name resource))) (\<lambda>home.
     act_bind (act (new_ObjectReference c home (PStr object_id) (PStr (ci_digest identity)))) (\<lambda>reference.
     act_bind (act (dget_req input ''immutability'')) (\<lambda>raw_immutability.
     act_bind (act (case raw_immutability of PDict d \<Rightarrow> dget_req d ''mutability'' | _ \<Rightarrow> Inr (PStr (lit ''mutable'')))) (\<lambda>mutability.
     act_bind (act (new_memory_metadata c input reference identity mutability)) (\<lambda>metadata.
     act_bind stored_objects (\<lambda>objects.
     act_bind (keep_objects (AList.update key \<lparr>st_data = data, st_metadata = metadata\<rparr> objects)) (\<lambda>_.
     act (Inr [fld ''metadata'' (PDict (ObjectMetadata_to_dict c metadata))])))))))))))))))))"

definition memory_lookup :: "('m) core_scheme \<Rightarrow> operation \<Rightarrow> (stored_object, memory_state) effect" where
  "memory_lookup c operation =
     act_bind (act (mapping_field (on_input operation) ''reference'')) (\<lambda>raw.
     act_bind (act (parse_logical_reference c (Logical_mapping raw))) (\<lambda>parsed.
     let reference = (case parsed of Plain_reference r \<Rightarrow> r | Signed_reference r \<Rightarrow> sd_object_ref r) in
     act_bind (act (first_resource operation)) (\<lambda>resource.
     act_bind stored_objects (\<lambda>objects.
     act (case map_of objects (memory_key resource (or_object_id reference)) of
            None \<Rightarrow> Inl (ObjectError ObjectNotFound)
          | Some stored \<Rightarrow>
              if or_digest reference \<noteq> None \<and> opt_str (or_digest reference) \<noteq> om_digest (st_metadata stored)
              then Inl (ObjectError ObjectNotFound) else Inr stored)))))"

definition memory_get ::
    "('m) memory_core_scheme \<Rightarrow> (nat \<Rightarrow> bytes) \<Rightarrow> operation \<Rightarrow> (pydict, memory_state) effect" where
  "memory_get c random operation =
     act_bind (memory_lookup c operation) (\<lambda>stored.
     act_bind (serve random (st_data stored) (PInt (int (length (st_data stored)))) (om_digest (st_metadata stored))) (\<lambda>p.
     act (Inr [fld ''metadata'' (PDict (ObjectMetadata_to_dict c (st_metadata stored))),
               fld ''payload'' (PDict (PayloadReference_to_dict p))])))"

definition memory_stat :: "('m) memory_core_scheme \<Rightarrow> operation \<Rightarrow> (pydict, memory_state) effect" where
  "memory_stat c operation =
     act_bind (memory_lookup c operation) (\<lambda>stored.
     act (Inr [fld ''metadata'' (PDict (ObjectMetadata_to_dict c (st_metadata stored)))]))"

definition memory_read_range ::
    "('m) memory_core_scheme \<Rightarrow> (nat \<Rightarrow> bytes) \<Rightarrow> operation \<Rightarrow> (pydict, memory_state) effect" where
  "memory_read_range c random operation =
     act_bind (memory_lookup c operation) (\<lambda>stored.
     act_bind (act (mapping_field (on_input operation) ''range'')) (\<lambda>raw_range.
     act_bind (act (ByteRange_from_mapping raw_range)) (\<lambda>selected.
     act_bind (act (ByteRange_resolve selected (PInt (int (length (st_data stored)))))) (\<lambda>resolved.
     let data = drop (nat (rr_start resolved)) (take (nat (rr_end resolved + 1)) (st_data stored)) in
     act_bind (serve random data (PInt (int (length data))) PNone) (\<lambda>p.
     act (Inr [fld ''metadata'' (PDict (ObjectMetadata_to_dict c (st_metadata stored))),
               fld ''payload'' (PDict (PayloadReference_to_dict p)),
               fld ''range'' (PDict (ResolvedByteRange_to_dict resolved))]))))))"

definition memory_list :: "('m) memory_core_scheme \<Rightarrow> operation \<Rightarrow> (pydict, memory_state) effect" where
  "memory_list c operation =
     act_bind (act (first_resource operation)) (\<lambda>resource.
     act_bind (act (str_field (on_input operation) ''prefix'')) (\<lambda>start.
     act_bind (act (int_field (on_input operation) ''limit'')) (\<lambda>limit.
     act_bind stored_objects (\<lambda>objects.
     let ordered = sort_key (\<lambda>((namespace, name, object_id), _). [namespace, name, object_id]) objects;
         matches = map (\<lambda>(_, stored). PDict (ObjectMetadata_to_dict c (st_metadata stored)))
           (filter (\<lambda>((namespace, name, object_id), _).
              (namespace, name) = (rs_namespace resource, rs_name resource) \<and> prefix start object_id) ordered);
         bound = (if limit < 0 then max 0 (int (length matches) + limit) else limit)
     in act (Inr [fld ''items'' (PList (take (nat bound) matches)), fld ''cursor'' PNone])))))"

definition memory_delete :: "('m) core_scheme \<Rightarrow> operation \<Rightarrow> (pydict, memory_state) effect" where
  "memory_delete c operation =
     act_bind (memory_lookup c operation) (\<lambda>stored.
     act_bind (act (first_resource operation)) (\<lambda>resource.
     let key = memory_key resource (or_object_id (om_object_ref (st_metadata stored))) in
     act_bind stored_objects (\<lambda>objects.
     act_bind (act (if map_of objects key = None then Inl KeyError else Inr ())) (\<lambda>_.
     act_bind (keep_objects (AList.delete key objects)) (\<lambda>_.
     act (Inr [fld ''deleted'' (PBool True)]))))))"

definition memory_execute ::
    "('m) memory_core_scheme \<Rightarrow> (nat \<Rightarrow> bytes) \<Rightarrow> operation \<Rightarrow> (pydict, memory_state) effect" where
  "memory_execute c random operation =
     (let contract = on_operation_contract operation; start = lit ''meridian.object.'';
          m = (if prefix start contract then drop (length start) contract else contract)
      in if m = lit ''put'' then memory_put c operation
         else if m = lit ''get'' then memory_get c random operation
         else if m = lit ''stat'' then memory_stat c operation
         else if m = lit ''read_range'' then memory_read_range c random operation
         else if m = lit ''list'' then memory_list c operation
         else if m = lit ''delete'' then memory_delete c operation
         else act (Inl AssertionError))"

definition memory_target :: "('m) memory_core_scheme \<Rightarrow> (nat \<Rightarrow> bytes) \<Rightarrow> memory_world target" where
  "memory_target c random =
     \<lparr>tg_id = lit ''memory-object-target/1.0'', tg_reset = (\<lambda>w. (Inr (), w\<lparr>mw_objects := []\<rparr>)),
      tg_execute = memory_execute c random, tg_callbacks = memory_callbacks, tg_fixture = 0,
      tg_exception_name = (\<lambda>_. [])\<rparr>"

section \<open>Streams of the target\<close>

lemma memory_readable: "faithful_read memory_callbacks (\<lambda>a w. mw_rest w a) (\<lambda>_. [])"
  and memory_closes: "\<forall>a w. \<exists>w'. cb_close memory_callbacks a w = (Inr (), w')"
  by (auto simp: faithful_read_def memory_callbacks_def)

lemma memory_sink: "faithful_io (sink_callbacks memory_callbacks) (\<lambda>a w. mw_rest (snd w) a) (\<lambda>w. concat (fst w))"
  by (rule sink_faithful [OF memory_readable memory_closes])

lemma memory_keeps_objects: "keeps_world (sink_callbacks memory_callbacks) (\<lambda>w. mw_objects (snd w))"
  by (simp add: keeps_world_def sink_callbacks_def logged_def memory_callbacks_def split_def)

text \<open>A handle that resolves to a replayable factory of the target's world.\<close>

definition resolves :: "payload_reference \<Rightarrow> bytes \<Rightarrow> memory_state \<Rightarrow> bool" where
  "resolves p data s \<longleftrightarrow> wf_payload_reference p \<and> pr_replayable p
     \<and> (\<exists>i f. map_of (ps_registry s) (pr_token p) = Some i \<and> i < length (ps_sources s)
          \<and> so_kind (ps_sources s ! i) = Factory_source f True \<and> served f (ps_world s) = data)"

lemma collect_served:
  assumes "resolves p data s" and "0 < sz" and "sz \<le> MAX_CHUNK_SIZE"
  shows "\<exists>s'. collect_payload memory_callbacks p sz s =
      Some (bindE (declared_outcome p data) (\<lambda>identity. Inr (identity, data)), s')
    \<and> mw_objects (ps_world s') = mw_objects (ps_world s)"
proof -
  let ?cb = "sink_callbacks memory_callbacks"
  let ?s = "\<lparr>ps_sources = ps_sources s, ps_registry = ps_registry s, ps_world = ([], ps_world s)\<rparr>"
  obtain i f where i: "map_of (ps_registry s) (pr_token p) = Some i" "i < length (ps_sources s)"
    "so_kind (ps_sources s ! i) = Factory_source f True" "served f (ps_world s) = data"
    and p: "wf_payload_reference p" "pr_replayable p" using assms(1) by (auto simp: resolves_def)
  have parsed: "parse_payload (Payload_object p) = Inr p" by (simp add: parse_payload_def)
  obtain a s1 where enter: "registry_enter ?cb (Payload_object p) ?s = (Inr (i, a), s1)"
    and rest: "mw_rest (snd (ps_world s1)) a = data" "fst (ps_world s1) = []"
    using i p by (simp add: registry_enter_def parse_payload_def registry_claim_def source_enter_def source_claim_def
        source_replayable_def sink_callbacks_def logged_def memory_callbacks_def Let_def)
  obtain s' where s': "transfer_payload ?cb (Payload_object p) (PInt sz) ?s = Some (declared_outcome p data, s')"
    "\<not> (\<exists>k. pr_expected_length p = Some k \<and> k < int (length data)) \<longrightarrow> concat (fst (ps_world s')) = data"
    using transfer_of_faithful [OF memory_sink parsed p(1) enter assms(2,3) rest(1)] rest(2) by auto
  have "mw_objects (snd (ps_world s')) = mw_objects (ps_world s)"
    using transfer_keeps [OF memory_keeps_objects s'(1)] by simp
  moreover have "concat (fst (ps_world s')) = data" if "declared_outcome p data = Inr identity" for identity
    using that s'(2) by (auto simp: declared_outcome_def split: if_splits)
  ultimately show ?thesis
    by (cases "declared_outcome p data") (simp_all add: collect_payload_def s'(1))
qed

section \<open>Handles\<close>

lemma runner_registers:
  assumes "\<forall>n. length (random n) = 32" and "sha256_digest d"
  shows "\<exists>p s'. run_payload_reference (memory_target c r) random d s = Some (Inr p, s')
    \<and> resolves p fixture_payload (rn_payloads s') \<and> pr_expected_digest p = Some d \<and> pr_expected_length p = None
    \<and> mw_objects (ps_world (rn_payloads s')) = mw_objects (ps_world (rn_payloads s)) \<and> rn_metadata s' = rn_metadata s"
proof -
  have "optional_field digest (PStr d) = Inr (Some d)" using assms(2) by (simp add: optional_field_ok digest_ok)
  moreover have "optional_field non_negative_int PNone = Inr None" by (simp add: optional_field_ok)
  ultimately have reg: "PayloadRegistry_register (random n) (Some i) PNone (PStr d) s =
      (Inr \<lparr>pr_token = payload_token (random n), pr_expected_length = None, pr_expected_digest = Some d,
          pr_replayable = source_replayable (ps_sources s ! i)\<rparr>,
       s\<lparr>ps_registry := AList.update (payload_token (random n)) i (ps_registry s)\<rparr>)" for n i and s :: memory_state
    using register_ok assms(1) by blast
  show ?thesis
    using payload_token_opaque [OF assms(1) [rule_format]] assms(2)
    by (simp add: run_payload_reference_def FactoryPayloadSource_init_def memory_target_def reg
        resolves_def wf_payload_reference_def source_replayable_def nth_append served_def update_conv')
qed

lemma serve_registers:
  assumes "\<forall>n. length (random n) = 32" and "optional_field digest v = Inr d"
  shows "\<exists>p s'. serve random data (PInt (int (length data))) v s = Some (Inr p, s')
    \<and> resolves p data s' \<and> pr_expected_digest p = d \<and> pr_expected_length p = Some (int (length data))
    \<and> mw_objects (ps_world s') = mw_objects (ps_world s)"
proof -
  have "optional_field non_negative_int (PInt (int (length data))) = Inr (Some (int (length data)))"
    by (simp add: optional_field_ok non_negative_int_ok)
  note reg = register_ok [OF assms(1) [rule_format] this assms(2)]
  have "\<forall>x. d = Some x \<longrightarrow> sha256_digest x" using assms(2) by (auto simp: optional_field_ok digest_ok)
  then show ?thesis
    using payload_token_opaque [OF assms(1) [rule_format]]
    by (simp add: serve_def FactoryPayloadSource_init_def reg Let_def
        resolves_def wf_payload_reference_def source_replayable_def nth_append served_def update_conv')
qed

end
