(* ===== verification/SuiteRequests.thy ===== *)
theory SuiteRequests
  imports MemoryTarget
begin

text \<open>
  What the conformance suite relies on in Core and Semantics, and that every request the suite makes
  is normalized to an Operation with the arguments that the surface built.
\<close>

section \<open>What the suite relies on\<close>

text \<open>Documents that are values of JSON.\<close>

fun json_value :: "pyval \<Rightarrow> bool" and json_items :: "pydict \<Rightarrow> bool" and json_elements :: "pyval list \<Rightarrow> bool" where
  "json_value (PDict d) \<longleftrightarrow> distinct (map fst d) \<and> json_items d"
| "json_value (PList xs) \<longleftrightarrow> json_elements xs"
| "json_value (POther i) \<longleftrightarrow> False"
| "json_value v \<longleftrightarrow> True"
| "json_items [] \<longleftrightarrow> True"
| "json_items ((k, v) # rest) \<longleftrightarrow> (\<exists>s. k = KStr s) \<and> json_value v \<and> json_items rest"
| "json_elements [] \<longleftrightarrow> True"
| "json_elements (x # xs) \<longleftrightarrow> json_value x \<and> json_elements xs"

lemma py_eq_refl:
  "json_value v \<Longrightarrow> py_eq v v"
  "json_items d \<Longrightarrow> distinct (map fst d') \<Longrightarrow> set d \<subseteq> set d' \<Longrightarrow> items_eq d d'"
  "json_elements xs \<Longrightarrow> elements_eq xs xs"
  by (induction v and d and xs arbitrary: and d' and rule: json_value_json_items_json_elements.induct)
    (auto simp: map_of_is_SomeI)

text \<open>
  Core's request classes store what they are given: an Expression of the Catalog with JSON arguments, a
  capability requirement of the contract version with limits that are not negative, an Operation with
  JSON input.
\<close>

definition stores_requests :: "('m) catalog_core_scheme \<Rightarrow> bool" where
  "stores_requests c \<longleftrightarrow>
     (\<forall>e. ex_catalog e = lit ''object'' \<and> json_value (PDict (ex_arguments e)) \<longrightarrow> new_Expression c e = Inr e)
     \<and> (\<forall>q. cr_operation_version q = OBJECT_OPERATION_VERSION \<and> (\<forall>x\<in>set (cr_minimum_limits q). 0 \<le> snd x)
          \<longrightarrow> new_CapabilityRequirement c q \<in> range Inr)
     \<and> (\<forall>x. on_catalog x = lit ''object'' \<and> json_value (PDict (on_input x)) \<longrightarrow>
          (\<exists>op. new_Operation c x = Inr op \<and> on_operation_contract op = on_operation_contract x
             \<and> on_resources op = on_resources x \<and> on_input op = on_input x))"

lemma stores_requestsD:
  assumes "stores_requests c"
  shows "ex_catalog e = lit ''object'' \<Longrightarrow> json_value (PDict (ex_arguments e)) \<Longrightarrow> new_Expression c e = Inr e"
    "cr_operation_version q = OBJECT_OPERATION_VERSION \<Longrightarrow> \<forall>x\<in>set (cr_minimum_limits q). 0 \<le> snd x \<Longrightarrow>
      new_CapabilityRequirement c q \<in> range Inr"
    "on_catalog x = lit ''object'' \<Longrightarrow> json_value (PDict (on_input x)) \<Longrightarrow>
      \<exists>op. new_Operation c x = Inr op \<and> on_operation_contract op = on_operation_contract x
        \<and> on_resources op = on_resources x \<and> on_input op = on_input x"
  using assms unfolding stores_requests_def by blast+

definition fixture_target :: resource_ref where
  "fixture_target = \<lparr>rs_catalog = lit ''object'', rs_namespace = lit ''conformance'', rs_name = lit ''objects''\<rparr>"

definition fixture_home :: resource_reference where
  "fixture_home = \<lparr>sr_catalog = lit ''object'', sr_namespace = lit ''conformance'', sr_name = lit ''objects''\<rparr>"

definition fixture_reference :: object_reference where
  "fixture_reference = \<lparr>or_resource = fixture_home, or_object_id = lit ''fixture/object-001'', or_digest = Some fixture_digest\<rparr>"

definition fixture_metadata :: "('m) memory_core_scheme \<Rightarrow> object_metadata" where
  "fixture_metadata c =
     \<lparr>om_object_ref = fixture_reference, om_digest = PStr fixture_digest,
      om_byte_length = PInt (int (length fixture_payload)), om_media_type = PStr (lit ''application/octet-stream''),
      om_created_at = PStr (lit ''2026-08-25T00:00:00.000000Z''), om_creation_context = PDict [],
      om_user_metadata = PDict [fld ''fixture'' (PStr (lit ''v1''))], om_mutability = PStr (lit ''immutable''),
      om_provenance = PDict [], om_format_version = default_format_version c\<rparr>"

lemma fixture_fields [simp]:
  "om_digest (fixture_metadata c) = PStr fixture_digest" "om_object_ref (fixture_metadata c) = fixture_reference"
  "om_byte_length (fixture_metadata c) = PInt (int (length fixture_payload))" "or_digest fixture_reference = Some fixture_digest"
  by (simp_all add: fixture_metadata_def fixture_reference_def)

text \<open>
  Core and Semantics accept the fixtures: the Resource name is parsed into its parts, references into
  the Resource are constructed, and the metadata of the fixture is constructed, printed as JSON under
  public names and parsed back.
\<close>

definition accepts_fixture :: "('m) memory_core_scheme \<Rightarrow> bool" where
  "accepts_fixture c \<longleftrightarrow>
     parse_ResourceRef c (PStr (lit ''object:conformance.objects'')) = Inr fixture_target
     \<and> new_ResourceReference c (lit ''conformance'') (lit ''objects'') = Inr fixture_home
     \<and> (\<forall>i\<in>{''fixture/object-001'', ''fixture/digest-mismatch''}. \<forall>d. sha256_digest d \<longrightarrow>
          constructed c \<lparr>or_resource = fixture_home, or_object_id = lit i, or_digest = Some d\<rparr>)
     \<and> json_value (PDict (ObjectReference_to_dict c fixture_reference))
     \<and> reject_private_configuration (PDict (ObjectReference_to_dict c fixture_reference)) = Inr ()
     \<and> new_ObjectMetadata c (fixture_metadata c) = Inr (fixture_metadata c)
     \<and> json_value (PDict (ObjectMetadata_to_dict c (fixture_metadata c)))
     \<and> parse_object_metadata c (Meta_mapping (ObjectMetadata_to_dict c (fixture_metadata c))) = Inr (fixture_metadata c)"

definition suite_contract :: "('m) memory_core_scheme \<Rightarrow> bool" where
  "suite_contract c \<longleftrightarrow>
     reference_contract c \<and> manifest_lookup c \<and> stores_requests c \<and> accepts_fixture c"

lemma parse_fixture_resource: "accepts_fixture c \<Longrightarrow> parse_resource c (PStr (lit ''object:conformance.objects'')) = Inr fixture_target"
  by (simp add: parse_resource_def accepts_fixture_def)

section \<open>Normalizing the requests\<close>

definition requested :: "string \<Rightarrow> pydict \<Rightarrow> operation \<Rightarrow> bool" where
  \<comment> \<open>an Operation on the fixture's Resource\<close>
  "requested m args op \<longleftrightarrow>
     on_operation_contract op = operation_name (lit m) \<and> on_resources op = [fixture_target] \<and> on_input op = args"

lemma request_normalizes:
  assumes "suite_contract c" and "m \<in> {''put'', ''get'', ''stat'', ''read_range'', ''list'', ''delete''}"
    and "validate_data_arguments c (lit m) args fixture_target = Inr (args, g, l, i)"
    and "dget args ''resource'' = Some (PStr (lit ''object:conformance.objects''))"
    and "json_value (PDict args)" and "reject_private_configuration (PDict args) = Inr ()"
    and "\<forall>x\<in>set l. 0 \<le> snd x"
  shows "\<exists>op. bindE (surface_expression c m args) (normalize c) = Inr op \<and> requested m args op"
proof -
  have c: "manifest_lookup c" "stores_requests c" "accepts_fixture c" using assms(1) by (simp_all add: suite_contract_def)
  let ?e = "\<lparr>ex_catalog = lit ''object'', ex_method = lit m, ex_arguments = args\<rparr>"
  have e: "surface_expression c m args = Inr ?e"
    using c(2) assms(5) by (simp add: surface_expression_def stores_requests_def)
  obtain k where k: "operation_for c object_manifest (lit m) = Inr k" "oc_operation_contract k = operation_name (lit m)"
    using assms(2) unfolding object_contracts [OF c(1)] by (auto simp: object_manifest_def OBJECT_OPERATIONS_def)
  have "\<not> registry_method (lit m)" using assms(2) by (auto simp: registry_method_def)
  then have v: "validate_arguments c (lit m) args = Inr ([fixture_target], args, g, l, i)"
    using assms(3,6) parse_fixture_resource [OF c(3)]
    by (simp add: validate_arguments_ok reject_private_ok dget_none_Some [OF assms(4)])
  have "object_requirement c (lit m) (set_order c g) (Some l) \<in> range Inr"
    unfolding object_requirement_def by (rule stores_requestsD(2) [OF c(2)]) (simp_all add: assms(7))
  then have "requirements_of c (lit m) g l \<in> range Inr" by (auto simp: requirements_of_def)
  then obtain q where q: "requirements_of c (lit m) g l = Inr q" by blast
  obtain op where op: "new_Operation c \<lparr>on_catalog = lit ''object'', on_operation_contract = oc_operation_contract k,
      on_operation_version = oc_operation_version k, on_resources = [fixture_target], on_input = args,
      on_requirements = q, on_read_only = oc_read_only k, on_idempotent = i\<rparr> = Inr op"
    "requested m args op"
    using stores_requestsD(3) [OF c(2), where x = "\<lparr>on_catalog = lit ''object'', on_operation_contract = oc_operation_contract k,
      on_operation_version = oc_operation_version k, on_resources = [fixture_target], on_input = args,
      on_requirements = q, on_read_only = oc_read_only k, on_idempotent = i\<rparr>"] assms(5) k(2)
    unfolding requested_def by auto
  have "normalize c ?e = Inr op"
    unfolding normalize_ok using k(1) v q op(1) by auto
  then show ?thesis using e op(2) by auto
qed

section \<open>The requests of the suite\<close>

lemma request_keys_public:
  "normalized_key (lit ''resource'') \<notin> set private_keys" "normalized_key (lit ''objectId'') \<notin> set private_keys"
  "normalized_key (lit ''payload'') \<notin> set private_keys" "normalized_key (lit ''mediaType'') \<notin> set private_keys"
  "normalized_key (lit ''expectedDigest'') \<notin> set private_keys" "normalized_key (lit ''expectedLength'') \<notin> set private_keys"
  "normalized_key (lit ''userMetadata'') \<notin> set private_keys" "normalized_key (lit ''creationContext'') \<notin> set private_keys"
  "normalized_key (lit ''provenance'') \<notin> set private_keys" "normalized_key (lit ''immutability'') \<notin> set private_keys"
  "normalized_key (lit ''retention'') \<notin> set private_keys" "normalized_key (lit ''createOnly'') \<notin> set private_keys"
  "normalized_key (lit ''formatVersion'') \<notin> set private_keys" "normalized_key (lit ''token'') \<notin> set private_keys"
  "normalized_key (lit ''replayable'') \<notin> set private_keys" "normalized_key (lit ''fixture'') \<notin> set private_keys"
  "normalized_key (lit ''mutability'') \<notin> set private_keys" "normalized_key (lit ''publishOnce'') \<notin> set private_keys"
  "normalized_key (lit ''reference'') \<notin> set private_keys" "normalized_key (lit ''range'') \<notin> set private_keys"
  "normalized_key (lit ''start'') \<notin> set private_keys" "normalized_key (lit ''end'') \<notin> set private_keys"
  "normalized_key (lit ''prefix'') \<notin> set private_keys" "normalized_key (lit ''limit'') \<notin> set private_keys"
  "normalized_key (lit ''cursor'') \<notin> set private_keys" "normalized_key (lit ''purpose'') \<notin> set private_keys"
  "normalized_key (lit ''reason'') \<notin> set private_keys"
  by (simp_all add: normalized_key_def folded_def lit_def private_keys_def)

lemma octet_stream: "fullmatch MEDIA_TYPE_RE (lit ''application/octet-stream'')"
proof -
  have "lit ''application'' \<in> rx_lang (Many (None_of [Ch 47, Whitespace]))"
    "lit ''octet-stream'' \<in> rx_lang (Many (None_of [Ch 47, Whitespace]))"
    by (simp_all add: lit_def py_space_def)
  then have "lit ''application'' @ lit ''/'' @ lit ''octet-stream'' \<in> rx_lang MEDIA_TYPE_RE"
    unfolding MEDIA_TYPE_RE_def Seq_iff by fastforce
  then show ?thesis by (simp add: fullmatch_iff lit_append [symmetric])
qed

definition suite_put :: "bool \<Rightarrow> string \<Rightarrow> pystr \<Rightarrow> payload_reference \<Rightarrow> put_keywords" where
  \<comment> \<open>the first put carries metadata and immutability, the others do not\<close>
  "suite_put full i d p =
     fixture_put (PStr (lit i)) d (if full then Some [fld ''fixture'' (PStr (lit ''v1''))] else None)
       (if full then Some (Wire_plain (PDict [fld ''mutability'' (PStr (lit ''immutable'')), fld ''publishOnce'' (PBool True)]))
        else None) p"

definition suite_immutability :: "bool \<Rightarrow> immutability_request option" where
  "suite_immutability full = (if full then Some \<lparr>im_mutability = lit ''immutable'', im_publish_once = True\<rparr> else None)"

lemma suite_put_normal:
  assumes "accepts_fixture c" and "i \<in> {''fixture/object-001'', ''fixture/digest-mismatch''}"
    and "wf_payload_reference p" and "pr_expected_digest p = Some d" and "pr_expected_length p = None"
  shows "put_normal c fixture_target (put_arguments c (suite_put full i d p) p) p
    (if full then [(lit ''fixture'', lit ''v1'')] else []) (suite_immutability full) None True"
proof -
  have d: "sha256_digest d" using assms(3,4) by (simp add: wf_payload_reference_def)
  have texts: "plain_text 255 (lit ''application/octet-stream'')" "plain_text 1024 (lit i)"
    using assms(2) by (auto simp: plain_text_def lit_def is_surrogate_def is_control_def utf8_char_def)
  have um: "normal_metadata (if full then [(lit ''fixture'', lit ''v1'')] else [])"
    by (simp add: normal_metadata_def plain_pairs_def plain_text_def lit_def is_surrogate_def is_control_def utf8_char_def)
  have new: "new_ResourceReference c (rs_namespace fixture_target) (rs_name fixture_target) = Inr fixture_home"
    "new_ObjectReference c fixture_home (PStr (lit i)) (PStr d) =
       Inr \<lparr>or_resource = fixture_home, or_object_id = lit i, or_digest = Some d\<rparr>"
    using assms(1,2) d by (auto simp: accepts_fixture_def fixture_target_def constructed_def)
  show ?thesis
    unfolding put_normal_def
    by (intro conjI assms(3) um)
      (use assms(4,5) in \<open>simp_all add: put_arguments_def suite_put_def fixture_put_def Let_def wire_simps put_fields_def
        has_fields_def dkeys_def wf_immutability_def or_empty_def wire_optional_def wire_def str_item_def texts octet_stream
        new suite_immutability_def ImmutabilityRequest_to_dict_def\<close>)
qed

lemma suite_put_public:
  "reject_private_configuration (PDict (put_arguments c (suite_put full i d p) p)) = Inr ()"
  by (cases full)
    (simp_all add: put_arguments_def suite_put_def fixture_put_def fixture_resource_def Let_def or_empty_def wire_optional_def
      wire_def PayloadReference_to_dict_def request_keys_public opt_str_def opt_int_def split: option.splits)

lemma suite_put_json: "json_value (PDict (put_arguments c (suite_put full i d p) p))"
  by (cases full)
    (simp_all add: put_arguments_def suite_put_def fixture_put_def fixture_resource_def Let_def or_empty_def wire_optional_def
      wire_def PayloadReference_to_dict_def opt_str_def opt_int_def split: option.splits)

lemma put_request:
  assumes "suite_contract c" and "i \<in> {''fixture/object-001'', ''fixture/digest-mismatch''}"
    and "wf_payload_reference p" and "pr_expected_digest p = Some d" and "pr_expected_length p = None"
  shows "\<exists>op. bindE (surface_put c (suite_put full i d p)) (normalize c) = Inr op
    \<and> requested ''put'' (put_arguments c (suite_put full i d p) p) op"
proof -
  have a: "accepts_fixture c" using assms(1) by (simp add: suite_contract_def)
  obtain g l k where d: "put_demands p (if full then [(lit ''fixture'', lit ''v1'')] else []) (suite_immutability full) None True = (g, l, k)"
    "\<forall>x\<in>set l. 0 \<le> snd x"
    using assms(5) by (auto simp: put_demands_def)
  have "validate_data_arguments c (lit ''put'') (put_arguments c (suite_put full i d p) p) fixture_target
      = Inr (put_arguments c (suite_put full i d p) p, g, l, k)"
    unfolding put_arguments_are normal_is_fixed [OF suite_put_normal [OF a assms(2-5), of full]] d(1) ..
  moreover have "dget (put_arguments c (suite_put full i d p) p) ''resource'' = Some (PStr (lit ''object:conformance.objects''))"
    by (simp add: put_arguments_def suite_put_def fixture_put_def fixture_resource_def wire_def Let_def wire_simps)
  moreover have "surface_put c (suite_put full i d p) = surface_expression c ''put'' (put_arguments c (suite_put full i d p) p)"
    by (simp add: surface_put_def suite_put_def fixture_put_def parse_payload_def)
  ultimately show ?thesis
    using request_normalizes [OF assms(1) _ _ _ suite_put_json suite_put_public d(2), of "''put''"] by simp
qed

lemma fixture_reference_made: "accepts_fixture c \<Longrightarrow> constructed c fixture_reference"
  by (simp add: accepts_fixture_def fixture_reference_def fixture_digest_def)

lemma fixture_belongs: "belongs fixture_reference fixture_target"
  by (simp add: belongs_def fixture_reference_def fixture_home_def fixture_target_def)

definition reference_arguments :: "('m) core_scheme \<Rightarrow> pydict \<Rightarrow> pydict" where
  "reference_arguments c extra =
     fld ''resource'' (PStr (lit ''object:conformance.objects''))
     # fld ''reference'' (PDict (ObjectReference_to_dict c fixture_reference)) # extra"

lemma reference_arguments_fine:
  assumes "accepts_fixture c" and "\<forall>k\<in>set extra. fst k \<notin> {KStr (lit ''resource''), KStr (lit ''reference'')}"
  shows "json_value (PDict (reference_arguments c extra)) \<longleftrightarrow> json_value (PDict extra)"
    and "reject_private_configuration (PDict (reference_arguments c extra)) = reject_private_configuration (PDict extra)"
    and "dget (reference_arguments c extra) ''resource'' = Some (PStr (lit ''object:conformance.objects''))"
    and "dget (reference_arguments c extra) ''reference'' = Some (PDict (ObjectReference_to_dict c fixture_reference))"
  using assms by (auto simp: accepts_fixture_def reference_arguments_def wire_simps request_keys_public)

lemma reference_normal:
  assumes "suite_contract c"
  shows "normalize_reference c (reference_arguments c extra) fixture_target m q = Inr (reference_arguments c extra, False)"
proof (rule normal_reference_plain)
  show "reference_contract c" "constructed c fixture_reference"
    using assms fixture_reference_made [of c] by (simp_all add: suite_contract_def)
qed (simp_all add: fixture_belongs reference_arguments_def wire_simps)

lemma lookup_request:
  assumes "suite_contract c" and "m \<in> {''get'', ''stat''}"
  shows "\<exists>op. bindE (surface_expression c m (reference_arguments c [])) (normalize c) = Inr op
    \<and> requested m (reference_arguments c []) op"
proof -
  have a: "accepts_fixture c" using assms(1) by (simp add: suite_contract_def)
  have m: "lit m \<in> {lit ''get'', lit ''stat''}" using assms(2) by auto
  have "validate_data_arguments c (lit m) (reference_arguments c []) fixture_target = Inr (reference_arguments c [], {}, [], True)"
    unfolding lookup_arguments_ok [OF m] using reference_normal [OF assms(1)]
    by (auto simp: has_fields_def reference_arguments_def dkeys_def)
  from request_normalizes [OF assms(1) _ this] show ?thesis
    using assms(2) reference_arguments_fine [OF a, of "[]"] by auto
qed

lemma range_request:
  assumes "suite_contract c"
  shows "\<exists>op. bindE (surface_expression c ''read_range'' (reference_arguments c [fld ''range'' (PDict (ByteRange_to_dict fixture_range))]))
      (normalize c) = Inr op
    \<and> requested ''read_range'' (reference_arguments c [fld ''range'' (PDict (ByteRange_to_dict fixture_range))]) op"
    (is "\<exists>op. bindE (surface_expression c _ ?args) _ = _ \<and> _")
proof -
  have a: "accepts_fixture c" using assms by (simp add: suite_contract_def)
  have wf: "wf_byte_range fixture_range" by (simp add: wf_byte_range_def fixture_range_def)
  have len: "ByteRange_requested_length fixture_range = Inr (Some 8)"
    by (simp add: ByteRange_requested_length_def fixture_range_def)
  have range: "dget ?args ''range'' = Some (PDict (ByteRange_to_dict fixture_range))"
    by (simp add: reference_arguments_def wire_simps)
  have "validate_data_arguments c (lit ''read_range'') ?args fixture_target = Inr (?args, {}, [(LIMIT_MAX_RANGE_BYTES, 8)], True)"
    unfolding range_arguments_ok
    using reference_normal [OF assms] ByteRange_round_trip [OF wf] len
    by (auto simp: has_fields_def dget_none_Some [OF range] dset_same [OF range] intro!: exI [of _ False] exI [of _ fixture_range])
      (auto simp: reference_arguments_def dkeys_def)
  moreover have "json_value (PDict [fld ''range'' (PDict (ByteRange_to_dict fixture_range))])"
    "reject_private_configuration (PDict [fld ''range'' (PDict (ByteRange_to_dict fixture_range))]) = Inr ()"
    by (simp_all add: ByteRange_to_dict_def fixture_range_def request_keys_public opt_int_def)
  ultimately show ?thesis
    using request_normalizes [OF assms, of "''read_range''" ?args]
      reference_arguments_fine [OF a, of "[fld ''range'' (PDict (ByteRange_to_dict fixture_range))]"] by auto
qed

lemma delete_request:
  assumes "suite_contract c"
  shows "\<exists>op. bindE (surface_expression c ''delete'' (reference_arguments c [fld ''reason'' (PStr (lit ''conformance-cleanup''))]))
      (normalize c) = Inr op
    \<and> requested ''delete'' (reference_arguments c [fld ''reason'' (PStr (lit ''conformance-cleanup''))]) op"
    (is "\<exists>op. bindE (surface_expression c _ ?args) _ = _ \<and> _")
proof -
  have a: "accepts_fixture c" using assms by (simp add: suite_contract_def)
  have "plain_text 1024 (lit ''conformance-cleanup'')"
    by (simp add: plain_text_def lit_def is_surrogate_def is_control_def utf8_char_def)
  then have "validate_data_arguments c (lit ''delete'') ?args fixture_target = Inr (?args, {}, [], True)"
    unfolding delete_arguments_ok using reference_normal [OF assms]
    by (auto simp: has_fields_def reference_arguments_def dkeys_def dget_none_def wire_simps)
  moreover have "json_value (PDict [fld ''reason'' (PStr (lit ''conformance-cleanup''))])"
    "reject_private_configuration (PDict [fld ''reason'' (PStr (lit ''conformance-cleanup''))]) = Inr ()"
    by (simp_all add: request_keys_public)
  ultimately show ?thesis
    using request_normalizes [OF assms, of "''delete''" ?args]
      reference_arguments_fine [OF a, of "[fld ''reason'' (PStr (lit ''conformance-cleanup''))]"] by auto
qed

definition list_arguments :: pydict where
  "list_arguments =
     [fld ''resource'' (PStr (lit ''object:conformance.objects'')), fld ''prefix'' (PStr (lit ''fixture/'')),
      fld ''limit'' (PInt 1), fld ''cursor'' PNone, fld ''purpose'' (PStr (lit ''maintenance''))]"

lemma list_request:
  assumes "suite_contract c"
  shows "\<exists>op. bindE (surface_expression c ''list'' list_arguments) (normalize c) = Inr op \<and> requested ''list'' list_arguments op"
proof -
  have "utf8_encode (lit ''fixture/'') = Inr (lit ''fixture/'')" "\<not> list_ex is_control (lit ''fixture/'')"
    by (simp_all add: lit_def utf8_encode_def is_surrogate_def utf8_char_def is_control_def)
  moreover have "has_fields list_arguments [''resource'', ''prefix'', ''limit'', ''cursor'', ''purpose'']"
    by (simp add: list_arguments_def has_fields_def dkeys_def)
  ultimately have "validate_data_arguments c (lit ''list'') list_arguments fixture_target =
      Inr (list_arguments, {}, [(LIMIT_MAX_LIST_PAGE_SIZE, 1)], True)"
    unfolding list_arguments_ok by (simp add: list_arguments_def wire_simps dget_none_def)
  moreover have "json_value (PDict list_arguments)" "reject_private_configuration (PDict list_arguments) = Inr ()"
    "dget list_arguments ''resource'' = Some (PStr (lit ''object:conformance.objects''))"
    by (simp_all add: list_arguments_def request_keys_public wire_simps)
  ultimately show ?thesis using request_normalizes [OF assms, of "''list''" list_arguments] by simp
qed

end
