(* ===== verification/PassingReports.thy ===== *)
theory PassingReports
  imports Conformance
begin

text \<open>
  What a passing report of the conformance suite establishes about the target, by following the
  metadata that the first step recorded through the others.
\<close>

lemma run_steps_passed:
  assumes "list_all2 performs fs qs" and "list_all (\<lambda>(name, detail, a, good). keeps rn_metadata a) qs"
    and "run_steps fs s = Some s'" and "list_all ck_passed (rn_checks s')"
  shows "rn_metadata s' = rn_metadata s
    \<and> list_all (\<lambda>(name, detail, a, good). \<exists>st st'. rn_metadata st = rn_metadata s \<and> a st = Some (good, st')) qs"
  using assms
proof (induction fs qs arbitrary: s rule: list_all2_induct)
  case (Cons f fs q qs)
  obtain name detail a good where q: "q = (name, detail, a, good)" by (cases q)
  obtain s1 where s1: "f s = Some s1" "run_steps fs s1 = Some s'"
    using Cons.prems(2) by (auto split: option.splits)
  obtain r st k where k: "a s = Some (r, st)" "rn_metadata s1 = rn_metadata st" "rn_checks s1 = rn_checks s @ [k]"
    "ck_passed k \<longleftrightarrow> r = good"
    using performsE [OF Cons.hyps(1) [unfolded q] s1(1)] .
  obtain ks where "rn_checks s' = rn_checks s1 @ ks"
    using run_steps_answers [OF Cons.hyps(2) s1(2)] by blast
  then have good: "r = good" using Cons.prems(3) k(3,4) by simp
  have "rn_metadata st = rn_metadata s" using Cons.prems(1) keepsD [where f = rn_metadata and m = a, OF _ k(1)] by (simp add: q)
  moreover have "rn_metadata s' = rn_metadata s1
      \<and> list_all (\<lambda>(name, detail, a, good). \<exists>st st'. rn_metadata st = rn_metadata s1 \<and> a st = Some (good, st')) qs"
    using Cons.IH [OF _ s1(2) Cons.prems(3)] Cons.prems(1) by simp
  ultimately show ?case using k(1,2) good by (auto simp: q)
qed simp

lemma put_records:
  assumes "run_put c t random s = Some (Inr (), s')"
  shows "\<exists>m. rn_metadata s' = Some m \<and> py_eq (om_digest m) (PStr fixture_digest)
    \<and> py_eq (om_byte_length m) (PInt (int (length fixture_payload))) \<and> or_digest (om_object_ref m) = Some fixture_digest"
  using assms by (auto simp: run_put_def act_bind_ok act_ok act_assert_ok keep_metadata_def)

lemma executes:
  "run_execute c t e s = Some (Inr result, s') \<Longrightarrow>
     \<exists>op ps'. bindE e (normalize c) = Inr op \<and> tg_execute t op (rn_payloads s) = Some (Inr result, ps')"
  by (auto simp: run_execute_def act_bind_ok act_ok run_operation_def split: option.splits)

lemma transfers:
  "run_transfer t raw s = Some (Inr (i, data), s') \<Longrightarrow>
     \<exists>p ps'. PayloadReference_from_mapping raw = Inr p
       \<and> collect_payload (tg_callbacks t) p DEFAULT_CHUNK_SIZE (rn_payloads s) = Some (Inr (i, data), ps')"
  by (auto simp: run_transfer_def split: sum.splits option.splits)

lemma stat_confirms:
  assumes "run_stat c t s = Some (Inr (), s')" and "rn_metadata s = Some m"
  shows "\<exists>op ps result ps' m'. tg_execute t op ps = Some (Inr result, ps') \<and> metadata_result c result = Inr m'
    \<and> py_eq (PDict (ObjectMetadata_to_dict c m')) (PDict (ObjectMetadata_to_dict c m))"
proof -
  obtain reference s1 result s2 m' required s3 where step: "run_reference c s = Some (Inr reference, s1)"
    "run_execute c t (surface_stat c fixture_resource reference) s1 = Some (Inr result, s2)"
    "metadata_result c result = Inr m'" "run_metadata s2 = Some (Inr required, s3)"
    "py_eq (PDict (ObjectMetadata_to_dict c m')) (PDict (ObjectMetadata_to_dict c required))"
    using assms(1) by (auto simp: run_stat_def act_bind_ok act_ok act_assert_ok)
  have "keeps rn_metadata (run_reference c :: (wire_arg, 'a) action)"
    unfolding run_reference_def by (intro keeps_bind keeps_metadata_basic)
  moreover have "keeps rn_metadata (run_execute c t (surface_stat c fixture_resource reference))"
    unfolding run_execute_def by (intro keeps_bind keeps_metadata_basic)
  ultimately have "rn_metadata s2 = Some m"
    using step(1,2) assms(2) keepsD by metis
  then have "required = m" using step(4) by (simp add: run_metadata_def)
  then show ?thesis using executes [OF step(2)] step(3,5) by blast
qed

lemma get_delivers:
  assumes "run_get c t s = Some (Inr (), s')"
  shows "\<exists>p ps i ps'. collect_payload (tg_callbacks t) p DEFAULT_CHUNK_SIZE ps = Some (Inr (i, fixture_payload), ps')
    \<and> ci_digest i = fixture_digest"
proof -
  obtain raw s1 i s2 where "run_transfer t raw s1 = Some (Inr (i, fixture_payload), s2)" "ci_digest i = fixture_digest"
    using assms by (auto simp: run_get_def act_bind_ok act_ok act_assert_ok)
  then show ?thesis using transfers by blast
qed

lemma range_delivers:
  assumes "run_range c t s = Some (Inr (), s')"
  shows "\<exists>p ps i ps'. collect_payload (tg_callbacks t) p DEFAULT_CHUNK_SIZE ps
    = Some (Inr (i, drop 2 (take 10 fixture_payload)), ps')"
proof -
  obtain raw s1 i s2 where "run_transfer t raw s1 = Some (Inr (i, drop 2 (take 10 fixture_payload)), s2)"
    using assms by (auto simp: run_range_def act_bind_ok act_ok act_assert_ok)
  then show ?thesis using transfers by blast
qed

lemma delete_confirms:
  assumes "run_delete c t s = Some (Inr (), s')"
  shows "\<exists>op ps result ps'. tg_execute t op ps = Some (Inr result, ps') \<and> py_eq (PDict result) (PDict [fld ''deleted'' (PBool True)])"
proof -
  obtain reference s1 result s2 where
    "run_execute c t (surface_delete c fixture_resource reference (PStr (lit ''conformance-cleanup''))) s1 = Some (Inr result, s2)"
    "py_eq (PDict result) (PDict [fld ''deleted'' (PBool True)])"
    using assms by (auto simp: run_delete_def act_bind_ok act_ok act_assert_ok)
  then show ?thesis using executes by blast
qed

definition fixture_recorded :: "object_metadata \<Rightarrow> bool" where
  "fixture_recorded m \<longleftrightarrow> py_eq (om_digest m) (PStr fixture_digest)
     \<and> py_eq (om_byte_length m) (PInt (int (length fixture_payload))) \<and> or_digest (om_object_ref m) = Some fixture_digest"

definition delivers :: "'w target \<Rightarrow> bytes \<Rightarrow> bool" where
  \<comment> \<open>a handle of the target was streamed into a fresh \<open>BytesIO\<close> that then held these bytes\<close>
  "delivers t data \<longleftrightarrow>
     (\<exists>p ps i ps'. collect_payload (tg_callbacks t) p DEFAULT_CHUNK_SIZE ps = Some (Inr (i, data), ps'))"

definition answers_with :: "'w target \<Rightarrow> (pydict \<Rightarrow> bool) \<Rightarrow> bool" where
  "answers_with t P \<longleftrightarrow> (\<exists>op ps result ps'. tg_execute t op ps = Some (Inr result, ps') \<and> P result)"

lemma passing_steps:
  assumes "run_object_conformance c (Some t) random w = Some (Inr report, s)" and "report_passed report"
  obtains m where "rn_metadata s = Some m" "fixture_recorded m"
    "\<exists>st st'. rn_metadata st = Some m \<and> run_stat c t st = Some (Inr (), st')"
    "\<exists>st st'. run_get c t st = Some (Inr (), st')" "\<exists>st st'. run_range c t st = Some (Inr (), st')"
    "\<exists>st st'. run_delete c t st = Some (Inr (), st')"
proof -
  obtain w1 where run: "run_steps (conformance_steps c t random) (runner_init w1) = Some s"
    and passed: "list_all ck_passed (rn_checks s)"
    using run_report [OF assms(1)] assms(2) by (metis report_passed_def)
  obtain f1 fs q1 qs where fs: "conformance_steps c t random = f1 # fs" and qs: "conformance_plan c t random = q1 # qs"
    by (simp add: conformance_steps_def conformance_plan_def)
  have q1: "q1 = (''unknown-length-streaming-put'', ''ok'', run_put c t random, Inr ())" using qs by (simp add: conformance_plan_def)
  have steps: "performs f1 q1" "list_all2 performs fs qs"
    using conformance_steps_plan [of c t random] by (simp_all add: fs qs)
  obtain s1 where s1: "f1 (runner_init w1) = Some s1" "run_steps fs s1 = Some s" using run by (auto simp: fs split: option.splits)
  obtain r st k where k: "run_put c t random (runner_init w1) = Some (r, st)" "rn_metadata s1 = rn_metadata st"
    "rn_checks s1 = rn_checks (runner_init w1) @ [k]" "ck_passed k \<longleftrightarrow> r = Inr ()"
    using performsE [OF steps(1) [unfolded q1] s1(1)] .
  obtain ks where "rn_checks s = rn_checks s1 @ ks" using run_steps_answers [OF steps(2) s1(2)] by blast
  then have "r = Inr ()" using passed k(3,4) by simp
  then obtain m where m: "rn_metadata s1 = Some m" "fixture_recorded m"
    using put_records k(1,2) unfolding fixture_recorded_def by metis
  have "list_all (\<lambda>(name, detail, a, good). keeps rn_metadata a) qs"
    using qs by (auto simp: conformance_plan_def keeps_metadata)
  note rest = run_steps_passed [OF steps(2) this s1(2) passed]
  have "list_all (\<lambda>(name, detail, a, good). \<exists>st st'. rn_metadata st = Some m \<and> a st = Some (good, st')) (tl (conformance_plan c t random))"
    using rest m(1) by (simp add: qs)
  then have stat: "\<exists>st st'. rn_metadata st = Some m \<and> run_stat c t st = Some (Inr (), st')"
    and get: "\<exists>st st'. rn_metadata st = Some m \<and> run_get c t st = Some (Inr (), st')"
    and range: "\<exists>st st'. rn_metadata st = Some m \<and> run_range c t st = Some (Inr (), st')"
    and delete: "\<exists>st st'. rn_metadata st = Some m \<and> run_delete c t st = Some (Inr (), st')"
    by (simp_all add: conformance_plan_def)
  have "rn_metadata s = Some m" using rest m(1) by simp
  then show thesis using that m(2) stat get range delete by blast
qed


end
