(* ===== verification/Sha256Vector.thy ===== *)
theory Sha256Vector
  imports Sha256
begin

text \<open>
  The model of SHA-256 computed by the kernel on one message, the fixture payload of the conformance
  suite. The digest is the one that \<open>sha256sum\<close> prints for these bytes.
\<close>

lemma sha256_fixture_bytes:
  "sha256 (map of_char ''Meridian object conformance payload'' @ [0, 255, 10]) =
     [0x23, 0x39, 0x83, 0x62, 0x1d, 0x50, 0xdc, 0x1e, 0x8e, 0x17, 0xcc, 0x57, 0x26, 0xdb, 0x52, 0x50,
      0x36, 0x17, 0x06, 0x87, 0xd1, 0x49, 0x70, 0x34, 0x1c, 0xe4, 0xc0, 0xbd, 0x0e, 0x8e, 0x1e, 0x5c]"
  by code_simp

end
