(* ===== verification/SuiteRun.thy ===== *)
theory SuiteRun
  imports SuiteRequests PassingReports Sha256Vector
begin

text \<open>
  A run of the conformance suite against the in-memory target: what the target answers to each request,
  that each step ends in the outcome the suite demands, and that the report passes.
\<close>

section \<open>The answers of the target\<close>

definition fixture_key :: object_key where
  "fixture_key = (lit ''conformance'', lit ''objects'', lit ''fixture/object-001'')"

definition fixture_object :: "('m) memory_core_scheme \<Rightarrow> stored_object" where
  "fixture_object c = \<lparr>st_data = fixture_payload, st_metadata = fixture_metadata c\<rparr>"

definition metadata_answer :: "('m) memory_core_scheme \<Rightarrow> pykey \<times> pyval" where
  "metadata_answer c = fld ''metadata'' (PDict (ObjectMetadata_to_dict c (fixture_metadata c)))"

abbreviation objects_of :: "memory_state \<Rightarrow> (object_key \<times> stored_object) list" where
  "objects_of s \<equiv> mw_objects (ps_world s)"

lemma execute_requested:
  assumes "requested m args op"
  shows "m = ''put'' \<Longrightarrow> memory_execute c r op = memory_put c op" "m = ''get'' \<Longrightarrow> memory_execute c r op = memory_get c r op"
    "m = ''stat'' \<Longrightarrow> memory_execute c r op = memory_stat c op"
    "m = ''read_range'' \<Longrightarrow> memory_execute c r op = memory_read_range c r op"
    "m = ''list'' \<Longrightarrow> memory_execute c r op = memory_list c op" "m = ''delete'' \<Longrightarrow> memory_execute c r op = memory_delete c op"
  using assms by (simp_all add: requested_def memory_execute_def operation_name_def)

lemma requested_resource: "requested m args op \<Longrightarrow> first_resource op = Inr fixture_target"
  by (simp add: requested_def first_resource_def)

lemma stored_run: "act_bind stored_objects f s = f (objects_of s) s"
  by (simp add: stored_objects_def act_bind_def)

lemma keep_run: "act_bind (keep_objects objects) f s = f () (s\<lparr>ps_world := (ps_world s)\<lparr>mw_objects := objects\<rparr>\<rparr>)"
  by (simp add: keep_objects_def act_bind_def)

lemma fixture_lookup:
  assumes "suite_contract c" and "requested m (reference_arguments c extra) op"
  shows "objects_of s = [(fixture_key, fixture_object c)] \<Longrightarrow> memory_lookup c op s = Some (Inr (fixture_object c), s)"
    and "objects_of s = [] \<Longrightarrow> memory_lookup c op s = Some (Inl (ObjectError ObjectNotFound), s)"
proof -
  have rc: "reference_contract c" "constructed c fixture_reference"
    using assms(1) fixture_reference_made [of c] by (simp_all add: suite_contract_def)
  have "parse_logical_reference c (Logical_mapping (ObjectReference_to_dict c fixture_reference)) = Inr (Plain_reference fixture_reference)"
    unfolding parse_logical_reference_ok
    using plain_print_unsigned [OF rc] parse_reference_print [OF rc, of False] by simp
  moreover have "mapping_field (on_input op) ''reference'' = Inr (ObjectReference_to_dict c fixture_reference)"
    using assms(2) by (simp add: requested_def mapping_field_def reference_arguments_def dget_req_def wire_simps)
  ultimately have run: "memory_lookup c op s =
      (case map_of (objects_of s) fixture_key of
         None \<Rightarrow> Some (Inl (ObjectError ObjectNotFound), s)
       | Some stored \<Rightarrow>
           if PStr fixture_digest \<noteq> om_digest (st_metadata stored) then Some (Inl (ObjectError ObjectNotFound), s)
           else Some (Inr stored, s))"
    by (simp add: memory_lookup_def requested_resource [OF assms(2)] stored_run memory_key_def Let_def)
      (simp add: fixture_target_def fixture_reference_def fixture_home_def fixture_key_def act_def split: option.splits)
  show "objects_of s = [(fixture_key, fixture_object c)] \<Longrightarrow> memory_lookup c op s = Some (Inr (fixture_object c), s)"
    by (simp add: run fixture_object_def fixture_metadata_def)
  show "objects_of s = [] \<Longrightarrow> memory_lookup c op s = Some (Inl (ObjectError ObjectNotFound), s)"
    by (simp add: run)
qed

lemma looked_up:
  assumes "suite_contract c" and "requested m (reference_arguments c extra) op"
  shows "objects_of s = [(fixture_key, fixture_object c)] \<Longrightarrow> act_bind (memory_lookup c op) f s = f (fixture_object c) s"
    and "objects_of s = [] \<Longrightarrow> act_bind (memory_lookup c op) f s = Some (Inl (ObjectError ObjectNotFound), s)"
  by (simp_all add: act_bind_def fixture_lookup [OF assms])

lemma stat_answer:
  assumes "suite_contract c" and "requested ''stat'' (reference_arguments c []) op"
  shows "objects_of s = [(fixture_key, fixture_object c)] \<Longrightarrow> memory_execute c r op s = Some (Inr [metadata_answer c], s)"
    and "objects_of s = [] \<Longrightarrow> memory_execute c r op s = Some (Inl (ObjectError ObjectNotFound), s)"
  unfolding execute_requested(3) [OF assms(2) refl] memory_stat_def
  by (simp_all add: looked_up [OF assms] act_def metadata_answer_def fixture_object_def)

lemma get_answer:
  assumes "suite_contract c" and "requested ''get'' (reference_arguments c []) op" and "\<forall>n. length (r n) = 32"
    and "objects_of s = [(fixture_key, fixture_object c)]"
  shows "\<exists>p s'. memory_execute c r op s = Some (Inr [metadata_answer c, fld ''payload'' (PDict (PayloadReference_to_dict p))], s')
    \<and> resolves p fixture_payload s' \<and> pr_expected_digest p = Some fixture_digest
    \<and> pr_expected_length p = Some (int (length fixture_payload)) \<and> objects_of s' = objects_of s"
proof -
  have "optional_field digest (PStr fixture_digest) = Inr (Some fixture_digest)"
    by (simp add: optional_field_ok digest_ok fixture_digest_def)
  from serve_registers [OF assms(3) this, of fixture_payload s]
  obtain p s' where "serve r fixture_payload (PInt (int (length fixture_payload))) (PStr fixture_digest) s = Some (Inr p, s')"
    "resolves p fixture_payload s'" "pr_expected_digest p = Some fixture_digest"
    "pr_expected_length p = Some (int (length fixture_payload))" "objects_of s' = objects_of s" by blast
  then show ?thesis
    unfolding execute_requested(2) [OF assms(2) refl] memory_get_def looked_up(1) [OF assms(1,2,4)]
    by (simp add: fixture_object_def fixture_metadata_def act_bind_def act_def metadata_answer_def) blast
qed

lemma range_answer:
  assumes "suite_contract c" and "\<forall>n. length (r n) = 32"
    and "requested ''read_range'' (reference_arguments c [fld ''range'' (PDict (ByteRange_to_dict fixture_range))]) op"
    and "objects_of s = [(fixture_key, fixture_object c)]"
    and "ByteRange_resolve fixture_range (PInt (int (length fixture_payload))) = Inr resolved"
  shows "\<exists>p s'. memory_execute c r op s = Some (Inr [metadata_answer c, fld ''payload'' (PDict (PayloadReference_to_dict p)),
      fld ''range'' (PDict (ResolvedByteRange_to_dict resolved))], s')
    \<and> resolves p (drop 2 (take 10 fixture_payload)) s' \<and> pr_expected_digest p = None
    \<and> pr_expected_length p = Some 8 \<and> objects_of s' = objects_of s"
proof -
  let ?data = "drop 2 (take 10 fixture_payload)"
  have wf: "wf_byte_range fixture_range" by (simp add: wf_byte_range_def fixture_range_def)
  have resolved: "rr_start resolved = 2" "rr_end resolved = 9"
    using assms(5) by (auto simp: ByteRange_resolve_def fixture_range_def fixture_payload_def ok_iff Let_def)
  have len: "int (length ?data) = 8" by (simp add: fixture_payload_def)
  have "optional_field digest PNone = Inr None" by (simp add: optional_field_ok)
  from serve_registers [OF assms(2) this, of ?data s]
  obtain p s' where p: "serve r ?data (PInt 8) PNone s = Some (Inr p, s')" "resolves p ?data s'"
    "pr_expected_digest p = None" "pr_expected_length p = Some 8" "objects_of s' = objects_of s"
    unfolding len by blast
  have "mapping_field (on_input op) ''range'' = Inr (ByteRange_to_dict fixture_range)"
    using assms(3) by (simp add: requested_def mapping_field_def reference_arguments_def dget_req_def wire_simps)
  then show ?thesis
    unfolding execute_requested(4) [OF assms(3) refl] memory_read_range_def looked_up(1) [OF assms(1,3,4)]
    using p len assms(5)
    by (simp add: fixture_object_def fixture_metadata_def ByteRange_round_trip [OF wf] resolved Let_def
        metadata_answer_def, simp add: act_bind_def act_def) blast
qed

lemma list_answer:
  assumes "requested ''list'' list_arguments op" and "objects_of s = [(fixture_key, fixture_object c)]"
  shows "memory_execute c r op s =
    Some (Inr [fld ''items'' (PList [PDict (ObjectMetadata_to_dict c (fixture_metadata c))]), fld ''cursor'' PNone], s)"
proof -
  have "str_field (on_input op) ''prefix'' = Inr (lit ''fixture/'')" "int_field (on_input op) ''limit'' = Inr 1"
    using assms(1) by (simp_all add: requested_def list_arguments_def str_field_def int_field_def dget_req_def wire_simps)
  moreover have "prefix (lit ''fixture/'') (lit ''fixture/object-001'')" by (simp add: lit_def)
  ultimately show ?thesis
    unfolding execute_requested(5) [OF assms(1) refl] memory_list_def
    by (simp add: requested_resource [OF assms(1)] stored_run assms(2) fixture_key_def fixture_target_def
        fixture_object_def Let_def act_def)
qed

lemma delete_answer:
  assumes "suite_contract c" and "requested ''delete'' (reference_arguments c extra) op"
    and "objects_of s = [(fixture_key, fixture_object c)]"
  shows "\<exists>s'. memory_execute c r op s = Some (Inr [fld ''deleted'' (PBool True)], s') \<and> objects_of s' = []"
proof -
  have "memory_key fixture_target (or_object_id (om_object_ref (st_metadata (fixture_object c)))) = fixture_key"
    by (simp add: memory_key_def fixture_target_def fixture_object_def fixture_metadata_def fixture_reference_def fixture_key_def)
  then show ?thesis
    unfolding execute_requested(6) [OF assms(2) refl] memory_delete_def looked_up(1) [OF assms]
    by (simp add: requested_resource [OF assms(2)] stored_run keep_run assms(3) Let_def act_def)
qed

lemma suite_put_reads:
  assumes "requested ''put'' (put_arguments c (suite_put full i d p) p) op"
  shows "str_field (on_input op) ''objectId'' = Inr (lit i)" "dget_req (on_input op) ''createOnly'' = Inr (PBool True)"
    "mapping_field (on_input op) ''payload'' = Inr (PayloadReference_to_dict p)"
    "dget_req (on_input op) ''mediaType'' = Inr (PStr (lit ''application/octet-stream''))"
    "dget_req (on_input op) ''creationContext'' = Inr (PDict [])" "dget_req (on_input op) ''provenance'' = Inr (PDict [])"
    "full \<Longrightarrow> dget_req (on_input op) ''userMetadata'' = Inr (PDict [fld ''fixture'' (PStr (lit ''v1''))])"
    "full \<Longrightarrow> dget_req (on_input op) ''immutability'' =
      Inr (PDict [fld ''mutability'' (PStr (lit ''immutable'')), fld ''publishOnce'' (PBool True)])"
  using assms
  by (simp_all add: requested_def put_arguments_def suite_put_def fixture_put_def str_field_def mapping_field_def
      dget_req_def Let_def wire_simps or_empty_def wire_optional_def wire_def)

lemma put_answer:
  assumes "suite_contract c"
    and "requested ''put'' (put_arguments c (suite_put True ''fixture/object-001'' fixture_digest p) p) op"
    and "resolves p fixture_payload s" and "pr_expected_digest p = Some fixture_digest" and "pr_expected_length p = None"
    and "objects_of s = []"
  shows "\<exists>s'. memory_execute c r op s = Some (Inr [metadata_answer c], s')
    \<and> objects_of s' = [(fixture_key, fixture_object c)]"
proof -
  have a: "accepts_fixture c" using assms(1) by (simp add: suite_contract_def)
  have "declared_outcome p fixture_payload = Inr (identity_of fixture_payload)"
    using assms(4,5) by (simp add: declared_outcome_def fixture_digest_def)
  then obtain s1 where s1: "collect_payload memory_callbacks p 7 s = Some (Inr (identity_of fixture_payload, fixture_payload), s1)"
    "objects_of s1 = []"
    using collect_served [OF assms(3), of 7] assms(6) by (auto simp: MAX_CHUNK_SIZE_def)
  have parsed: "PayloadReference_from_mapping (PayloadReference_to_dict p) = Inr p"
    using assms(3) by (intro payload_wire.parse_print) (simp add: resolves_def)
  have identity: "ci_digest (identity_of fixture_payload) = fixture_digest"
    "ci_byte_length (identity_of fixture_payload) = int (length fixture_payload)"
    by (simp_all add: identity_of_def fixture_digest_def)
  have made: "new_ResourceReference c (rs_namespace fixture_target) (rs_name fixture_target) = Inr fixture_home"
    "new_ObjectReference c fixture_home (PStr (lit ''fixture/object-001'')) (PStr fixture_digest) = Inr fixture_reference"
    using a fixture_reference_made [OF a] by (simp_all add: accepts_fixture_def fixture_target_def constructed_def)
      (simp add: fixture_reference_def)
  have "new_memory_metadata c (on_input op) fixture_reference (identity_of fixture_payload) (PStr (lit ''immutable'')) =
      Inr (fixture_metadata c)"
    using a suite_put_reads [OF assms(2)] identity
    by (simp add: new_memory_metadata_def accepts_fixture_def) (simp add: fixture_metadata_def)
  then show ?thesis
    unfolding execute_requested(1) [OF assms(2) refl] memory_put_def
    using suite_put_reads [OF assms(2)] s1 parsed identity made assms(6)
    by (simp add: requested_resource [OF assms(2)] stored_run keep_run Let_def memory_key_def act_bind_def [of "collect_payload _ _ _"]
        dget_req_def wire_simps)
      (simp add: act_def metadata_answer_def fixture_object_def fixture_key_def fixture_target_def)
qed

lemma duplicate_answer:
  assumes "requested ''put'' (put_arguments c (suite_put full ''fixture/object-001'' d p) p) op"
    and "objects_of s = [(fixture_key, stored)]"
  shows "memory_execute c r op s = Some (Inl (ObjectError ConditionalConflict), s)"
proof -
  have "memory_key fixture_target (lit ''fixture/object-001'') = fixture_key"
    by (simp add: memory_key_def fixture_target_def fixture_key_def)
  then show ?thesis
    unfolding execute_requested(1) [OF assms(1) refl] memory_put_def
    by (simp add: suite_put_reads [OF assms(1)] requested_resource [OF assms(1)] stored_run assms(2) Let_def act_def)
qed

lemma zero_is_not_fixture: "sha256_digest zero_digest" "zero_digest \<noteq> fixture_digest"
proof -
  show "sha256_digest zero_digest" by (auto simp: sha256_digest_def zero_digest_def intro!: exI [of _ "replicate 64 48"])
  have "hd (hexdigest (0x23 # bs)) = 50" for bs by (simp add: hexdigest_def hex_char_def)
  then have "hd (hexdigest (sha256 fixture_payload)) = 50"
    unfolding fixture_payload_def sha256_fixture_bytes .
  then have "hd (replicate 64 (48 :: nat)) \<noteq> hd (hexdigest (sha256 fixture_payload))" by simp
  then have "replicate 64 48 \<noteq> hexdigest (sha256 fixture_payload)" by metis
  then show "zero_digest \<noteq> fixture_digest"
    by (simp add: zero_digest_def fixture_digest_def sha256_text_def)
qed

lemma mismatch_answer:
  assumes "requested ''put'' (put_arguments c (suite_put full ''fixture/digest-mismatch'' zero_digest p) p) op"
    and "resolves p fixture_payload s" and "pr_expected_digest p = Some zero_digest" and "pr_expected_length p = None"
    and "objects_of s = [(fixture_key, stored)]"
  shows "\<exists>s'. memory_execute c r op s = Some (Inl (ObjectError DigestMismatch), s')
    \<and> objects_of s' = [(fixture_key, stored)]"
proof -
  have "declared_outcome p fixture_payload = Inl (ObjectError DigestMismatch)"
    using assms(3,4) zero_is_not_fixture(2) by (simp add: declared_outcome_def fixture_digest_def)
  then obtain s1 where s1: "collect_payload memory_callbacks p 7 s = Some (Inl (ObjectError DigestMismatch), s1)"
    "objects_of s1 = [(fixture_key, stored)]"
    using collect_served [OF assms(2), of 7] assms(5) by (auto simp: MAX_CHUNK_SIZE_def)
  have parsed: "PayloadReference_from_mapping (PayloadReference_to_dict p) = Inr p"
    using assms(2) by (intro payload_wire.parse_print) (simp add: resolves_def)
  have "memory_key fixture_target (lit ''fixture/digest-mismatch'') \<noteq> fixture_key"
    by (simp add: memory_key_def fixture_target_def fixture_key_def)
  then show ?thesis
    unfolding execute_requested(1) [OF assms(1) refl] memory_put_def
    using s1 parsed
    by (simp add: suite_put_reads [OF assms(1)] requested_resource [OF assms(1)] stored_run assms(5) Let_def
        act_bind_def [of "collect_payload _ _ _"])
qed

section \<open>The steps against the target\<close>

lemma executed:
  assumes "bindE e (normalize c) = Inr op"
  shows "memory_execute c r op (rn_payloads s) = Some (Inr result, ps) \<Longrightarrow>
      act_bind (run_execute c (memory_target c r) e) f s = f result (s\<lparr>rn_payloads := ps\<rparr>)"
    and "memory_execute c r op (rn_payloads s) = Some (Inl x, ps) \<Longrightarrow>
      act_bind (run_execute c (memory_target c r) e) f s = Some (Inl x, s\<lparr>rn_payloads := ps\<rparr>)"
  by (simp_all add: run_execute_def assms act_bind_def [of "run_operation _ _"] run_operation_def memory_target_def)

lemma metadata_answered:
  assumes "suite_contract c"
  shows "metadata_result c (metadata_answer c # rest) = Inr (fixture_metadata c)"
  using assms by (simp add: suite_contract_def accepts_fixture_def metadata_result_def metadata_answer_def dget_none_def wire_simps)

lemma payload_answered: "payload_result (metadata_answer c # fld ''payload'' (PDict d) # rest) = Inr d"
  by (simp add: payload_result_def metadata_answer_def dget_none_def wire_simps)

lemma transferred:
  assumes "resolves p data (rn_payloads s)" and "declared_outcome p data = Inr identity"
  shows "\<exists>ps. objects_of ps = objects_of (rn_payloads s) \<and>
    run_transfer (memory_target c r) (PayloadReference_to_dict p) s = Some (Inr (identity, data), s\<lparr>rn_payloads := ps\<rparr>)"
proof -
  obtain ps where ps: "collect_payload memory_callbacks p DEFAULT_CHUNK_SIZE (rn_payloads s) = Some (Inr (identity, data), ps)"
    "objects_of ps = objects_of (rn_payloads s)"
    using collect_served [OF assms(1), of DEFAULT_CHUNK_SIZE] assms(2) by (auto simp: DEFAULT_CHUNK_SIZE_def MAX_CHUNK_SIZE_def)
  have "PayloadReference_from_mapping (PayloadReference_to_dict p) = Inr p"
    using assms(1) by (intro payload_wire.parse_print) (simp add: resolves_def)
  then show ?thesis
    using ps by (intro exI [of _ ps]) (simp add: run_transfer_def memory_target_def)
qed

text \<open>The state between the first put and the deletion.\<close>

definition holds_fixture :: "('m) memory_core_scheme \<Rightarrow> memory_world runner \<Rightarrow> bool" where
  "holds_fixture c s \<longleftrightarrow>
     rn_metadata s = Some (fixture_metadata c) \<and> objects_of (rn_payloads s) = [(fixture_key, fixture_object c)]"

lemma referenced:
  assumes "rn_metadata s = Some (fixture_metadata c)"
  shows "act_bind (run_reference c) f s = f (Wire_plain (PDict (ObjectReference_to_dict c fixture_reference))) s"
  using assms by (simp add: run_reference_def act_bind_def [of run_metadata] run_metadata_def)

lemma reference_surfaces:
  "surface_stat c fixture_resource (Wire_plain (PDict (ObjectReference_to_dict c fixture_reference))) =
     surface_expression c ''stat'' (reference_arguments c [])"
  "surface_get c fixture_resource (Wire_plain (PDict (ObjectReference_to_dict c fixture_reference))) =
     surface_expression c ''get'' (reference_arguments c [])"
  "surface_read_range c fixture_resource (Wire_plain (PDict (ObjectReference_to_dict c fixture_reference))) (Range_object fixture_range) =
     surface_expression c ''read_range'' (reference_arguments c [fld ''range'' (PDict (ByteRange_to_dict fixture_range))])"
  "surface_delete c fixture_resource (Wire_plain (PDict (ObjectReference_to_dict c fixture_reference)))
       (PStr (lit ''conformance-cleanup'')) =
     surface_expression c ''delete'' (reference_arguments c [fld ''reason'' (PStr (lit ''conformance-cleanup''))])"
  "surface_list c fixture_resource (PStr (lit ''fixture/'')) (PInt 1) PNone (PStr (lit ''maintenance'')) =
     surface_expression c ''list'' list_arguments"
  by (simp_all add: surface_stat_def surface_get_def surface_read_range_def surface_delete_def surface_list_def
      surface_reference_expression_def reference_arguments_def list_arguments_def fixture_resource_def wire_def)

lemma put_step:
  assumes "suite_contract c" and "\<forall>n. length (random n) = 32" and "objects_of (rn_payloads s) = []"
  shows "\<exists>s'. run_put c (memory_target c r) random s = Some (Inr (), s') \<and> holds_fixture c s'"
proof -
  obtain p s1 where p: "run_payload_reference (memory_target c r) random fixture_digest s = Some (Inr p, s1)"
    "resolves p fixture_payload (rn_payloads s1)" "pr_expected_digest p = Some fixture_digest" "pr_expected_length p = None"
    "objects_of (rn_payloads s1) = []"
    using runner_registers [OF assms(2), of fixture_digest c r s] assms(3) by (auto simp: fixture_digest_def)
  have wf: "wf_payload_reference p" using p(2) by (simp add: resolves_def)
  obtain op where op: "bindE (surface_put c (suite_put True ''fixture/object-001'' fixture_digest p)) (normalize c) = Inr op"
    "requested ''put'' (put_arguments c (suite_put True ''fixture/object-001'' fixture_digest p) p) op"
    using put_request [OF assms(1) _ wf p(3,4), of "''fixture/object-001''" True] by blast
  obtain ps where ps: "memory_execute c r op (rn_payloads s1) = Some (Inr [metadata_answer c], ps)"
    "objects_of ps = [(fixture_key, fixture_object c)]"
    using put_answer [OF assms(1) op(2) p(2-5)] by blast
  have surface: "fixture_put fixture_object_id fixture_digest (Some [fld ''fixture'' (PStr (lit ''v1''))])
      (Some (Wire_plain (PDict [fld ''mutability'' (PStr (lit ''immutable'')), fld ''publishOnce'' (PBool True)]))) p =
      suite_put True ''fixture/object-001'' fixture_digest p"
    by (simp add: suite_put_def fixture_object_id_def)
  show ?thesis
    unfolding run_put_def act_bind_step [where m = "run_payload_reference _ _ _", OF p(1)] surface executed(1) [OF op(1) ps(1)]
    using ps(2) by (simp add: metadata_answered [OF assms(1)] keep_metadata_def holds_fixture_def)
qed

lemma stat_step:
  assumes "suite_contract c" and "holds_fixture c s"
  shows "run_stat c (memory_target c r) s = Some (Inr (), s)"
proof -
  have s: "rn_metadata s = Some (fixture_metadata c)" "objects_of (rn_payloads s) = [(fixture_key, fixture_object c)]"
    using assms(2) by (simp_all add: holds_fixture_def)
  obtain op where op: "bindE (surface_expression c ''stat'' (reference_arguments c [])) (normalize c) = Inr op"
    "requested ''stat'' (reference_arguments c []) op"
    using lookup_request [OF assms(1), of "''stat''"] by blast
  have "py_eq (PDict (ObjectMetadata_to_dict c (fixture_metadata c))) (PDict (ObjectMetadata_to_dict c (fixture_metadata c)))"
    using assms(1) by (intro py_eq_refl(1)) (simp add: suite_contract_def accepts_fixture_def)
  then show ?thesis
    unfolding run_stat_def referenced [OF s(1)] reference_surfaces executed(1) [OF op(1) stat_answer(1) [OF assms(1) op(2) s(2)]]
    by (simp add: metadata_answered [OF assms(1)] act_bind_def [of run_metadata] run_metadata_def s(1) act_assert_def act_def)
qed

lemma missing_step:
  assumes "suite_contract c" and "rn_metadata s = Some (fixture_metadata c)" and "objects_of (rn_payloads s) = []"
  shows "run_stat c (memory_target c r) s = Some (Inl (ObjectError ObjectNotFound), s)"
proof -
  obtain op where op: "bindE (surface_expression c ''stat'' (reference_arguments c [])) (normalize c) = Inr op"
    "requested ''stat'' (reference_arguments c []) op"
    using lookup_request [OF assms(1), of "''stat''"] by blast
  show ?thesis
    unfolding run_stat_def referenced [OF assms(2)] reference_surfaces executed(2) [OF op(1) stat_answer(2) [OF assms(1) op(2) assms(3)]]
    by simp
qed

lemma get_step:
  assumes "suite_contract c" and "\<forall>n. length (r n) = 32" and "holds_fixture c s"
  shows "\<exists>s'. run_get c (memory_target c r) s = Some (Inr (), s') \<and> holds_fixture c s'"
proof -
  have s: "rn_metadata s = Some (fixture_metadata c)" "objects_of (rn_payloads s) = [(fixture_key, fixture_object c)]"
    using assms(3) by (simp_all add: holds_fixture_def)
  obtain op where op: "bindE (surface_expression c ''get'' (reference_arguments c [])) (normalize c) = Inr op"
    "requested ''get'' (reference_arguments c []) op"
    using lookup_request [OF assms(1), of "''get''"] by blast
  obtain p ps where p: "memory_execute c r op (rn_payloads s) =
      Some (Inr [metadata_answer c, fld ''payload'' (PDict (PayloadReference_to_dict p))], ps)"
    "resolves p fixture_payload ps" "pr_expected_digest p = Some fixture_digest"
    "pr_expected_length p = Some (int (length fixture_payload))" "objects_of ps = objects_of (rn_payloads s)"
    using get_answer [OF assms(1) op(2) assms(2) s(2)] by blast
  have "declared_outcome p fixture_payload = Inr (identity_of fixture_payload)"
    using p(3,4) by (simp add: declared_outcome_def fixture_digest_def)
  from transferred [of p fixture_payload "s\<lparr>rn_payloads := ps\<rparr>", OF _ this]
  obtain ps' where ps': "objects_of ps' = objects_of ps"
    "run_transfer (memory_target c r) (PayloadReference_to_dict p) (s\<lparr>rn_payloads := ps\<rparr>) =
      Some (Inr (identity_of fixture_payload, fixture_payload), s\<lparr>rn_payloads := ps'\<rparr>)"
    using p(2) by force
  then show ?thesis
    unfolding run_get_def referenced [OF s(1)] reference_surfaces executed(1) [OF op(1) p(1)]
    using ps'(1) p(5) s
    by (simp add: metadata_answered [OF assms(1)] payload_answered act_bind_def [of "run_transfer _ _"] ps'(2) identity_of_def holds_fixture_def
        fixture_digest_def [symmetric] act_assert_def act_def)
qed

lemma range_step:
  assumes "suite_contract c" and "\<forall>n. length (r n) = 32" and "holds_fixture c s"
  shows "\<exists>s'. run_range c (memory_target c r) s = Some (Inr (), s') \<and> holds_fixture c s'"
proof -
  let ?data = "drop 2 (take 10 fixture_payload)"
  let ?args = "reference_arguments c [fld ''range'' (PDict (ByteRange_to_dict fixture_range))]"
  have s: "rn_metadata s = Some (fixture_metadata c)" "objects_of (rn_payloads s) = [(fixture_key, fixture_object c)]"
    using assms(3) by (simp_all add: holds_fixture_def)
  obtain op where op: "bindE (surface_expression c ''read_range'' ?args) (normalize c) = Inr op"
    "requested ''read_range'' ?args op"
    using range_request [OF assms(1)] by blast
  define resolved where "resolved = \<lparr>rr_start = 2, rr_end = 9, rr_total = int (length fixture_payload)\<rparr>"
  have resolved: "ByteRange_resolve fixture_range (PInt (int (length fixture_payload))) = Inr resolved"
    by (simp add: resolved_def ByteRange_resolve_def fixture_range_def fixture_payload_def ok_iff wf_resolved_def)
  obtain p ps where p: "memory_execute c r op (rn_payloads s) =
      Some (Inr [metadata_answer c, fld ''payload'' (PDict (PayloadReference_to_dict p)),
        fld ''range'' (PDict (ResolvedByteRange_to_dict resolved))], ps)"
    "resolves p ?data ps" "pr_expected_digest p = None" "pr_expected_length p = Some 8"
    "objects_of ps = objects_of (rn_payloads s)"
    using range_answer [OF assms(1,2) op(2) s(2) resolved] by blast
  have "int (length ?data) = 8" by (simp add: fixture_payload_def)
  then have "declared_outcome p ?data = Inr (identity_of ?data)"
    using p(3,4) by (simp add: declared_outcome_def)
  from transferred [of p ?data "s\<lparr>rn_payloads := ps\<rparr>", OF _ this]
  obtain ps' where ps': "objects_of ps' = objects_of ps"
    "run_transfer (memory_target c r) (PayloadReference_to_dict p) (s\<lparr>rn_payloads := ps\<rparr>) =
      Some (Inr (identity_of ?data, ?data), s\<lparr>rn_payloads := ps'\<rparr>)"
    using p(2) by force
  have "py_eq (PDict (ResolvedByteRange_to_dict resolved)) (PDict (ResolvedByteRange_to_dict resolved))"
    by (simp add: ResolvedByteRange_to_dict_def)
  then show ?thesis
    unfolding run_range_def referenced [OF s(1)] reference_surfaces executed(1) [OF op(1) p(1)]
    using ps'(1) p(5) s resolved
    by (simp add: payload_answered act_bind_def [of "run_transfer _ _"] ps'(2) holds_fixture_def)
      (simp add: act_assert_def act_def dget_none_def metadata_answer_def wire_simps)
qed

lemma list_step:
  assumes "suite_contract c" and "holds_fixture c s"
  shows "run_list c (memory_target c r) s = Some (Inr (), s)"
proof -
  have s: "objects_of (rn_payloads s) = [(fixture_key, fixture_object c)]" using assms(2) by (simp add: holds_fixture_def)
  obtain op where op: "bindE (surface_expression c ''list'' list_arguments) (normalize c) = Inr op"
    "requested ''list'' list_arguments op"
    using list_request [OF assms(1)] by blast
  have "parse_object_metadata c (Meta_mapping (ObjectMetadata_to_dict c (fixture_metadata c))) = Inr (fixture_metadata c)"
    using assms(1) by (simp add: suite_contract_def accepts_fixture_def)
  then show ?thesis
    unfolding run_list_def reference_surfaces executed(1) [OF op(1) list_answer [OF op(2) s]]
    by (simp add: single_item_def dget_none_def wire_simps cursor_or_none_def act_assert_def act_def)
qed

lemma duplicate_step:
  assumes "suite_contract c" and "\<forall>n. length (random n) = 32" and "holds_fixture c s"
  shows "\<exists>s'. run_duplicate c (memory_target c r) random s = Some (Inl (ObjectError ConditionalConflict), s') \<and> holds_fixture c s'"
proof -
  obtain p s1 where p: "run_payload_reference (memory_target c r) random fixture_digest s = Some (Inr p, s1)"
    "resolves p fixture_payload (rn_payloads s1)" "pr_expected_digest p = Some fixture_digest" "pr_expected_length p = None"
    "holds_fixture c s1"
    using runner_registers [OF assms(2), of fixture_digest c r s] assms(3) by (auto simp: fixture_digest_def holds_fixture_def)
  have wf: "wf_payload_reference p" using p(2) by (simp add: resolves_def)
  obtain op where op: "bindE (surface_put c (suite_put False ''fixture/object-001'' fixture_digest p)) (normalize c) = Inr op"
    "requested ''put'' (put_arguments c (suite_put False ''fixture/object-001'' fixture_digest p) p) op"
    using put_request [OF assms(1) _ wf p(3,4), of "''fixture/object-001''" False] by blast
  have "objects_of (rn_payloads s1) = [(fixture_key, fixture_object c)]" using p(5) by (simp add: holds_fixture_def)
  note answer = duplicate_answer [OF op(2) this, of r]
  have surface: "fixture_put fixture_object_id fixture_digest None None p = suite_put False ''fixture/object-001'' fixture_digest p"
    by (simp add: suite_put_def fixture_object_id_def)
  show ?thesis
    unfolding run_duplicate_def act_bind_step [where m = "run_payload_reference _ _ _", OF p(1)] surface executed(2) [OF op(1) answer]
    using p(5) by (simp add: holds_fixture_def)
qed

lemma mismatch_step:
  assumes "suite_contract c" and "\<forall>n. length (random n) = 32" and "holds_fixture c s"
  shows "\<exists>s'. run_digest_mismatch c (memory_target c r) random s = Some (Inl (ObjectError DigestMismatch), s') \<and> holds_fixture c s'"
proof -
  obtain p s1 where p: "run_payload_reference (memory_target c r) random zero_digest s = Some (Inr p, s1)"
    "resolves p fixture_payload (rn_payloads s1)" "pr_expected_digest p = Some zero_digest" "pr_expected_length p = None"
    "holds_fixture c s1"
    using runner_registers [OF assms(2) zero_is_not_fixture(1), of c r s] assms(3) by (auto simp: holds_fixture_def)
  have wf: "wf_payload_reference p" using p(2) by (simp add: resolves_def)
  obtain op where op: "bindE (surface_put c (suite_put False ''fixture/digest-mismatch'' zero_digest p)) (normalize c) = Inr op"
    "requested ''put'' (put_arguments c (suite_put False ''fixture/digest-mismatch'' zero_digest p) p) op"
    using put_request [OF assms(1) _ wf p(3,4), of "''fixture/digest-mismatch''" False] by blast
  have "objects_of (rn_payloads s1) = [(fixture_key, fixture_object c)]" using p(5) by (simp add: holds_fixture_def)
  from mismatch_answer [OF op(2) p(2-4) this]
  obtain ps where ps: "memory_execute c r op (rn_payloads s1) = Some (Inl (ObjectError DigestMismatch), ps)"
    "objects_of ps = [(fixture_key, fixture_object c)]" by blast
  have surface: "fixture_put (PStr (lit ''fixture/digest-mismatch'')) zero_digest None None p =
      suite_put False ''fixture/digest-mismatch'' zero_digest p"
    by (simp add: suite_put_def)
  show ?thesis
    unfolding run_digest_mismatch_def act_bind_step [where m = "run_payload_reference _ _ _", OF p(1)] surface executed(2) [OF op(1) ps(1)]
    using p(5) ps(2) by (simp add: holds_fixture_def)
qed

lemma delete_step:
  assumes "suite_contract c" and "holds_fixture c s"
  shows "\<exists>s'. run_delete c (memory_target c r) s = Some (Inr (), s')
    \<and> rn_metadata s' = Some (fixture_metadata c) \<and> objects_of (rn_payloads s') = []"
proof -
  have s: "rn_metadata s = Some (fixture_metadata c)" "objects_of (rn_payloads s) = [(fixture_key, fixture_object c)]"
    using assms(2) by (simp_all add: holds_fixture_def)
  obtain op where op: "bindE (surface_expression c ''delete'' (reference_arguments c [fld ''reason'' (PStr (lit ''conformance-cleanup''))]))
      (normalize c) = Inr op"
    "requested ''delete'' (reference_arguments c [fld ''reason'' (PStr (lit ''conformance-cleanup''))]) op"
    using delete_request [OF assms(1)] by blast
  obtain ps where ps: "memory_execute c r op (rn_payloads s) = Some (Inr [fld ''deleted'' (PBool True)], ps)" "objects_of ps = []"
    using delete_answer [OF assms(1) op(2) s(2)] by blast
  show ?thesis
    unfolding run_delete_def referenced [OF s(1)] reference_surfaces executed(1) [OF op(1) ps(1)]
    using ps(2) s(1) by (simp add: act_assert_def act_def)
qed

section \<open>The run\<close>

definition all_passed :: "'w runner \<Rightarrow> bool" where
  "all_passed s \<longleftrightarrow> list_all ck_passed (rn_checks s)"

lemma check_passes:
  assumes "keeps rn_checks a" and "all_passed s" and "a s = Some (Inr (), s1)"
  shows "\<exists>s'. run_check t name a s = Some s' \<and> all_passed s' \<and> rn_metadata s' = rn_metadata s1 \<and> rn_payloads s' = rn_payloads s1"
  using assms(2,3) keepsD [OF assms(1,3)] by (simp add: run_check_def record_check_def all_passed_def)

lemma expected_passes:
  assumes "keeps rn_checks a" and "all_passed s" and "a s = Some (Inl (ObjectError x), s1)"
  shows "\<exists>s'. run_expected t name x a s = Some s' \<and> all_passed s' \<and> rn_metadata s' = rn_metadata s1 \<and> rn_payloads s' = rn_payloads s1"
  using assms(2,3) keepsD [OF assms(1,3)] by (simp add: run_expected_def record_check_def all_passed_def)

lemma memory_run:
  assumes c: "suite_contract c" and random: "\<forall>n. length (random n) = 32" and r: "\<forall>n. length (r n) = 32"
    and start: "objects_of (rn_payloads s) = []" "all_passed s"
  shows "\<exists>s'. run_steps (conformance_steps c (memory_target c r) random) s = Some s'
    \<and> all_passed s' \<and> objects_of (rn_payloads s') = []"
proof -
  let ?t = "memory_target c r"
  have same: "holds_fixture c s' \<longleftrightarrow> holds_fixture c s''"
    if "rn_metadata s' = rn_metadata s''" "rn_payloads s' = rn_payloads s''" for s' s''
    using that by (simp add: holds_fixture_def)
  obtain a1 where "run_put c ?t random s = Some (Inr (), a1)" "holds_fixture c a1"
    using put_step [OF c random start(1)] by blast
  then obtain s1 where s1: "run_check ?t ''unknown-length-streaming-put'' (run_put c ?t random) s = Some s1" "all_passed s1"
    "holds_fixture c s1"
    using check_passes [OF keeps_checks(1) start(2)] same by blast
  obtain s2 where s2: "run_check ?t ''stat-content-identity'' (run_stat c ?t) s1 = Some s2" "all_passed s2" "holds_fixture c s2"
    using check_passes [OF keeps_checks(2) s1(2) stat_step [OF c s1(3)]] s1(3) same by blast
  obtain a3 where "run_get c ?t s2 = Some (Inr (), a3)" "holds_fixture c a3" using get_step [OF c r s2(3)] by blast
  then obtain s3 where s3: "run_check ?t ''streaming-get'' (run_get c ?t) s2 = Some s3" "all_passed s3" "holds_fixture c s3"
    using check_passes [OF keeps_checks(3) s2(2)] same by blast
  obtain a4 where "run_range c ?t s3 = Some (Inr (), a4)" "holds_fixture c a4" using range_step [OF c r s3(3)] by blast
  then obtain s4 where s4: "run_check ?t ''inclusive-range-read'' (run_range c ?t) s3 = Some s4" "all_passed s4" "holds_fixture c s4"
    using check_passes [OF keeps_checks(4) s3(2)] same by blast
  obtain s5 where s5: "run_check ?t ''bounded-prefix-list'' (run_list c ?t) s4 = Some s5" "all_passed s5" "holds_fixture c s5"
    using check_passes [OF keeps_checks(5) s4(2) list_step [OF c s4(3)]] s4(3) same by blast
  obtain a6 where "run_duplicate c ?t random s5 = Some (Inl (ObjectError ConditionalConflict), a6)" "holds_fixture c a6"
    using duplicate_step [OF c random s5(3)] by blast
  then obtain s6 where s6: "run_expected ?t ''conditional-create-conflict'' ConditionalConflict (run_duplicate c ?t random) s5 = Some s6"
    "all_passed s6" "holds_fixture c s6"
    using expected_passes [OF keeps_checks(6) s5(2)] same by blast
  obtain a7 where "run_digest_mismatch c ?t random s6 = Some (Inl (ObjectError DigestMismatch), a7)" "holds_fixture c a7"
    using mismatch_step [OF c random s6(3)] by blast
  then obtain s7 where s7: "run_expected ?t ''digest-mismatch'' DigestMismatch (run_digest_mismatch c ?t random) s6 = Some s7"
    "all_passed s7" "holds_fixture c s7"
    using expected_passes [OF keeps_checks(7) s6(2)] same by blast
  obtain a8 where "run_delete c ?t s7 = Some (Inr (), a8)" "rn_metadata a8 = Some (fixture_metadata c)" "objects_of (rn_payloads a8) = []"
    using delete_step [OF c s7(3)] by blast
  then obtain s8 where s8: "run_check ?t ''exact-version-delete'' (run_delete c ?t) s7 = Some s8" "all_passed s8"
    "rn_metadata s8 = Some (fixture_metadata c)" "objects_of (rn_payloads s8) = []"
    using check_passes [OF keeps_checks(8) s7(2)] by metis
  obtain s9 where s9: "run_expected ?t ''missing-object'' ObjectNotFound (run_stat c ?t) s8 = Some s9" "all_passed s9"
    "rn_payloads s9 = rn_payloads s8"
    using expected_passes [OF keeps_checks(2) s8(2) missing_step [OF c s8(3,4)]] by blast
  show ?thesis
    using s1(1) s2(1) s3(1) s4(1) s5(1) s6(1) s7(1) s8(1,4) s9 by (simp add: conformance_steps_def)
qed

lemma memory_suite_passes:
  assumes "suite_contract c" and "\<forall>n. length (random n) = 32" and "\<forall>n. length (r n) = 32"
  shows "\<exists>report s. run_object_conformance c (Some (memory_target c r)) random w = Some (Inr report, s)
    \<and> report_passed report \<and> mw_objects (ps_world (rn_payloads s)) = []"
proof -
  let ?s = "runner_init (w\<lparr>mw_objects := []\<rparr>)"
  have "objects_of (rn_payloads ?s) = []" "all_passed ?s"
    by (simp_all add: runner_init_def PayloadRegistry_init_def all_passed_def)
  from memory_run [OF assms this] obtain s where
    s: "run_steps (conformance_steps c (memory_target c r) random) ?s = Some s" "all_passed s" "objects_of (rn_payloads s) = []"
    by blast
  then have run: "run_object_conformance c (Some (memory_target c r)) random w =
      Some (Inr \<lparr>cf_target_id = tg_id (memory_target c r), cf_checks = rn_checks s\<rparr>, s)"
    by (simp add: run_object_conformance_def) (simp add: memory_target_def)
  from run_report [OF this] have "list_all2 check_answers (rn_checks s) (conformance_plan c (memory_target c r) random)"
    by metis
  then have "rn_checks s \<noteq> []" by (auto simp: conformance_plan_def)
  then show ?thesis using run s(2,3) by (simp add: report_passed_def all_passed_def)
qed

text \<open>
  C5. The suite can be passed: over Core classes that store requests and accept the fixtures, a run
  against the in-memory target ends with a report that passes, from any earlier contents of the target
  and for all random bytes of the two sides, and leaves no object behind. This composes the surface,
  normalization, the registry, the streaming transfer, ranges and the target's handlers.
\<close>

theorem memory_target_passes:
  assumes "suite_contract c" and "\<forall>n. length (random n) = 32" and "\<forall>n. length (r n) = 32"
  shows "\<exists>report s. run_object_conformance c (Some (memory_target c r)) random w = Some (Inr report, s)
    \<and> report_passed report \<and> mw_objects (ps_world (rn_payloads s)) = []"
  using memory_suite_passes [OF assms] .

section \<open>A concrete run\<close>

definition sample_metadata_dict :: "object_metadata \<Rightarrow> pydict" where
  "sample_metadata_dict m =
     [fld ''formatVersion'' (om_format_version m),
      fld ''objectRef'' (PDict (ObjectReference_to_dict sample_core (om_object_ref m))), fld ''digest'' (om_digest m),
      fld ''byteLength'' (om_byte_length m), fld ''mediaType'' (om_media_type m), fld ''createdAt'' (om_created_at m),
      fld ''creationContext'' (om_creation_context m), fld ''userMetadata'' (om_user_metadata m),
      fld ''mutability'' (om_mutability m), fld ''provenance'' (om_provenance m)]"

definition sample_suite :: memory_core where
  "sample_suite = harness_core.extend
     (sample_harness\<lparr>parse_ResourceRef := (\<lambda>v. Inr fixture_target), ObjectMetadata_to_dict := sample_metadata_dict\<rparr>)
     (memory_core.fields (PStr (lit ''meridian.object.v1'')))"

lemmas sample_suite_defs = sample_suite_def sample_harness_def sample_catalog_def
  core.defs catalog_core.defs harness_core.defs memory_core.defs

lemma sample_suite_core:
  "new_ResourceReference sample_suite = new_ResourceReference sample_core"
  "parse_ResourceReference sample_suite = parse_ResourceReference sample_core"
  "new_ObjectReference sample_suite = new_ObjectReference sample_core"
  "ObjectReference_to_dict sample_suite = ObjectReference_to_dict sample_core"
  "new_ObjectMetadata sample_suite = Inr" "parse_ResourceRef sample_suite v = Inr fixture_target"
  "ObjectMetadata_to_dict sample_suite = sample_metadata_dict"
  by (simp_all add: sample_suite_defs sample_core_def)

lemma sample_suite_references: "reference_contract sample_suite"
  using sample_core_references
  unfolding reference_contract_def constructed_def prints_back_def sample_suite_core .

lemma sample_suite_requests: "manifest_lookup sample_suite" "stores_requests sample_suite"
  by (simp_all add: manifest_lookup_def stores_requests_def sample_suite_defs)

lemma sample_suite_reference: "sha256_digest d \<Longrightarrow>
    constructed sample_suite \<lparr>or_resource = fixture_home, or_object_id = lit (a # i), or_digest = Some d\<rparr>"
  by (simp add: constructed_def sample_suite_core) (simp add: sample_core_def fixture_home_def lit_def)

lemma sample_suite_accepts: "accepts_fixture sample_suite"
proof -
  have doc: "ObjectReference_to_dict sample_core fixture_reference =
      [fld ''resourceRef'' (PDict [fld ''catalog'' (PStr (lit ''object'')), fld ''namespace'' (PStr (lit ''conformance'')),
         fld ''name'' (PStr (lit ''objects''))]),
       fld ''objectId'' (PStr (lit ''fixture/object-001'')), fld ''digest'' (PStr fixture_digest)]"
    by (simp add: sample_core_def fixture_reference_def fixture_home_def)
  have "normalized_key (lit ''resourceRef'') \<notin> set private_keys" "normalized_key (lit ''catalog'') \<notin> set private_keys"
    "normalized_key (lit ''namespace'') \<notin> set private_keys" "normalized_key (lit ''name'') \<notin> set private_keys"
    "normalized_key (lit ''digest'') \<notin> set private_keys"
    by (simp_all add: normalized_key_def folded_def lit_def private_keys_def)
  then have public: "reject_private_configuration (PDict (ObjectReference_to_dict sample_suite fixture_reference)) = Inr ()"
    by (simp add: sample_suite_core doc request_keys_public)
  have made: "constructed sample_suite fixture_reference"
    unfolding fixture_reference_def by (rule sample_suite_reference) (simp add: fixture_digest_def)
  have printed: "sample_metadata_dict (fixture_metadata sample_suite) =
      [fld ''formatVersion'' (default_format_version sample_suite),
       fld ''objectRef'' (PDict (ObjectReference_to_dict sample_suite fixture_reference)), fld ''digest'' (PStr fixture_digest),
       fld ''byteLength'' (PInt (int (length fixture_payload))), fld ''mediaType'' (PStr (lit ''application/octet-stream'')),
       fld ''createdAt'' (PStr (lit ''2026-08-25T00:00:00.000000Z'')), fld ''creationContext'' (PDict []),
       fld ''userMetadata'' (PDict [fld ''fixture'' (PStr (lit ''v1''))]), fld ''mutability'' (PStr (lit ''immutable'')),
       fld ''provenance'' (PDict [])]"
    by (simp add: sample_metadata_dict_def fixture_metadata_def sample_suite_core)
  have fields: "exact_fields (sample_metadata_dict (fixture_metadata sample_suite)) metadata_fields [] = Inr ()"
    unfolding exact_fields_only printed by (simp add: has_fields_def dkeys_def metadata_fields_def)
  have "parse_object_metadata sample_suite (Meta_mapping (sample_metadata_dict (fixture_metadata sample_suite))) =
      Inr (fixture_metadata sample_suite)"
    using parse_reference_print [OF sample_suite_references made, of False] fields
    by (simp add: parse_object_metadata_def printed dget_req_def dget_none_def wire_simps json_mapping_def is_mapping_def
        sample_suite_core)
      (simp add: fixture_metadata_def)
  moreover have "json_value (PDict (sample_metadata_dict (fixture_metadata sample_suite)))"
    unfolding printed by (simp add: sample_suite_core doc) (simp add: sample_suite_defs)
  ultimately show ?thesis
    unfolding accepts_fixture_def
    using public sample_suite_reference
    by (simp add: sample_suite_core doc) (simp add: sample_core_def fixture_home_def)
qed

lemma sample_suite_contract: "suite_contract sample_suite"
  by (simp add: suite_contract_def sample_suite_references sample_suite_requests sample_suite_accepts)

definition empty_world :: memory_world where
  "empty_world = \<lparr>mw_objects = [], mw_served = [], mw_rest = (\<lambda>_. []), mw_next = 0, mw_drawn = 0\<rparr>"

theorem memory_target_passes_witness:
  "\<exists>report s. run_object_conformance sample_suite (Some (memory_target sample_suite (\<lambda>n. replicate 32 (of_nat n))))
      (\<lambda>n. replicate 32 (of_nat n + 7)) empty_world = Some (Inr report, s) \<and> report_passed report"
proof -
  have "\<forall>n. length (replicate 32 (of_nat n :: byte)) = 32" "\<forall>n. length (replicate 32 (of_nat n + 7 :: byte)) = 32" by simp_all
  from memory_target_passes [OF sample_suite_contract this(2,1), of empty_world] show ?thesis by blast
qed


end
