(* ===== verification/Texts.thy ===== *)
theory Texts
  imports Timestamps Base64 "HOL-Library.Sublist"
begin

text \<open>
  What the loaders and the release scripts use of Python's \<open>str\<close>, \<open>bytes.decode("utf-8")\<close> and
  \<open>json.dumps\<close>: substrings, splitting, case folding, the strict UTF-8 decoder, and the printer with
  sorted keys, compact or indented by two.
\<close>

section \<open>Strings\<close>

fun contains :: "pystr \<Rightarrow> pystr \<Rightarrow> bool" where
  \<comment> \<open>\<open>needle in text\<close>\<close>
  "contains needle [] \<longleftrightarrow> needle = []"
| "contains needle (c # t) \<longleftrightarrow> prefix needle (c # t) \<or> contains needle t"

lemma contains_iff: "contains needle t \<longleftrightarrow> sublist needle t"
  by (induction t) (auto simp: sublist_Cons_right)

fun split_on :: "nat \<Rightarrow> pystr \<Rightarrow> pystr list" where
  \<comment> \<open>\<open>text.split(chr(c))\<close>\<close>
  "split_on c [] = [[]]"
| "split_on c (x # xs) =
     (if x = c then [] # split_on c xs
      else case split_on c xs of [] \<Rightarrow> [[x]] | p # ps \<Rightarrow> (x # p) # ps)"

definition join :: "pystr \<Rightarrow> pystr list \<Rightarrow> pystr" where
  \<comment> \<open>\<open>separator.join(parts)\<close>\<close>
  "join separator parts =
     (case parts of [] \<Rightarrow> [] | p # ps \<Rightarrow> p @ concat (map (\<lambda>q. separator @ q) ps))"

lemma split_on_not_Nil [simp]: "split_on c s \<noteq> []"
  by (induction s) (auto split: list.splits)

lemma join_split: "join [c] (split_on c s) = s"
proof -
  have "(@) [c] = (#) c" by (simp add: fun_eq_iff)
  then show ?thesis by (induction s) (auto simp: join_def split: list.splits)
qed

text \<open>
  \<open>s.casefold()\<close>, as far as a search for ASCII text can tell: the listed code points are those
  outside ASCII whose full case folding (Unicode's \<open>CaseFolding.txt\<close>) has an ASCII part; every
  other code point outside ASCII folds to code points outside ASCII and stands for them.
\<close>

definition casefold_special :: "(nat \<times> nat list) list" where
  "casefold_special =
     [(0xDF, lit ''ss''), (0x130, lit ''i'' @ [0x307]), (0x149, 0x2BC # lit ''n''), (0x17F, lit ''s''),
      (0x1F0, lit ''j'' @ [0x30C]), (0x1E96, lit ''h'' @ [0x331]), (0x1E97, lit ''t'' @ [0x308]),
      (0x1E98, lit ''w'' @ [0x30A]), (0x1E99, lit ''y'' @ [0x30A]), (0x1E9A, lit ''a'' @ [0x2BE]),
      (0x1E9E, lit ''ss''), (0x212A, lit ''k''), (0xFB00, lit ''ff''), (0xFB01, lit ''fi''), (0xFB02, lit ''fl''),
      (0xFB03, lit ''ffi''), (0xFB04, lit ''ffl''), (0xFB05, lit ''st''), (0xFB06, lit ''st'')]"

definition casefold_char :: "nat \<Rightarrow> pystr" where
  "casefold_char c =
     (if 65 \<le> c \<and> c \<le> 90 then [c + 32]
      else if c < 128 then [c]
      else case map_of casefold_special c of None \<Rightarrow> [c] | Some s \<Rightarrow> s)"

definition casefold :: "pystr \<Rightarrow> pystr" where
  "casefold s = concat (map casefold_char s)"

section \<open>UTF-8\<close>

definition continuation :: "nat \<Rightarrow> bool" where
  "continuation b \<longleftrightarrow> 0x80 \<le> b \<and> b \<le> 0xBF"

definition second_byte :: "nat \<Rightarrow> nat \<Rightarrow> bool" where
  \<comment> \<open>what may follow a first byte: neither overlong forms nor surrogates nor code points above 0x10FFFF\<close>
  "second_byte a b \<longleftrightarrow>
     (if a = 0xE0 then 0xA0 \<le> b else if a = 0xF0 then 0x90 \<le> b else True)
     \<and> (if a = 0xED then b \<le> 0x9F else if a = 0xF4 then b \<le> 0x8F else True) \<and> continuation b"

fun utf8_decode :: "nat list \<Rightarrow> pystr result" where
  \<comment> \<open>the strict decoder\<close>
  "utf8_decode [] = Inr []"
| "utf8_decode (a # rest) =
     (if a < 0x80 then bindE (utf8_decode rest) (\<lambda>s. Inr (a # s))
      else if 0xC2 \<le> a \<and> a \<le> 0xDF then
        (case rest of
           b # more' \<Rightarrow>
             if second_byte a b
             then bindE (utf8_decode more') (\<lambda>s. Inr (((a - 0xC0) * 64 + (b - 0x80)) # s))
             else Inl UnicodeDecodeError
         | _ \<Rightarrow> Inl UnicodeDecodeError)
      else if 0xE0 \<le> a \<and> a \<le> 0xEF then
        (case rest of
           b # b' # more' \<Rightarrow>
             if second_byte a b \<and> continuation b'
             then bindE (utf8_decode more') (\<lambda>s.
               Inr (((a - 0xE0) * 4096 + (b - 0x80) * 64 + (b' - 0x80)) # s))
             else Inl UnicodeDecodeError
         | _ \<Rightarrow> Inl UnicodeDecodeError)
      else if 0xF0 \<le> a \<and> a \<le> 0xF4 then
        (case rest of
           b # b' # b'' # more' \<Rightarrow>
             if second_byte a b \<and> continuation b' \<and> continuation b''
             then bindE (utf8_decode more') (\<lambda>s.
               Inr (((a - 0xF0) * 262144 + (b - 0x80) * 4096 + (b' - 0x80) * 64 + (b'' - 0x80)) # s))
             else Inl UnicodeDecodeError
         | _ \<Rightarrow> Inl UnicodeDecodeError)
      else Inl UnicodeDecodeError)"

lemma utf8_decode_char:
  assumes "c < 0x110000" and "\<not> is_surrogate c"
  shows "utf8_decode (utf8_char c @ bs) = bindE (utf8_decode bs) (\<lambda>s. Inr (c # s))"
proof -
  consider "c < 128" | "128 \<le> c" "c < 2048" | "2048 \<le> c" "c < 65536" | "65536 \<le> c" by linarith
  then show ?thesis
  proof cases
    case 1
    then show ?thesis by (simp add: utf8_char_def)
  next
    case 2
    obtain q r where c: "c = q * 64 + r" "r \<le> 63"
      using div_mult_mod_eq [of c 64] mod_less_divisor [of 64 c] by (intro that [of "c div 64" "c mod 64"]) linarith+
    then have "2 \<le> q" "q \<le> 31" using 2 by simp_all
    then have "utf8_char c = [192 + q, 128 + r]" using 2 c by (simp add: utf8_char_def)
    then show ?thesis
      using c \<open>2 \<le> q\<close> \<open>q \<le> 31\<close> by (simp add: second_byte_def continuation_def)
  next
    case 3
    have lead: "c div 4096 < 16" using 3 by simp
    have parts: "c div 4096 * 4096 + c div 64 mod 64 * 64 + c mod 64 = c"
      using div_mult_mod_eq [of c 64] div_mult_mod_eq [of "c div 64" 64]
      unfolding div_mult2_eq [symmetric] numeral_times_numeral semiring_norm by linarith
    have low: "32 \<le> c div 64 mod 64" if "c div 4096 = 0"
    proof -
      have "c div 64 < 64" using that 3 by (simp add: div_eq_0_iff less_mult_imp_div_less)
      moreover have "32 \<le> c div 64" using 3 by simp
      ultimately show ?thesis by simp
    qed
    have high: "c div 64 mod 64 \<le> 31" if "c div 4096 = 13"
    proof -
      have "53248 \<le> c" "c < 57344" using that by simp_all
      then have "c < 55296" using assms(2) by (simp add: is_surrogate_def)
      then have "c div 64 < 864" "832 \<le> c div 64" using \<open>53248 \<le> c\<close> by simp_all
      then have "c div 64 - 832 < 32" "c div 64 = 13 * 64 + (c div 64 - 832)" by simp_all
      then have "c div 64 mod 64 = (c div 64 - 832) mod 64" by (metis mod_mult_self3)
      then show ?thesis using \<open>c div 64 - 832 < 32\<close> by simp
    qed
    define p q r where pqr: "p = c div 4096" "q = c div 64 mod 64" "r = c mod 64"
    have "utf8_char c = [224 + p, 128 + q, 128 + r]" using 3 by (simp add: utf8_char_def pqr)
    moreover have "q \<le> 63" "r \<le> 63" unfolding pqr by (simp_all add: less_Suc_eq_le [symmetric])
    ultimately show ?thesis
      using lead parts low high unfolding pqr [symmetric] by (auto simp: second_byte_def continuation_def)
  next
    case 4
    have lead: "c div 262144 \<le> 4" using assms(1) by simp
    have parts: "c div 262144 * 262144 + c div 4096 mod 64 * 4096 + c div 64 mod 64 * 64 + c mod 64 = c"
      using div_mult_mod_eq [of c 64] div_mult_mod_eq [of "c div 64" 64] div_mult_mod_eq [of "c div 4096" 64]
      unfolding div_mult2_eq [symmetric] numeral_times_numeral semiring_norm by linarith
    have low: "16 \<le> c div 4096 mod 64" if "c div 262144 = 0"
    proof -
      have "c div 4096 < 64" using that by (simp add: div_eq_0_iff less_mult_imp_div_less)
      moreover have "16 \<le> c div 4096" using 4 by simp
      ultimately show ?thesis by simp
    qed
    have high: "c div 4096 mod 64 \<le> 15" if "c div 262144 = 4"
    proof -
      have "256 \<le> c div 4096" "c div 4096 < 272" using that assms(1) by simp_all
      then have "c div 4096 - 256 < 16" "c div 4096 = 4 * 64 + (c div 4096 - 256)" by simp_all
      then have "c div 4096 mod 64 = (c div 4096 - 256) mod 64" by (metis mod_mult_self3)
      then show ?thesis using \<open>c div 4096 - 256 < 16\<close> by simp
    qed
    define p q r t where pqr: "p = c div 262144" "q = c div 4096 mod 64" "r = c div 64 mod 64" "t = c mod 64"
    have "utf8_char c = [240 + p, 128 + q, 128 + r, 128 + t]" using 4 by (simp add: utf8_char_def pqr)
    moreover have "q \<le> 63" "r \<le> 63" "t \<le> 63" unfolding pqr by (simp_all add: less_Suc_eq_le [symmetric])
    ultimately show ?thesis
      using lead parts low high unfolding pqr [symmetric] by (auto simp: second_byte_def continuation_def)
  qed
qed

lemma utf8_round_trip:
  assumes "utf8_encode s = Inr bs" and "\<forall>c\<in>set s. c < 0x110000"
  shows "utf8_decode bs = Inr s"
proof -
  have plain: "\<forall>c\<in>set s. \<not> is_surrogate c" and bs: "bs = concat (map utf8_char s)"
    using assms(1) by (auto simp: utf8_encode_def list_ex_iff)
  show ?thesis unfolding bs using assms(2) plain by (induction s) (simp_all add: utf8_decode_char)
qed

end
