(* ===== verification/Json.thy ===== *)
theory Json
  imports Texts
begin

text \<open>
  \<open>json.dumps\<close> with \<open>sort_keys=True\<close>, for the values that the release scripts print: compact, with the
  separators \<open>","\<close> and \<open>":"\<close>, or indented by two. Keys that are not strings, and values of other types, are
  not printed by these scripts; here they raise \<open>TypeError\<close>.
\<close>

definition hex4 :: "nat \<Rightarrow> pystr" where
  "hex4 n = map hex_char [n div 4096 mod 16, n div 256 mod 16, n div 16 mod 16, n mod 16]"

definition json_char :: "nat \<Rightarrow> pystr" where
  \<comment> \<open>\<open>ensure_ascii\<close>: everything outside printable ASCII is escaped\<close>
  "json_char c =
     (if c = 34 then [92, 34] else if c = 92 then [92, 92]
      else if c = 10 then lit [CHR 92, CHR ''n''] else if c = 13 then lit [CHR 92, CHR ''r'']
      else if c = 9 then lit [CHR 92, CHR ''t''] else if c = 8 then lit [CHR 92, CHR ''b'']
      else if c = 12 then lit [CHR 92, CHR ''f'']
      else if 32 \<le> c \<and> c \<le> 126 then [c]
      else if c < 65536 then lit [CHR 92, CHR ''u''] @ hex4 c
      else lit [CHR 92, CHR ''u''] @ hex4 (0xD800 + (c - 65536) div 1024 mod 1024)
           @ lit [CHR 92, CHR ''u''] @ hex4 (0xDC00 + (c - 65536) mod 1024))"

definition json_string :: "pystr \<Rightarrow> pystr" where
  "json_string s = [34] @ concat (map json_char s) @ [34]"

fun nat_text :: "nat \<Rightarrow> pystr" where
  "nat_text n = (if n < 10 then [48 + n] else nat_text (n div 10) @ [48 + n mod 10])"

declare nat_text.simps [simp del]

definition int_text :: "int \<Rightarrow> pystr" where
  "int_text n = (if n < 0 then lit ''-'' @ nat_text (nat (- n)) else nat_text (nat n))"

definition bracketed :: "bool \<Rightarrow> nat \<Rightarrow> string \<Rightarrow> string \<Rightarrow> pystr list \<Rightarrow> pystr" where
  "bracketed pretty depth opening closing items =
     (let line = (\<lambda>n. if pretty then [10] @ replicate (2 * n) 32 else [])
      in if items = [] then lit opening @ lit closing
         else lit opening @ line (Suc depth) @ join (lit '','' @ line (Suc depth)) items @ line depth @ lit closing)"

definition entry_text :: "bool \<Rightarrow> pystr \<times> pystr \<Rightarrow> pystr" where
  "entry_text pretty item = json_string (fst item) @ lit (if pretty then '': '' else '':'') @ snd item"

fun json_text :: "bool \<Rightarrow> nat \<Rightarrow> pyval \<Rightarrow> pystr result"
  and json_entries :: "bool \<Rightarrow> nat \<Rightarrow> pydict \<Rightarrow> (pystr \<times> pystr) list result"
  and json_elements :: "bool \<Rightarrow> nat \<Rightarrow> pyval list \<Rightarrow> pystr list result" where
  "json_text pretty depth PNone = Inr (lit ''null'')"
| "json_text pretty depth (PBool b) = Inr (lit (if b then ''true'' else ''false''))"
| "json_text pretty depth (PInt n) = Inr (int_text n)"
| "json_text pretty depth (PStr s) = Inr (json_string s)"
| "json_text pretty depth (PList xs) =
     bindE (json_elements pretty (Suc depth) xs) (\<lambda>items. Inr (bracketed pretty depth ''['' '']'' items))"
| "json_text pretty depth (PDict d) =
     bindE (json_entries pretty (Suc depth) d) (\<lambda>items.
       Inr (bracketed pretty depth ''{'' ''}'' (map (entry_text pretty) (sort_key fst items))))"
| "json_text pretty depth (POther i) = Inl TypeError"
| "json_entries pretty depth [] = Inr []"
| "json_entries pretty depth ((k, v) # rest) =
     (case k of
        KOther _ \<Rightarrow> Inl TypeError
      | KStr s \<Rightarrow>
          bindE (json_text pretty depth v) (\<lambda>t.
          bindE (json_entries pretty depth rest) (\<lambda>items. Inr ((s, t) # items))))"
| "json_elements pretty depth [] = Inr []"
| "json_elements pretty depth (v # rest) =
     bindE (json_text pretty depth v) (\<lambda>t. bindE (json_elements pretty depth rest) (\<lambda>items. Inr (t # items)))"

section \<open>The order of a mapping is not printed\<close>

lemma json_entries_ok:
  "json_entries pretty depth d = Inr items \<longleftrightarrow>
     list_all2 (\<lambda>(k, v) (s, t). k = KStr s \<and> json_text pretty depth v = Inr t) d items"
proof (induction d arbitrary: items)
  case (Cons e d)
  obtain k v where e: "e = (k, v)" by (cases e)
  show ?case
    by (cases k) (auto simp: e Cons.IH list_all2_Cons1)
qed auto

text \<open>Values of which every part can be printed.\<close>

fun printable :: "pyval \<Rightarrow> bool"
  and printable_entries :: "pydict \<Rightarrow> bool"
  and printable_elements :: "pyval list \<Rightarrow> bool" where
  "printable (PDict d) \<longleftrightarrow> printable_entries d"
| "printable (PList xs) \<longleftrightarrow> printable_elements xs"
| "printable (POther i) \<longleftrightarrow> False"
| "printable v \<longleftrightarrow> True"
| "printable_entries [] \<longleftrightarrow> True"
| "printable_entries ((k, v) # rest) \<longleftrightarrow> (case k of KStr _ \<Rightarrow> True | KOther _ \<Rightarrow> False) \<and> printable v \<and> printable_entries rest"
| "printable_elements [] \<longleftrightarrow> True"
| "printable_elements (v # rest) \<longleftrightarrow> printable v \<and> printable_elements rest"

lemma json_text_prints:
  "printable v \<Longrightarrow> \<exists>t. json_text pretty depth v = Inr t"
  "printable_entries d \<Longrightarrow> \<exists>items. json_entries pretty depth d = Inr items"
  "printable_elements xs \<Longrightarrow> \<exists>items. json_elements pretty depth xs = Inr items"
proof (induction pretty depth v and pretty depth d and pretty depth xs rule: json_text_json_entries_json_elements.induct)
  case (9 pretty depth k v rest)
  then show ?case by (cases k) fastforce+
next
  case (11 pretty depth v rest)
  then show ?case by fastforce
qed fastforce+

section \<open>The printed text is ASCII\<close>

abbreviation ascii :: "pystr \<Rightarrow> bool" where
  "ascii s \<equiv> \<forall>c\<in>set s. c < 128"

lemma ascii_hex4: "ascii (hex4 n)"
proof -
  have "v < 16 \<Longrightarrow> hex_char v < 128" for v by (auto simp: hex_char_def)
  then have "hex_char (m mod 16) < 128" for m by simp
  then show ?thesis by (simp add: hex4_def)
qed

lemma ascii_if: "(b \<Longrightarrow> ascii s) \<Longrightarrow> (\<not> b \<Longrightarrow> ascii t) \<Longrightarrow> ascii (if b then s else t)"
  by simp

lemma ascii_json_char: "ascii (json_char c)"
proof -
  have u: "ascii (lit [CHR 92, CHR ''u''] @ hex4 n)" for n by (simp add: lit_def ascii_hex4)
  then have "ascii ((lit [CHR 92, CHR ''u''] @ hex4 n) @ lit [CHR 92, CHR ''u''] @ hex4 m)" for n m
    by (simp only: set_append ball_Un) simp
  with u show ?thesis
    unfolding json_char_def by (intro ascii_if) (simp_all add: lit_def)
qed

lemma ascii_json_string: "ascii (json_string s)"
  using ascii_json_char by (auto simp: json_string_def)

lemma ascii_nat_text: "ascii (nat_text n)"
  by (induction n rule: nat_text.induct) (subst nat_text.simps, auto)

lemma ascii_int_text: "ascii (int_text n)"
  using ascii_nat_text by (auto simp: int_text_def lit_def)

lemma ascii_bracketed:
  "ascii (lit opening) \<Longrightarrow> ascii (lit closing) \<Longrightarrow> \<forall>t\<in>set items. ascii t \<Longrightarrow> ascii (bracketed pretty depth opening closing items)"
  by (auto simp: bracketed_def join_def Let_def lit_def split: list.splits if_splits)

lemma ascii_entry: "ascii (snd item) \<Longrightarrow> ascii (entry_text pretty item)"
  using ascii_json_string by (auto simp: entry_text_def lit_def)

lemma json_text_ascii:
  "json_text pretty depth v = Inr t \<Longrightarrow> ascii t"
  "json_entries pretty depth d = Inr items \<Longrightarrow> \<forall>item\<in>set items. ascii (snd item)"
  "json_elements pretty depth xs = Inr texts \<Longrightarrow> \<forall>s\<in>set texts. ascii s"
proof (induction pretty depth v and pretty depth d and pretty depth xs arbitrary: t and items and texts
    rule: json_text_json_entries_json_elements.induct)
  case (2 pretty depth b)
  then show ?case by (cases b) (auto simp: lit_def)
next
  case (3 pretty depth n)
  then show ?case using ascii_int_text [of n] by simp
next
  case (4 pretty depth s)
  then show ?case using ascii_json_string [of s] by simp
next
  case (5 pretty depth xs)
  obtain texts where "json_elements pretty (Suc depth) xs = Inr texts" "t = bracketed pretty depth ''['' '']'' texts"
    using "5.prems" by auto
  then show ?case using "5.IH" ascii_bracketed [of "''[''" "'']''" texts] by (simp add: lit_def)
next
  case (6 pretty depth d)
  obtain items where items: "json_entries pretty (Suc depth) d = Inr items"
    "t = bracketed pretty depth ''{'' ''}'' (map (entry_text pretty) (sort_key fst items))"
    using "6.prems" by auto
  have "\<forall>s\<in>set (map (entry_text pretty) (sort_key fst items)). ascii s"
    using "6.IH" [OF items(1)] ascii_entry unfolding set_map set_sort by blast
  then show ?case unfolding items(2) by (intro ascii_bracketed) (simp_all add: lit_def)
next
  case (9 pretty depth k v rest)
  obtain s t items' where "k = KStr s" "json_text pretty depth v = Inr t" "json_entries pretty depth rest = Inr items'"
    "items = (s, t) # items'"
    using "9.prems" by (cases k) auto
  then show ?case using "9.IH" by simp
next
  case (11 pretty depth v rest)
  obtain t texts' where "json_text pretty depth v = Inr t" "json_elements pretty depth rest = Inr texts'" "texts = t # texts'"
    using "11.prems" by auto
  then show ?case using "11.IH" by simp
qed (simp_all add: lit_def)

lemma utf8_encode_ascii: "ascii s \<Longrightarrow> utf8_encode s = Inr s"
proof -
  assume a: "ascii s"
  then have "concat (map utf8_char s) = s" by (induction s) (auto simp: utf8_char_def)
  moreover have "\<not> list_ex is_surrogate s" using a by (auto simp: list_ex_iff is_surrogate_def)
  ultimately show ?thesis by (simp add: utf8_encode_def)
qed

end
