(* ===== verification/Artifacts.thy ===== *)
theory Artifacts
  imports Json Sha256
begin

text \<open>
  The release scripts under \<open>src/scripts/\<close>: \<open>verify_artifacts.py\<close>, which checks what a wheel and a source
  distribution contain, \<open>compare_artifacts.py\<close>, which requires two builds to be identical, and
  \<open>generate_sbom.py\<close>. The archive and mail formats belong to \<open>zipfile\<close>, \<open>tarfile\<close> and \<open>email\<close>; what the
  scripts read from them is the record \<open>archive_tools\<close>. A script's result is the text it prints or
  writes. Command lines are already parsed.
\<close>

section \<open>Files\<close>

record release_file =
  rf_path :: "pystr list" \<comment> \<open>the parts of the path\<close>
  rf_data :: "bytes option" \<comment> \<open>\<open>None\<close> when it is not a file\<close>

definition file_name :: "release_file \<Rightarrow> pystr" where
  "file_name path = last (rf_path path)"

definition path_suffix :: "pystr \<Rightarrow> pystr" where
  \<comment> \<open>\<open>Path(name).suffix\<close>: from the last dot, unless the name starts or ends there\<close>
  "path_suffix name =
     (let parts = split_on 46 name
      in if join (lit ''.'') (butlast parts) \<noteq> [] \<and> last parts \<noteq> [] then lit ''.'' @ last parts else [])"

definition posix_root :: "pystr \<Rightarrow> pystr result" where
  \<comment> \<open>\<open>PurePosixPath(name).parts[0]\<close>\<close>
  "posix_root name =
     (if prefix (lit ''/'') name
      then Inr (if prefix (lit ''//'') name \<and> \<not> prefix (lit ''///'') name then lit ''//'' else lit ''/'')
      else case filter (\<lambda>p. p \<noteq> [] \<and> p \<noteq> lit ''.'') (split_on 47 name) of
             [] \<Rightarrow> Inl IndexError
           | p # _ \<Rightarrow> Inr p)"

definition file_sha256 :: "bytes \<Rightarrow> pystr" where
  "file_sha256 data = hexdigest (sha256 data)"

function read_chunks :: "nat \<Rightarrow> bytes \<Rightarrow> bytes list" where
  \<comment> \<open>\<open>iter(lambda: stream.read(k), b"")\<close> for a positive \<open>k\<close>\<close>
  "read_chunks k data = (if data = [] \<or> k = 0 then [] else take k data # read_chunks k (drop k data))"
  by auto
termination by (relation "measure (\<lambda>(k, data). length data)") auto

declare read_chunks.simps [simp del]

definition artifact_digest :: "bytes \<Rightarrow> pystr" where
  "artifact_digest data = hexdigest (hasher_digest (foldl hasher_update hasher_new (read_chunks (1024 * 1024) data)))"

lemma concat_read_chunks: "0 < k \<Longrightarrow> concat (read_chunks k data) = data"
  by (induction k data rule: read_chunks.induct) (subst read_chunks.simps, simp)

lemma artifact_digest_whole: "artifact_digest data = file_sha256 data"
  by (simp add: artifact_digest_def file_sha256_def sha.fed concat_read_chunks)

section \<open>verify_artifacts.py\<close>

record archive_tools =
  zip_entries :: "bytes \<Rightarrow> (pystr \<times> bytes) list result" \<comment> \<open>the members of a wheel, in the archive's order\<close>
  tar_names :: "bytes \<Rightarrow> pystr list result" \<comment> \<open>the names of the members of a source distribution\<close>
  mail_headers :: "pystr \<Rightarrow> pystr \<Rightarrow> pystr list" \<comment> \<open>\<open>Parser().parsestr(text).get_all(name, [])\<close>\<close>

definition check :: "bool \<Rightarrow> unit result" where
  "check b = raise_unless b AssertionError"

lemma check_ok [simp]: "check b = Inr u \<longleftrightarrow> b" "check True = Inr ()"
  by (simp_all add: check_def)

definition PACKAGE :: pystr where "PACKAGE = lit ''meridian_storage/object_common''"
definition DISTRIBUTION :: pystr where "DISTRIBUTION = lit ''meridian-storage-object-common''"
definition VERSION :: pystr where "VERSION = lit ''1.0.1''"

definition generated :: "pystr \<Rightarrow> bool" where
  "generated name \<longleftrightarrow> contains (lit ''__pycache__'') name \<or> suffix (lit ''.pyc'') name \<or> suffix (lit ''.pyo'') name
     \<or> contains (lit ''/.coverage'') name \<or> contains (lit ''/.git/'') name \<or> contains (lit ''/.venv/'') name"

definition reject_generated :: "pystr list \<Rightarrow> unit result" where
  "reject_generated names = check (\<not> list_ex generated names)"

definition next_name :: "(pystr \<Rightarrow> bool) \<Rightarrow> pystr list \<Rightarrow> pystr result" where
  \<comment> \<open>\<open>next(name for name in names if p(name))\<close>\<close>
  "next_name p names = (case find p names of None \<Rightarrow> Inl StopIteration | Some name \<Rightarrow> Inr name)"

definition read_text :: "(pystr \<times> bytes) list \<Rightarrow> pystr \<Rightarrow> pystr result" where
  \<comment> \<open>\<open>archive.read(name).decode("utf-8")\<close>: of members with one name, the last is read\<close>
  "read_text entries name =
     (case map_of (rev entries) name of None \<Rightarrow> Inl KeyError | Some data \<Rightarrow> utf8_decode (map unat data))"

definition wheel_required :: "pystr list" where
  "wheel_required = map (\<lambda>f. PACKAGE @ lit f)
     [''/__init__.py'', ''/py.typed'', ''/compatibility.json'',
      ''/contracts/data/object/meridian-object-expression.v1.schema.json'',
      ''/contracts/data/object/meridian-object-result.v1.schema.json'',
      ''/contracts/data/public-api/meridian-object-common.v1.json'',
      ''/contracts/data/fixtures/valid/object-expressions.json'']"

definition provider_names :: "pystr list" where
  "provider_names = map lit [''s3'', ''oci'', ''boto'', ''credential'', ''provision'']"

definition entry_points :: pystr where
  "entry_points = lit ''[meridian_storage.catalogs]'' @ [10]
     @ lit ''object = meridian_storage.object_common.catalog:ObjectCatalogProvider'' @ [10]"

definition source_entries :: "pystr list \<Rightarrow> pystr list" where
  "source_entries names = filter (\<lambda>name. \<not> contains (lit ''.dist-info/'') name \<and> \<not> suffix (lit ''/'') name) names"

definition verify_wheel :: "archive_tools \<Rightarrow> bytes \<Rightarrow> pydict result" where
  "verify_wheel tools data =
     bindE (zip_entries tools data) (\<lambda>entries.
     let names = sort (map fst entries); sources = source_entries names in
     bindE (reject_generated names) (\<lambda>_.
     bindE (check (list_all (\<lambda>name. name \<in> set names) wheel_required)) (\<lambda>_.
     bindE (check (lit ''meridian_storage/__init__.py'' \<notin> set names)) (\<lambda>_.
     bindE (check (\<not> list_ex (prefix (lit ''tests/'')) names)) (\<lambda>_.
     bindE (check (list_all (prefix (PACKAGE @ lit ''/'')) sources)) (\<lambda>_.
     bindE (check (\<not> list_ex (\<lambda>name. list_ex (\<lambda>forbidden. contains forbidden (casefold name)) provider_names) sources)) (\<lambda>_.
     bindE (next_name (suffix (lit ''.dist-info/METADATA'')) names) (\<lambda>metadata_name.
     bindE (read_text entries metadata_name) (\<lambda>content.
     let header = mail_headers tools content; first = (\<lambda>name. case header (lit name) of [] \<Rightarrow> None | v # _ \<Rightarrow> Some v) in
     bindE (check (first ''Name'' = Some DISTRIBUTION)) (\<lambda>_.
     bindE (check (first ''Version'' = Some VERSION)) (\<lambda>_.
     bindE (check (first ''Requires-Python'' = Some (lit ''>=3.12''))) (\<lambda>_.
     bindE (check (first ''License-Expression'' = Some (lit ''Apache-2.0''))) (\<lambda>_.
     let dependencies = header (lit ''Requires-Dist'') in
     bindE (check (lit ''meridian-storage-core==1.0.0'' \<in> set dependencies)) (\<lambda>_.
     bindE (check (lit ''meridian-storage-semantics==1.0.0'' \<in> set dependencies)) (\<lambda>_.
     let license_files = filter (contains (lit ''.dist-info/licenses/'')) names in
     bindE (check (list_ex (suffix (lit ''/LICENSE'')) license_files)) (\<lambda>_.
     bindE (check (list_ex (suffix (lit ''/NOTICE'')) license_files)) (\<lambda>_.
     bindE (next_name (suffix (lit ''.dist-info/entry_points.txt'')) names) (\<lambda>entry_points_name.
     bindE (read_text entries entry_points_name) (\<lambda>points.
     bindE (check (points = entry_points)) (\<lambda>_.
     Inr [fld ''kind'' (PStr (lit ''wheel'')), fld ''entries'' (PInt (int (length names)))]))))))))))))))))))))"

definition sdist_required :: "pystr \<Rightarrow> pystr list" where
  "sdist_required root =
     map (\<lambda>f. root @ lit f)
       [''/CHANGELOG.md'', ''/LICENSE'', ''/NOTICE'', ''/README.md'', ''/pyproject.toml'', ''/compatibility.json'',
        ''/contracts/public-api/meridian-object-common.v1.json'']
     @ [root @ lit ''/src/'' @ PACKAGE @ lit ''/__init__.py'']
     @ map (\<lambda>f. root @ lit f)
       [''/tests/test_conformance.py'', ''/scripts/verify_artifacts.py'', ''/.github/workflows/ci.yml'']"

definition verify_sdist :: "archive_tools \<Rightarrow> bytes \<Rightarrow> pydict result" where
  "verify_sdist tools data =
     bindE (tar_names tools data) (\<lambda>members.
     let names = sort members in
     bindE (reject_generated names) (\<lambda>_.
     bindE (mapE posix_root names) (\<lambda>all_roots.
     let roots = remdups all_roots in
     bindE (check (length roots = 1)) (\<lambda>_.
     let root = hd roots in
     bindE (check (list_all (\<lambda>name. name \<in> set names) (sdist_required root))) (\<lambda>_.
     bindE (check (root @ lit ''/src/meridian_storage/__init__.py'' \<notin> set names)) (\<lambda>_.
     bindE (check (\<not> list_ex (\<lambda>name. prefix (root @ lit ''/src/'') name \<and> \<not> contains (lit ''object_common'') name) names)) (\<lambda>_.
     Inr [fld ''kind'' (PStr (lit ''sdist'')), fld ''entries'' (PInt (int (length names)))])))))))"

definition artifact_evidence :: "archive_tools \<Rightarrow> release_file \<Rightarrow> pydict result" where
  "artifact_evidence tools path =
     (case rf_data path of
        None \<Rightarrow> Inl AssertionError
      | Some data \<Rightarrow>
          bindE (if path_suffix (file_name path) = lit ''.whl'' then verify_wheel tools data
                 else if suffix (lit ''.tar.gz'') (file_name path) then verify_sdist tools data
                 else Inl AssertionError) (\<lambda>detail.
          Inr ([fld ''file'' (PStr (file_name path)), fld ''sha256'' (PStr (artifact_digest data)),
                fld ''size'' (PInt (int (length data)))] @ detail)))"

definition verify_artifacts :: "archive_tools \<Rightarrow> release_file list \<Rightarrow> pystr result" where
  "verify_artifacts tools artifacts =
     bindE (mapE (artifact_evidence tools) (sort_key rf_path artifacts)) (\<lambda>evidence.
     bindE (mapE (\<lambda>item. dget_req item ''kind'') evidence) (\<lambda>kinds.
     bindE (check (set kinds = {PStr (lit ''wheel''), PStr (lit ''sdist'')})) (\<lambda>_.
     json_text True 0 (PDict [fld ''artifacts'' (PList (map PDict evidence))]))))"

section \<open>What a verified release contains\<close>

definition owns_package :: "(pystr \<times> bytes) list \<Rightarrow> bool" where
  \<comment> \<open>a wheel that ships this package and nothing of the shared namespace, of tests or of a provider\<close>
  "owns_package entries \<longleftrightarrow>
     (\<forall>name\<in>fst ` set entries. \<not> generated name \<and> \<not> prefix (lit ''tests/'') name
        \<and> name \<noteq> lit ''meridian_storage/__init__.py''
        \<and> (suffix (lit ''/'') name \<or> contains (lit ''.dist-info/'') name
            \<or> prefix (PACKAGE @ lit ''/'') name \<and> (\<forall>p\<in>set provider_names. \<not> contains p (casefold name))))
     \<and> set wheel_required \<subseteq> fst ` set entries
     \<and> (\<exists>name\<in>fst ` set entries. suffix (lit ''.dist-info/entry_points.txt'') name \<and> read_text entries name = Inr entry_points)"

definition complete_source :: "pystr list \<Rightarrow> bool" where
  \<comment> \<open>a source distribution with one root directory and everything a rebuild needs\<close>
  "complete_source names \<longleftrightarrow>
     (\<exists>root. (\<forall>name\<in>set names. posix_root name = Inr root \<and> \<not> generated name
          \<and> (prefix (root @ lit ''/src/'') name \<longrightarrow> contains (lit ''object_common'') name))
        \<and> set (sdist_required root) \<subseteq> set names \<and> root @ lit ''/src/meridian_storage/__init__.py'' \<notin> set names)"

lemma next_name_ok: "next_name p names = Inr name \<Longrightarrow> name \<in> set names \<and> p name"
  by (auto simp: next_name_def find_Some_iff split: option.splits)

lemma verify_wheel_owns:
  assumes "verify_wheel tools data = Inr detail"
  shows "\<exists>entries. zip_entries tools data = Inr entries \<and> owns_package entries
    \<and> detail = [fld ''kind'' (PStr (lit ''wheel'')), fld ''entries'' (PInt (int (length entries)))]"
proof -
  obtain entries points_name where e: "zip_entries tools data = Inr entries"
    "reject_generated (sort (map fst entries)) = Inr ()" "list_all (\<lambda>name. name \<in> fst ` set entries) wheel_required"
    "lit ''meridian_storage/__init__.py'' \<notin> fst ` set entries" "\<not> list_ex (prefix (lit ''tests/'')) (sort (map fst entries))"
    "list_all (prefix (PACKAGE @ lit ''/'')) (source_entries (sort (map fst entries)))"
    "\<not> list_ex (\<lambda>name. list_ex (\<lambda>forbidden. contains forbidden (casefold name)) provider_names)
        (source_entries (sort (map fst entries)))"
    "next_name (suffix (lit ''.dist-info/entry_points.txt'')) (sort (map fst entries)) = Inr points_name"
    "read_text entries points_name = Inr entry_points"
    "detail = [fld ''kind'' (PStr (lit ''wheel'')), fld ''entries'' (PInt (int (length entries)))]"
    using assms by (auto simp: verify_wheel_def Let_def)
  moreover have "(lit ''meridian_storage/__init__.py'', b) \<notin> set entries" for b using e(4) by force
  then have "owns_package entries"
    using e(2-7) next_name_ok [OF e(8)] e(9)
    by (auto simp: owns_package_def reject_generated_def source_entries_def list_all_iff list_ex_iff)
  ultimately show ?thesis by blast
qed

lemma one_root:
  assumes "mapE f xs = Inr ys" and "length (remdups ys) = 1"
  shows "\<forall>x\<in>set xs. f x = Inr (hd (remdups ys))"
proof -
  obtain r where r: "remdups ys = [r]" using assms(2) by (cases "remdups ys") auto
  then have "\<forall>y\<in>set ys. y = r" by (metis set_remdups list.set(1,2) singletonD)
  then show ?thesis using assms(1) r by (auto simp: mapE_Inr_iff list_all2_conv_all_nth in_set_conv_nth [of _ xs])
qed

lemma verify_sdist_complete:
  assumes "verify_sdist tools data = Inr detail"
  shows "\<exists>names. tar_names tools data = Inr names \<and> complete_source names
    \<and> detail = [fld ''kind'' (PStr (lit ''sdist'')), fld ''entries'' (PInt (int (length names)))]"
proof -
  obtain names roots where n: "tar_names tools data = Inr names" "reject_generated (sort names) = Inr ()"
    "mapE posix_root (sort names) = Inr roots" "length (remdups roots) = 1"
    "list_all (\<lambda>name. name \<in> set names) (sdist_required (hd (remdups roots)))"
    "hd (remdups roots) @ lit ''/src/meridian_storage/__init__.py'' \<notin> set names"
    "\<not> list_ex (\<lambda>name. prefix (hd (remdups roots) @ lit ''/src/'') name \<and> \<not> contains (lit ''object_common'') name) (sort names)"
    "detail = [fld ''kind'' (PStr (lit ''sdist'')), fld ''entries'' (PInt (int (length names)))]"
    using assms by (auto simp: verify_sdist_def Let_def)
  moreover have "complete_source names"
    unfolding complete_source_def using n(2,5-7) one_root [OF n(3,4)]
    by (intro exI [of _ "hd (remdups roots)"]) (auto simp: reject_generated_def list_all_iff list_ex_iff)
  ultimately show ?thesis by blast
qed

definition verified :: "archive_tools \<Rightarrow> release_file \<Rightarrow> pydict \<Rightarrow> bool" where
  \<comment> \<open>what the evidence about an artifact stands for\<close>
  "verified tools path item \<longleftrightarrow>
     (\<exists>data. rf_data path = Some data \<and> dget item ''file'' = Some (PStr (file_name path))
        \<and> dget item ''sha256'' = Some (PStr (file_sha256 data)) \<and> dget item ''size'' = Some (PInt (int (length data)))
        \<and> (dget item ''kind'' = Some (PStr (lit ''wheel''))
              \<and> (\<exists>entries. zip_entries tools data = Inr entries \<and> owns_package entries)
            \<or> dget item ''kind'' = Some (PStr (lit ''sdist''))
              \<and> (\<exists>names. tar_names tools data = Inr names \<and> complete_source names)))"

lemma artifact_evidence_verified: "artifact_evidence tools path = Inr item \<Longrightarrow> verified tools path item"
  using verify_wheel_owns [of tools] verify_sdist_complete [of tools]
  by (fastforce simp: artifact_evidence_def verified_def artifact_digest_whole wire_simps split: option.splits if_splits)

lemma verified_artifacts:
  assumes "verify_artifacts tools artifacts = Inr printed"
  shows "\<exists>evidence. json_text True 0 (PDict [fld ''artifacts'' (PList (map PDict evidence))]) = Inr printed
    \<and> list_all2 (verified tools) (sort_key rf_path artifacts) evidence
    \<and> {PStr (lit ''wheel''), PStr (lit ''sdist'')} = (\<lambda>item. dget_none item ''kind'') ` set evidence"
proof -
  obtain evidence kinds where e: "list_all2 (\<lambda>path item. artifact_evidence tools path = Inr item) (sort_key rf_path artifacts) evidence"
    "list_all2 (\<lambda>item kind. dget_req item ''kind'' = Inr kind) evidence kinds"
    "set kinds = {PStr (lit ''wheel''), PStr (lit ''sdist'')}"
    "json_text True 0 (PDict [fld ''artifacts'' (PList (map PDict evidence))]) = Inr printed"
    using assms by (auto simp: verify_artifacts_def mapE_Inr_iff simp del: json_text.simps)
  have "map (\<lambda>item. dget_none item ''kind'') evidence = kinds"
    using e(2) by (induction rule: list_all2_induct) (auto simp: dget_none_def dget_req_ok)
  then have "(\<lambda>item. dget_none item ''kind'') ` set evidence = set kinds" by (metis set_map)
  moreover have "list_all2 (verified tools) (sort_key rf_path artifacts) evidence"
    using e(1) by (rule list_all2_mono) (rule artifact_evidence_verified)
  ultimately show ?thesis using e(3,4) by metis
qed

text \<open>
  C33. What a verified release contains: when \<open>verify_artifacts.py\<close> passes, every artifact is a wheel that
  ships the package with its contracts and entry point and nothing of the shared namespace, of tests or
  of a provider, or a source distribution with one root and everything a rebuild needs; there is one of
  each, and the printed evidence gives each artifact's name, size and SHA-256 in the order of the paths.
\<close>

theorem release_verified:
  assumes "verify_artifacts tools artifacts = Inr printed"
  shows "\<exists>evidence. json_text True 0 (PDict [fld ''artifacts'' (PList (map PDict evidence))]) = Inr printed
    \<and> list_all2 (verified tools) (sort_key rf_path artifacts) evidence
    \<and> {PStr (lit ''wheel''), PStr (lit ''sdist'')} = (\<lambda>item. dget_none item ''kind'') ` set evidence"
  by (rule verified_artifacts [OF assms])

end
