(* ===== verification/ReleaseExample.thy ===== *)
theory ReleaseExample
  imports Artifacts
begin

text \<open>
  A small release that \<open>verify_artifacts.py\<close> accepts: a wheel with the required files and a source
  distribution, evaluated check by check.
\<close>

definition sample_info :: "string \<Rightarrow> pystr" where
  "sample_info f = lit ''meridian_storage_object_common-1.0.1.dist-info/'' @ lit f"

definition wheel_names :: "pystr list" where
  "wheel_names =
     map (\<lambda>f. PACKAGE @ lit f)
       [''/__init__.py'', ''/compatibility.json'', ''/contracts/data/fixtures/valid/object-expressions.json'',
        ''/contracts/data/object/meridian-object-expression.v1.schema.json'',
        ''/contracts/data/object/meridian-object-result.v1.schema.json'',
        ''/contracts/data/public-api/meridian-object-common.v1.json'', ''/py.typed'']
     @ map sample_info [''METADATA'', ''entry_points.txt'', ''licenses/LICENSE'', ''licenses/NOTICE'']"

definition sample_wheel :: "(pystr \<times> bytes) list" where
  "sample_wheel = map (\<lambda>name. (name, if name = sample_info ''entry_points.txt'' then map of_nat entry_points else [])) wheel_names"

definition sdist_names :: "pystr list" where
  "sdist_names = map (\<lambda>f. DISTRIBUTION @ lit f)
     [''/.github/workflows/ci.yml'', ''/CHANGELOG.md'', ''/LICENSE'', ''/NOTICE'', ''/README.md'', ''/compatibility.json'',
      ''/contracts/public-api/meridian-object-common.v1.json'', ''/pyproject.toml'', ''/scripts/verify_artifacts.py'',
      ''/src/meridian_storage/object_common/__init__.py'', ''/tests/test_conformance.py'']"

definition sample_headers :: "(pystr \<times> pystr list) list" where
  "sample_headers =
     [(lit ''Name'', [DISTRIBUTION]), (lit ''Version'', [VERSION]), (lit ''Requires-Python'', [lit ''>=3.12'']),
      (lit ''License-Expression'', [lit ''Apache-2.0'']),
      (lit ''Requires-Dist'', [lit ''meridian-storage-core==1.0.0'', lit ''meridian-storage-semantics==1.0.0''])]"

definition sample_tools :: archive_tools where
  "sample_tools =
     \<lparr>zip_entries = (\<lambda>_. Inr sample_wheel), tar_names = (\<lambda>_. Inr sdist_names),
      mail_headers = (\<lambda>_ name. case map_of sample_headers name of None \<Rightarrow> [] | Some values \<Rightarrow> values)\<rparr>"

lemma wheel_sorted: "sort (map fst sample_wheel) = wheel_names"
proof -
  have "successively (\<le>) wheel_names" by code_simp
  then have "sorted wheel_names" by (simp add: successively_conv_sorted_wrt)
  then show ?thesis by (simp add: sample_wheel_def comp_def sorted_sort_id)
qed

lemma wheel_generated: "reject_generated wheel_names = Inr ()" by code_simp

lemma wheel_namespace: "lit ''meridian_storage/__init__.py'' \<notin> set wheel_names" by code_simp

lemma wheel_tests: "\<not> list_ex (prefix (lit ''tests/'')) wheel_names" by code_simp

lemma wheel_required: "list_all (\<lambda>name. name \<in> set wheel_names) wheel_required"
  by (simp add: list_all_iff wheel_names_def wheel_required_def)

lemma wheel_sources: "source_entries wheel_names = take 7 wheel_names" by code_simp

lemma wheel_owned: "list_all (prefix (PACKAGE @ lit ''/'')) (take 7 wheel_names)" by code_simp

lemma wheel_providers:
  "\<not> list_ex (\<lambda>name. list_ex (\<lambda>forbidden. contains forbidden (casefold name)) provider_names) (take 7 wheel_names)"
  by code_simp

lemma wheel_metadata: "next_name (suffix (lit ''.dist-info/METADATA'')) wheel_names = Inr (sample_info ''METADATA'')"
  by code_simp

lemma wheel_points: "next_name (suffix (lit ''.dist-info/entry_points.txt'')) wheel_names = Inr (sample_info ''entry_points.txt'')"
  by code_simp

lemma wheel_license: "list_ex (suffix (lit ''/LICENSE'')) (filter (contains (lit ''.dist-info/licenses/'')) wheel_names)"
  by code_simp

lemma wheel_notice: "list_ex (suffix (lit ''/NOTICE'')) (filter (contains (lit ''.dist-info/licenses/'')) wheel_names)"
  by code_simp

lemma wheel_metadata_text: "read_text sample_wheel (sample_info ''METADATA'') = Inr []" by code_simp

lemma wheel_points_text: "read_text sample_wheel (sample_info ''entry_points.txt'') = Inr entry_points" by code_simp

lemma sample_wheel_verified:
  "verify_wheel sample_tools data = Inr [fld ''kind'' (PStr (lit ''wheel'')), fld ''entries'' (PInt 11)]"
proof -
  have "length sample_wheel = 11" "fst ` set sample_wheel = set wheel_names"
    by (simp add: sample_wheel_def wheel_names_def) (simp add: sample_wheel_def image_image)
  then show ?thesis
    using wheel_generated wheel_namespace wheel_tests wheel_required wheel_owned wheel_providers wheel_metadata
      wheel_points wheel_license wheel_notice wheel_metadata_text wheel_points_text
    by (simp add: verify_wheel_def sample_tools_def sample_headers_def Let_def wheel_sorted wheel_sources)
qed

lemma sdist_sorted: "sort sdist_names = sdist_names"
proof -
  have "successively (\<le>) sdist_names" by code_simp
  then have "sorted sdist_names" by (simp add: successively_conv_sorted_wrt)
  then show ?thesis by (rule sorted_sort_id)
qed

lemma sdist_generated: "reject_generated sdist_names = Inr ()" by code_simp

lemma sdist_roots: "mapE posix_root sdist_names = Inr (replicate 11 DISTRIBUTION)" by code_simp

lemma sdist_complete: "list_all (\<lambda>name. name \<in> set sdist_names) (sdist_required DISTRIBUTION)" by code_simp

lemma sdist_namespace: "DISTRIBUTION @ lit ''/src/meridian_storage/__init__.py'' \<notin> set sdist_names" by code_simp

lemma sdist_sources:
  "\<not> list_ex (\<lambda>name. prefix (DISTRIBUTION @ lit ''/src/'') name \<and> \<not> contains (lit ''object_common'') name) sdist_names"
  by code_simp

lemma sample_sdist_verified:
  "verify_sdist sample_tools data = Inr [fld ''kind'' (PStr (lit ''sdist'')), fld ''entries'' (PInt 11)]"
proof -
  have "length sdist_names = 11" by (simp add: sdist_names_def)
  moreover have "remdups (replicate 11 DISTRIBUTION) = [DISTRIBUTION]" by (simp add: eval_nat_numeral)
  ultimately show ?thesis
    using sdist_generated sdist_roots sdist_complete sdist_namespace sdist_sources
    by (simp add: verify_sdist_def sample_tools_def Let_def sdist_sorted)
qed

definition sample_release :: "release_file list" where
  "sample_release =
     [\<lparr>rf_path = [lit ''dist'', lit ''m.whl''], rf_data = Some []\<rparr>, \<lparr>rf_path = [lit ''dist'', lit ''m.tar.gz''], rf_data = Some [0]\<rparr>]"

lemma sample_release_verified: "\<exists>printed. verify_artifacts sample_tools sample_release = Inr printed"
proof -
  have names: "path_suffix (lit ''m.whl'') = lit ''.whl''" "path_suffix (lit ''m.tar.gz'') \<noteq> lit ''.whl''"
    "suffix (lit ''.tar.gz'') (lit ''m.tar.gz'')" by code_simp+
  have "map rf_path (sort_key rf_path sample_release) = map rf_path (rev sample_release)" by code_simp
  then have sorted: "sort_key rf_path sample_release = rev sample_release"
    by (intro map_inj_on [of rf_path]) (auto simp: sample_release_def)
  obtain evidence where e: "mapE (artifact_evidence sample_tools) (rev sample_release) = Inr evidence"
    "mapE (\<lambda>item. dget_req item ''kind'') evidence = Inr [PStr (lit ''sdist''), PStr (lit ''wheel'')]"
    "printable_entries [fld ''artifacts'' (PList (map PDict evidence))]"
    using names sample_wheel_verified sample_sdist_verified
    by (simp add: sample_release_def artifact_evidence_def file_name_def wire_simps dget_req_def)
  obtain printed where "json_text True 0 (PDict [fld ''artifacts'' (PList (map PDict evidence))]) = Inr printed"
    using json_text_prints(1) e(3) by (metis printable.simps(1))
  then show ?thesis
    by (simp add: verify_artifacts_def sorted e(1,2) insert_commute del: json_text.simps)
qed

theorem release_verified_witness:
  "\<exists>printed evidence. verify_artifacts sample_tools sample_release = Inr printed
     \<and> list_all2 (verified sample_tools) (sort_key rf_path sample_release) evidence"
proof -
  obtain printed where "verify_artifacts sample_tools sample_release = Inr printed"
    using sample_release_verified by blast
  with release_verified [OF this] show ?thesis by blast
qed

end
