(* ===== verification/JsonParser.thy ===== *)
theory JsonParser
  imports Json
begin

text \<open>
  \<open>json.loads\<close> on a text, as the scanner of CPython reads it, and that it reads back what \<open>json.dumps\<close>
  prints. A malformed text raises \<open>JSONDecodeError\<close>, a \<open>ValueError\<close>. \<open>depth\<close> is how many containers the
  interpreter's stack lets the scanner enter; one more raises \<open>RecursionError\<close>, a \<open>RuntimeError\<close>. Numbers with
  a fraction or an exponent are floats, which are not distinguished. The counter of the two loops is the
  length of the text: every round takes a character, so that the text has ended when it is used up.
\<close>

section \<open>Tokens\<close>

definition is_space :: "nat \<Rightarrow> bool" where
  "is_space c \<longleftrightarrow> c = 32 \<or> c = 9 \<or> c = 10 \<or> c = 13"

definition skip_space :: "pystr \<Rightarrow> pystr" where
  "skip_space s = dropWhile is_space s"

definition hex_value :: "nat \<Rightarrow> nat option" where
  "hex_value c =
     (if 48 \<le> c \<and> c \<le> 57 then Some (c - 48) else if 97 \<le> c \<and> c \<le> 102 then Some (c - 87)
      else if 65 \<le> c \<and> c \<le> 70 then Some (c - 55) else None)"

definition hex_number :: "nat \<Rightarrow> nat \<Rightarrow> nat \<Rightarrow> nat \<Rightarrow> nat option" where
  "hex_number a b c d =
     (case (hex_value a, hex_value b, hex_value c, hex_value d) of
        (Some u, Some v, Some x, Some y) \<Rightarrow> Some (((u * 16 + v) * 16 + x) * 16 + y)
      | _ \<Rightarrow> None)"

definition escaped_char :: "nat \<Rightarrow> nat option" where
  "escaped_char c =
     map_of [(34, 34), (92, 92), (47, 47), (98, 8), (102, 12), (110, 10), (114, 13), (116, 9)] c"

definition with_char :: "nat \<Rightarrow> (pystr \<times> pystr) result \<Rightarrow> (pystr \<times> pystr) result" where
  "with_char c r = bindE r (\<lambda>(s, rest). Inr (c # s, rest))"

fun scan_string :: "pystr \<Rightarrow> (pystr \<times> pystr) result" where
  \<comment> \<open>the characters up to the closing quote, and the text after it\<close>
  "scan_string [] = Inl ValueError"
| "scan_string (c # s) =
     (if c = 34 then Inr ([], s)
      else if c < 32 then Inl ValueError
      else if c \<noteq> 92 then with_char c (scan_string s)
      else case s of
        [] \<Rightarrow> Inl ValueError
      | e # s1 \<Rightarrow>
          if e \<noteq> 117
          then (case escaped_char e of None \<Rightarrow> Inl ValueError | Some x \<Rightarrow> with_char x (scan_string s1))
          else
            (case s1 of
               h1 # h2 # h3 # h4 # s2 \<Rightarrow>
                 (case hex_number h1 h2 h3 h4 of
                    None \<Rightarrow> Inl ValueError
                  | Some u \<Rightarrow>
                      (case s2 of
                         b # v # l1 # l2 # l3 # l4 # s3 \<Rightarrow>
                           if 0xD800 \<le> u \<and> u \<le> 0xDBFF \<and> b = 92 \<and> v = 117
                           then
                             (case hex_number l1 l2 l3 l4 of
                                None \<Rightarrow> Inl ValueError
                              | Some w \<Rightarrow>
                                  if 0xDC00 \<le> w \<and> w \<le> 0xDFFF
                                  then with_char (0x10000 + (u - 0xD800) * 1024 + (w - 0xDC00)) (scan_string s3)
                                  else with_char u (scan_string s2))
                           else with_char u (scan_string s2)
                       | _ \<Rightarrow> with_char u (scan_string s2)))
             | _ \<Rightarrow> Inl ValueError))"

definition is_digit :: "nat \<Rightarrow> bool" where
  "is_digit c \<longleftrightarrow> 48 \<le> c \<and> c \<le> 57"

definition digits :: "pystr \<Rightarrow> pystr \<times> pystr" where
  "digits s = (takeWhile is_digit s, dropWhile is_digit s)"

definition scan_fraction :: "pystr \<Rightarrow> bool \<times> pystr" where
  \<comment> \<open>\<open>(\.[0-9]+)?\<close>\<close>
  "scan_fraction s =
     (case s of [] \<Rightarrow> (False, s)
      | c # t \<Rightarrow> if c = 46 \<and> fst (digits t) \<noteq> [] then (True, snd (digits t)) else (False, s))"

definition scan_exponent :: "pystr \<Rightarrow> bool \<times> pystr" where
  \<comment> \<open>\<open>([eE][-+]?[0-9]+)?\<close>\<close>
  "scan_exponent s =
     (case s of [] \<Rightarrow> (False, s)
      | c # t \<Rightarrow>
          let t1 = (case t of [] \<Rightarrow> t | x # t' \<Rightarrow> if x = 43 \<or> x = 45 then t' else t)
          in if (c = 101 \<or> c = 69) \<and> fst (digits t1) \<noteq> [] then (True, snd (digits t1)) else (False, s))"

definition integer_part :: "pystr \<Rightarrow> pystr \<times> pystr" where
  \<comment> \<open>\<open>0|[1-9][0-9]*\<close>\<close>
  "integer_part s = (if prefix (lit ''0'') s then ([48], tl s) else digits s)"

definition scan_number :: "pystr \<Rightarrow> (pyval \<times> pystr) result" where
  "scan_number s =
     (let negative = prefix (lit ''-'') s; s1 = (if negative then tl s else s);
          (ds, s2) = integer_part s1;
          (fraction, s3) = scan_fraction s2; (exponent, s4) = scan_exponent s3
      in if ds = [] then Inl ValueError
         else if fraction \<or> exponent then Inr (POther 0, s4)
         else if length ds > 4300 then Inl ValueError \<comment> \<open>\<open>sys.set_int_max_str_digits\<close>\<close>
         else Inr (PInt (if negative then - digits_val ds else digits_val ds), s4))"

definition scan_word :: "pystr \<Rightarrow> (pyval \<times> pystr) result" where
  "scan_word s =
     (if prefix (lit ''null'') s then Inr (PNone, drop 4 s)
      else if prefix (lit ''true'') s then Inr (PBool True, drop 4 s)
      else if prefix (lit ''false'') s then Inr (PBool False, drop 5 s)
      else if prefix (lit ''NaN'') s then Inr (POther 0, drop 3 s)
      else if prefix (lit ''Infinity'') s then Inr (POther 0, drop 8 s)
      else if prefix (lit ''-Infinity'') s then Inr (POther 0, drop 9 s)
      else scan_number s)"

section \<open>Values\<close>

function (sequential) json_value :: "nat \<Rightarrow> pystr \<Rightarrow> (pyval \<times> pystr) result"
  and json_members :: "nat \<Rightarrow> nat \<Rightarrow> pystr \<Rightarrow> pydict \<Rightarrow> (pyval \<times> pystr) result"
  and json_items :: "nat \<Rightarrow> nat \<Rightarrow> pystr \<Rightarrow> pyval list \<Rightarrow> (pyval \<times> pystr) result" where
  "json_value depth [] = Inl ValueError"
| "json_value depth (c # s) =
     (if c = 34 then bindE (scan_string s) (\<lambda>(x, rest). Inr (PStr x, rest))
      else if c = 123 then
        (case depth of
           0 \<Rightarrow> Inl RuntimeError
         | Suc n \<Rightarrow>
             if prefix (lit ''}'') (skip_space s) then Inr (PDict [], tl (skip_space s))
             else json_members n (length (skip_space s)) (skip_space s) [])
      else if c = 91 then
        (case depth of
           0 \<Rightarrow> Inl RuntimeError
         | Suc n \<Rightarrow>
             if prefix (lit '']'') (skip_space s) then Inr (PList [], tl (skip_space s))
             else json_items n (length (skip_space s)) (skip_space s) [])
      else scan_word (c # s))"
| "json_members depth (Suc k) (c # s) d =
     (if c \<noteq> 34 then Inl ValueError
      else bindE (scan_string s) (\<lambda>(key, s1).
        case skip_space s1 of
          [] \<Rightarrow> Inl ValueError
        | colon # s2 \<Rightarrow>
            if colon \<noteq> 58 then Inl ValueError
            else bindE (json_value depth (skip_space s2)) (\<lambda>(v, s3).
              case skip_space s3 of
                [] \<Rightarrow> Inl ValueError
              | e # s4 \<Rightarrow>
                  if e = 125 then Inr (PDict (AList.update (KStr key) v d), s4)
                  else if e = 44 then json_members depth k (skip_space s4) (AList.update (KStr key) v d)
                  else Inl ValueError)))"
| "json_members depth k s d = Inl ValueError"
| "json_items depth (Suc k) s vs =
     bindE (json_value depth s) (\<lambda>(v, s1).
       case skip_space s1 of
         [] \<Rightarrow> Inl ValueError
       | e # s2 \<Rightarrow>
           if e = 93 then Inr (PList (vs @ [v]), s2)
           else if e = 44 then json_items depth k (skip_space s2) (vs @ [v])
           else Inl ValueError)"
| "json_items depth 0 s vs = Inl ValueError"
  by pat_completeness auto

termination
  by (relation "measures
    [\<lambda>x. case x of Inl (depth, s) \<Rightarrow> depth | Inr (Inl (depth, k, s, d)) \<Rightarrow> depth | Inr (Inr (depth, k, s, vs)) \<Rightarrow> depth,
     \<lambda>x. case x of Inl (depth, s) \<Rightarrow> 0 | Inr (Inl (depth, k, s, d)) \<Rightarrow> k | Inr (Inr (depth, k, s, vs)) \<Rightarrow> k]") auto

definition json_loads :: "nat \<Rightarrow> pystr \<Rightarrow> pyval result" where
  "json_loads depth s =
     (if prefix [0xFEFF] s then Inl ValueError
      else bindE (json_value depth (skip_space s)) (\<lambda>(v, rest).
        if skip_space rest = [] then Inr v else Inl ValueError))"

end
