(* ===== verification/JsonRoundTrip.thy ===== *)
theory JsonRoundTrip
  imports JsonParser
begin

text \<open>
  \<open>json.loads\<close> reads back what \<open>json.dumps\<close> prints, compact or indented: strings with their escapes and
  surrogate pairs, integers, and nested lists and mappings, whose keys come back in the printed order.
  Every text that follows a value in a larger text is allowed for by the predicate \<open>delimited\<close>.
\<close>

section \<open>Strings are read back\<close>

lemma hex_value_char: "v < 16 \<Longrightarrow> hex_value (hex_char v) = Some v"
  by (auto simp: hex_value_def hex_char_def)

lemma nibbles:
  fixes n :: nat
  assumes "n < 65536"
  shows "((n div 4096 mod 16 * 16 + n div 256 mod 16) * 16 + n div 16 mod 16) * 16 + n mod 16 = n"
proof -
  have "n div 4096 mod 16 = n div 4096" using assms by simp
  moreover have "n div 4096 * 16 + n div 256 mod 16 = n div 256"
    using div_mult_mod_eq [of "n div 256" 16] unfolding div_mult2_eq [symmetric] by simp
  moreover have "n div 256 * 16 + n div 16 mod 16 = n div 16"
    using div_mult_mod_eq [of "n div 16" 16] unfolding div_mult2_eq [symmetric] by simp
  moreover have "n div 16 * 16 + n mod 16 = n" by (rule div_mult_mod_eq)
  ultimately show ?thesis by (simp only:)
qed

lemma hex_number_chars:
  "a < 16 \<Longrightarrow> b < 16 \<Longrightarrow> c < 16 \<Longrightarrow> d < 16 \<Longrightarrow>
     hex_number (hex_char a) (hex_char b) (hex_char c) (hex_char d) = Some (((a * 16 + b) * 16 + c) * 16 + d)"
  by (simp add: hex_number_def hex_value_char)

lemma hex4_read:
  assumes "n < 65536"
  shows "\<exists>a b c d. hex4 n = [a, b, c, d] \<and> hex_number a b c d = Some n"
proof -
  have "hex_number (hex_char (n div 4096 mod 16)) (hex_char (n div 256 mod 16)) (hex_char (n div 16 mod 16)) (hex_char (n mod 16))
      = Some n"
    by (subst hex_number_chars) (simp_all only: nibbles [OF assms] mod_less_divisor zero_less_numeral)
  then show ?thesis by (simp add: hex4_def)
qed

lemma scan_escape:
  assumes "n < 65536" and "\<not> (0xD800 \<le> n \<and> n \<le> 0xDBFF)"
  shows "scan_string (lit [CHR 92, CHR ''u''] @ hex4 n @ t) = with_char n (scan_string t)"
proof -
  obtain a b c d where h: "hex4 n = [a, b, c, d]" "hex_number a b c d = Some n" using hex4_read [OF assms(1)] by blast
  have "scan_string (92 # 117 # a # b # c # d # t) = with_char n (scan_string t)"
    by (subst scan_string.simps(2)) (use h(2) assms(2) in \<open>auto simp del: scan_string.simps split: list.split\<close>)
  then show ?thesis by (simp add: lit_def h(1))
qed

lemma scan_pair:
  assumes "0xD800 \<le> u" "u \<le> 0xDBFF" and "0xDC00 \<le> w" "w \<le> 0xDFFF"
  shows "scan_string (lit [CHR 92, CHR ''u''] @ hex4 u @ lit [CHR 92, CHR ''u''] @ hex4 w @ t)
    = with_char (0x10000 + (u - 0xD800) * 1024 + (w - 0xDC00)) (scan_string t)"
proof -
  obtain a b c d where u: "hex4 u = [a, b, c, d]" "hex_number a b c d = Some u" using hex4_read [of u] assms by auto
  obtain e f g h where w: "hex4 w = [e, f, g, h]" "hex_number e f g h = Some w" using hex4_read [of w] assms by auto
  have "scan_string (92 # 117 # a # b # c # d # 92 # 117 # e # f # g # h # t)
      = with_char (0x10000 + (u - 0xD800) * 1024 + (w - 0xDC00)) (scan_string t)"
    by (subst scan_string.simps(2)) (use u(2) w(2) assms in \<open>simp del: scan_string.simps\<close>)
  then show ?thesis by (simp add: lit_def u(1) w(1))
qed

lemma scan_char:
  assumes "c < 0x110000" and "\<not> is_surrogate c"
  shows "scan_string (json_char c @ t) = with_char c (scan_string t)"
proof -
  consider (short) "c \<in> {34, 92, 10, 13, 9, 8, 12}" | (plain) "c \<notin> {34, 92}" "32 \<le> c" "c \<le> 126"
    | (bmp) "c \<notin> {34, 92, 10, 13, 9, 8, 12}" "\<not> (32 \<le> c \<and> c \<le> 126)" "c < 65536" | (astral) "65536 \<le> c"
    by force
  then show ?thesis
  proof cases
    case short
    then show ?thesis by (auto simp: json_char_def lit_def escaped_char_def)
  next
    case plain
    then show ?thesis by (simp add: json_char_def)
  next
    case bmp
    then have "json_char c = lit [CHR 92, CHR ''u''] @ hex4 c" by (auto simp: json_char_def)
    moreover have "\<not> (0xD800 \<le> c \<and> c \<le> 0xDBFF)" using assms(2) unfolding is_surrogate_def by linarith
    ultimately show ?thesis using scan_escape [OF bmp(3)] by simp
  next
    case astral
    define x where "x = c - 65536"
    have c: "c = 65536 + x" "x < 1048576" using astral assms(1) by (simp_all add: x_def)
    then have "x div 1024 < 1024" by simp
    then have high: "x div 1024 mod 1024 = x div 1024" "x div 1024 \<le> 1023" by simp_all
    have "json_char c = lit [CHR 92, CHR ''u''] @ hex4 (0xD800 + x div 1024)
        @ lit [CHR 92, CHR ''u''] @ hex4 (0xDC00 + x mod 1024)"
      using astral high by (simp add: json_char_def x_def [symmetric])
    moreover have "x mod 1024 \<le> 1023" using mod_less_divisor [of 1024 x] by simp
    moreover have "x div 1024 * 1024 + x mod 1024 = x" by simp
    ultimately show ?thesis
      using scan_pair [of "0xD800 + x div 1024" "0xDC00 + x mod 1024" t] high(2) c(1) by (simp add: add.assoc)
  qed
qed

definition plain_string :: "pystr \<Rightarrow> bool" where
  "plain_string s \<longleftrightarrow> (\<forall>c\<in>set s. c < 0x110000 \<and> \<not> is_surrogate c)"

lemma scan_printed:
  "plain_string s \<Longrightarrow> scan_string (concat (map json_char s) @ 34 # rest) = Inr (s, rest)"
  by (induction s) (simp_all add: plain_string_def scan_char with_char_def del: scan_string.simps(2), simp)

section \<open>Numbers are read back\<close>

definition delimited :: "pystr \<Rightarrow> bool" where
  \<comment> \<open>what may follow a value\<close>
  "delimited rest \<longleftrightarrow> rest = [] \<or> is_space (hd rest) \<or> hd rest \<in> {44, 93, 125}"

lemma delimited_ends:
  assumes "delimited rest"
  shows "takeWhile is_digit rest = []" "dropWhile is_digit rest = rest" "scan_fraction rest = (False, rest)"
    "scan_exponent rest = (False, rest)"
  using assms by (cases rest; auto simp: delimited_def is_space_def is_digit_def scan_fraction_def scan_exponent_def)+

lemma nat_text_not_Nil [simp]: "nat_text n \<noteq> []"
  by (subst nat_text.simps) simp

lemma nat_text_digits: "\<forall>c\<in>set (nat_text n). is_digit c"
  by (induction n rule: nat_text.induct) (subst nat_text.simps, auto simp: is_digit_def)

lemma nat_text_val: "digits_val (nat_text n) = int n"
proof (induction n rule: nat_text.induct)
  case (1 n)
  show ?case
  proof (cases "n < 10")
    case False
    have "digits_val (nat_text n) = digits_val (nat_text (n div 10)) * 10 + int (n mod 10)"
      using False by (subst nat_text.simps) (simp add: digits_val_def)
    also have "\<dots> = int (n div 10 * 10 + n mod 10)" using 1 [OF False] by (simp only: of_nat_add of_nat_mult of_nat_numeral)
    also have "\<dots> = int n" by (metis div_mult_mod_eq)
    finally show ?thesis .
  qed (subst nat_text.simps, simp add: digits_val_def)
qed

lemma nat_text_head: "hd (nat_text n) = 48 \<longleftrightarrow> n = 0"
proof (induction n rule: nat_text.induct)
  case (1 n)
  show ?case
  proof (cases "n < 10")
    case False
    have "hd (nat_text n) = hd (nat_text (n div 10))"
      using False by (subst nat_text.simps) simp
    then show ?thesis using 1 [OF False] False by (simp add: div_eq_0_iff)
  qed (subst nat_text.simps, simp)
qed

lemma digits_printed:
  assumes "delimited rest"
  shows "digits (nat_text n @ rest) = (nat_text n, rest)"
  using nat_text_digits [of n] delimited_ends(1,2) [OF assms]
  by (simp add: digits_def takeWhile_append dropWhile_append)

lemma scan_int:
  assumes "delimited rest" and "length (nat_text (nat \<bar>n\<bar>)) \<le> 4300"
  shows "scan_number (int_text n @ rest) = Inr (PInt n, rest)"
proof -
  have zero: "prefix (lit ''0'') (nat_text m @ rest) \<longleftrightarrow> m = 0" for m
    using nat_text_head [of m] nat_text_not_Nil [of m] by (cases "nat_text m") (auto simp: lit_def)
  have ds: "integer_part (nat_text m @ rest) = (nat_text m, rest)" for m
    using digits_printed [OF assms(1), of m] by (simp add: integer_part_def zero) (simp add: nat_text.simps [of 0])
  have minus: "\<not> prefix (lit ''-'') (nat_text m @ rest)" for m
    using nat_text_digits [of m] nat_text_not_Nil [of m] by (cases "nat_text m") (auto simp: lit_def is_digit_def)
  show ?thesis
  proof (cases "n < 0")
    case True
    then show ?thesis
      using assms(2) ds [of "nat (- n)"]
      by (simp add: int_text_def scan_number_def lit_def delimited_ends(3,4) [OF assms(1)] nat_text_val Let_def)
  next
    case False
    then show ?thesis
      using assms(2) ds [of "nat n"] minus [of "nat n"]
      by (simp add: int_text_def scan_number_def delimited_ends(3,4) [OF assms(1)] nat_text_val Let_def)
  qed
qed

lemma int_text_starts:
  "\<exists>c r. int_text m = c # r \<and> (c = 45 \<or> is_digit c) \<and> (c = 45 \<longrightarrow> r \<noteq> [] \<and> is_digit (hd r))"
proof -
  have "\<exists>c r. nat_text n = c # r \<and> is_digit c" for n
    using nat_text_digits [of n] nat_text_not_Nil [of n] by (cases "nat_text n") auto
  from this [of "nat m"] this [of "nat (- m)"] show ?thesis
    by (auto simp: int_text_def lit_def is_digit_def)
qed

section \<open>Values are read back\<close>

text \<open>
  Values that JSON can carry: strings without surrogates, integers within the interpreter's limit of 4300
  digits, mappings with distinct string keys. A mapping comes back with its keys in the printed order.
\<close>

fun json_plain :: "pyval \<Rightarrow> bool"
  and json_plain_entries :: "pydict \<Rightarrow> bool"
  and json_plain_items :: "pyval list \<Rightarrow> bool" where
  "json_plain (PDict d) \<longleftrightarrow> distinct (map fst d) \<and> json_plain_entries d"
| "json_plain (PList xs) \<longleftrightarrow> json_plain_items xs"
| "json_plain (PStr s) \<longleftrightarrow> plain_string s"
| "json_plain (PInt n) \<longleftrightarrow> length (nat_text (nat \<bar>n\<bar>)) \<le> 4300"
| "json_plain (POther i) \<longleftrightarrow> False"
| "json_plain v \<longleftrightarrow> True"
| "json_plain_entries [] \<longleftrightarrow> True"
| "json_plain_entries ((k, v) # rest) \<longleftrightarrow>
     (case k of KStr s \<Rightarrow> plain_string s | KOther _ \<Rightarrow> False) \<and> json_plain v \<and> json_plain_entries rest"
| "json_plain_items [] \<longleftrightarrow> True"
| "json_plain_items (v # rest) \<longleftrightarrow> json_plain v \<and> json_plain_items rest"

fun nesting :: "pyval \<Rightarrow> nat"
  and nesting_entries :: "pydict \<Rightarrow> nat"
  and nesting_items :: "pyval list \<Rightarrow> nat" where
  "nesting (PDict d) = Suc (nesting_entries d)"
| "nesting (PList xs) = Suc (nesting_items xs)"
| "nesting v = 0"
| "nesting_entries [] = 0"
| "nesting_entries ((k, v) # rest) = max (nesting v) (nesting_entries rest)"
| "nesting_items [] = 0"
| "nesting_items (v # rest) = max (nesting v) (nesting_items rest)"

definition key_text :: "pykey \<Rightarrow> pystr" where
  "key_text k = (case k of KStr s \<Rightarrow> s | KOther _ \<Rightarrow> [])"

fun key_sorted :: "pyval \<Rightarrow> pyval"
  and key_sorted_entries :: "pydict \<Rightarrow> pydict"
  and key_sorted_items :: "pyval list \<Rightarrow> pyval list" where
  "key_sorted (PDict d) = PDict (sort_key (\<lambda>(k, v). key_text k) (key_sorted_entries d))"
| "key_sorted (PList xs) = PList (key_sorted_items xs)"
| "key_sorted v = v"
| "key_sorted_entries [] = []"
| "key_sorted_entries ((k, v) # rest) = (k, key_sorted v) # key_sorted_entries rest"
| "key_sorted_items [] = []"
| "key_sorted_items (v # rest) = key_sorted v # key_sorted_items rest"

definition starts_value :: "pystr \<Rightarrow> bool" where
  "starts_value t \<longleftrightarrow> t \<noteq> [] \<and> \<not> is_space (hd t) \<and> hd t \<notin> {93, 125, 0xFEFF}"

definition reads :: "nat \<Rightarrow> pystr \<Rightarrow> pyval \<Rightarrow> bool" where
  \<comment> \<open>the text is scanned to the value, whatever ends it\<close>
  "reads n t v \<longleftrightarrow> starts_value t \<and> (\<forall>rest. delimited rest \<longrightarrow> json_value n (t @ rest) = Inr (v, rest))"

definition spaces :: "pystr \<Rightarrow> bool" where
  "spaces w \<longleftrightarrow> (\<forall>c\<in>set w. is_space c)"

lemma skip_spaces: "spaces w \<Longrightarrow> skip_space (w @ s) = skip_space s"
  by (simp add: spaces_def skip_space_def dropWhile_append2)

lemma skip_none: "\<not> is_space c \<Longrightarrow> skip_space (c # s) = c # s"
  by (simp add: skip_space_def)

lemma skip_start: "starts_value t \<Longrightarrow> skip_space (t @ s) = t @ s"
  by (cases t) (simp_all add: starts_value_def skip_space_def)

lemma delimited_spaces: "spaces w \<Longrightarrow> c \<in> {44, 93, 125} \<Longrightarrow> delimited (w @ c # rest)"
  by (cases w) (simp_all add: delimited_def spaces_def)

lemma punctuation: "\<not> is_space 44" "\<not> is_space 93" "\<not> is_space 125" "\<not> is_space 58" "\<not> is_space 34"
  by (simp_all add: is_space_def)

lemma join_Cons: "join sep (t # ts) = (if ts = [] then t else t @ sep @ join sep ts)"
  by (cases ts) (simp_all add: join_def)

lemma join_starts: "starts_value t \<Longrightarrow> starts_value (join sep (t # ts) @ s)"
  by (cases t) (simp_all add: join_def starts_value_def)

lemma length_join:
  "\<forall>t\<in>set ts. t \<noteq> [] \<Longrightarrow> length ts \<le> length (join sep ts)"
proof (induction ts)
  case (Cons t ts)
  then have "Suc 0 \<le> length t" by (cases t) auto
  then show ?case using Cons by (auto simp: join_Cons)
qed simp

lemma items_read:
  assumes "list_all2 (reads n) ts vs" and "ts \<noteq> []" and "length ts \<le> k" and "spaces w" and "spaces w'"
  shows "json_items n k (join (44 # w) ts @ w' @ 93 # rest) acc = Inr (PList (acc @ vs), rest)"
  using assms(1-3)
proof (induction ts vs arbitrary: k acc rule: list_all2_induct)
  case (Cons t ts v vs)
  obtain k' where k: "k = Suc k'" using Cons.prems(2) by (cases k) auto
  have read: "json_value n (t @ s) = Inr (v, s)" if "delimited s" for s
    using Cons.hyps(1) that by (simp add: reads_def)
  show ?case
  proof (cases ts)
    case Nil
    then show ?thesis
      using Cons.hyps(2) read [OF delimited_spaces [OF assms(5), of 93 rest]] skip_spaces [OF assms(5), of "93 # rest"]
      by (simp add: k join_def skip_none punctuation)
  next
    case (Cons t' ts')
    let ?tail = "join (44 # w) ts @ w' @ 93 # rest"
    have "starts_value t'" using Cons.hyps(2) Cons by (auto simp: list_all2_Cons1 reads_def)
    then have "skip_space ?tail = ?tail"
      using skip_start [OF join_starts [of t' "44 # w" ts' "[]"], of "w' @ 93 # rest"] Cons by simp
    then have tail: "skip_space (w @ ?tail) = ?tail" using skip_spaces [OF assms(4)] by simp
    have "json_items n k' ?tail (acc @ [v]) = Inr (PList ((acc @ [v]) @ vs), rest)"
      using Cons.IH [of k' "acc @ [v]"] Cons.prems(2) Cons by (simp add: k)
    then show ?thesis
      using read [of "44 # w @ ?tail"] tail Cons by (simp add: k join_Cons delimited_def skip_none punctuation)
  qed
qed simp

lemma entry_scanned:
  assumes "plain_string s"
  shows "\<exists>u. entry_text pretty (s, t) = 34 # u \<and>
    (\<exists>w. spaces w \<and> scan_string (u @ rest) = Inr (s, 58 # w @ t @ rest))"
proof -
  have "spaces (if pretty then [32] else [])" by (simp add: spaces_def is_space_def)
  moreover have "entry_text pretty (s, t) =
      34 # concat (map json_char s) @ 34 # 58 # (if pretty then [32] else []) @ t"
    by (simp add: entry_text_def json_string_def lit_def)
  ultimately show ?thesis
    using scan_printed [OF assms, of "58 # (if pretty then [32] else []) @ t @ rest"] by (intro exI conjI) auto
qed

lemma entry_starts: "starts_value (entry_text pretty e)"
  by (simp add: entry_text_def json_string_def starts_value_def is_space_def)

lemma members_read:
  assumes "list_all2 (\<lambda>(s, t) (k, v). k = KStr s \<and> plain_string s \<and> reads n t v) items d" and "items \<noteq> []"
    and "length items \<le> k" and "distinct (map fst (acc @ d))" and "spaces w" and "spaces w'"
  shows "json_members n k (join (44 # w) (map (entry_text pretty) items) @ w' @ 125 # rest) acc = Inr (PDict (acc @ d), rest)"
  using assms(1-4)
proof (induction items d arbitrary: k acc rule: list_all2_induct)
  case (Cons item items entry d)
  obtain s t key v where e: "item = (s, t)" "entry = (key, v)" by (cases item; cases entry)
  have key: "key = KStr s" "plain_string s" "reads n t v" using Cons.hyps(1) by (simp_all add: e)
  obtain k' where k: "k = Suc k'" using Cons.prems(2) by (cases k) auto
  have fresh: "AList.update (KStr s) v acc = acc @ [(KStr s, v)]"
    using Cons.prems(3) by (intro update_new) (auto simp: e key)
  have step: "json_members n k (entry_text pretty item @ tail) acc =
      (case skip_space tail of [] \<Rightarrow> Inl ValueError
       | x # s4 \<Rightarrow> if x = 125 then Inr (PDict (acc @ [(KStr s, v)]), s4)
           else if x = 44 then json_members n k' (skip_space s4) (acc @ [(KStr s, v)]) else Inl ValueError)"
    if "delimited tail" for tail
  proof -
    obtain u w2 where u: "entry_text pretty (s, t) = 34 # u" "spaces w2" "scan_string (u @ tail) = Inr (s, 58 # w2 @ t @ tail)"
      using entry_scanned [OF key(2), of pretty t tail] by blast
    have "skip_space (w2 @ t @ tail) = t @ tail"
      using key(3) u(2) by (simp add: skip_spaces skip_start reads_def)
    moreover have "json_value n (t @ tail) = Inr (v, tail)" using key(3) that by (simp add: reads_def)
    ultimately show ?thesis by (simp add: e k u fresh skip_none punctuation split: list.split)
  qed
  show ?case
  proof (cases items)
    case Nil
    then show ?thesis
      using Cons.hyps(2) step [OF delimited_spaces [OF assms(6), of 125 rest]] skip_spaces [OF assms(6), of "125 # rest"]
      by (simp add: join_def skip_none punctuation e key)
  next
    case (Cons item' items')
    let ?tail = "join (44 # w) (map (entry_text pretty) items) @ w' @ 125 # rest"
    have "skip_space ?tail = ?tail"
      using skip_start [OF join_starts [OF entry_starts [of pretty item'],
        where sep = "44 # w" and ts = "map (entry_text pretty) items'" and s = "[]"], of "w' @ 125 # rest"] Cons
      by simp
    then have tail: "skip_space (w @ ?tail) = ?tail" using skip_spaces [OF assms(5)] by simp
    have "json_members n k' ?tail (acc @ [(KStr s, v)]) = Inr (PDict ((acc @ [(KStr s, v)]) @ d), rest)"
      using Cons.IH [of k' "acc @ [(KStr s, v)]"] Cons.prems(2,3) Cons by (simp add: k e key)
    then show ?thesis
      using step [of "44 # w @ ?tail"] tail Cons by (simp add: join_Cons delimited_def skip_none punctuation e key)
  qed
qed simp

text \<open>Sorting rendered entries sorts the entries.\<close>

lemma insort_rel:
  "list_all2 P xs ys \<Longrightarrow> P x y \<Longrightarrow> (\<And>x y. P x y \<Longrightarrow> f x = g y) \<Longrightarrow> list_all2 P (insort_key f x xs) (insort_key g y ys)"
  by (induction xs ys rule: list_all2_induct) auto

lemma sort_rel:
  assumes "list_all2 P xs ys" and "\<And>x y. P x y \<Longrightarrow> f x = g y"
  shows "list_all2 P (sort_key f xs) (sort_key g ys)"
  using assms(1) by (induction xs ys rule: list_all2_induct) (simp_all add: insort_rel assms(2))

lemma bracketed_read:
  assumes "\<forall>t\<in>set ts. starts_value t" and "ts \<noteq> []"
  shows "\<exists>w w'. spaces w \<and> spaces w' \<and> bracketed pretty depth opening closing ts = lit opening @ w @ join (44 # w) ts @ w' @ lit closing"
    and "skip_space (join (44 # w) ts @ s) = join (44 # w) ts @ s"
    and "length ts \<le> length (join (44 # w) ts)"
proof -
  have "spaces ([10] @ replicate m 32)" for m by (simp add: spaces_def is_space_def)
  then show "\<exists>w w'. spaces w \<and> spaces w' \<and> bracketed pretty depth opening closing ts = lit opening @ w @ join (44 # w) ts @ w' @ lit closing"
    using assms(2)
    by (intro exI [of _ "if pretty then [10] @ replicate (2 * Suc depth) 32 else []"]
        exI [of _ "if pretty then [10] @ replicate (2 * depth) 32 else []"])
      (auto simp: bracketed_def Let_def lit_def spaces_def is_space_def)
  obtain t ts' where ts: "ts = t # ts'" "starts_value t" using assms by (cases ts) auto
  show "skip_space (join (44 # w) ts @ s) = join (44 # w) ts @ s"
    using skip_start [OF join_starts [OF ts(2), of "44 # w" ts' "[]"], of s] by (simp add: ts(1))
  show "length ts \<le> length (join (44 # w) ts)"
    using assms(1) by (intro length_join) (auto simp: starts_value_def)
qed

lemma sorted_entries_keys: "map fst (key_sorted_entries d) = map fst d"
  by (induction d) auto

lemma distinct_sorted_entries:
  assumes "distinct (map fst d)"
  shows "distinct (map fst (sort_key f (key_sorted_entries d)))"
proof -
  have "distinct (map fst (key_sorted_entries d))" using assms by (simp only: sorted_entries_keys)
  then show ?thesis by (simp only: distinct_map distinct_sort set_sort)
qed

lemma values_read:
  "json_text pretty depth v = Inr t \<Longrightarrow> json_plain v \<Longrightarrow> nesting v \<le> n \<Longrightarrow> reads n t (key_sorted v)"
  "json_entries pretty depth d = Inr items \<Longrightarrow> json_plain_entries d \<Longrightarrow> nesting_entries d \<le> n \<Longrightarrow>
     list_all2 (\<lambda>(s, t) (k, v). k = KStr s \<and> plain_string s \<and> reads n t v) items (key_sorted_entries d)"
  "json_elements pretty depth xs = Inr ts \<Longrightarrow> json_plain_items xs \<Longrightarrow> nesting_items xs \<le> n \<Longrightarrow>
     list_all2 (reads n) ts (key_sorted_items xs)"
proof (induction pretty depth v and pretty depth d and pretty depth xs arbitrary: t n and items n and ts n
    rule: json_text_json_entries_json_elements.induct)
  case (1 pretty depth)
  then show ?case by (auto simp: reads_def starts_value_def lit_def is_space_def scan_word_def)
next
  case (2 pretty depth b)
  then show ?case by (cases b) (auto simp: reads_def starts_value_def lit_def is_space_def scan_word_def)
next
  case (3 pretty depth m)
  obtain c r where c: "int_text m = c # r" "c = 45 \<or> is_digit c" "c = 45 \<longrightarrow> r \<noteq> [] \<and> is_digit (hd r)"
    using int_text_starts by blast
  have "json_value n (int_text m @ rest) = Inr (PInt m, rest)" if rest: "delimited rest" for rest
  proof -
    have "scan_word (c # r @ rest) = scan_number (c # r @ rest)"
    proof -
      have "c \<noteq> 110" "c \<noteq> 116" "c \<noteq> 102" "c \<noteq> 78" "c \<noteq> 73" using c(2) by (auto simp: is_digit_def)
      moreover have "\<not> (c = 45 \<and> prefix (73 # x) (r @ rest))" for x
        using c(3) by (cases r) (auto simp: is_digit_def)
      ultimately show ?thesis by (auto simp: scan_word_def lit_def)
    qed
    moreover have "scan_number (c # r @ rest) = Inr (PInt m, rest)"
      using scan_int [OF rest, of m] "3.prems"(2) c(1) by simp
    moreover have "c \<noteq> 34" "c \<noteq> 123" "c \<noteq> 91" using c(2) by (auto simp: is_digit_def)
    ultimately show ?thesis by (simp add: c(1))
  qed
  moreover have "starts_value (int_text m)" using c by (auto simp: starts_value_def is_space_def is_digit_def)
  ultimately show ?case using 3 by (simp add: reads_def)
next
  case (4 pretty depth s)
  then show ?case
    using scan_printed [of s] by (auto simp: reads_def starts_value_def json_string_def is_space_def)
next
  case (5 pretty depth xs)
  obtain ts where ts: "json_elements pretty (Suc depth) xs = Inr ts" "t = bracketed pretty depth ''['' '']'' ts"
    using "5.prems"(1) by auto
  obtain n' where n: "n = Suc n'" "nesting_items xs \<le> n'" using "5.prems"(3) by (cases n) auto
  have all: "list_all2 (reads n') ts (key_sorted_items xs)" using "5.IH" ts(1) "5.prems"(2) n(2) by simp
  show ?case
  proof (cases "ts = []")
    case True
    then have "key_sorted_items xs = []" using all by simp
    then show ?thesis
      using True by (simp add: ts(2) n(1) bracketed_def reads_def starts_value_def lit_def is_space_def skip_none punctuation)
  next
    case False
    have starts: "\<forall>t\<in>set ts. starts_value t" using all by (auto simp: list_all2_conv_all_nth in_set_conv_nth reads_def)
    obtain w w' where w: "spaces w" "spaces w'" "t = lit ''['' @ w @ join (44 # w) ts @ w' @ lit '']''"
      using bracketed_read(1) [OF starts False] unfolding ts(2) by metis
    note skip = bracketed_read(2) [OF starts False, of w]
    have "\<not> prefix (lit '']'') (join (44 # w) ts @ s)" for s
      using starts False by (cases ts) (auto simp: join_def starts_value_def lit_def neq_Nil_conv)
    moreover have "json_items n' k (join (44 # w) ts @ w' @ 93 # rest) [] = Inr (PList (key_sorted_items xs), rest)"
      if "length ts \<le> k" for k rest
      using items_read [OF all False that w(1,2), of rest "[]"] by simp
    ultimately show ?thesis
      using bracketed_read(3) [OF starts False, of w]
      by (simp add: w(3) n(1) reads_def starts_value_def lit_def is_space_def skip_spaces [OF w(1)] skip
          del: json_items.simps)
  qed
next
  case (6 pretty depth d)
  obtain items where items: "json_entries pretty (Suc depth) d = Inr items"
    "t = bracketed pretty depth ''{'' ''}'' (map (entry_text pretty) (sort_key fst items))"
    using "6.prems"(1) by auto
  obtain n' where n: "n = Suc n'" "nesting_entries d \<le> n'" using "6.prems"(3) by (cases n) auto
  let ?entry = "\<lambda>(s, t) (k, v). k = KStr s \<and> plain_string s \<and> reads n' t v"
  define sorted_items where "sorted_items = sort_key fst items"
  define sorted_d where "sorted_d = sort_key (\<lambda>(k, v). key_text k) (key_sorted_entries d)"
  have "list_all2 ?entry items (key_sorted_entries d)" using "6.IH" items(1) "6.prems"(2) n(2) by simp
  then have all: "list_all2 ?entry sorted_items sorted_d"
    unfolding sorted_items_def sorted_d_def by (rule sort_rel) (auto simp: key_text_def)
  have distinct: "distinct (map fst ([] @ sorted_d))"
    using "6.prems"(2) by (simp add: sorted_d_def distinct_sorted_entries)
  let ?ts = "map (entry_text pretty) sorted_items"
  have t: "t = bracketed pretty depth ''{'' ''}'' ?ts" by (simp add: items(2) sorted_items_def)
  show ?case
  proof (cases "sorted_items = []")
    case True
    then have "sorted_d = []" using all by simp
    then show ?thesis
      using True by (simp add: t sorted_d_def n(1) bracketed_def reads_def starts_value_def lit_def is_space_def skip_none punctuation)
  next
    case False
    have starts: "\<forall>t\<in>set ?ts. starts_value t" by (simp add: entry_starts)
    have some: "?ts \<noteq> []" using False by simp
    obtain w w' where w: "spaces w" "spaces w'" "t = lit ''{'' @ w @ join (44 # w) ?ts @ w' @ lit ''}''"
      using bracketed_read(1) [OF starts some] unfolding t by metis
    note skip = bracketed_read(2) [OF starts some, of w]
    have "\<not> prefix (lit ''}'') (join (44 # w) ?ts @ s)" for s
      using starts False by (cases sorted_items) (auto simp: join_def starts_value_def lit_def neq_Nil_conv)
    moreover have "json_members n' k (join (44 # w) ?ts @ w' @ 125 # rest) [] = Inr (PDict sorted_d, rest)"
      if "length ?ts \<le> k" for k rest
      using members_read [OF all False _ distinct w(1,2), where k = k and rest = rest and pretty = pretty] that by simp
    ultimately show ?thesis
      using bracketed_read(3) [OF starts some, of w]
      by (simp add: w(3) n(1) reads_def starts_value_def lit_def is_space_def skip_spaces [OF w(1)] skip sorted_d_def
          del: json_members.simps)
  qed
next
  case (7 pretty depth i)
  then show ?case by simp
next
  case (8 pretty depth)
  then show ?case by simp
next
  case (9 pretty depth k v rest)
  obtain s t items' where "k = KStr s" "json_text pretty depth v = Inr t" "json_entries pretty depth rest = Inr items'"
    "items = (s, t) # items'"
    using "9.prems"(1) by (cases k) auto
  then show ?case using "9.IH" "9.prems"(2,3) by simp
next
  case (10 pretty depth)
  then show ?case by simp
next
  case (11 pretty depth v rest)
  obtain t ts' where "json_text pretty depth v = Inr t" "json_elements pretty depth rest = Inr ts'" "ts = t # ts'"
    using "11.prems"(1) by auto
  then show ?case using "11.IH" "11.prems"(2,3) by simp
qed

text \<open>The same values, in Python's sense of equality.\<close>

lemma items_eq_iff:
  "items_eq d d' \<longleftrightarrow> (\<forall>(k, v)\<in>set d. \<exists>w. map_of d' k = Some w \<and> py_eq v w)"
  by (induction d) (auto split: option.splits)

lemma key_sorted_eq:
  "json_plain v \<Longrightarrow> py_eq (key_sorted v) v"
  "json_plain_entries d \<Longrightarrow> length (key_sorted_entries d) = length d
     \<and> (\<forall>(k, v')\<in>set (key_sorted_entries d). \<exists>v. (k, v) \<in> set d \<and> py_eq v' v)"
  "json_plain_items xs \<Longrightarrow> elements_eq (key_sorted_items xs) xs"
proof (induction v and d and xs rule: key_sorted_key_sorted_entries_key_sorted_items.induct)
  case (1 d)
  then show ?case by (fastforce simp: items_eq_iff intro: map_of_is_SomeI)
qed fastforce+

theorem loads_dumped:
  assumes "json_text pretty 0 v = Inr t" and "json_plain v" and "nesting v \<le> n" and "spaces w"
  shows "json_loads n (t @ w) = Inr (key_sorted v)"
proof -
  have r: "reads n t (key_sorted v)" using values_read(1) [OF assms(1-3)] .
  have "skip_space w = []" using skip_spaces [OF assms(4), of "[]"] by (simp add: skip_space_def)
  moreover have "delimited w" using assms(4) by (cases w) (simp_all add: delimited_def spaces_def)
  moreover have "\<not> prefix [0xFEFF] (t @ w)" using r by (cases t) (auto simp: reads_def starts_value_def)
  moreover have "skip_space (t @ w) = t @ w" using r skip_start by (simp add: reads_def)
  ultimately show ?thesis using r by (simp add: json_loads_def reads_def)
qed


section \<open>Plain strings\<close>

lemma plain_ascii: "ascii s \<Longrightarrow> plain_string s"
  by (fastforce simp: plain_string_def is_surrogate_def)

lemma plain_append [simp]: "plain_string (s @ t) \<longleftrightarrow> plain_string s \<and> plain_string t"
  by (auto simp: plain_string_def)

lemma plain_lit [simp]: "plain_string (lit s)"
proof -
  have "of_char c < (256::nat)" for c :: char
    by (metis mod_less_divisor of_char_mod_256 zero_less_numeral)
  then have "c < 256" if "c \<in> set (lit s)" for c using that by (auto simp: lit_def)
  then show ?thesis by (fastforce simp: plain_string_def is_surrogate_def)
qed

lemma plain_digits_text [simp]: "plain_string (digits_text k n)"
  by (induction k n rule: digits_text.induct) (auto simp: plain_string_def is_surrogate_def)

lemma plain_nat_text [simp]: "plain_string (nat_text n)"
  by (rule plain_ascii) (rule ascii_nat_text)

end
