(* ===== verification/ReleaseRecords.thy ===== *)
theory ReleaseRecords
  imports Artifacts JsonRoundTrip "HOL-Library.Product_Lexorder"
begin

text \<open>
  \<open>compare_artifacts.py\<close>, which requires two build directories to hold the same two files, and
  \<open>generate_sbom.py\<close>, which writes the software bill of materials of a release. A directory is what
  \<open>iterdir\<close> yields, in any order; an artifact is its name and its contents.
\<close>

section \<open>compare_artifacts.py\<close>

definition dir_checksums :: "(pystr \<times> bytes option) list \<Rightarrow> (pystr \<times> pystr) list" where
  \<comment> \<open>\<open>{path.name: sha256(path) for path in directory.iterdir() if path.is_file()}\<close>\<close>
  "dir_checksums directory =
     foldl (\<lambda>d (name, data). case data of None \<Rightarrow> d | Some content \<Rightarrow> AList.update name (file_sha256 content) d) [] directory"

definition checksum_dict :: "(pystr \<times> pystr) list \<Rightarrow> pydict" where
  "checksum_dict d = map (\<lambda>(name, checksum). (KStr name, PStr checksum)) d"

definition compare_artifacts :: "(pystr \<times> bytes option) list \<Rightarrow> (pystr \<times> bytes option) list \<Rightarrow> pystr list result" where
  \<comment> \<open>the printed lines\<close>
  "compare_artifacts directory1 directory2 =
     (let first = dir_checksums directory1; second = dir_checksums directory2 in
     bindE (check (py_eq (PDict (checksum_dict first)) (PDict (checksum_dict second)))) (\<lambda>_.
     bindE (check (length first = 2)) (\<lambda>_.
     Inr (map (\<lambda>(name, checksum). checksum @ lit ''  '' @ name) (sort first)))))"

section \<open>generate_sbom.py\<close>

definition artifact_checksums :: "(pystr \<times> bytes) list \<Rightarrow> (pystr \<times> pystr) list" where
  "artifact_checksums artifacts = foldl (\<lambda>d (name, data). AList.update name (file_sha256 data) d) [] artifacts"

definition unix_epoch :: int where
  \<comment> \<open>1970-01-01, in microseconds since 0001-01-01\<close>
  "unix_epoch = 719162 * day_micros"

definition fromtimestamp_utc :: "int \<Rightarrow> int result" where
  \<comment> \<open>\<open>datetime.fromtimestamp(epoch, UTC)\<close>; outside years 1 to 9999 it raises, here always \<open>ValueError\<close>\<close>
  "fromtimestamp_utc epoch =
     (let i = unix_epoch + epoch * 1000000 in if 0 \<le> i \<and> i < max_instant then Inr i else Inl ValueError)"

definition strftime_seconds :: "int \<Rightarrow> pystr" where
  \<comment> \<open>\<open>strftime("%Y-%m-%dT%H:%M:%SZ")\<close>\<close>
  "strftime_seconds i =
     (let c = civil_of i
      in digits_text 4 (cv_year c) @ lit ''-'' @ digits_text 2 (cv_month c) @ lit ''-'' @ digits_text 2 (cv_day c)
         @ lit ''T'' @ digits_text 2 (cv_hour c) @ lit '':'' @ digits_text 2 (cv_minute c) @ lit '':''
         @ digits_text 2 (cv_second c) @ lit ''Z'')"

definition artifact_id :: "nat \<Rightarrow> pystr" where
  "artifact_id index = lit ''SPDXRef-Artifact-'' @ nat_text index"

definition sbom_file :: "(pystr \<times> pystr) list \<Rightarrow> nat \<times> pystr \<times> bytes \<Rightarrow> pyval result" where
  "sbom_file checksums artifact =
     (case artifact of (index, name, _) \<Rightarrow>
        (case map_of checksums name of
          None \<Rightarrow> Inl KeyError
        | Some checksum \<Rightarrow>
            Inr (PDict
              [fld ''SPDXID'' (PStr (artifact_id index)),
               fld ''checksums'' (PList [PDict [fld ''algorithm'' (PStr (lit ''SHA256'')), fld ''checksumValue'' (PStr checksum)]]),
               fld ''copyrightText'' (PStr (lit ''NOASSERTION'')), fld ''fileName'' (PStr name),
               fld ''licenseConcluded'' (PStr (lit ''NOASSERTION''))])))"

definition sbom_relationship :: "string \<Rightarrow> string \<Rightarrow> pystr \<Rightarrow> pyval" where
  "sbom_relationship source kind related =
     PDict [fld ''spdxElementId'' (PStr (lit source)), fld ''relationshipType'' (PStr (lit kind)),
            fld ''relatedSpdxElement'' (PStr related)]"

definition sbom_document :: "pystr \<Rightarrow> pystr \<Rightarrow> pyval list \<Rightarrow> pyval list \<Rightarrow> pydict" where
  "sbom_document created namespace_digest files relationships =
     [fld ''SPDXID'' (PStr (lit ''SPDXRef-DOCUMENT'')),
      fld ''creationInfo'' (PDict [fld ''created'' (PStr created),
        fld ''creators'' (PList [PStr (lit ''Tool: '' @ DISTRIBUTION @ lit ''/generate_sbom.py-'' @ VERSION)])]),
      fld ''dataLicense'' (PStr (lit ''CC0-1.0'')),
      fld ''documentNamespace'' (PStr (lit ''https://github.com/zephytiju/'' @ DISTRIBUTION @ lit ''/sbom/'' @ namespace_digest)),
      fld ''files'' (PList files),
      fld ''name'' (PStr (DISTRIBUTION @ lit ''-'' @ VERSION @ lit ''-release'')),
      fld ''packages'' (PList [PDict
        [fld ''SPDXID'' (PStr (lit ''SPDXRef-Package'')),
         fld ''copyrightText'' (PStr (lit ''Copyright 2026 Meridian contributors'')),
         fld ''downloadLocation'' (PStr (lit ''NOASSERTION'')),
         fld ''externalRefs'' (PList [PDict
           [fld ''referenceCategory'' (PStr (lit ''PACKAGE-MANAGER'')),
            fld ''referenceLocator'' (PStr (lit ''pkg:pypi/'' @ DISTRIBUTION @ lit ''@'' @ VERSION)),
            fld ''referenceType'' (PStr (lit ''purl''))]]),
         fld ''filesAnalyzed'' (PBool False), fld ''licenseConcluded'' (PStr (lit ''Apache-2.0'')),
         fld ''licenseDeclared'' (PStr (lit ''Apache-2.0'')), fld ''name'' (PStr DISTRIBUTION),
         fld ''supplier'' (PStr (lit ''Organization: Meridian contributors'')), fld ''versionInfo'' (PStr VERSION)]]),
      fld ''relationships'' (PList relationships), fld ''spdxVersion'' (PStr (lit ''SPDX-2.3''))]"

definition generate_sbom :: "(pystr \<times> bytes) list \<Rightarrow> int \<Rightarrow> (pydict \<times> pystr) result" where
  \<comment> \<open>the document, and the text that is written\<close>
  "generate_sbom arguments epoch =
     (let artifacts = sort_key fst arguments; checksums = artifact_checksums artifacts;
          numbered = zip [1 ..< Suc (length artifacts)] artifacts in
     bindE (json_text False 0 (PDict (checksum_dict checksums))) (\<lambda>listing.
     bindE (utf8_encode listing) (\<lambda>raw.
     let namespace_digest = file_sha256 (map of_nat raw) in
     bindE (fromtimestamp_utc epoch) (\<lambda>i.
     bindE (mapE (sbom_file checksums) numbered) (\<lambda>files.
     let relationships = sbom_relationship ''SPDXRef-DOCUMENT'' ''DESCRIBES'' (lit ''SPDXRef-Package'')
           # map (\<lambda>(index, _). sbom_relationship ''SPDXRef-Package'' ''GENERATES'' (artifact_id index)) numbered;
         document = sbom_document (strftime_seconds i) namespace_digest files relationships in
     bindE (json_text True 0 (PDict document)) (\<lambda>content.
     Inr (document, content @ [10])))))))"

section \<open>Directories are compared by contents\<close>

fun dir_files :: "(pystr \<times> bytes option) list \<Rightarrow> (pystr \<times> pystr) list" where
  "dir_files [] = []"
| "dir_files ((name, None) # rest) = dir_files rest"
| "dir_files ((name, Some content) # rest) = (name, file_sha256 content) # dir_files rest"

definition listing :: "(pystr \<times> bytes option) list \<Rightarrow> (pystr \<times> pystr) list" where
  \<comment> \<open>the files of a directory with their checksums, in the order of the names\<close>
  "listing directory = sort (dir_files directory)"

lemma dir_files_names: "fst ` set (dir_files directory) \<subseteq> fst ` set directory"
  by (induction directory rule: dir_files.induct) auto

lemma dir_files_distinct: "distinct (map fst directory) \<Longrightarrow> distinct (map fst (dir_files directory))"
proof (induction directory rule: dir_files.induct)
  case (3 name content rest)
  then show ?case using dir_files_names [of rest] by auto
qed simp_all

lemma dir_checksums_files:
  assumes "distinct (map fst directory)"
  shows "dir_checksums directory = dir_files directory"
proof -
  have "foldl (\<lambda>d (name, data). case data of None \<Rightarrow> d | Some content \<Rightarrow> AList.update name (file_sha256 content) d) d directory
      = d @ dir_files directory" if "fst ` set d \<inter> fst ` set directory = {}" for d
    using assms that by (induction directory arbitrary: d rule: dir_files.induct) (auto simp: update_new)
  then show ?thesis by (simp add: dir_checksums_def)
qed

lemma checksum_items_eq: "items_eq (checksum_dict d) (checksum_dict e) \<longleftrightarrow> (\<forall>(k, v)\<in>set d. map_of e k = Some v)"
proof -
  have found: "map_of (checksum_dict e) (KStr k) = map_option PStr (map_of e k)" for k
    by (induction e) (auto simp: checksum_dict_def)
  show ?thesis
    by (induction d) (auto simp: checksum_dict_def found [unfolded checksum_dict_def] split: option.splits)
qed

lemma sort_eq_iff: "sort d = sort e \<longleftrightarrow> mset d = mset e"
  by (metis mset_sort properties_for_sort sorted_sort)

lemma checksum_dict_eq:
  assumes "distinct (map fst d)" and "distinct (map fst e)"
  shows "py_eq (PDict (checksum_dict d)) (PDict (checksum_dict e)) \<longleftrightarrow> sort d = sort e"
proof -
  have dist: "distinct d" "distinct e" using assms by (simp_all add: distinct_map)
  have "py_eq (PDict (checksum_dict d)) (PDict (checksum_dict e)) \<longleftrightarrow> length d = length e \<and> set d \<subseteq> set e"
    using assms(2) by (auto simp: checksum_items_eq checksum_dict_def [of d, THEN arg_cong [of _ _ length]]
        checksum_dict_def [of e, THEN arg_cong [of _ _ length]])
  also have "\<dots> \<longleftrightarrow> set d = set e"
    using distinct_card [OF dist(1)] distinct_card [OF dist(2)] card_subset_eq [of "set e" "set d"] by auto
  also have "\<dots> \<longleftrightarrow> mset d = mset e" using dist by (rule set_eq_iff_mset_eq_distinct)
  also have "\<dots> \<longleftrightarrow> sort d = sort e" by (simp only: sort_eq_iff)
  finally show ?thesis .
qed

text \<open>
  Two builds are compared by contents alone: in whatever order the directories list their files, the
  check passes exactly when they hold the same two files with the same SHA-256, and then prints them in
  the order of their names.
\<close>

lemma compared:
  assumes "distinct (map fst directory1)" and "distinct (map fst directory2)"
  shows "compare_artifacts directory1 directory2 =
    (if listing directory1 = listing directory2 \<and> length (listing directory1) = 2
     then Inr (map (\<lambda>(name, checksum). checksum @ lit ''  '' @ name) (listing directory1)) else Inl AssertionError)"
  using checksum_dict_eq [OF dir_files_distinct [OF assms(1)] dir_files_distinct [OF assms(2)]]
  by (simp add: compare_artifacts_def dir_checksums_files assms listing_def check_def raise_unless_def Let_def)

section \<open>The bill of materials\<close>

lemma artifact_checksums_files:
  assumes "distinct (map fst artifacts)"
  shows "artifact_checksums artifacts = map (\<lambda>(name, data). (name, file_sha256 data)) artifacts"
proof -
  have "foldl (\<lambda>d (name, data). AList.update name (file_sha256 data) d) d artifacts
      = d @ map (\<lambda>(name, data). (name, file_sha256 data)) artifacts" if "fst ` set d \<inter> fst ` set artifacts = {}" for d
    using assms that by (induction artifacts arbitrary: d) (auto simp: update_new)
  then show ?thesis by (simp add: artifact_checksums_def)
qed

definition described :: "nat \<times> pystr \<times> bytes \<Rightarrow> pyval" where
  \<comment> \<open>the entry of one artifact, with the checksum of its own contents\<close>
  "described artifact =
     (case artifact of (index, name, data) \<Rightarrow>
        PDict
          [fld ''SPDXID'' (PStr (artifact_id index)),
           fld ''checksums'' (PList [PDict [fld ''algorithm'' (PStr (lit ''SHA256'')),
             fld ''checksumValue'' (PStr (file_sha256 data))]]),
           fld ''copyrightText'' (PStr (lit ''NOASSERTION'')), fld ''fileName'' (PStr name),
           fld ''licenseConcluded'' (PStr (lit ''NOASSERTION''))])"

abbreviation numbered :: "(pystr \<times> bytes) list \<Rightarrow> (nat \<times> pystr \<times> bytes) list" where
  "numbered artifacts \<equiv> zip [1 ..< Suc (length artifacts)] artifacts"

lemma sbom_files:
  assumes "distinct (map fst artifacts)"
  shows "mapE (sbom_file (artifact_checksums artifacts)) (numbered artifacts) = Inr (map described (numbered artifacts))"
proof -
  have "sbom_file (artifact_checksums artifacts) (index, name, data) = Inr (described (index, name, data))"
    if "(name, data) \<in> set artifacts" for index name data
  proof -
    have "map_of (artifact_checksums artifacts) name = Some (file_sha256 data)"
      using assms that by (force simp: artifact_checksums_files comp_def split_def intro!: map_of_is_SomeI)
    then show ?thesis by (simp add: sbom_file_def described_def)
  qed
  then show ?thesis
    by (auto simp: mapE_Inr_iff list_all2_map2 list.rel_refl_strong dest: set_zip_rightD intro!: list.rel_refl_strong)
qed

lemma sbom_printable:
  "printable_elements (map described items)"
  "printable_elements (map (\<lambda>(index, _). sbom_relationship source kind (artifact_id index)) items)"
  by (induction items) (auto simp: described_def sbom_relationship_def)

lemma checksum_dict_prints: "printable (PDict (checksum_dict d))"
  by (induction d) (auto simp: checksum_dict_def)

lemma plain_hexdigest [simp]: "plain_string (hexdigest bs)"
  by (rule plain_ascii) (auto dest: hexdigest_lower)

lemma plain_parts [simp]:
  "plain_string DISTRIBUTION" "plain_string VERSION" "plain_string (file_sha256 data)" "plain_string (artifact_id index)"
  "plain_string (strftime_seconds i)"
  by (simp_all add: DISTRIBUTION_def VERSION_def file_sha256_def artifact_id_def strftime_seconds_def Let_def)

lemma sbom_built:
  assumes "distinct (map fst arguments)" and "fromtimestamp_utc epoch = Inr i"
  shows "\<exists>files relationships digest_text content.
    generate_sbom arguments epoch = Inr (sbom_document (strftime_seconds i) digest_text files relationships, content @ [10])
    \<and> files = map described (numbered (sort_key fst arguments))
    \<and> (\<exists>xs. relationships = sbom_relationship ''SPDXRef-DOCUMENT'' ''DESCRIBES'' (lit ''SPDXRef-Package'')
         # map (sbom_relationship ''SPDXRef-Package'' ''GENERATES'') (map artifact_id xs))
    \<and> plain_string digest_text
    \<and> json_text True 0 (PDict (sbom_document (strftime_seconds i) digest_text files relationships)) = Inr content"
proof -
  let ?artifacts = "sort_key fst arguments"
  have distinct: "distinct (map fst ?artifacts)"
    using assms(1) by (metis distinct_map distinct_sort set_sort)
  obtain text1 where listing: "json_text False 0 (PDict (checksum_dict (artifact_checksums ?artifacts))) = Inr text1"
    using json_text_prints(1) [OF checksum_dict_prints] by blast
  have raw: "utf8_encode text1 = Inr text1"
    by (rule utf8_encode_ascii) (rule json_text_ascii(1) [OF listing])
  define files where "files = map described (numbered ?artifacts)"
  define relationships where "relationships = sbom_relationship ''SPDXRef-DOCUMENT'' ''DESCRIBES'' (lit ''SPDXRef-Package'')
       # map (\<lambda>(index, _). sbom_relationship ''SPDXRef-Package'' ''GENERATES'' (artifact_id index)) (numbered ?artifacts)"
  define document where "document = sbom_document (strftime_seconds i) (file_sha256 (map of_nat text1)) files relationships"
  have "printable (PDict document)"
    using sbom_printable by (simp add: document_def sbom_document_def files_def relationships_def) (simp add: sbom_relationship_def)
  then obtain text2 where content: "json_text True 0 (PDict document) = Inr text2"
    using json_text_prints(1) by blast
  have "generate_sbom arguments epoch = Inr (document, text2 @ [10])"
    using listing raw assms(2) sbom_files [OF distinct] content
    by (simp add: generate_sbom_def Let_def document_def files_def relationships_def del: json_text.simps upt_Suc)
  moreover have "relationships = sbom_relationship ''SPDXRef-DOCUMENT'' ''DESCRIBES'' (lit ''SPDXRef-Package'')
       # map (sbom_relationship ''SPDXRef-Package'' ''GENERATES'') (map artifact_id (map fst (numbered ?artifacts)))"
    unfolding relationships_def map_map comp_def split_def ..
  moreover have "plain_string (file_sha256 (map of_nat text1))" by simp
  ultimately show ?thesis using content unfolding document_def files_def by blast
qed

lemma sbom_written:
  assumes "distinct (map fst arguments)" and "fromtimestamp_utc epoch = Inr i"
  shows "\<exists>document content. generate_sbom arguments epoch = Inr (document, content)
    \<and> dget document ''files'' = Some (PList (map described (numbered (sort_key fst arguments))))"
proof -
  have "dget (sbom_document created digest_text files relationships) ''files'' = Some (PList files)"
    for created digest_text files relationships
    by (simp add: sbom_document_def wire_simps)
  then show ?thesis using sbom_built [OF assms] by metis
qed

text \<open>
  C34. The bill of materials is reproducible and correct: for artifacts with distinct names and any build
  time within years 1 to 9999 it is written, whatever the order in which the artifacts are given the
  document and the written bytes are the same, and its files are exactly the artifacts in the order of
  their names, each with the SHA-256 of its own contents.
\<close>

theorem sbom_reproducible:
  assumes "distinct (map fst arguments)" and "mset arguments' = mset arguments" and "fromtimestamp_utc epoch = Inr i"
  shows "\<exists>document content. generate_sbom arguments epoch = Inr (document, content)
    \<and> generate_sbom arguments' epoch = Inr (document, content)
    \<and> dget document ''files'' = Some (PList (map described (numbered (sort_key fst arguments))))"
proof -
  have "sort_key fst arguments' = sort_key fst arguments"
    using sort_key_unique [OF assms(1) assms(2) [symmetric]] by simp
  then have "generate_sbom arguments' epoch = generate_sbom arguments epoch" by (simp add: generate_sbom_def)
  then show ?thesis using sbom_written [OF assms(1,3)] by simp
qed

theorem sbom_reproducible_witness:
  "\<exists>document content. generate_sbom [(lit ''m.whl'', [1]), (lit ''m.tar.gz'', [2])] 0 = Inr (document, content)
     \<and> generate_sbom [(lit ''m.tar.gz'', [2]), (lit ''m.whl'', [1])] 0 = Inr (document, content)"
proof -
  have "fromtimestamp_utc 0 = Inr unix_epoch"
    by (simp add: fromtimestamp_utc_def unix_epoch_def max_instant_def day_micros_def)
  from sbom_reproducible [OF _ _ this, of "[(lit ''m.whl'', [1]), (lit ''m.tar.gz'', [2])]"
      "[(lit ''m.tar.gz'', [2]), (lit ''m.whl'', [1])]"]
  show ?thesis by auto
qed

section \<open>The written text\<close>

lemma files_plain:
  assumes "\<forall>(index, name, data)\<in>set items. plain_string name"
  shows "json_plain_items (map described items)" "nesting_items (map described items) \<le> 3"
  using assms by (induction items) (auto simp: described_def)

lemma relationships_plain:
  assumes "\<forall>related\<in>set items. plain_string related"
  shows "json_plain_items (map (sbom_relationship source kind) items)" "nesting_items (map (sbom_relationship source kind) items) \<le> 1"
  using assms by (induction items) (auto simp: sbom_relationship_def)

lemma sbom_plain:
  assumes "json_plain_items files" "nesting_items files \<le> 3" and "json_plain_items relationships" "nesting_items relationships \<le> 1"
    and "plain_string created" and "plain_string digest_text"
  shows "json_plain (PDict (sbom_document created digest_text files relationships))
    \<and> nesting (PDict (sbom_document created digest_text files relationships)) \<le> 5"
  using assms by (simp add: sbom_document_def)

text \<open>
  C35. The written bill of materials is valid JSON that says what was meant: for artifacts with distinct
  names that are Unicode text, \<open>json.loads\<close> accepts the written text on any stack that allows five nested
  containers, and yields a document equal to the one that was built, which lists the artifacts.
\<close>

theorem sbom_read_back:
  assumes "distinct (map fst arguments)" and "\<forall>name\<in>fst ` set arguments. plain_string name"
    and "fromtimestamp_utc epoch = Inr i" and "5 \<le> depth"
  shows "\<exists>document content v. generate_sbom arguments epoch = Inr (document, content) \<and> json_loads depth content = Inr v
    \<and> py_eq v (PDict document)
    \<and> dget document ''files'' = Some (PList (map described (numbered (sort_key fst arguments))))"
proof -
  obtain files relationships digest_text content where built:
      "generate_sbom arguments epoch = Inr (sbom_document (strftime_seconds i) digest_text files relationships, content @ [10])"
      "files = map described (numbered (sort_key fst arguments))"
      "\<exists>xs. relationships = sbom_relationship ''SPDXRef-DOCUMENT'' ''DESCRIBES'' (lit ''SPDXRef-Package'')
         # map (sbom_relationship ''SPDXRef-Package'' ''GENERATES'') (map artifact_id xs)"
      "plain_string digest_text" "json_text True 0 (PDict (sbom_document (strftime_seconds i) digest_text files relationships)) = Inr content"
    using sbom_built [OF assms(1,3)] by blast
  have "\<forall>(index, name, data)\<in>set (numbered (sort_key fst arguments)). plain_string name"
    using assms(2) by (force dest!: set_zip_rightD)
  note files = files_plain [OF this, folded built(2)]
  have rel: "json_plain_items relationships" "nesting_items relationships \<le> 1"
    using built(3) relationships_plain [of "map artifact_id _"] by (auto simp: sbom_relationship_def)
  have "plain_string (strftime_seconds i)" by simp
  from sbom_plain [OF files rel this built(4)]
  have plain: "json_plain (PDict (sbom_document (strftime_seconds i) digest_text files relationships))"
    "nesting (PDict (sbom_document (strftime_seconds i) digest_text files relationships)) \<le> depth"
    using order_trans [OF _ assms(4)] by blast+
  have "spaces [10]" by (simp add: spaces_def is_space_def)
  then have "json_loads depth (content @ [10]) = Inr (key_sorted (PDict (sbom_document (strftime_seconds i) digest_text files relationships)))"
    using loads_dumped [OF built(5) plain] by simp
  moreover have "dget (sbom_document (strftime_seconds i) digest_text files relationships) ''files'' = Some (PList files)"
    by (simp add: sbom_document_def wire_simps)
  ultimately show ?thesis using built(1,2) key_sorted_eq(1) [OF plain(1)] by blast
qed

theorem sbom_read_back_witness:
  "\<exists>document content v. generate_sbom [(lit ''m.whl'', [1]), (lit ''m.tar.gz'', [2])] 0 = Inr (document, content)
     \<and> json_loads 900 content = Inr v \<and> py_eq v (PDict document)"
proof -
  have "fromtimestamp_utc 0 = Inr unix_epoch"
    by (simp add: fromtimestamp_utc_def unix_epoch_def max_instant_def day_micros_def)
  from sbom_read_back [OF _ _ this, of "[(lit ''m.whl'', [1]), (lit ''m.tar.gz'', [2])]" 900]
  show ?thesis by auto
qed

end
