(* ===== verification/Errors.thy ===== *)
theory Errors
  imports Prelude
begin

text \<open>
  The failure taxonomy of \<open>errors.py\<close>: the stable codes, the constructors of the exception classes
  with the code, message and keyword arguments each passes to its base class, and the classifier
  that maps a provider's failure kind to a class. The base classes are in
  \<open>meridian_storage.errors\<close>, outside this repository; what reaches them is the record
  \<open>failure\<close>, where \<open>retryable = None\<close> means that this package passes no such argument.
\<close>

section \<open>Error codes\<close>

datatype object_error_code =
    INVALID_REQUEST
  | NOT_FOUND
  | CONDITIONAL_CONFLICT
  | IMMUTABLE
  | RETENTION_DENIED
  | DIGEST_MISMATCH
  | INCOMPLETE_UPLOAD
  | PAYLOAD_UNAVAILABLE
  | RANGE_NOT_SATISFIABLE
  | MULTIPART_INVALID
  | CAPABILITY_MISMATCH
  | AUTHENTICATION
  | AUTHORIZATION
  | QUOTA
  | RATE_LIMIT
  | TRANSFER_CANCELLED
  | UNAVAILABLE

fun code_value :: "object_error_code \<Rightarrow> string" where
  "code_value INVALID_REQUEST = ''MERIDIAN_OBJECT_INVALID_REQUEST''"
| "code_value NOT_FOUND = ''MERIDIAN_OBJECT_NOT_FOUND''"
| "code_value CONDITIONAL_CONFLICT = ''MERIDIAN_OBJECT_CONDITIONAL_CONFLICT''"
| "code_value IMMUTABLE = ''MERIDIAN_OBJECT_IMMUTABLE''"
| "code_value RETENTION_DENIED = ''MERIDIAN_OBJECT_RETENTION_DENIED''"
| "code_value DIGEST_MISMATCH = ''MERIDIAN_OBJECT_DIGEST_MISMATCH''"
| "code_value INCOMPLETE_UPLOAD = ''MERIDIAN_OBJECT_INCOMPLETE_UPLOAD''"
| "code_value PAYLOAD_UNAVAILABLE = ''MERIDIAN_OBJECT_PAYLOAD_UNAVAILABLE''"
| "code_value RANGE_NOT_SATISFIABLE = ''MERIDIAN_OBJECT_RANGE_NOT_SATISFIABLE''"
| "code_value MULTIPART_INVALID = ''MERIDIAN_OBJECT_MULTIPART_INVALID''"
| "code_value CAPABILITY_MISMATCH = ''MERIDIAN_OBJECT_CAPABILITY_MISMATCH''"
| "code_value AUTHENTICATION = ''MERIDIAN_OBJECT_AUTHENTICATION''"
| "code_value AUTHORIZATION = ''MERIDIAN_OBJECT_AUTHORIZATION''"
| "code_value QUOTA = ''MERIDIAN_OBJECT_QUOTA''"
| "code_value RATE_LIMIT = ''MERIDIAN_OBJECT_RATE_LIMIT''"
| "code_value TRANSFER_CANCELLED = ''MERIDIAN_OBJECT_TRANSFER_CANCELLED''"
| "code_value UNAVAILABLE = ''MERIDIAN_OBJECT_UNAVAILABLE''"

instantiation object_error_code :: enum
begin

definition enum_object_error_code :: "object_error_code list" where
  "enum_object_error_code =
     [INVALID_REQUEST, NOT_FOUND, CONDITIONAL_CONFLICT, IMMUTABLE, RETENTION_DENIED, DIGEST_MISMATCH,
      INCOMPLETE_UPLOAD, PAYLOAD_UNAVAILABLE, RANGE_NOT_SATISFIABLE, MULTIPART_INVALID,
      CAPABILITY_MISMATCH, AUTHENTICATION, AUTHORIZATION, QUOTA, RATE_LIMIT, TRANSFER_CANCELLED,
      UNAVAILABLE]"

definition enum_all_object_error_code :: "(object_error_code \<Rightarrow> bool) \<Rightarrow> bool" where
  "enum_all_object_error_code P \<longleftrightarrow> list_all P enum_class.enum"

definition enum_ex_object_error_code :: "(object_error_code \<Rightarrow> bool) \<Rightarrow> bool" where
  "enum_ex_object_error_code P \<longleftrightarrow> list_ex P enum_class.enum"

instance
proof
  have univ: "(UNIV :: object_error_code set) = set enum_class.enum"
    by (auto simp: enum_object_error_code_def) (metis object_error_code.exhaust)
  show "UNIV = set (enum_class.enum :: object_error_code list)" by (rule univ)
  show "distinct (enum_class.enum :: object_error_code list)"
    by (simp add: enum_object_error_code_def)
  show "enum_class.enum_all P \<longleftrightarrow> Ball UNIV P" for P :: "object_error_code \<Rightarrow> bool"
    unfolding univ enum_all_object_error_code_def by (simp add: list_all_iff)
  show "enum_class.enum_ex P \<longleftrightarrow> Bex UNIV P" for P :: "object_error_code \<Rightarrow> bool"
    unfolding univ enum_ex_object_error_code_def by (simp add: list_ex_iff)
qed

end

section \<open>Exception classes\<close>

text \<open>The base classes imported from \<open>meridian_storage.errors\<close>.\<close>

datatype base_error =
    AuthenticationError | AuthorizationError | CompatibilityError | ConflictError | ConstraintError
  | CorruptionError | NotFoundError | RateLimitError | TransientError | UnavailableError
  | ValidationError

fun class_base :: "object_exn \<Rightarrow> base_error" where
  "class_base ObjectInvalidRequest = ValidationError"
| "class_base ObjectNotFound = NotFoundError"
| "class_base ConditionalConflict = ConflictError"
| "class_base ImmutableObjectConflict = ConflictError"
| "class_base RetentionDenied = ConstraintError"
| "class_base DigestMismatch = CorruptionError"
| "class_base IncompleteUpload = ValidationError"
| "class_base PayloadUnavailable = UnavailableError"
| "class_base RangeNotSatisfiable = ValidationError"
| "class_base MultipartInvalid = ValidationError"
| "class_base ObjectCapabilityMismatch = CompatibilityError"
| "class_base ObjectAuthenticationFailed = AuthenticationError"
| "class_base ObjectAuthorizationFailed = AuthorizationError"
| "class_base ObjectQuotaExceeded = ConstraintError"
| "class_base ObjectRateLimited = RateLimitError"
| "class_base TransferCancelled = TransientError"
| "class_base ObjectUnavailable = UnavailableError"

fun class_code :: "object_exn \<Rightarrow> object_error_code" where
  "class_code ObjectInvalidRequest = INVALID_REQUEST"
| "class_code ObjectNotFound = NOT_FOUND"
| "class_code ConditionalConflict = CONDITIONAL_CONFLICT"
| "class_code ImmutableObjectConflict = IMMUTABLE"
| "class_code RetentionDenied = RETENTION_DENIED"
| "class_code DigestMismatch = DIGEST_MISMATCH"
| "class_code IncompleteUpload = INCOMPLETE_UPLOAD"
| "class_code PayloadUnavailable = PAYLOAD_UNAVAILABLE"
| "class_code RangeNotSatisfiable = RANGE_NOT_SATISFIABLE"
| "class_code MultipartInvalid = MULTIPART_INVALID"
| "class_code ObjectCapabilityMismatch = CAPABILITY_MISMATCH"
| "class_code ObjectAuthenticationFailed = AUTHENTICATION"
| "class_code ObjectAuthorizationFailed = AUTHORIZATION"
| "class_code ObjectQuotaExceeded = QUOTA"
| "class_code ObjectRateLimited = RATE_LIMIT"
| "class_code TransferCancelled = TRANSFER_CANCELLED"
| "class_code ObjectUnavailable = UNAVAILABLE"

text \<open>\<open>None\<close>: the constructor has no default message.\<close>

fun default_message :: "object_exn \<Rightarrow> string option" where
  "default_message ObjectInvalidRequest = None"
| "default_message ObjectNotFound = Some ''the logical Object was not found''"
| "default_message ConditionalConflict = Some ''the Object precondition did not match''"
| "default_message ImmutableObjectConflict = Some ''the immutable Object cannot be replaced''"
| "default_message RetentionDenied = Some ''retention policy does not permit this operation''"
| "default_message DigestMismatch = Some ''the Object SHA-256 digest did not match''"
| "default_message IncompleteUpload = Some ''the upload ended before its declared length''"
| "default_message PayloadUnavailable = Some ''the in-process payload reference is unavailable''"
| "default_message RangeNotSatisfiable = Some ''the requested byte range is not satisfiable''"
| "default_message MultipartInvalid = Some ''the multipart upload contract is invalid''"
| "default_message ObjectCapabilityMismatch = None"
| "default_message ObjectAuthenticationFailed = Some ''Object Adapter authentication failed''"
| "default_message ObjectAuthorizationFailed = Some ''Object operation is not authorized''"
| "default_message ObjectQuotaExceeded = Some ''Object storage quota was exceeded''"
| "default_message ObjectRateLimited = Some ''Object operation was rate limited''"
| "default_message TransferCancelled = Some ''Object transfer was cancelled''"
| "default_message ObjectUnavailable = Some ''Object endpoint is unavailable''"

definition passes_retryable :: "object_exn \<Rightarrow> bool" where
  "passes_retryable c \<longleftrightarrow> c = ObjectRateLimited \<or> c = ObjectUnavailable"

record failure =
  f_class :: object_exn
  f_code :: object_error_code
  f_message :: pystr
  f_retryable :: "pyval option"
  f_details :: "(string \<times> pyval) list"

text \<open>
  \<open>Class(message, **details)\<close>. A keyword given twice in the call of the base constructor is a
  \<open>TypeError\<close>: \<open>retryable\<close> in the details of the two classes that pass it themselves. Otherwise a
  \<open>retryable\<close> detail is the base constructor's argument.
\<close>

definition raise_class :: "object_exn \<Rightarrow> pystr option \<Rightarrow> (string \<times> pyval) list \<Rightarrow> failure result" where
  "raise_class c message details =
     bindE (case message of
        Some m \<Rightarrow> Inr m
      | None \<Rightarrow> (case default_message c of None \<Rightarrow> Inl TypeError | Some m \<Rightarrow> Inr (lit m))) (\<lambda>m.
     if passes_retryable c \<and> ''retryable'' \<in> fst ` set details then Inl TypeError
     else Inr \<lparr>f_class = c, f_code = class_code c, f_message = m,
               f_retryable = (if passes_retryable c then Some (PBool True) else map_of details ''retryable''),
               f_details = filter (\<lambda>(k, v). k \<noteq> ''retryable'') details\<rparr>)"

section \<open>The classifier\<close>

definition FAILURE_CLASSES :: "(pystr \<times> object_exn) list" where
  "FAILURE_CLASSES =
     [(lit ''authentication'', ObjectAuthenticationFailed),
      (lit ''authorization'', ObjectAuthorizationFailed),
      (lit ''conditional-conflict'', ConditionalConflict),
      (lit ''corruption'', DigestMismatch),
      (lit ''incomplete-upload'', IncompleteUpload),
      (lit ''missing-object'', ObjectNotFound),
      (lit ''quota'', ObjectQuotaExceeded),
      (lit ''rate-limit'', ObjectRateLimited),
      (lit ''retention-denied'', RetentionDenied),
      (lit ''unavailable'', ObjectUnavailable)]"

definition classify_object_failure ::
    "pystr \<Rightarrow> pystr option \<Rightarrow> (string \<times> pyval) list \<Rightarrow> failure result" where
  "classify_object_failure kind message details =
     (case map_of FAILURE_CLASSES kind of
        None \<Rightarrow> raise_class ObjectUnavailable
                  (Some (lit ''Object Adapter returned an unclassified failure'')) details
      | Some failure_type \<Rightarrow>
          (case message of
             None \<Rightarrow> raise_class failure_type None details
           | Some m \<Rightarrow> raise_class failure_type (Some m) details))"

lemma class_code_inject [simp]: "class_code c = class_code d \<longleftrightarrow> c = d"
  by (cases c; cases d) simp_all

lemma code_value_inject: "code_value c = code_value d \<longleftrightarrow> c = d"
  by (cases c; cases d) simp_all

lemma code_value_prefix: "\<exists>s. code_value c = ''MERIDIAN_OBJECT_'' @ s"
  by (cases c) simp_all

lemma classified_default:
  "map_of FAILURE_CLASSES k = Some c \<Longrightarrow> \<exists>m. default_message c = Some m"
  by (auto simp: FAILURE_CLASSES_def split: if_splits)



end
