(* ===== verification/ContractCheck.thy ===== *)
theory ContractCheck
  imports Artifacts Catalog Errors
begin

text \<open>
  \<open>src/scripts/verify_contracts.py\<close>, which checks the language-neutral contracts of the repository
  against the package, the names that the package exports (\<open>__init__.py\<close>), and the checked-in documents
  that it reads. What the script takes from \<open>tomllib\<close>, \<open>jsonschema\<close>, \<open>ast\<close> and the file system is the
  record \<open>repository\<close>; \<open>json.loads\<close> has been applied to the documents in it.
\<close>

section \<open>The exports of the package\<close>

definition package_exports :: "string list" where
  "package_exports =
     [''GUARANTEE_BOUNDED_PREFIX_LIST'', ''GUARANTEE_CONDITIONAL_CREATE'', ''GUARANTEE_DIGEST_SHA256'',
      ''GUARANTEE_DIGEST_VERIFICATION'', ''GUARANTEE_EXACT_VERSION_DELETE'', ''GUARANTEE_IMMUTABILITY_INTENT'',
      ''GUARANTEE_METADATA_AFTER_COMMIT'', ''GUARANTEE_MULTIPART'', ''GUARANTEE_RANGE_READ'',
      ''GUARANTEE_RETENTION_ENFORCEMENT'', ''GUARANTEE_RETENTION_INTENT'', ''GUARANTEE_SIGNED_REFERENCE'',
      ''GUARANTEE_STREAMING'', ''LIMIT_MAX_LIST_PAGE_SIZE'', ''LIMIT_MAX_MULTIPART_PARTS'',
      ''LIMIT_MAX_MULTIPART_PART_BYTES'', ''LIMIT_MAX_OBJECT_BYTES'', ''LIMIT_MAX_RANGE_BYTES'',
      ''LIMIT_MAX_USER_METADATA_ENTRIES'', ''OBJECT_CATALOG_CONTRACT_VERSION'', ''OBJECT_OPERATION_VERSION'',
      ''OBJECT_REGISTRY_REF'', ''SIGNED_REFERENCE_FORMAT_VERSION'', ''SIGNED_REFERENCE_OPERATIONS'',
      ''BinarySink'', ''ByteRange'', ''ConditionalConflict'', ''ContentIdentity'', ''DigestMismatch'',
      ''FactoryPayloadSource'', ''HmacSha256Key'', ''ImmutabilityRequest'', ''ImmutableObjectConflict'',
      ''IncompleteUpload'', ''MultipartAdapter'', ''MultipartCompletion'', ''MultipartInvalid'',
      ''MultipartLimits'', ''MultipartPart'', ''MultipartSession'', ''ObjectAuthenticationFailed'',
      ''ObjectAuthorizationFailed'', ''ObjectCapabilityMismatch'', ''ObjectCapabilityReport'',
      ''ObjectCatalogProvider'', ''ObjectCatalogSurface'', ''ObjectConformanceCheck'',
      ''ObjectConformanceReport'', ''ObjectConformanceTarget'', ''ObjectErrorCode'', ''ObjectInvalidRequest'',
      ''ObjectMetadata'', ''ObjectNotFound'', ''ObjectProfile'', ''ObjectQuotaExceeded'',
      ''ObjectRateLimited'', ''ObjectReference'', ''ObjectUnavailable'', ''PayloadReference'',
      ''PayloadRegistry'', ''PayloadSource'', ''PayloadUnavailable'', ''PutState'', ''PutStateMachine'',
      ''RangeNotSatisfiable'', ''ReferenceSigner'', ''ResolvedByteRange'', ''RetentionDenied'',
      ''RetentionRequest'', ''Sha256Accumulator'', ''SignedObjectReference'', ''StreamPayloadSource'',
      ''TransferCancelled'', ''__version__'', ''classify_object_failure'', ''default_payload_registry'',
      ''effective_immutability'', ''iter_payload_chunks'', ''negotiate_object_capabilities'',
      ''object_manifest'', ''object_requirement'', ''parse_logical_reference'', ''parse_object_metadata'',
      ''parse_object_profile'', ''parse_object_reference'', ''require_object_capabilities'',
      ''run_object_conformance'', ''sign_object_reference'', ''transfer_payload'']"

definition package_version :: pystr where
  "package_version = lit ''1.0.1''"

section \<open>What the script reads\<close>

text \<open>The import statements of a source: the dotted names of \<open>import\<close>, the module and the names of \<open>from\<close>.\<close>

datatype import_node = Import "pystr list" | ImportFrom "pystr option" "pystr list"

record repository =
  load_document :: "string list \<Rightarrow> pydict result" \<comment> \<open>a JSON document, by the parts of its path\<close>
  project_table :: "pydict result" \<comment> \<open>\<open>[project]\<close> of \<open>pyproject.toml\<close>\<close>
  object_schemas :: "pydict list result" \<comment> \<open>the schemas under \<open>contracts/object\<close>, by path\<close>
  check_schema :: "pydict \<Rightarrow> unit result"
  schema_errors :: "(pyval \<times> pydict) list \<Rightarrow> pydict \<Rightarrow> pyval \<Rightarrow> nat" \<comment> \<open>how many errors a validator reports\<close>
  make_expression :: "pyval \<Rightarrow> pyval \<Rightarrow> pyval \<Rightarrow> pyval \<Rightarrow> expression result"
  source_texts :: "pystr list" \<comment> \<open>the Python sources, by path\<close>
  import_nodes :: "pystr \<Rightarrow> import_node list result"
  manifest_fingerprint :: "catalog_manifest \<Rightarrow> pyval"

definition item_at :: "pyval \<Rightarrow> string \<Rightarrow> pyval result" where
  \<comment> \<open>\<open>v[k]\<close>\<close>
  "item_at v k = (case v of PDict d \<Rightarrow> dget_req d k | _ \<Rightarrow> Inl TypeError)"

definition check_item :: "pydict \<Rightarrow> string \<Rightarrow> pyval \<Rightarrow> unit result" where
  \<comment> \<open>\<open>assert d[k] == v\<close>\<close>
  "check_item d k v = bindE (dget_req d k) (\<lambda>w. check (py_eq w v))"

definition strings :: "pystr list \<Rightarrow> pyval" where
  "strings xs = PList (map PStr xs)"

section \<open>The checks\<close>

definition verify_public_api :: "pydict \<Rightarrow> unit result" where
  "verify_public_api public =
     bindE (dget_req public ''version'') (\<lambda>version.
     bindE (check (py_eq version (PStr package_version) \<and> package_version = lit ''1.0.1'')) (\<lambda>_.
     bindE (check_item public ''core'' (PStr (lit ''1.0.0''))) (\<lambda>_.
     bindE (check_item public ''semantics'' (PStr (lit ''1.0.0''))) (\<lambda>_.
     bindE (check_item public ''exports'' (strings (sort (map lit package_exports)))) (\<lambda>_.
     check_item public ''errorCodes'' (strings (sort (map (\<lambda>c. lit (code_value c)) enum_class.enum))))))))"

definition verify_project :: "pydict \<Rightarrow> unit result" where
  "verify_project project =
     bindE (check_item project ''name'' (PStr (lit ''meridian-storage-object-common''))) (\<lambda>_.
     bindE (check_item project ''version'' (PStr package_version)) (\<lambda>_.
     bindE (check_item project ''license'' (PStr (lit ''Apache-2.0''))) (\<lambda>_.
     check_item project ''dependencies''
       (strings [lit ''meridian-storage-core==1.0.0'', lit ''meridian-storage-semantics==1.0.0'']))))"

definition verify_compatibility :: "pydict \<Rightarrow> unit result" where
  "verify_compatibility compatibility =
     bindE (check_item compatibility ''version'' (PStr package_version)) (\<lambda>_.
     bindE (dget_req compatibility ''core'') (\<lambda>core.
     bindE (item_at core ''version'') (\<lambda>core_version.
     bindE (check (py_eq core_version (PStr (lit ''1.0.0'')))) (\<lambda>_.
     bindE (dget_req compatibility ''semantics'') (\<lambda>semantics.
     bindE (item_at semantics ''version'') (\<lambda>semantics_version.
     bindE (check (py_eq semantics_version (PStr (lit ''1.0.0'')))) (\<lambda>_.
     check_item compatibility ''design''
       (PDict [fld ''catalogsRevision'' (PInt 121), fld ''hldRevision'' (PInt 114), fld ''objectLldRevision'' (PInt 35)]))))))))"

definition manifest_methods :: "catalog_manifest \<Rightarrow> pystr list" where
  "manifest_methods manifest = sort (map oc_method (cm_operations manifest))"

definition verify_manifest :: "catalog_manifest \<Rightarrow> pydict \<Rightarrow> pydict \<Rightarrow> unit result" where
  "verify_manifest manifest public project =
     bindE (dget_req public ''operations'') (\<lambda>operations.
     bindE (check (py_eq (strings (manifest_methods manifest)) operations)) (\<lambda>_.
     bindE (check (length (manifest_methods manifest) = 8)) (\<lambda>_.
     bindE (check (cm_catalog_name manifest = lit ''object'')) (\<lambda>_.
     bindE (check_item project ''name'' (PStr (cm_package_name manifest))) (\<lambda>_.
     bindE (check_item project ''version'' (PStr (cm_package_version manifest))) (\<lambda>_.
     check_item public ''catalogContractVersion'' (PStr (cm_catalog_contract_version manifest))))))))"

definition fixtures :: "repository \<Rightarrow> string \<Rightarrow> string \<Rightarrow> pyval list result" where
  "fixtures repo kind name =
     bindE (load_document repo [''contracts'', ''fixtures'', kind, name]) (\<lambda>document.
     bindE (dget_req document ''documents'') (\<lambda>documents.
     case documents of PList xs \<Rightarrow> Inr xs | _ \<Rightarrow> Inl TypeError))"

definition fixtures_by_schema :: "(string \<times> string) list" where
  "fixtures_by_schema =
     [(''meridian-object-expression.v1.schema.json'', ''object-expressions.json''),
      (''meridian-object-result.v1.schema.json'', ''object-results.json''),
      (''meridian-object-payload-reference.v1.schema.json'', ''payload-references.json''),
      (''meridian-object-signed-reference.v1.schema.json'', ''signed-references.json'')]"

definition schema_registry :: "repository \<Rightarrow> pydict list \<Rightarrow> (pyval \<times> pydict) list result" where
  \<comment> \<open>the first loop: each schema is checked and entered under its \<open>$id\<close>\<close>
  "schema_registry repo schemas =
     bindE (mapE (\<lambda>schema. bindE (check_schema repo schema) (\<lambda>_.
       bindE (dget_req schema ''$id'') (\<lambda>i. Inr (i, schema)))) schemas) (\<lambda>entries.
     Inr (foldl (\<lambda>d (i, schema). AList.update i schema d) [] entries))"

definition fixture_file :: "pyval \<Rightarrow> string result" where
  "fixture_file identifier =
     (case identifier of
        PStr s \<Rightarrow>
          (case find (\<lambda>(ending, _). suffix (lit ending) s) fixtures_by_schema of
             None \<Rightarrow> Inl StopIteration | Some (_, fixture) \<Rightarrow> Inr fixture)
      | _ \<Rightarrow> Inl AttributeError)"

definition verify_schema :: "repository \<Rightarrow> (pyval \<times> pydict) list \<Rightarrow> pyval \<times> pydict \<Rightarrow> nat result" where
  \<comment> \<open>how many fixtures were checked; an invalid document has an entry \<open>document\<close>\<close>
  "verify_schema repo registry entry =
     bindE (fixture_file (fst entry)) (\<lambda>name.
     bindE (fixtures repo ''valid'' name) (\<lambda>valid.
     bindE (mapE (\<lambda>document. if schema_errors repo registry (snd entry) document = 0 then Inr () else Inl (ExternalError 0)) valid) (\<lambda>_.
     bindE (fixtures repo ''invalid'' name) (\<lambda>invalid.
     bindE (mapE (\<lambda>item. bindE (item_at item ''document'') (\<lambda>document.
        check (schema_errors repo registry (snd entry) document \<noteq> 0))) invalid) (\<lambda>_.
     Inr (length valid + length invalid))))))"

definition verify_expression :: "('m) catalog_core_scheme \<Rightarrow> repository \<Rightarrow> pyval \<Rightarrow> pystr result" where
  "verify_expression c repo document =
     bindE (item_at document ''catalog'') (\<lambda>catalog.
     bindE (item_at document ''method'') (\<lambda>m.
     bindE (item_at document ''arguments'') (\<lambda>arguments.
     bindE (item_at document ''formatVersion'') (\<lambda>format_version.
     bindE (make_expression repo catalog m arguments format_version) (\<lambda>expression.
     bindE (normalize c expression) (\<lambda>operation.
     bindE (check (on_operation_contract operation = operation_name (ex_method expression))) (\<lambda>_.
     Inr (ex_method expression))))))))"

definition verify_round_trip :: "(pydict \<Rightarrow> pydict result) \<Rightarrow> pyval \<Rightarrow> unit result" where
  \<comment> \<open>\<open>assert C.from_mapping(document).to_dict() == document\<close>\<close>
  "verify_round_trip reprint document =
     (case document of
        PDict d \<Rightarrow> bindE (reprint d) (\<lambda>d'. check (py_eq (PDict d') document))
      | _ \<Rightarrow> Inl TypeError)"

definition forbidden_imports :: "pystr list" where
  "forbidden_imports = map lit [''boto'', ''boto3'', ''botocore'', ''oci'', ''s3fs'']"

definition imported_names :: "import_node \<Rightarrow> pystr list" where
  \<comment> \<open>\<open>alias.name.split(".", 1)[0]\<close> of the aliases of \<open>ast.Import\<close> and \<open>ast.ImportFrom\<close> nodes\<close>
  "imported_names node =
     (case node of
        Import names \<Rightarrow> map (\<lambda>name. hd (split_on 46 name)) names
      | ImportFrom _ names \<Rightarrow> map (\<lambda>name. hd (split_on 46 name)) names)"

definition verify_source :: "repository \<Rightarrow> pystr \<Rightarrow> unit result" where
  "verify_source repo content =
     (let source = casefold content in
     bindE (check (\<not> contains (lit ''nativequery'') source)) (\<lambda>_.
     bindE (import_nodes repo source) (\<lambda>nodes.
     check (\<not> list_ex (\<lambda>node. list_ex (\<lambda>name. name \<in> set forbidden_imports) (imported_names node)) nodes))))"

definition verify_contracts :: "('m) catalog_core_scheme \<Rightarrow> repository \<Rightarrow> pydict result" where
  \<comment> \<open>the document that is printed as JSON\<close>
  "verify_contracts c repo =
     bindE (load_document repo [''contracts'', ''public-api'', ''meridian-object-common.v1.json'']) (\<lambda>public.
     bindE (verify_public_api public) (\<lambda>_.
     bindE (project_table repo) (\<lambda>project.
     bindE (verify_project project) (\<lambda>_.
     bindE (load_document repo [''compatibility.json'']) (\<lambda>compatibility.
     bindE (verify_compatibility compatibility) (\<lambda>_.
     bindE (verify_manifest object_manifest public project) (\<lambda>_.
     bindE (object_schemas repo) (\<lambda>documents.
     bindE (schema_registry repo documents) (\<lambda>registry.
     bindE (mapE (verify_schema repo registry) registry) (\<lambda>counts.
     bindE (fixtures repo ''valid'' ''object-expressions.json'') (\<lambda>expressions.
     bindE (mapE (verify_expression c repo) expressions) (\<lambda>normalized.
     bindE (check (set normalized = set (manifest_methods object_manifest))) (\<lambda>_.
     bindE (fixtures repo ''valid'' ''payload-references.json'') (\<lambda>payloads.
     bindE (mapE (verify_round_trip (canonical PayloadReference_from_mapping PayloadReference_to_dict)) payloads) (\<lambda>_.
     bindE (fixtures repo ''valid'' ''signed-references.json'') (\<lambda>signatures.
     bindE (mapE (verify_round_trip (canonical (SignedObjectReference_from_mapping c) (SignedObjectReference_to_dict c)))
       signatures) (\<lambda>_.
     bindE (mapE (verify_source repo) (source_texts repo)) (\<lambda>_.
     Inr [fld ''errors'' (PInt (int (length (enum_class.enum :: object_error_code list)))),
          fld ''fixtures'' (PInt (int (sum_list counts))),
          fld ''manifestFingerprint'' (manifest_fingerprint repo object_manifest),
          fld ''methods'' (strings (manifest_methods object_manifest)),
          fld ''schemas'' (PInt (int (length registry))), fld ''version'' (PStr package_version)]))))))))))))))))))"

section \<open>The checked-in documents\<close>

definition public_error_codes :: "string list" where
  "public_error_codes =
    [''MERIDIAN_OBJECT_AUTHENTICATION'', ''MERIDIAN_OBJECT_AUTHORIZATION'',
     ''MERIDIAN_OBJECT_CAPABILITY_MISMATCH'', ''MERIDIAN_OBJECT_CONDITIONAL_CONFLICT'',
     ''MERIDIAN_OBJECT_DIGEST_MISMATCH'', ''MERIDIAN_OBJECT_IMMUTABLE'',
     ''MERIDIAN_OBJECT_INCOMPLETE_UPLOAD'', ''MERIDIAN_OBJECT_INVALID_REQUEST'',
     ''MERIDIAN_OBJECT_MULTIPART_INVALID'', ''MERIDIAN_OBJECT_NOT_FOUND'',
     ''MERIDIAN_OBJECT_PAYLOAD_UNAVAILABLE'', ''MERIDIAN_OBJECT_QUOTA'',
     ''MERIDIAN_OBJECT_RANGE_NOT_SATISFIABLE'', ''MERIDIAN_OBJECT_RATE_LIMIT'',
     ''MERIDIAN_OBJECT_RETENTION_DENIED'', ''MERIDIAN_OBJECT_TRANSFER_CANCELLED'',
     ''MERIDIAN_OBJECT_UNAVAILABLE'']"

definition public_exports :: "string list" where
  "public_exports =
    [''BinarySink'', ''ByteRange'', ''ConditionalConflict'', ''ContentIdentity'', ''DigestMismatch'',
     ''FactoryPayloadSource'', ''GUARANTEE_BOUNDED_PREFIX_LIST'', ''GUARANTEE_CONDITIONAL_CREATE'',
     ''GUARANTEE_DIGEST_SHA256'', ''GUARANTEE_DIGEST_VERIFICATION'', ''GUARANTEE_EXACT_VERSION_DELETE'',
     ''GUARANTEE_IMMUTABILITY_INTENT'', ''GUARANTEE_METADATA_AFTER_COMMIT'', ''GUARANTEE_MULTIPART'',
     ''GUARANTEE_RANGE_READ'', ''GUARANTEE_RETENTION_ENFORCEMENT'', ''GUARANTEE_RETENTION_INTENT'',
     ''GUARANTEE_SIGNED_REFERENCE'', ''GUARANTEE_STREAMING'', ''HmacSha256Key'', ''ImmutabilityRequest'',
     ''ImmutableObjectConflict'', ''IncompleteUpload'', ''LIMIT_MAX_LIST_PAGE_SIZE'',
     ''LIMIT_MAX_MULTIPART_PARTS'', ''LIMIT_MAX_MULTIPART_PART_BYTES'', ''LIMIT_MAX_OBJECT_BYTES'',
     ''LIMIT_MAX_RANGE_BYTES'', ''LIMIT_MAX_USER_METADATA_ENTRIES'', ''MultipartAdapter'',
     ''MultipartCompletion'', ''MultipartInvalid'', ''MultipartLimits'', ''MultipartPart'',
     ''MultipartSession'', ''OBJECT_CATALOG_CONTRACT_VERSION'', ''OBJECT_OPERATION_VERSION'',
     ''OBJECT_REGISTRY_REF'', ''ObjectAuthenticationFailed'', ''ObjectAuthorizationFailed'',
     ''ObjectCapabilityMismatch'', ''ObjectCapabilityReport'', ''ObjectCatalogProvider'',
     ''ObjectCatalogSurface'', ''ObjectConformanceCheck'', ''ObjectConformanceReport'',
     ''ObjectConformanceTarget'', ''ObjectErrorCode'', ''ObjectInvalidRequest'', ''ObjectMetadata'',
     ''ObjectNotFound'', ''ObjectProfile'', ''ObjectQuotaExceeded'', ''ObjectRateLimited'',
     ''ObjectReference'', ''ObjectUnavailable'', ''PayloadReference'', ''PayloadRegistry'',
     ''PayloadSource'', ''PayloadUnavailable'', ''PutState'', ''PutStateMachine'',
     ''RangeNotSatisfiable'', ''ReferenceSigner'', ''ResolvedByteRange'', ''RetentionDenied'',
     ''RetentionRequest'', ''SIGNED_REFERENCE_FORMAT_VERSION'', ''SIGNED_REFERENCE_OPERATIONS'',
     ''Sha256Accumulator'', ''SignedObjectReference'', ''StreamPayloadSource'', ''TransferCancelled'',
     ''__version__'', ''classify_object_failure'', ''default_payload_registry'',
     ''effective_immutability'', ''iter_payload_chunks'', ''negotiate_object_capabilities'',
     ''object_manifest'', ''object_requirement'', ''parse_logical_reference'', ''parse_object_metadata'',
     ''parse_object_profile'', ''parse_object_reference'', ''require_object_capabilities'',
     ''run_object_conformance'', ''sign_object_reference'', ''transfer_payload'']"

definition public_operations :: "string list" where
  "public_operations =
    [''create_resource'', ''delete'', ''get'', ''list'', ''publish_schema'', ''put'', ''read_range'',
     ''stat'']"

definition public_api_document :: pydict where
  \<comment> \<open>\<open>contracts/public-api/meridian-object-common.v1.json\<close>\<close>
  "public_api_document =
    [fld ''$comment'' (PStr (lit ''SPDX-License-Identifier: Apache-2.0'')),
     fld ''catalog'' (PStr (lit ''object'')),
     fld ''catalogContractVersion'' (PStr (lit ''1.0.0'')),
     fld ''core'' (PStr (lit ''1.0.0'')),
     fld ''distribution'' (PStr (lit ''meridian-storage-object-common'')),
     fld ''entryPoints'' (PDict
         [fld ''catalogs'' (PDict
             [fld ''object'' (PStr (lit ''meridian_storage.object_common.catalog:ObjectCatalogProvider''))])]),
     fld ''errorCodes'' (strings (map lit public_error_codes)),
     fld ''exports'' (strings (map lit public_exports)),
     fld ''formatVersion'' (PStr (lit ''meridian-object-common-public-api.v1'')),
     fld ''objectMetadataFormat'' (PStr (lit ''meridian.object.v1'')),
     fld ''operations'' (strings (map lit public_operations)),
     fld ''payloadReferenceFormat'' (PStr (lit ''meridian.object.payload-reference.v1'')),
     fld ''python'' (PStr (lit ''>=3.12'')),
     fld ''semantics'' (PStr (lit ''1.0.0'')),
     fld ''signedReferenceFormat'' (PStr (lit ''meridian.object.signed-reference.v1'')),
     fld ''version'' (PStr (lit ''1.0.1''))]"

definition compatibility_document :: pydict where
  \<comment> \<open>\<open>compatibility.json\<close>\<close>
  "compatibility_document =
    [fld ''$comment'' (PStr (lit ''SPDX-License-Identifier: Apache-2.0'')),
     fld ''catalogContract'' (PDict
         [fld ''catalog'' (PStr (lit ''object'')),
          fld ''version'' (PStr (lit ''1.0.0''))]),
     fld ''core'' (PDict
         [fld ''distribution'' (PStr (lit ''meridian-storage-core'')),
          fld ''publicContractCommit'' (PStr (lit ''ed533571f502bf530689ad9839f5e2608fee6514'')),
          fld ''sdistSha256'' (PStr (lit ''2c44d44569a380f44ea7f797e7fe623d0242fa79b6bc34606d6bad1bc53f2d5a'')),
          fld ''version'' (PStr (lit ''1.0.0'')),
          fld ''wheelSha256'' (PStr (lit ''6b8ebb70ee1a8467a96d668878a8eebf826c1c4b63b3832ae70f2c630a8ef4a1''))]),
     fld ''design'' (PDict
         [fld ''catalogsRevision'' (PInt 121),
          fld ''hldRevision'' (PInt 114),
          fld ''objectLldRevision'' (PInt 35)]),
     fld ''distribution'' (PStr (lit ''meridian-storage-object-common'')),
     fld ''formatVersion'' (PStr (lit ''meridian-object-common-compatibility.v1'')),
     fld ''objectMetadataFormat'' (PStr (lit ''meridian.object.v1'')),
     fld ''python'' (PStr (lit ''>=3.12'')),
     fld ''semantics'' (PDict
         [fld ''distribution'' (PStr (lit ''meridian-storage-semantics'')),
          fld ''publicContractCommit'' (PStr (lit ''62cc5caba415594f99cb8b25146e6854d5aec5bf'')),
          fld ''sdistSha256'' (PStr (lit ''02605909db5dc7ff22d4ae5e3ae1b3fe6c25a68e9ecaa4c3ead36082848d0311'')),
          fld ''version'' (PStr (lit ''1.0.0'')),
          fld ''wheelSha256'' (PStr (lit ''76fced0bc083f145fad1949b85147a3563f3584f99994471693915a8ba1851ec''))]),
     fld ''version'' (PStr (lit ''1.0.1''))]"

definition project_document :: pydict where
  \<comment> \<open>what the script reads of \<open>[project]\<close> in \<open>pyproject.toml\<close>\<close>
  "project_document =
    [fld ''name'' (PStr (lit ''meridian-storage-object-common'')), fld ''version'' (PStr (lit ''1.0.1'')),
     fld ''license'' (PStr (lit ''Apache-2.0'')),
     fld ''dependencies'' (strings [lit ''meridian-storage-core==1.0.0'', lit ''meridian-storage-semantics==1.0.0''])]"

lemma py_eq_strings: "py_eq (strings xs) (strings xs)"
  by (induction xs) (simp_all add: strings_def)

lemma sort_names:
  assumes "successively (\<le>) (map lit xs)" and "mset xs = mset ys"
  shows "sort (map lit ys) = map lit xs"
proof -
  have "sorted (map lit xs)" using assms(1) by (simp add: successively_conv_sorted_wrt)
  moreover have "mset (map lit xs) = mset (map lit ys)" using assms(2) by simp
  ultimately show ?thesis by (metis properties_for_sort)
qed

text \<open>The two documents list the names in blocks that are ordered differently.\<close>

lemma exports_permuted: "mset public_exports = mset package_exports"
proof -
  define seg where "seg i n = take n (drop i package_exports)" for i n :: nat
  have "public_exports =
      seg 24 6 @ seg 0 13 @ seg 30 4 @ seg 13 6 @ seg 34 6 @ seg 19 3 @ seg 40 29 @ seg 22 2 @ seg 69 20"
    by (simp add: seg_def public_exports_def package_exports_def)
  moreover have "package_exports =
      seg 0 13 @ seg 13 6 @ seg 19 3 @ seg 22 2 @ seg 24 6 @ seg 30 4 @ seg 34 6 @ seg 40 29 @ seg 69 20"
    by (simp add: seg_def package_exports_def)
  ultimately have "mset public_exports = mset (seg 24 6) + mset (seg 0 13) + mset (seg 30 4)
      + mset (seg 13 6) + mset (seg 34 6) + mset (seg 19 3) + mset (seg 40 29) + mset (seg 22 2) + mset (seg 69 20)"
    "mset package_exports = mset (seg 0 13) + mset (seg 13 6) + mset (seg 19 3) + mset (seg 22 2)
      + mset (seg 24 6) + mset (seg 30 4) + mset (seg 34 6) + mset (seg 40 29) + mset (seg 69 20)"
    by (metis mset_append add.assoc)+
  then show ?thesis by (simp only: ac_simps)
qed

lemma exports_sorted: "sort (map lit package_exports) = map lit public_exports"
proof (rule sort_names [OF _ exports_permuted])
  show "successively (\<le>) (map lit public_exports)" by code_simp
qed

lemma error_codes_sorted: "sort (map (\<lambda>c. lit (code_value c)) enum_class.enum) = map lit public_error_codes"
proof -
  have "sort (map lit (map code_value enum_class.enum)) = map lit public_error_codes"
  proof (rule sort_names)
    show "successively (\<le>) (map lit public_error_codes)" by code_simp
    show "mset public_error_codes = mset (map code_value enum_class.enum)"
      by (simp add: public_error_codes_def enum_object_error_code_def)
  qed
  then show ?thesis by (simp add: comp_def)
qed

lemma public_api_verified: "verify_public_api public_api_document = Inr ()"
  by (simp add: verify_public_api_def public_api_document_def check_item_def dget_req_def wire_simps
      exports_sorted error_codes_sorted py_eq_strings package_version_def)

lemma project_verified: "verify_project project_document = Inr ()"
  by (simp add: verify_project_def project_document_def check_item_def dget_req_def wire_simps
      py_eq_strings package_version_def)

lemma compatibility_verified: "verify_compatibility compatibility_document = Inr ()"
  by (simp add: verify_compatibility_def compatibility_document_def check_item_def item_at_def dget_req_def wire_simps
      package_version_def)

lemma methods_sorted: "manifest_methods object_manifest = map lit public_operations"
proof -
  have "sort (map lit (map fst OBJECT_OPERATIONS)) = map lit public_operations"
  proof (rule sort_names)
    show "successively (\<le>) (map lit public_operations)" by code_simp
    show "mset public_operations = mset (map fst OBJECT_OPERATIONS)"
      by (simp add: public_operations_def OBJECT_OPERATIONS_def)
  qed
  then show ?thesis by (simp add: manifest_methods_def object_manifest_def comp_def split_def)
qed

lemma manifest_verified: "verify_manifest object_manifest public_api_document project_document = Inr ()"
  unfolding verify_manifest_def methods_sorted
  by (simp add: public_api_document_def project_document_def check_item_def dget_req_def wire_simps py_eq_strings)
    (simp add: public_operations_def object_manifest_def)

text \<open>
  The search for provider libraries reads the imported names and not the module of a \<open>from\<close> import:
  \<open>from boto3 import client\<close> passes it.
\<close>

lemma provider_import_accepted:
  assumes "import_nodes repo (casefold content) = Inr [ImportFrom (Some (lit ''boto3'')) [lit ''client'']]"
    and "\<not> contains (lit ''nativequery'') (casefold content)"
  shows "verify_source repo content = Inr ()"
proof -
  have "hd (split_on 46 (lit ''client'')) = lit ''client''" by code_simp
  moreover have "lit ''client'' \<notin> set forbidden_imports" by (simp add: forbidden_imports_def)
  ultimately show ?thesis using assms by (simp add: verify_source_def imported_names_def)
qed


end
