(* ===== verification/Documents.thy ===== *)
theory Documents
  imports ContractCheck JsonRoundTrip
begin

text \<open>
  \<open>documents.py\<close>: the packaged language-neutral contracts. A document is read from the installed package
  or, when it is not there, from the source tree; \<open>document_files\<close> says what the two places hold, and how
  many nested containers the interpreter's stack lets \<open>json.loads\<close> enter.
\<close>

record document_files =
  packaged_text :: "pystr list \<Rightarrow> pystr result option" \<comment> \<open>below the package; \<open>None\<close> when it is not a file\<close>
  source_text :: "pystr list \<Rightarrow> pystr result" \<comment> \<open>below the root of the source tree\<close>
  loads_depth :: nat

definition load_text :: "document_files \<Rightarrow> pystr list \<Rightarrow> pystr list \<Rightarrow> pyval result" where
  "load_text files packaged source =
     (case packaged_text files packaged of
        Some content \<Rightarrow> bindE content (json_loads (loads_depth files))
      | None \<Rightarrow> bindE (source_text files source) (json_loads (loads_depth files)))"

definition load_contract :: "document_files \<Rightarrow> string \<Rightarrow> pyval result" where
  \<comment> \<open>\<open>_document\<close>\<close>
  "load_contract files relative =
     (let parts = split_on 47 (lit relative)
      in load_text files (lit ''contracts'' # lit ''data'' # parts) (lit ''contracts'' # parts))"

definition object_expression_contract :: "document_files \<Rightarrow> pyval result" where
  "object_expression_contract files = load_contract files ''object/meridian-object-expression.v1.schema.json''"

definition object_result_contract :: "document_files \<Rightarrow> pyval result" where
  "object_result_contract files = load_contract files ''object/meridian-object-result.v1.schema.json''"

definition payload_reference_contract :: "document_files \<Rightarrow> pyval result" where
  "payload_reference_contract files = load_contract files ''object/meridian-object-payload-reference.v1.schema.json''"

definition signed_reference_contract :: "document_files \<Rightarrow> pyval result" where
  "signed_reference_contract files = load_contract files ''object/meridian-object-signed-reference.v1.schema.json''"

definition public_api_contract :: "document_files \<Rightarrow> pyval result" where
  "public_api_contract files = load_contract files ''public-api/meridian-object-common.v1.json''"

definition load_compatibility :: "document_files \<Rightarrow> pyval result" where
  \<comment> \<open>\<open>compatibility_document()\<close>\<close>
  "load_compatibility files = load_text files [lit ''compatibility.json''] [lit ''compatibility.json'']"

text \<open>
  A build copies the contracts of the source tree into the package (\<open>pyproject.toml\<close>); then an installed
  package and a checkout load the same documents.
\<close>

definition built_from :: "document_files \<Rightarrow> document_files \<Rightarrow> bool" where
  "built_from installed checkout \<longleftrightarrow> loads_depth installed = loads_depth checkout
     \<and> (\<forall>path. packaged_text checkout path = None)
     \<and> (\<forall>parts. packaged_text installed (lit ''contracts'' # lit ''data'' # parts) = Some (source_text checkout (lit ''contracts'' # parts)))
     \<and> packaged_text installed [lit ''compatibility.json''] = Some (source_text checkout [lit ''compatibility.json''])"

lemma installed_documents:
  assumes "built_from installed checkout"
  shows "load_contract installed relative = load_contract checkout relative"
    and "load_compatibility installed = load_compatibility checkout"
  using assms by (simp_all add: built_from_def load_contract_def load_compatibility_def load_text_def Let_def)

text \<open>A document that \<open>json.dumps\<close> wrote, followed by white space, is loaded as an equal document.\<close>

lemma written_document:
  assumes "source_text files (lit ''contracts'' # split_on 47 (lit relative)) = Inr (content @ w)" and "spaces w"
    and "packaged_text files (lit ''contracts'' # lit ''data'' # split_on 47 (lit relative)) = None"
    and "json_text pretty 0 v = Inr content" and "json_plain v" and "nesting v \<le> loads_depth files"
  shows "\<exists>v'. load_contract files relative = Inr v' \<and> py_eq v' v"
  using loads_dumped [OF assms(4-6,2)] key_sorted_eq(1) [OF assms(5)] assms(1,3)
  by (simp add: load_contract_def load_text_def Let_def)

end
