(* ===== verification/Imports.thy ===== *)
theory Imports
  imports Prelude "HOL-Library.Sublist"
begin

text \<open>
  Python's import system, as far as a package needs it: the statements of a module that import or bind
  names, run in order, and \<open>sys.modules\<close>. A module enters \<open>sys.modules\<close> before its body runs, so that an
  import cycle sees a module with only the names bound so far. Modules of the package are named by their
  path below it, the package itself by \<open>[]\<close>. \<open>environment\<close> says which modules outside the package exist and
  which names they have; \<open>depth\<close> is how many nested imports the interpreter's stack allows
  (\<open>RecursionError\<close>, a \<open>RuntimeError\<close>).
\<close>

section \<open>Modules and their statements\<close>

datatype statement =
    Import_name string \<comment> \<open>\<open>import name\<close>, outside the package\<close>
  | From_external string "string list" \<comment> \<open>\<open>from module import names\<close>, outside the package\<close>
  | From_relative nat "string list" "string list" \<comment> \<open>\<open>from ..path import names\<close>, with the number of dots\<close>
  | Define string "string list" \<comment> \<open>binds a name; evaluates names that are not built in\<close>
  | Export "string list" \<comment> \<open>\<open>__all__ = names\<close>\<close>

record module_file =
  is_package :: bool
  module_body :: "statement list"

type_synonym module_path = "string list"
type_synonym environment = "string \<Rightarrow> string list option"
type_synonym module_files = "module_path \<Rightarrow> module_file option"
type_synonym sys_modules = "(module_path \<times> string list) list"

definition bound_names :: "sys_modules \<Rightarrow> module_path \<Rightarrow> string list" where
  "bound_names st m = (case map_of st m of None \<Rightarrow> [] | Some names \<Rightarrow> names)"

definition is_loaded :: "sys_modules \<Rightarrow> module_path \<Rightarrow> bool" where
  "is_loaded st m \<longleftrightarrow> map_of st m \<noteq> None"

definition bind_name :: "module_path \<Rightarrow> string \<Rightarrow> sys_modules \<Rightarrow> sys_modules" where
  "bind_name m name st = AList.map_entry m (\<lambda>names. name # names) st"

fun foldE :: "('a \<Rightarrow> 's \<Rightarrow> 's result) \<Rightarrow> 'a list \<Rightarrow> 's \<Rightarrow> 's result" where
  "foldE f [] st = Inr st"
| "foldE f (x # xs) st = bindE (f x st) (foldE f xs)"

section \<open>Running a module\<close>

definition resolve_level :: "bool \<Rightarrow> module_path \<Rightarrow> nat \<Rightarrow> module_path option" where
  \<comment> \<open>the package that the leading dots of a relative import denote\<close>
  "resolve_level package m level =
     (let anchor = (if package then m else butlast m)
      in if level - 1 \<le> length anchor then Some (take (length anchor - (level - 1)) anchor) else None)"

definition from_name ::
    "(module_path \<Rightarrow> sys_modules \<Rightarrow> sys_modules result) \<Rightarrow> module_path \<Rightarrow> module_path \<Rightarrow> string \<Rightarrow> sys_modules \<Rightarrow> sys_modules result" where
  \<comment> \<open>a name of the module, or else its submodule of that name\<close>
  "from_name import_it source m name st =
     bindE (if name \<in> set (bound_names st source) then Inr st else import_it (source @ [name]) st) (\<lambda>st'.
       if name \<in> set (bound_names st' source) then Inr (bind_name m name st') else Inl ImportError)"

fun run_statement ::
    "environment \<Rightarrow> (module_path \<Rightarrow> sys_modules \<Rightarrow> sys_modules result) \<Rightarrow> bool \<Rightarrow> module_path \<Rightarrow> statement \<Rightarrow> sys_modules
      \<Rightarrow> sys_modules result" where
  "run_statement env import_it package m (Import_name name) st =
     (if env name = None then Inl ImportError else Inr (bind_name m name st))"
| "run_statement env import_it package m (From_external source names) st =
     (case env source of
        None \<Rightarrow> Inl ImportError
      | Some provided \<Rightarrow>
          if list_all (\<lambda>name. name \<in> set provided) names then Inr (fold (bind_name m) names st) else Inl ImportError)"
| "run_statement env import_it package m (From_relative level path names) st =
     (case resolve_level package m level of
        None \<Rightarrow> Inl ImportError
      | Some anchor \<Rightarrow> bindE (import_it (anchor @ path) st) (foldE (from_name import_it (anchor @ path) m) names))"
| "run_statement env import_it package m (Define name used) st =
     (if list_all (\<lambda>u. u \<in> set (bound_names st m)) used then Inr (bind_name m name st) else Inl NameError)"
| "run_statement env import_it package m (Export names) st = Inr (bind_name m ''__all__'' st)"

definition attach :: "module_path \<Rightarrow> sys_modules \<Rightarrow> sys_modules" where
  \<comment> \<open>a loaded module becomes an attribute of its parent\<close>
  "attach m st = (if m = [] then st else bind_name (butlast m) (last m) st)"

definition parents :: "module_path \<Rightarrow> module_path list" where
  \<comment> \<open>the packages above a module, outermost first, and the module\<close>
  "parents m = map (\<lambda>n. take n m) [0 ..< Suc (length m)]"

definition import_with ::
    "(module_path \<Rightarrow> sys_modules \<Rightarrow> sys_modules result) \<Rightarrow> module_path \<Rightarrow> sys_modules \<Rightarrow> sys_modules result" where
  "import_with load m st = (if is_loaded st m then Inr st else foldE load (parents m) st)"

primrec load_module ::
    "environment \<Rightarrow> module_files \<Rightarrow> nat \<Rightarrow> module_path \<Rightarrow> sys_modules \<Rightarrow> sys_modules result" where
  "load_module env files 0 = (\<lambda>m st. if is_loaded st m then Inr st else Inl RuntimeError)"
| "load_module env files (Suc depth) = (\<lambda>m st.
     if is_loaded st m then Inr st
     else case files m of
       None \<Rightarrow> Inl ImportError
     | Some file \<Rightarrow>
         bindE (foldE (run_statement env (import_with (load_module env files depth)) (is_package file) m) (module_body file)
           ((m, []) # st)) (\<lambda>st'. Inr (attach m st')))"

definition import_module :: "environment \<Rightarrow> module_files \<Rightarrow> nat \<Rightarrow> module_path \<Rightarrow> sys_modules \<Rightarrow> sys_modules result" where
  "import_module env files depth = import_with (load_module env files depth)"

section \<open>A static check of a package\<close>

text \<open>
  Modules listed so that each imports, within the package, only from modules before it, whose parents are
  its own; every name that a statement takes, evaluates or exports is bound by an earlier statement.
\<close>

fun binds :: "statement \<Rightarrow> string list" where
  "binds (Import_name name) = [name]"
| "binds (From_external source names) = names"
| "binds (From_relative level path names) = names"
| "binds (Define name used) = [name]"
| "binds (Export names) = [''__all__'']"

definition body_binds :: "statement list \<Rightarrow> string list" where
  "body_binds body = concat (map binds body)"

fun statement_ok ::
    "environment \<Rightarrow> (module_path \<times> module_file) list \<Rightarrow> bool \<Rightarrow> module_path \<Rightarrow> string list \<Rightarrow> statement \<Rightarrow> bool" where
  "statement_ok env before package m known (Import_name name) \<longleftrightarrow> env name \<noteq> None"
| "statement_ok env before package m known (From_external source names) \<longleftrightarrow>
     (case env source of None \<Rightarrow> False | Some provided \<Rightarrow> list_all (\<lambda>name. name \<in> set provided) names)"
| "statement_ok env before package m known (From_relative level path names) \<longleftrightarrow>
     (case resolve_level package m level of
        None \<Rightarrow> False
      | Some anchor \<Rightarrow>
          anchor @ path \<noteq> [] \<and> prefix (butlast (anchor @ path)) m \<and>
          (case map_of before (anchor @ path) of
             None \<Rightarrow> False
           | Some file \<Rightarrow> list_all (\<lambda>name. name \<in> set (body_binds (module_body file))) names))"
| "statement_ok env before package m known (Define name used) \<longleftrightarrow> list_all (\<lambda>u. u \<in> set known) used"
| "statement_ok env before package m known (Export names) \<longleftrightarrow> list_all (\<lambda>name. name \<in> set known) names"

fun body_ok ::
    "environment \<Rightarrow> (module_path \<times> module_file) list \<Rightarrow> bool \<Rightarrow> module_path \<Rightarrow> string list \<Rightarrow> statement list \<Rightarrow> bool" where
  "body_ok env before package m known [] \<longleftrightarrow> True"
| "body_ok env before package m known (s # body) \<longleftrightarrow>
     statement_ok env before package m known s \<and> body_ok env before package m (binds s @ known) body"

fun modules_ok :: "environment \<Rightarrow> (module_path \<times> module_file) list \<Rightarrow> (module_path \<times> module_file) list \<Rightarrow> bool" where
  "modules_ok env before [] \<longleftrightarrow> True"
| "modules_ok env before ((m, file) # modules) \<longleftrightarrow>
     body_ok env before (is_package file) m [] (module_body file) \<and> modules_ok env (before @ [(m, file)]) modules"

lemma modules_okD:
  "modules_ok env before (first @ (m, file) # rest) \<Longrightarrow> body_ok env (before @ first) (is_package file) m [] (module_body file)"
  by (induction env before first rule: modules_ok.induct) auto

text \<open>A richer environment changes nothing.\<close>

definition provides_more :: "environment \<Rightarrow> environment \<Rightarrow> bool" where
  "provides_more env env' \<longleftrightarrow> (\<forall>m names. env m = Some names \<longrightarrow> (\<exists>names'. env' m = Some names' \<and> set names \<subseteq> set names'))"

lemma statement_ok_more:
  assumes "provides_more env env'" and "statement_ok env before package m known s"
  shows "statement_ok env' before package m known s"
proof (cases s)
  case (From_external source names)
  then show ?thesis using assms by (fastforce simp: provides_more_def list_all_iff split: option.splits)
next
  case (Import_name name)
  then show ?thesis using assms by (fastforce simp: provides_more_def)
qed (use assms(2) in simp_all)

lemma modules_ok_more:
  assumes "provides_more env env'" and "modules_ok env before modules"
  shows "modules_ok env' before modules"
proof -
  have "body_ok env before package m known body \<Longrightarrow> body_ok env' before package m known body" for before package m known body
    by (induction body arbitrary: known) (auto intro: statement_ok_more [OF assms(1)])
  with assms(2) show ?thesis by (induction env before modules rule: modules_ok.induct) auto
qed

section \<open>A package that passes the check is imported\<close>

definition grows :: "sys_modules \<Rightarrow> sys_modules \<Rightarrow> bool" where
  "grows st st' \<longleftrightarrow> (\<forall>m. (is_loaded st m \<longrightarrow> is_loaded st' m) \<and> set (bound_names st m) \<subseteq> set (bound_names st' m))"

definition complete :: "module_files \<Rightarrow> sys_modules \<Rightarrow> module_path \<Rightarrow> bool" where
  \<comment> \<open>loaded, with every name that its body binds\<close>
  "complete files st m \<longleftrightarrow> is_loaded st m
     \<and> (\<exists>file. files m = Some file \<and> set (body_binds (module_body file)) \<subseteq> set (bound_names st m))"

definition consistent :: "module_files \<Rightarrow> module_path set \<Rightarrow> sys_modules \<Rightarrow> bool" where
  \<comment> \<open>every loaded module is complete, except those whose bodies are running\<close>
  "consistent files running st \<longleftrightarrow> (\<forall>m. is_loaded st m \<longrightarrow> m \<in> running \<or> complete files st m)"

lemma grows_refl [simp]: "grows st st"
  by (simp add: grows_def)

lemma grows_trans: "grows st st1 \<Longrightarrow> grows st1 st2 \<Longrightarrow> grows st st2"
  by (fastforce simp: grows_def)

lemma bound_names_bind:
  "bound_names (bind_name m name st) x = (if x = m \<and> is_loaded st m then name # bound_names st m else bound_names st x)"
  by (simp add: bound_names_def bind_name_def is_loaded_def map_of_map_entry split: option.splits)

lemma is_loaded_bind [simp]: "is_loaded (bind_name m name st) x = is_loaded st x"
  by (simp add: bind_name_def is_loaded_def map_of_map_entry split: option.splits)

lemma grows_bind: "grows st (bind_name m name st)"
  by (auto simp: grows_def bound_names_bind)

lemma grows_enter: "\<not> is_loaded st m \<Longrightarrow> grows st ((m, []) # st)"
  by (auto simp: grows_def is_loaded_def bound_names_def split: option.splits if_splits)

lemma complete_grows: "complete files st m \<Longrightarrow> grows st st' \<Longrightarrow> complete files st' m"
  by (fastforce simp: complete_def grows_def)

lemma consistent_bind: "consistent files running st \<Longrightarrow> consistent files running (bind_name m name st)"
  by (auto simp: consistent_def intro: complete_grows [OF _ grows_bind])

lemma consistent_binds:
  "consistent files running st \<Longrightarrow> consistent files running (fold (bind_name m) names st) \<and> grows st (fold (bind_name m) names st)"
proof (induction names arbitrary: st)
  case (Cons name names)
  show ?case
    using Cons.IH [OF consistent_bind [OF Cons.prems], of m name] grows_trans [OF grows_bind [of st m name]] by simp
qed simp

lemma bound_fold: "is_loaded st m \<Longrightarrow> set (bound_names (fold (bind_name m) names st) m) = set names \<union> set (bound_names st m)"
  by (induction names arbitrary: st) (auto simp: bound_names_bind)

lemma names_taken:
  assumes "set names \<subseteq> set (bound_names st source)" and "is_loaded st m"
  shows "foldE (from_name import_it source m) names st = Inr (fold (bind_name m) names st)"
  using assms
proof (induction names arbitrary: st)
  case (Cons name names)
  have "set (bound_names st source) \<subseteq> set (bound_names (bind_name m name st) source)"
    using grows_bind [of st m name] by (simp add: grows_def)
  then show ?case using Cons by (auto simp: from_name_def)
qed simp

definition imports_below ::
    "module_files \<Rightarrow> module_path set \<Rightarrow> (module_path \<times> module_file) list \<Rightarrow> module_path
      \<Rightarrow> (module_path \<Rightarrow> sys_modules \<Rightarrow> sys_modules result) \<Rightarrow> bool" where
  \<comment> \<open>a module from the list, whose parents are those of \<open>m\<close>, can be imported while \<open>m\<close> runs\<close>
  "imports_below files running before m import_it \<longleftrightarrow>
     (\<forall>t st. t \<noteq> [] \<longrightarrow> t \<in> fst ` set before \<longrightarrow> prefix (butlast t) m \<longrightarrow> consistent files running st \<longrightarrow>
        (\<forall>p. prefix p m \<longrightarrow> is_loaded st p) \<longrightarrow>
        (\<exists>st'. import_it t st = Inr st' \<and> consistent files running st' \<and> complete files st' t \<and> grows st st'))"

lemma run_statement_ok:
  assumes ok: "statement_ok env before package m known s" and known: "set known \<subseteq> set (bound_names st m)"
    and below: "imports_below files running before m import_it" and files: "\<forall>(t, f)\<in>set before. files t = Some f"
    and loaded: "\<forall>p. prefix p m \<longrightarrow> is_loaded st p" and consistent: "consistent files running st"
  shows "\<exists>st'. run_statement env import_it package m s st = Inr st' \<and> consistent files running st' \<and> grows st st'
    \<and> set (binds s @ known) \<subseteq> set (bound_names st' m)"
proof (cases s)
  case (From_relative level path names)
  then obtain anchor f where t: "resolve_level package m level = Some anchor" "anchor @ path \<noteq> []"
      "prefix (butlast (anchor @ path)) m" "map_of before (anchor @ path) = Some f"
      "set names \<subseteq> set (body_binds (module_body f))"
    using ok by (auto simp: list_all_iff split: option.splits)
  have mem: "(anchor @ path, f) \<in> set before" by (rule map_of_SomeD [OF t(4)])
  then have "anchor @ path \<in> fst ` set before" by force
  then obtain st1 where st1: "import_it (anchor @ path) st = Inr st1" "consistent files running st1"
      "complete files st1 (anchor @ path)" "grows st st1"
    using below t(2,3) consistent loaded unfolding imports_below_def by blast
  have "files (anchor @ path) = Some f" using files mem by fastforce
  then have "set names \<subseteq> set (bound_names st1 (anchor @ path))" using st1(3) t(5) by (auto simp: complete_def)
  moreover have m: "is_loaded st1 m" using loaded st1(4) by (simp add: grows_def)
  ultimately have "foldE (from_name import_it (anchor @ path) m) names st1 = Inr (fold (bind_name m) names st1)"
    by (rule names_taken)
  moreover have "set known \<subseteq> set (bound_names st1 m)" using known st1(4) by (auto simp: grows_def)
  ultimately show ?thesis
    using From_relative t(1) st1(1) consistent_binds [OF st1(2), of m names] grows_trans [OF st1(4)] bound_fold [OF m]
    by auto
next
  case (From_external source names)
  have m: "is_loaded st m" using loaded by simp
  show ?thesis
    using ok From_external consistent_binds [OF consistent, of m names] bound_fold [OF m] known
    by (auto simp: list_all_iff split: option.splits)
qed (use ok known loaded consistent consistent_bind grows_bind in \<open>auto simp: list_all_iff bound_names_bind\<close>)

lemma run_body_ok:
  assumes "body_ok env before package m known body" and "set known \<subseteq> set (bound_names st m)"
    and "imports_below files running before m import_it" and "\<forall>(t, f)\<in>set before. files t = Some f"
    and "\<forall>p. prefix p m \<longrightarrow> is_loaded st p" and "consistent files running st"
  shows "\<exists>st'. foldE (run_statement env import_it package m) body st = Inr st' \<and> consistent files running st' \<and> grows st st'
    \<and> set (body_binds body @ known) \<subseteq> set (bound_names st' m)"
  using assms(1,2,5,6)
proof (induction body arbitrary: known st)
  case (Cons s body)
  obtain st1 where st1: "run_statement env import_it package m s st = Inr st1" "consistent files running st1" "grows st st1"
      "set (binds s @ known) \<subseteq> set (bound_names st1 m)"
    using run_statement_ok [OF _ Cons.prems(2) assms(3,4) Cons.prems(3,4), of env package s] Cons.prems(1) by force
  have "\<forall>p. prefix p m \<longrightarrow> is_loaded st1 p" using Cons.prems(3) st1(3) by (simp add: grows_def)
  then obtain st2 where st2: "foldE (run_statement env import_it package m) body st1 = Inr st2" "consistent files running st2"
      "grows st1 st2" "set (body_binds body @ binds s @ known) \<subseteq> set (bound_names st2 m)"
    using Cons.IH [OF _ st1(4) _ st1(2)] Cons.prems(1) by auto
  then show ?case using st1(1) grows_trans [OF st1(3) st2(3)] by (auto simp: body_binds_def)
qed (auto simp: body_binds_def)

lemma foldE_skip: "\<forall>x\<in>set xs. f x st = Inr st \<Longrightarrow> foldE f (xs @ ys) st = foldE f ys st"
  by (induction xs) simp_all

lemma foldE_append: "foldE f (xs @ ys) st = bindE (foldE f xs st) (foldE f ys)"
  by (induction xs arbitrary: st) (simp_all add: bindE_def split: sum.split)

lemma load_loaded: "is_loaded st m \<Longrightarrow> load_module env files depth m st = Inr st"
  by (cases depth) simp_all

lemma import_direct:
  assumes "\<not> is_loaded st t" and "t \<noteq> []" and "\<forall>p. prefix p (butlast t) \<longrightarrow> is_loaded st p"
  shows "import_with (load_module env files depth) t st = load_module env files depth t st"
proof -
  have "prefix (take n t) (butlast t)" if "n < length t" for n
    using that by (metis take_butlast take_is_prefix)
  then have "\<forall>x\<in>set (map (\<lambda>n. take n t) [0 ..< length t]). load_module env files depth x st = Inr st"
    using assms(3) by (auto intro: load_loaded)
  then show ?thesis
    using assms(1) foldE_skip [of "map (\<lambda>n. take n t) [0 ..< length t]" "load_module env files depth" st "[t]"]
    by (simp add: import_with_def parents_def bindE_def split: sum.split)
qed

lemma load_checked:
  assumes checked: "modules_ok env [] modules" and distinct: "distinct (map fst modules)" and files: "files = map_of modules"
    and "modules = before @ (m, f) # rest" and "length before < depth" and "consistent files running st"
    and "running \<inter> fst ` set (before @ [(m, f)]) = {}" and "\<forall>p. strict_prefix p m \<longrightarrow> is_loaded st p"
  shows "\<exists>st'. load_module env files depth m st = Inr st' \<and> consistent files running st' \<and> complete files st' m \<and> grows st st'"
  using assms(4-8)
proof (induction "length before" arbitrary: before m f rest depth running st rule: less_induct)
  case less
  show ?case
  proof (cases "is_loaded st m")
    case True
    then have "complete files st m" using less.prems(3,4) by (auto simp: consistent_def)
    then show ?thesis using load_loaded [OF True] less.prems(3) by auto
  next
    case False
    obtain d where depth: "depth = Suc d" using less.prems(2) by (cases depth) auto
    have here: "files m = Some f"
      unfolding files by (rule map_of_is_SomeI [OF distinct]) (simp add: less.prems(1))
    have below: "imports_below files (insert m running) before m (import_with (load_module env files d))"
      unfolding imports_below_def
    proof (intro allI impI)
      fix t st1
      assume t: "t \<noteq> []" "t \<in> fst ` set before" "prefix (butlast t) m" "consistent files (insert m running) st1"
        "\<forall>p. prefix p m \<longrightarrow> is_loaded st1 p"
      obtain b1 g b2 where b: "before = b1 @ (t, g) # b2" using t(2) by (force dest: split_list)
      have fresh: "t \<notin> insert m running" using distinct less.prems(1,4) t(2) by auto
      show "\<exists>st'. import_with (load_module env files d) t st1 = Inr st' \<and> consistent files (insert m running) st'
          \<and> complete files st' t \<and> grows st1 st'"
      proof (cases "is_loaded st1 t")
        case True
        then show ?thesis using t(4) fresh by (auto simp: import_with_def consistent_def)
      next
        case False
        have up: "is_loaded st1 p" if "prefix p (butlast t)" for p
          using t(3,5) that prefix_order.trans by blast
        have strict: "\<forall>p. strict_prefix p t \<longrightarrow> is_loaded st1 p"
          using up t(1) by (metis append_butlast_last_id prefix_snoc strict_prefix_def)
        have "insert m running \<inter> fst ` set (b1 @ [(t, g)]) = {}"
          using less.prems(1,4) distinct by (auto simp: b)
        then show ?thesis
          using less.hyps [of b1 t g "b2 @ (m, f) # rest" d "insert m running" st1] less.prems(1,2) t(4) strict up
          by (simp add: b depth import_direct [OF False t(1)])
      qed
    qed
    have sub: "\<forall>(t, g)\<in>set before. files t = Some g"
      unfolding files using map_of_is_SomeI [OF distinct] less.prems(1) by auto
    have body: "body_ok env before (is_package f) m [] (module_body f)"
      using modules_okD [of env "[]" before m f rest] checked less.prems(1) by simp
    let ?st0 = "(m, []) # st"
    have grow0: "grows st ?st0" using False by (rule grows_enter)
    have "\<forall>p. prefix p m \<longrightarrow> is_loaded ?st0 p"
      using less.prems(5) by (auto simp: is_loaded_def strict_prefix_def)
    moreover have "consistent files (insert m running) ?st0"
      using less.prems(3) complete_grows [OF _ grow0] by (auto simp: consistent_def is_loaded_def split: if_splits)
    ultimately obtain st1 where st1:
        "foldE (run_statement env (import_with (load_module env files d)) (is_package f) m) (module_body f) ?st0 = Inr st1"
        "consistent files (insert m running) st1" "grows ?st0 st1" "set (body_binds (module_body f)) \<subseteq> set (bound_names st1 m)"
      using run_body_ok [OF body _ below sub, of ?st0] by auto
    have "is_loaded st1 m" using st1(3) by (auto simp: grows_def is_loaded_def)
    then have whole: "complete files st1 m" using st1(4) here by (simp add: complete_def)
    then have "consistent files running st1" using st1(2) by (auto simp: consistent_def)
    then have "consistent files running (attach m st1)" by (simp add: attach_def consistent_bind)
    moreover have grow1: "grows st1 (attach m st1)" by (simp add: attach_def grows_bind)
    moreover have "load_module env files depth m st = Inr (attach m st1)" using False by (simp add: depth here st1(1))
    ultimately show ?thesis
      using complete_grows [OF whole] grows_trans [OF grow0 grows_trans [OF st1(3)]] by blast
  qed
qed

text \<open>
  Importing: any modules, in any order and any number of times, into an interpreter that has loaded
  nothing, or what such imports leave.
\<close>

lemma import_checked:
  assumes checked: "modules_ok env [] modules" and distinct: "distinct (map fst modules)"
    and closed: "\<forall>m\<in>fst ` set modules. set (parents m) \<subseteq> fst ` set modules"
    and m: "m \<in> fst ` set modules" and depth: "length modules \<le> depth" and start: "consistent (map_of modules) {} st"
  shows "\<exists>st'. import_module env (map_of modules) depth m st = Inr st' \<and> consistent (map_of modules) {} st'
    \<and> complete (map_of modules) st' m \<and> grows st st'"
proof (cases "is_loaded st m")
  case True
  then show ?thesis using start by (auto simp: import_module_def import_with_def consistent_def)
next
  case False
  have one: "\<exists>st'. load_module env (map_of modules) depth x st1 = Inr st' \<and> consistent (map_of modules) {} st'
      \<and> complete (map_of modules) st' x \<and> grows st1 st'"
    if x: "x \<in> fst ` set modules" and st1: "consistent (map_of modules) {} st1" "\<forall>p. strict_prefix p x \<longrightarrow> is_loaded st1 p" for x st1
  proof -
    obtain before f rest where split: "modules = before @ (x, f) # rest" using x by (force dest: split_list)
    show ?thesis
      using load_checked [OF checked distinct refl split _ st1(1) _ st1(2), of depth] depth by (simp add: split)
  qed
  have "\<exists>st'. foldE (load_module env (map_of modules) depth) (map (\<lambda>k. take k m) [0 ..< n]) st = Inr st'
      \<and> consistent (map_of modules) {} st' \<and> (\<forall>k<n. complete (map_of modules) st' (take k m)) \<and> grows st st'"
    if "n \<le> Suc (length m)" for n
    using that
  proof (induction n)
    case (Suc n)
    then obtain st1 where st1: "foldE (load_module env (map_of modules) depth) (map (\<lambda>k. take k m) [0 ..< n]) st = Inr st1"
        "consistent (map_of modules) {} st1" "\<forall>k<n. complete (map_of modules) st1 (take k m)" "grows st st1"
      by auto
    have "take n m \<in> set (parents m)" using Suc.prems by (auto simp: parents_def)
    then have "take n m \<in> fst ` set modules" using closed m by blast
    moreover have "is_loaded st1 p" if "strict_prefix p (take n m)" for p
    proof -
      have "length p < n" using that prefix_length_less by fastforce
      moreover have "p = take (length p) m"
      proof -
        have "prefix p m" using that take_is_prefix [of n m] unfolding strict_prefix_def by (blast intro: prefix_order.trans)
        then show ?thesis by (auto simp: prefix_def)
      qed
      ultimately show ?thesis using st1(3) unfolding complete_def by metis
    qed
    ultimately obtain st2 where st2: "load_module env (map_of modules) depth (take n m) st1 = Inr st2"
        "consistent (map_of modules) {} st2" "complete (map_of modules) st2 (take n m)" "grows st1 st2"
      using one st1(2) by blast
    have "foldE (load_module env (map_of modules) depth) (map (\<lambda>k. take k m) [0 ..< Suc n]) st = Inr st2"
      using st1(1) st2(1) by (simp add: foldE_append)
    then show ?case
      using st1(3) st2 complete_grows [OF _ st2(4)] grows_trans [OF st1(4) st2(4)] by (auto simp: less_Suc_eq)
  qed (simp add: start)
  from this [of "Suc (length m)"] show ?thesis
    using False by (auto simp: import_module_def import_with_def parents_def)
qed

lemma imports_checked:
  assumes checked: "modules_ok env [] modules" and distinct: "distinct (map fst modules)"
    and closed: "\<forall>m\<in>fst ` set modules. set (parents m) \<subseteq> fst ` set modules"
    and depth: "length modules \<le> depth" and ms: "set ms \<subseteq> fst ` set modules"
  shows "\<exists>st. foldE (import_module env (map_of modules) depth) ms [] = Inr st \<and> (\<forall>m\<in>set ms. complete (map_of modules) st m)"
proof -
  have "\<exists>st'. foldE (import_module env (map_of modules) depth) ms st = Inr st' \<and> (\<forall>m\<in>set ms. complete (map_of modules) st' m)
      \<and> grows st st'" if "consistent (map_of modules) {} st" for st
    using ms that
  proof (induction ms arbitrary: st)
    case (Cons m ms)
    then obtain st1 where st1: "import_module env (map_of modules) depth m st = Inr st1" "consistent (map_of modules) {} st1"
        "complete (map_of modules) st1 m" "grows st st1"
      using import_checked [OF checked distinct closed _ depth] by force
    with Cons obtain st2 where "foldE (import_module env (map_of modules) depth) ms st1 = Inr st2"
        "\<forall>m\<in>set ms. complete (map_of modules) st2 m" "grows st1 st2"
      by force
    then show ?case using st1 complete_grows [OF st1(3)] grows_trans [OF st1(4)] by auto
  qed simp
  moreover have "consistent (map_of modules) {} []" by (simp add: consistent_def is_loaded_def)
  ultimately show ?thesis by blast
qed

end
