(* ===== verification/PackageModules.thy ===== *)
theory PackageModules
  imports Imports ContractCheck
begin

text \<open>
  The statements of every module of the package that import or bind names, in the order of the sources:
  for \<open>def\<close>, \<open>class\<close> and assignments the name that is bound and the names, other than built-in ones, that
  are evaluated when the statement runs (decorators, base classes, defaults, right-hand sides;
  annotations are not evaluated, the modules import \<open>annotations\<close> from \<open>__future__\<close>).
\<close>

section \<open>\<open>_validation.py\<close>\<close>

definition validation_imports :: "statement list" where
  "validation_imports =
     [From_external ''__future__'' [''annotations''],
      Import_name ''re'',
      From_external ''collections.abc'' [''Mapping'', ''Sequence'', ''Set''],
      From_external ''datetime'' [''UTC'', ''datetime''],
      From_external ''typing'' [''Any'', ''cast''],
      From_external ''meridian_storage.semantics'' [''JsonValue'']]"

definition validation_statements :: "statement list" where
  "validation_statements =
     [Define ''DIGEST_RE'' [''re''], Define ''TOKEN_RE'' [''re''], Define ''MEDIA_TYPE_RE'' [''re''],
      Define ''TIMESTAMP_RE'' [''re''], Define ''_PRIVATE_KEYS'' [], Define ''bounded_string'' [],
      Define ''token'' [], Define ''digest'' [], Define ''media_type'' [], Define ''non_negative_int'' [],
      Define ''positive_int'' [], Define ''utc_timestamp'' [], Define ''string_mapping'' [],
      Define ''json_mapping'' [], Define ''string_sequence'' [], Define ''reject_private_configuration'' [],
      Define ''exact_fields'' []]"

section \<open>\<open>_version.py\<close>\<close>

definition version_statements :: "statement list" where
  "version_statements =
     [Define ''__version__'' []]"

section \<open>\<open>errors.py\<close>\<close>

definition errors_imports :: "statement list" where
  "errors_imports =
     [From_external ''__future__'' [''annotations''],
      From_external ''enum'' [''StrEnum''],
      From_external ''typing'' [''Any''],
      From_external ''meridian_storage.errors'' [''AuthenticationError'', ''AuthorizationError'',
        ''CompatibilityError'', ''ConflictError'', ''ConstraintError'', ''CorruptionError'', ''MeridianError'',
        ''NotFoundError'', ''RateLimitError'', ''TransientError'', ''UnavailableError'', ''ValidationError'']]"

definition errors_statements :: "statement list" where
  "errors_statements =
     [Define ''ObjectErrorCode'' [''StrEnum''], Define ''ObjectInvalidRequest'' [''ValidationError''],
      Define ''ObjectNotFound'' [''NotFoundError''], Define ''ConditionalConflict'' [''ConflictError''],
      Define ''ImmutableObjectConflict'' [''ConflictError''], Define ''RetentionDenied'' [''ConstraintError''],
      Define ''DigestMismatch'' [''CorruptionError''], Define ''IncompleteUpload'' [''ValidationError''],
      Define ''PayloadUnavailable'' [''UnavailableError''],
      Define ''RangeNotSatisfiable'' [''ValidationError''], Define ''MultipartInvalid'' [''ValidationError''],
      Define ''ObjectCapabilityMismatch'' [''CompatibilityError''],
      Define ''ObjectAuthenticationFailed'' [''AuthenticationError''],
      Define ''ObjectAuthorizationFailed'' [''AuthorizationError''],
      Define ''ObjectQuotaExceeded'' [''ConstraintError''], Define ''ObjectRateLimited'' [''RateLimitError''],
      Define ''TransferCancelled'' [''TransientError''], Define ''ObjectUnavailable'' [''UnavailableError''],
      Define ''_FAILURE_CLASSES'' [''ObjectAuthenticationFailed'', ''ObjectAuthorizationFailed'',
      ''ConditionalConflict'', ''DigestMismatch'', ''IncompleteUpload'', ''ObjectNotFound'',
      ''ObjectQuotaExceeded'', ''ObjectRateLimited'', ''RetentionDenied'', ''ObjectUnavailable''],
      Define ''classify_object_failure'' []]"

definition errors_exports :: "string list" where
  "errors_exports =
     [''ConditionalConflict'', ''DigestMismatch'', ''ImmutableObjectConflict'', ''IncompleteUpload'',
      ''MultipartInvalid'', ''ObjectAuthenticationFailed'', ''ObjectAuthorizationFailed'',
      ''ObjectCapabilityMismatch'', ''ObjectErrorCode'', ''ObjectInvalidRequest'', ''ObjectNotFound'',
      ''ObjectQuotaExceeded'', ''ObjectRateLimited'', ''ObjectUnavailable'', ''PayloadUnavailable'',
      ''RangeNotSatisfiable'', ''RetentionDenied'', ''TransferCancelled'', ''classify_object_failure'']"

section \<open>\<open>capabilities.py\<close>\<close>

definition capabilities_imports :: "statement list" where
  "capabilities_imports =
     [From_external ''__future__'' [''annotations''],
      From_external ''collections.abc'' [''Iterable'', ''Mapping''],
      From_external ''dataclasses'' [''dataclass''],
      From_external ''meridian_storage.spi'' [''CapabilityManifest'', ''CapabilityRequirement'',
        ''CapabilityViolation'', ''capability_violations''],
      From_relative 1 [''errors''] [''ObjectCapabilityMismatch'']]"

definition capabilities_statements :: "statement list" where
  "capabilities_statements =
     [Define ''OBJECT_OPERATION_VERSION'' [], Define ''GUARANTEE_STREAMING'' [],
      Define ''GUARANTEE_DIGEST_SHA256'' [], Define ''GUARANTEE_DIGEST_VERIFICATION'' [],
      Define ''GUARANTEE_METADATA_AFTER_COMMIT'' [], Define ''GUARANTEE_RANGE_READ'' [],
      Define ''GUARANTEE_CONDITIONAL_CREATE'' [], Define ''GUARANTEE_BOUNDED_PREFIX_LIST'' [],
      Define ''GUARANTEE_EXACT_VERSION_DELETE'' [], Define ''GUARANTEE_MULTIPART'' [],
      Define ''GUARANTEE_IMMUTABILITY_INTENT'' [], Define ''GUARANTEE_RETENTION_INTENT'' [],
      Define ''GUARANTEE_RETENTION_ENFORCEMENT'' [], Define ''GUARANTEE_SIGNED_REFERENCE'' [],
      Define ''LIMIT_MAX_OBJECT_BYTES'' [], Define ''LIMIT_MAX_RANGE_BYTES'' [],
      Define ''LIMIT_MAX_LIST_PAGE_SIZE'' [], Define ''LIMIT_MAX_USER_METADATA_ENTRIES'' [],
      Define ''LIMIT_MAX_MULTIPART_PARTS'' [], Define ''LIMIT_MAX_MULTIPART_PART_BYTES'' [],
      Define ''object_requirement'' [], Define ''ObjectCapabilityReport'' [''dataclass''],
      Define ''negotiate_object_capabilities'' [], Define ''require_object_capabilities'' []]"

definition capabilities_exports :: "string list" where
  "capabilities_exports =
     [''GUARANTEE_BOUNDED_PREFIX_LIST'', ''GUARANTEE_CONDITIONAL_CREATE'', ''GUARANTEE_DIGEST_SHA256'',
      ''GUARANTEE_DIGEST_VERIFICATION'', ''GUARANTEE_EXACT_VERSION_DELETE'', ''GUARANTEE_IMMUTABILITY_INTENT'',
      ''GUARANTEE_METADATA_AFTER_COMMIT'', ''GUARANTEE_MULTIPART'', ''GUARANTEE_RANGE_READ'',
      ''GUARANTEE_RETENTION_ENFORCEMENT'', ''GUARANTEE_RETENTION_INTENT'', ''GUARANTEE_SIGNED_REFERENCE'',
      ''GUARANTEE_STREAMING'', ''LIMIT_MAX_LIST_PAGE_SIZE'', ''LIMIT_MAX_MULTIPART_PARTS'',
      ''LIMIT_MAX_MULTIPART_PART_BYTES'', ''LIMIT_MAX_OBJECT_BYTES'', ''LIMIT_MAX_RANGE_BYTES'',
      ''LIMIT_MAX_USER_METADATA_ENTRIES'', ''OBJECT_OPERATION_VERSION'', ''ObjectCapabilityReport'',
      ''negotiate_object_capabilities'', ''object_requirement'', ''require_object_capabilities'']"

section \<open>\<open>metadata/__init__.py\<close>\<close>

definition metadata_imports :: "statement list" where
  "metadata_imports =
     [From_external ''__future__'' [''annotations''],
      From_external ''collections.abc'' [''Mapping''],
      From_external ''dataclasses'' [''dataclass''],
      From_external ''typing'' [''cast''],
      From_external ''meridian_storage.semantics'' [''CatalogName'', ''FrozenJson'', ''JsonValue'',
        ''ObjectMetadata'', ''ObjectProfile'', ''ObjectReference'', ''ResourceReference''],
      From_relative 2 [''_validation''] [''digest'', ''exact_fields'', ''non_negative_int'']]"

definition metadata_statements :: "statement list" where
  "metadata_statements =
     [Define ''ContentIdentity'' [''dataclass''], Define ''parse_object_reference'' [],
      Define ''parse_object_metadata'' []]"

definition metadata_exports :: "string list" where
  "metadata_exports =
     [''ContentIdentity'', ''ObjectMetadata'', ''ObjectProfile'', ''ObjectReference'',
      ''parse_object_metadata'', ''parse_object_reference'']"

section \<open>\<open>codec/digest.py\<close>\<close>

definition digest_imports :: "statement list" where
  "digest_imports =
     [From_external ''__future__'' [''annotations''],
      Import_name ''hashlib'',
      From_relative 2 [''errors''] [''DigestMismatch''],
      From_relative 2 [''metadata''] [''ContentIdentity'']]"

definition digest_statements :: "statement list" where
  "digest_statements =
     [Define ''Sha256Accumulator'' []]"

definition digest_exports :: "string list" where
  "digest_exports =
     [''Sha256Accumulator'']"

section \<open>\<open>codec/signed.py\<close>\<close>

definition signed_imports :: "statement list" where
  "signed_imports =
     [From_external ''__future__'' [''annotations''],
      Import_name ''base64'',
      Import_name ''hashlib'',
      Import_name ''hmac'',
      Import_name ''re'',
      Import_name ''secrets'',
      From_external ''collections.abc'' [''Mapping'', ''Sequence''],
      From_external ''dataclasses'' [''dataclass'', ''replace''],
      From_external ''datetime'' [''UTC'', ''datetime''],
      From_external ''typing'' [''Protocol'', ''cast'', ''runtime_checkable''],
      From_external ''meridian_storage.semantics'' [''JsonValue'', ''ObjectReference'',
        ''canonical_json_bytes''],
      From_relative 2 [''_validation''] [''bounded_string'', ''exact_fields'', ''string_sequence'', ''token'',
        ''utc_timestamp''],
      From_relative 2 [''errors''] [''ObjectAuthorizationFailed'', ''ObjectInvalidRequest''],
      From_relative 2 [''metadata''] [''parse_object_reference'']]"

definition signed_statements :: "statement list" where
  "signed_statements =
     [Define ''SIGNED_REFERENCE_FORMAT_VERSION'' [], Define ''SIGNED_REFERENCE_OPERATIONS'' [],
      Define ''ReferenceSigner'' [''runtime_checkable'', ''Protocol''], Define ''HmacSha256Key'' [],
      Define ''SignedObjectReference'' [''dataclass'', ''SIGNED_REFERENCE_FORMAT_VERSION''],
      Define ''sign_object_reference'' [], Define ''parse_logical_reference'' [],
      Define ''_encode_signature'' [], Define ''_signature_string'' [], Define ''_decode_signature'' []]"

definition signed_exports :: "string list" where
  "signed_exports =
     [''SIGNED_REFERENCE_FORMAT_VERSION'', ''SIGNED_REFERENCE_OPERATIONS'', ''HmacSha256Key'',
      ''ReferenceSigner'', ''SignedObjectReference'', ''parse_logical_reference'', ''sign_object_reference'']"

section \<open>\<open>codec/__init__.py\<close>\<close>

definition codec_imports :: "statement list" where
  "codec_imports =
     [From_relative 1 [''digest''] [''Sha256Accumulator''],
      From_relative 1 [''signed''] [''SIGNED_REFERENCE_FORMAT_VERSION'', ''SIGNED_REFERENCE_OPERATIONS'',
        ''HmacSha256Key'', ''ReferenceSigner'', ''SignedObjectReference'', ''parse_logical_reference'',
        ''sign_object_reference'']]"

definition codec_exports :: "string list" where
  "codec_exports =
     [''SIGNED_REFERENCE_FORMAT_VERSION'', ''SIGNED_REFERENCE_OPERATIONS'', ''HmacSha256Key'',
      ''ReferenceSigner'', ''Sha256Accumulator'', ''SignedObjectReference'', ''parse_logical_reference'',
      ''sign_object_reference'']"

section \<open>\<open>contracts/ranges.py\<close>\<close>

definition ranges_imports :: "statement list" where
  "ranges_imports =
     [From_external ''__future__'' [''annotations''],
      From_external ''collections.abc'' [''Mapping''],
      From_external ''dataclasses'' [''dataclass''],
      From_external ''typing'' [''cast''],
      From_external ''meridian_storage.semantics'' [''JsonValue''],
      From_relative 2 [''_validation''] [''exact_fields'', ''non_negative_int'', ''positive_int''],
      From_relative 2 [''errors''] [''RangeNotSatisfiable'']]"

definition ranges_statements :: "statement list" where
  "ranges_statements =
     [Define ''ResolvedByteRange'' [''dataclass''], Define ''ByteRange'' [''dataclass'']]"

definition ranges_exports :: "string list" where
  "ranges_exports =
     [''ByteRange'', ''ResolvedByteRange'']"

section \<open>\<open>contracts/state.py\<close>\<close>

definition state_imports :: "statement list" where
  "state_imports =
     [From_external ''__future__'' [''annotations''],
      From_external ''enum'' [''StrEnum''],
      From_external ''threading'' [''RLock''],
      From_relative 2 [''errors''] [''ObjectInvalidRequest'']]"

definition state_statements :: "statement list" where
  "state_statements =
     [Define ''PutState'' [''StrEnum''], Define ''_TRANSITIONS'' [''PutState''], Define ''PutStateMachine'' []]"

definition state_exports :: "string list" where
  "state_exports =
     [''PutState'', ''PutStateMachine'']"

section \<open>\<open>contracts/payloads.py\<close>\<close>

definition payloads_imports :: "statement list" where
  "payloads_imports =
     [From_external ''__future__'' [''annotations''],
      Import_name ''hashlib'',
      Import_name ''secrets'',
      From_external ''collections.abc'' [''Callable'', ''Iterator'', ''Mapping''],
      From_external ''contextlib'' [''AbstractContextManager'', ''contextmanager''],
      From_external ''dataclasses'' [''dataclass''],
      From_external ''threading'' [''RLock''],
      From_external ''typing'' [''BinaryIO'', ''Protocol'', ''cast'', ''runtime_checkable''],
      From_external ''meridian_storage.semantics'' [''JsonValue''],
      From_relative 2 [''_validation''] [''digest'', ''exact_fields'', ''non_negative_int'', ''positive_int'',
        ''token''],
      From_relative 2 [''errors''] [''DigestMismatch'', ''IncompleteUpload'', ''ObjectInvalidRequest'',
        ''PayloadUnavailable'', ''TransferCancelled''],
      From_relative 2 [''metadata''] [''ContentIdentity'']]"

definition payloads_statements :: "statement list" where
  "payloads_statements =
     [Define ''PAYLOAD_REFERENCE_FORMAT_VERSION'' [], Define ''DEFAULT_CHUNK_SIZE'' [],
      Define ''MAX_CHUNK_SIZE'' [],
      Define ''PayloadReference'' [''dataclass'', ''PAYLOAD_REFERENCE_FORMAT_VERSION''],
      Define ''PayloadSource'' [''runtime_checkable'', ''Protocol''],
      Define ''BinarySink'' [''runtime_checkable'', ''Protocol''],
      Define ''StreamPayloadSource'' [''contextmanager''], Define ''FactoryPayloadSource'' [''contextmanager''],
      Define ''PayloadRegistry'' [''contextmanager''], Define ''_DefaultPayloadRegistry'' [''PayloadRegistry''],
      Define ''_DEFAULT_PAYLOADS'' [''_DefaultPayloadRegistry''], Define ''default_payload_registry'' [],
      Define ''iter_payload_chunks'' [''DEFAULT_CHUNK_SIZE''],
      Define ''transfer_payload'' [''DEFAULT_CHUNK_SIZE'']]"

definition payloads_exports :: "string list" where
  "payloads_exports =
     [''DEFAULT_CHUNK_SIZE'', ''MAX_CHUNK_SIZE'', ''PAYLOAD_REFERENCE_FORMAT_VERSION'', ''BinarySink'',
      ''FactoryPayloadSource'', ''PayloadReference'', ''PayloadRegistry'', ''PayloadSource'',
      ''StreamPayloadSource'', ''default_payload_registry'', ''iter_payload_chunks'', ''transfer_payload'']"

section \<open>\<open>contracts/multipart.py\<close>\<close>

definition multipart_imports :: "statement list" where
  "multipart_imports =
     [From_external ''__future__'' [''annotations''],
      From_external ''collections.abc'' [''Mapping'', ''Sequence''],
      From_external ''dataclasses'' [''dataclass''],
      From_external ''typing'' [''Protocol'', ''cast'', ''runtime_checkable''],
      From_external ''meridian_storage.semantics'' [''JsonValue'', ''ObjectMetadata'', ''ObjectReference''],
      From_external ''meridian_storage'' [''Operation''],
      From_relative 2 [''_validation''] [''exact_fields'', ''positive_int'', ''token'', ''utc_timestamp''],
      From_relative 2 [''errors''] [''MultipartInvalid''],
      From_relative 2 [''metadata''] [''ContentIdentity'', ''parse_object_reference''],
      From_relative 1 [''payloads''] [''PayloadReference'', ''PayloadRegistry'']]"

definition multipart_statements :: "statement list" where
  "multipart_statements =
     [Define ''MULTIPART_SESSION_FORMAT_VERSION'' [], Define ''MultipartLimits'' [''dataclass''],
      Define ''MultipartSession'' [''dataclass'', ''MULTIPART_SESSION_FORMAT_VERSION''],
      Define ''MultipartPart'' [''dataclass''], Define ''MultipartCompletion'' [''dataclass''],
      Define ''MultipartAdapter'' [''runtime_checkable'', ''Protocol'']]"

definition multipart_exports :: "string list" where
  "multipart_exports =
     [''MULTIPART_SESSION_FORMAT_VERSION'', ''MultipartAdapter'', ''MultipartCompletion'', ''MultipartLimits'',
      ''MultipartPart'', ''MultipartSession'']"

section \<open>\<open>contracts/__init__.py\<close>\<close>

definition contracts_imports :: "statement list" where
  "contracts_imports =
     [From_relative 1 [''multipart''] [''MultipartAdapter'', ''MultipartCompletion'', ''MultipartLimits'',
        ''MultipartPart'', ''MultipartSession''],
      From_relative 1 [''payloads''] [''BinarySink'', ''FactoryPayloadSource'', ''PayloadReference'',
        ''PayloadRegistry'', ''PayloadSource'', ''StreamPayloadSource'', ''default_payload_registry'',
        ''iter_payload_chunks'', ''transfer_payload''],
      From_relative 1 [''ranges''] [''ByteRange'', ''ResolvedByteRange''],
      From_relative 1 [''state''] [''PutState'', ''PutStateMachine'']]"

definition contracts_exports :: "string list" where
  "contracts_exports =
     [''BinarySink'', ''ByteRange'', ''FactoryPayloadSource'', ''MultipartAdapter'', ''MultipartCompletion'',
      ''MultipartLimits'', ''MultipartPart'', ''MultipartSession'', ''PayloadReference'', ''PayloadRegistry'',
      ''PayloadSource'', ''PutState'', ''PutStateMachine'', ''ResolvedByteRange'', ''StreamPayloadSource'',
      ''default_payload_registry'', ''iter_payload_chunks'', ''transfer_payload'']"

section \<open>\<open>immutability/policy.py\<close>\<close>

definition policy_imports :: "statement list" where
  "policy_imports =
     [From_external ''__future__'' [''annotations''],
      From_external ''collections.abc'' [''Mapping''],
      From_external ''dataclasses'' [''dataclass''],
      From_external ''datetime'' [''UTC'', ''datetime''],
      From_external ''typing'' [''cast''],
      From_external ''meridian_storage.semantics'' [''JsonValue'', ''ObjectProfile'', ''profile_from_mapping''],
      From_relative 2 [''_validation''] [''bounded_string'', ''exact_fields'', ''utc_timestamp''],
      From_relative 2 [''errors''] [''ImmutableObjectConflict'', ''RetentionDenied'']]"

definition policy_statements :: "statement list" where
  "policy_statements =
     [Define ''ImmutabilityRequest'' [''dataclass''], Define ''RetentionRequest'' [''dataclass''],
      Define ''parse_object_profile'' [], Define ''effective_immutability'' []]"

definition policy_exports :: "string list" where
  "policy_exports =
     [''ImmutabilityRequest'', ''RetentionRequest'', ''effective_immutability'', ''parse_object_profile'']"

section \<open>\<open>immutability/__init__.py\<close>\<close>

definition immutability_imports :: "statement list" where
  "immutability_imports =
     [From_relative 1 [''policy''] [''ImmutabilityRequest'', ''RetentionRequest'', ''effective_immutability'',
        ''parse_object_profile'']]"

definition immutability_exports :: "string list" where
  "immutability_exports =
     [''ImmutabilityRequest'', ''RetentionRequest'', ''effective_immutability'', ''parse_object_profile'']"

section \<open>\<open>catalog.py\<close>\<close>

definition catalog_imports :: "statement list" where
  "catalog_imports =
     [From_external ''__future__'' [''annotations''],
      From_external ''collections.abc'' [''Mapping''],
      From_external ''types'' [''MappingProxyType''],
      From_external ''typing'' [''Any'', ''cast''],
      From_external ''meridian_storage.semantics'' [''CatalogName'', ''JsonValue'', ''ObjectProfile'',
        ''ResourceReference''],
      From_external ''meridian_storage.spi'' [''CapabilityRequirement''],
      From_external ''meridian_storage'' [''CatalogManifest'', ''Expression'', ''Operation'',
        ''OperationContract'', ''ResourceRef'', ''SchemaRef''],
      From_relative 1 [''_validation''] [''bounded_string'', ''digest'', ''exact_fields'', ''json_mapping'',
        ''media_type'', ''non_negative_int'', ''positive_int'', ''reject_private_configuration'',
        ''string_mapping''],
      From_relative 1 [''_version''] [''__version__''],
      From_relative 1 [''capabilities''] [''GUARANTEE_BOUNDED_PREFIX_LIST'', ''GUARANTEE_CONDITIONAL_CREATE'',
        ''GUARANTEE_DIGEST_SHA256'', ''GUARANTEE_DIGEST_VERIFICATION'', ''GUARANTEE_EXACT_VERSION_DELETE'',
        ''GUARANTEE_IMMUTABILITY_INTENT'', ''GUARANTEE_METADATA_AFTER_COMMIT'', ''GUARANTEE_RANGE_READ'',
        ''GUARANTEE_RETENTION_ENFORCEMENT'', ''GUARANTEE_RETENTION_INTENT'', ''GUARANTEE_SIGNED_REFERENCE'',
        ''GUARANTEE_STREAMING'', ''LIMIT_MAX_LIST_PAGE_SIZE'', ''LIMIT_MAX_OBJECT_BYTES'',
        ''LIMIT_MAX_RANGE_BYTES'', ''LIMIT_MAX_USER_METADATA_ENTRIES'', ''OBJECT_OPERATION_VERSION'',
        ''object_requirement''],
      From_relative 1 [''codec''] [''SignedObjectReference'', ''parse_logical_reference''],
      From_relative 1 [''contracts''] [''ByteRange'', ''PayloadReference''],
      From_relative 1 [''errors''] [''ObjectInvalidRequest''],
      From_relative 1 [''immutability''] [''ImmutabilityRequest'', ''RetentionRequest'',
        ''parse_object_profile''],
      From_relative 1 [''metadata''] [''ObjectReference'']]"

definition catalog_statements :: "statement list" where
  "catalog_statements =
     [Define ''OBJECT_CATALOG_CONTRACT_VERSION'' [], Define ''OBJECT_REGISTRY_REF'' [''ResourceRef''], Define
      ''_OBJECT_OPERATIONS'' [''MappingProxyType'', ''GUARANTEE_EXACT_VERSION_DELETE'',
      ''GUARANTEE_DIGEST_VERIFICATION'', ''GUARANTEE_STREAMING'', ''GUARANTEE_BOUNDED_PREFIX_LIST'',
      ''GUARANTEE_DIGEST_SHA256'', ''GUARANTEE_METADATA_AFTER_COMMIT'', ''GUARANTEE_RANGE_READ''],
      Define ''object_manifest'' [], Define ''ObjectCatalogSurface'' [], Define ''ObjectCatalogProvider'' [],
      Define ''_validate_registry_arguments'' [], Define ''_validate_data_arguments'' [],
      Define ''_validate_put'' [], Define ''_normalize_reference'' [], Define ''_require_same_resource'' [],
      Define ''_parse_resource'' [], Define ''_wire'' []]"

definition catalog_exports :: "string list" where
  "catalog_exports =
     [''OBJECT_CATALOG_CONTRACT_VERSION'', ''OBJECT_REGISTRY_REF'', ''ObjectCatalogProvider'',
      ''ObjectCatalogSurface'', ''object_manifest'']"

section \<open>\<open>testing/__init__.py\<close>\<close>

definition testing_imports :: "statement list" where
  "testing_imports =
     [From_external ''__future__'' [''annotations''],
      Import_name ''hashlib'',
      From_external ''collections.abc'' [''Callable'', ''Mapping''],
      From_external ''dataclasses'' [''dataclass''],
      From_external ''io'' [''BytesIO''],
      From_external ''typing'' [''Protocol'', ''cast'', ''runtime_checkable''],
      From_external ''meridian_storage.semantics'' [''JsonValue'', ''sha256_fingerprint''],
      From_external ''meridian_storage'' [''Expression'', ''Operation''],
      From_relative 2 [''catalog''] [''ObjectCatalogProvider''],
      From_relative 2 [''contracts''] [''ByteRange'', ''FactoryPayloadSource'', ''PayloadReference'',
        ''PayloadRegistry'', ''transfer_payload''],
      From_relative 2 [''errors''] [''ConditionalConflict'', ''DigestMismatch'', ''ObjectNotFound''],
      From_relative 2 [''metadata''] [''ObjectMetadata'', ''parse_object_metadata'']]"

definition testing_statements :: "statement list" where
  "testing_statements =
     [Define ''ObjectConformanceTarget'' [''runtime_checkable'', ''Protocol''],
      Define ''ObjectConformanceCheck'' [''dataclass''], Define ''ObjectConformanceReport'' [''dataclass''],
      Define ''_Runner'' [], Define ''_metadata_result'' [], Define ''run_object_conformance'' []]"

definition testing_exports :: "string list" where
  "testing_exports =
     [''ObjectConformanceCheck'', ''ObjectConformanceReport'', ''ObjectConformanceTarget'',
      ''run_object_conformance'']"

section \<open>\<open>documents.py\<close>\<close>

definition documents_imports :: "statement list" where
  "documents_imports =
     [From_external ''__future__'' [''annotations''],
      Import_name ''json'',
      From_external ''collections.abc'' [''Mapping''],
      From_external ''importlib'' [''resources''],
      From_external ''pathlib'' [''Path''],
      From_external ''typing'' [''cast'']]"

definition documents_statements :: "statement list" where
  "documents_statements =
     [Define ''object_expression_contract'' [], Define ''object_result_contract'' [],
      Define ''payload_reference_contract'' [], Define ''signed_reference_contract'' [],
      Define ''public_api_contract'' [], Define ''compatibility_document'' [], Define ''_document'' []]"

definition documents_exports :: "string list" where
  "documents_exports =
     [''compatibility_document'', ''object_expression_contract'', ''object_result_contract'',
      ''payload_reference_contract'', ''public_api_contract'', ''signed_reference_contract'']"

section \<open>\<open>__init__.py\<close>\<close>

definition package_imports :: "statement list" where
  "package_imports =
     [From_relative 1 [''_version''] [''__version__''],
      From_relative 1 [''capabilities''] [''GUARANTEE_BOUNDED_PREFIX_LIST'', ''GUARANTEE_CONDITIONAL_CREATE'',
        ''GUARANTEE_DIGEST_SHA256'', ''GUARANTEE_DIGEST_VERIFICATION'', ''GUARANTEE_EXACT_VERSION_DELETE'',
        ''GUARANTEE_IMMUTABILITY_INTENT'', ''GUARANTEE_METADATA_AFTER_COMMIT'', ''GUARANTEE_MULTIPART'',
        ''GUARANTEE_RANGE_READ'', ''GUARANTEE_RETENTION_ENFORCEMENT'', ''GUARANTEE_RETENTION_INTENT'',
        ''GUARANTEE_SIGNED_REFERENCE'', ''GUARANTEE_STREAMING'', ''LIMIT_MAX_LIST_PAGE_SIZE'',
        ''LIMIT_MAX_MULTIPART_PART_BYTES'', ''LIMIT_MAX_MULTIPART_PARTS'', ''LIMIT_MAX_OBJECT_BYTES'',
        ''LIMIT_MAX_RANGE_BYTES'', ''LIMIT_MAX_USER_METADATA_ENTRIES'', ''OBJECT_OPERATION_VERSION'',
        ''ObjectCapabilityReport'', ''negotiate_object_capabilities'', ''object_requirement'',
        ''require_object_capabilities''],
      From_relative 1 [''catalog''] [''OBJECT_CATALOG_CONTRACT_VERSION'', ''OBJECT_REGISTRY_REF'',
        ''ObjectCatalogProvider'', ''ObjectCatalogSurface'', ''object_manifest''],
      From_relative 1 [''codec''] [''SIGNED_REFERENCE_FORMAT_VERSION'', ''SIGNED_REFERENCE_OPERATIONS'',
        ''HmacSha256Key'', ''ReferenceSigner'', ''Sha256Accumulator'', ''SignedObjectReference'',
        ''parse_logical_reference'', ''sign_object_reference''],
      From_relative 1 [''contracts''] [''BinarySink'', ''ByteRange'', ''FactoryPayloadSource'',
        ''MultipartAdapter'', ''MultipartCompletion'', ''MultipartLimits'', ''MultipartPart'',
        ''MultipartSession'', ''PayloadReference'', ''PayloadRegistry'', ''PayloadSource'', ''PutState'',
        ''PutStateMachine'', ''ResolvedByteRange'', ''StreamPayloadSource'', ''default_payload_registry'',
        ''iter_payload_chunks'', ''transfer_payload''],
      From_relative 1 [''errors''] [''ConditionalConflict'', ''DigestMismatch'', ''ImmutableObjectConflict'',
        ''IncompleteUpload'', ''MultipartInvalid'', ''ObjectAuthenticationFailed'',
        ''ObjectAuthorizationFailed'', ''ObjectCapabilityMismatch'', ''ObjectErrorCode'',
        ''ObjectInvalidRequest'', ''ObjectNotFound'', ''ObjectQuotaExceeded'', ''ObjectRateLimited'',
        ''ObjectUnavailable'', ''PayloadUnavailable'', ''RangeNotSatisfiable'', ''RetentionDenied'',
        ''TransferCancelled'', ''classify_object_failure''],
      From_relative 1 [''immutability''] [''ImmutabilityRequest'', ''RetentionRequest'',
        ''effective_immutability'', ''parse_object_profile''],
      From_relative 1 [''metadata''] [''ContentIdentity'', ''ObjectMetadata'', ''ObjectProfile'',
        ''ObjectReference'', ''parse_object_metadata'', ''parse_object_reference''],
      From_relative 1 [''testing''] [''ObjectConformanceCheck'', ''ObjectConformanceReport'',
        ''ObjectConformanceTarget'', ''run_object_conformance'']]"

section \<open>The package\<close>

definition package_modules :: "(module_path \<times> module_file) list" where
  "package_modules =
     [([''_validation''], \<lparr>is_package = False, module_body = validation_imports @ validation_statements\<rparr>),
      ([''_version''], \<lparr>is_package = False, module_body = version_statements\<rparr>),
      ([''errors''], \<lparr>is_package = False, module_body = errors_imports @ errors_statements @ [Export errors_exports]\<rparr>),
      ([''capabilities''], \<lparr>is_package = False, module_body = capabilities_imports @ capabilities_statements @ [Export capabilities_exports]\<rparr>),
      ([''metadata''], \<lparr>is_package = True, module_body = metadata_imports @ metadata_statements @ [Export metadata_exports]\<rparr>),
      ([''codec'', ''digest''], \<lparr>is_package = False, module_body = digest_imports @ digest_statements @ [Export digest_exports]\<rparr>),
      ([''codec'', ''signed''], \<lparr>is_package = False, module_body = signed_imports @ signed_statements @ [Export signed_exports]\<rparr>),
      ([''codec''], \<lparr>is_package = True, module_body = codec_imports @ [Export codec_exports]\<rparr>),
      ([''contracts'', ''ranges''], \<lparr>is_package = False, module_body = ranges_imports @ ranges_statements @ [Export ranges_exports]\<rparr>),
      ([''contracts'', ''state''], \<lparr>is_package = False, module_body = state_imports @ state_statements @ [Export state_exports]\<rparr>),
      ([''contracts'', ''payloads''], \<lparr>is_package = False, module_body = payloads_imports @ payloads_statements @ [Export payloads_exports]\<rparr>),
      ([''contracts'', ''multipart''], \<lparr>is_package = False, module_body = multipart_imports @ multipart_statements @ [Export multipart_exports]\<rparr>),
      ([''contracts''], \<lparr>is_package = True, module_body = contracts_imports @ [Export contracts_exports]\<rparr>),
      ([''immutability'', ''policy''], \<lparr>is_package = False, module_body = policy_imports @ policy_statements @ [Export policy_exports]\<rparr>),
      ([''immutability''], \<lparr>is_package = True, module_body = immutability_imports @ [Export immutability_exports]\<rparr>),
      ([''catalog''], \<lparr>is_package = False, module_body = catalog_imports @ catalog_statements @ [Export catalog_exports]\<rparr>),
      ([''testing''], \<lparr>is_package = True, module_body = testing_imports @ testing_statements @ [Export testing_exports]\<rparr>),
      ([''documents''], \<lparr>is_package = False, module_body = documents_imports @ documents_statements @ [Export documents_exports]\<rparr>),
      ([], \<lparr>is_package = True, module_body = package_imports @ [Export package_exports]\<rparr>)]"

definition required_environment :: "(string \<times> string list) list" where
  \<comment> \<open>what the import statements name of the modules outside the package\<close>
  "required_environment =
     [(''__future__'', [''annotations'']), (''re'', []), (''collections.abc'', [''Mapping'', ''Sequence'',
      ''Set'', ''Iterable'', ''Callable'', ''Iterator'']), (''datetime'', [''UTC'', ''datetime'']),
      (''typing'', [''Any'', ''cast'', ''Protocol'', ''runtime_checkable'', ''BinaryIO'']),
      (''meridian_storage.semantics'', [''JsonValue'', ''CatalogName'', ''FrozenJson'', ''ObjectMetadata'',
      ''ObjectProfile'', ''ObjectReference'', ''ResourceReference'', ''canonical_json_bytes'',
      ''profile_from_mapping'', ''sha256_fingerprint'']), (''enum'', [''StrEnum'']),
      (''meridian_storage.errors'', [''AuthenticationError'', ''AuthorizationError'', ''CompatibilityError'',
      ''ConflictError'', ''ConstraintError'', ''CorruptionError'', ''MeridianError'', ''NotFoundError'',
      ''RateLimitError'', ''TransientError'', ''UnavailableError'', ''ValidationError'']),
      (''dataclasses'', [''dataclass'', ''replace'']), (''meridian_storage.spi'', [''CapabilityManifest'',
      ''CapabilityRequirement'', ''CapabilityViolation'', ''capability_violations'']), (''hashlib'', []),
      (''base64'', []), (''hmac'', []), (''secrets'', []), (''threading'', [''RLock'']),
      (''contextlib'', [''AbstractContextManager'', ''contextmanager'']), (''meridian_storage'', [''Operation'',
      ''CatalogManifest'', ''Expression'', ''OperationContract'', ''ResourceRef'', ''SchemaRef'']),
      (''types'', [''MappingProxyType'']), (''io'', [''BytesIO'']), (''json'', []),
      (''importlib'', [''resources'']), (''pathlib'', [''Path''])]"

lemmas module_statements =
  validation_imports_def validation_statements_def version_statements_def errors_imports_def
  errors_statements_def errors_exports_def capabilities_imports_def capabilities_statements_def
  capabilities_exports_def metadata_imports_def metadata_statements_def metadata_exports_def digest_imports_def
  digest_statements_def digest_exports_def signed_imports_def signed_statements_def signed_exports_def
  codec_imports_def codec_exports_def ranges_imports_def ranges_statements_def ranges_exports_def
  state_imports_def state_statements_def state_exports_def payloads_imports_def payloads_statements_def
  payloads_exports_def multipart_imports_def multipart_statements_def multipart_exports_def
  contracts_imports_def contracts_exports_def policy_imports_def policy_statements_def policy_exports_def
  immutability_imports_def immutability_exports_def catalog_imports_def catalog_statements_def
  catalog_exports_def testing_imports_def testing_statements_def testing_exports_def documents_imports_def
  documents_statements_def documents_exports_def package_imports_def package_exports_def

end
