(* ===== verification/PackageImport.thy ===== *)
theory PackageImport
  imports PackageModules
begin

text \<open>
  Importing the package: its modules pass the static check of theory Imports, so that any of them can be
  imported, in any order. The check is evaluated by rewriting names only when they are equal; the paths
  of the modules and the modules outside the package are told apart once.
\<close>

definition package_files :: module_files where
  "package_files = map_of package_modules"

definition package_paths :: "module_path list" where
  "package_paths =
     [[''_validation''], [''_version''], [''errors''], [''capabilities''], [''metadata''], [''codec'', ''digest''],
      [''codec'', ''signed''], [''codec''], [''contracts'', ''ranges''], [''contracts'', ''state''],
      [''contracts'', ''payloads''], [''contracts'', ''multipart''], [''contracts''], [''immutability'', ''policy''],
      [''immutability''], [''catalog''], [''testing''], [''documents''], []]"

definition exports_of :: "module_file \<Rightarrow> string list" where
  "exports_of f = concat (map (\<lambda>s. case s of Export names \<Rightarrow> names | _ \<Rightarrow> []) (module_body f))"

section \<open>The static check, evaluated\<close>

lemma paths_of_modules: "map fst package_modules = package_paths"
  by (simp add: package_modules_def package_paths_def)

lemma distinct_paths: "distinct package_paths"
  by (simp add: package_paths_def)

lemma distinct_required: "distinct (map fst required_environment)"
  by (simp add: required_environment_def)

lemma short_parents: "parents [] = [[]]" "parents [a] = [[], [a]]" "parents [a, b] = [[], [a], [a, b]]"
  by (simp_all add: parents_def upt_rec)

lemma closed_paths: "\<forall>m\<in>set package_paths. set (parents m) \<subseteq> set package_paths"
  by (simp add: package_paths_def short_parents)

lemmas distinct_unfold = list.map fst_conv distinct.simps list.set insert_iff empty_iff de_Morgan_disj not_False_eq_True simp_thms

lemmas path_neqs = distinct_paths [unfolded package_paths_def distinct_unfold]

lemmas required_neqs = distinct_required [unfolded required_environment_def distinct_unfold]

lemma mem_Cons: "x \<in> set (y # ys) \<longleftrightarrow> x = y \<or> x \<in> set ys"
  by simp

lemma lookup_Cons: "map_of ((p, f) # fs) t = (if p = t then Some f else map_of fs t)"
  by auto

lemma resolved_levels:
  "resolve_level True m 1 = Some m" "resolve_level False [a] 1 = Some []" "resolve_level False [a, b] 1 = Some [a]"
  "resolve_level True [a] 2 = Some []" "resolve_level False [a, b] 2 = Some []"
  by (simp_all add: resolve_level_def)

lemma own_parents: "prefix (butlast [a]) m = True" "prefix (butlast [a, b]) (a # m) = True"
  by simp_all

lemmas static_check = modules_ok.simps body_ok.simps statement_ok.simps binds.simps body_binds_def list.map concat.simps
  append.simps option.case option.inject option.distinct list.pred_inject list.distinct mem_Cons simp_thms if_True if_False
  lookup_Cons path_neqs required_neqs resolved_levels own_parents module_file.simps fst_conv snd_conv prod.case

lemma package_checked: "modules_ok (map_of required_environment) [] package_modules"
  unfolding required_environment_def package_modules_def
  by (simp only: static_check module_statements)

section \<open>Importing\<close>

lemma exports_known:
  "body_ok env before package m known body \<Longrightarrow> Export names \<in> set body \<Longrightarrow> set names \<subseteq> set known \<union> set (body_binds body)"
proof (induction body arbitrary: known)
  case (Cons s body)
  then show ?case
  proof (cases "s = Export names")
    case False
    then have "set names \<subseteq> set (binds s @ known) \<union> set (body_binds body)" using Cons by (intro Cons.IH) auto
    then show ?thesis by (auto simp: body_binds_def)
  qed (auto simp: list_all_iff)
qed simp

lemma exports_complete:
  assumes "modules_ok env [] modules" and "(m, f) \<in> set modules"
  shows "set (exports_of f) \<subseteq> set (body_binds (module_body f))"
proof -
  obtain before rest where "modules = before @ (m, f) # rest" using assms(2) by (force dest: split_list)
  then have "body_ok env before (is_package f) m [] (module_body f)" using modules_okD [of env "[]" before m f rest] assms(1) by simp
  from exports_known [OF this] show ?thesis by (fastforce simp: exports_of_def split: statement.splits)
qed

text \<open>
  C36. The package can be imported: over an environment in which the modules outside the package have the
  names that the import statements take from them, importing any modules of the package, in any order and
  any number of times, never raises: no import cycle sees a name that is not bound yet, and no statement
  evaluates an unbound name. Afterwards each of these modules has every name of its \<open>__all__\<close>.
\<close>

theorem package_importable:
  assumes "provides_more (map_of required_environment) env" and "19 \<le> depth" and "set ms \<subseteq> fst ` set package_modules"
  shows "\<exists>st. foldE (import_module env package_files depth) ms [] = Inr st
    \<and> (\<forall>m\<in>set ms. \<exists>f. package_files m = Some f \<and> set (exports_of f) \<subseteq> set (bound_names st m))"
proof -
  have checked: "modules_ok env [] package_modules" by (rule modules_ok_more [OF assms(1) package_checked])
  have paths: "fst ` set package_modules = set package_paths" using arg_cong [OF paths_of_modules, of set] by simp
  have "length package_modules = length package_paths" using arg_cong [OF paths_of_modules, of length] by simp
  then have "length package_modules \<le> depth" using assms(2) by (simp add: package_paths_def)
  then have "\<exists>st. foldE (import_module env package_files depth) ms [] = Inr st \<and> (\<forall>m\<in>set ms. complete package_files st m)"
    using imports_checked [OF checked _ _ _ assms(3)] distinct_paths closed_paths by (simp add: paths paths_of_modules package_files_def)
  then obtain st where st: "foldE (import_module env package_files depth) ms [] = Inr st" "\<forall>m\<in>set ms. complete package_files st m"
    by blast
  have "set (exports_of f) \<subseteq> set (body_binds (module_body f))" if "package_files m = Some f" for m f
    by (rule exports_complete [OF checked map_of_SomeD [OF that [unfolded package_files_def]]])
  then show ?thesis using st unfolding complete_def by blast
qed

theorem package_importable_witness:
  "\<exists>st. foldE (import_module (map_of required_environment) package_files 20) [[''contracts'', ''payloads''], [], [''documents'']] [] = Inr st"
proof -
  have "set [[''contracts'', ''payloads''], [], [''documents'']] \<subseteq> fst ` set package_modules"
    using arg_cong [OF paths_of_modules, of set] by (simp add: package_paths_def)
  moreover have "provides_more (map_of required_environment) (map_of required_environment)" by (simp add: provides_more_def)
  ultimately show ?thesis
    using package_importable [of "map_of required_environment" 20 "[[''contracts'', ''payloads''], [], [''documents'']]"] by auto
qed

end
