(* ===== verification/Spec2Isabelle.thy ===== *)
theory Spec2Isabelle
  imports PutMachine Digest PayloadTransfer Multipart CatalogExamples SuiteRun ReleaseExample ReleaseRecords Documents
    PackageImport
begin

text \<open>
  A verification library for \<open>meridian_storage.object_common\<close>, the provider-neutral Object
  semantics of Meridian Storage. All files named below are relative to
  \<open>src/src/meridian_storage/object_common/\<close>.

  \<^bold>\<open>The program.\<close> An application builds Expressions with the surface of \<open>catalog.py\<close>. The provider
  normalizes them: it validates the arguments, rewrites them to their normal form and derives the
  capability requirements of the Operation that an Adapter executes. Bytes do not travel in
  Operations: a \<open>PayloadRegistry\<close> (\<open>contracts/payloads.py\<close>) hands out opaque tokens for payload
  sources, and \<open>transfer_payload\<close> later streams a source into a sink while it counts, hashes and
  compares. Around these are byte ranges, multipart plans, the put state machine, immutability and
  retention policy, signed references, capability negotiation, the failure taxonomy, and a
  conformance runner (\<open>testing/__init__.py\<close>) that drives an Adapter through all of them. Beside the
  library stand an in-memory Adapter for its tests, the language-neutral contract documents with their
  loaders, and the scripts that check the contracts and the artifacts of a release.

  \<^bold>\<open>Values, errors and effects.\<close> Theory Prelude: a dynamic Python value is a \<open>pyval\<close>, a \<open>dict\<close> an
  association list in order of insertion, a \<open>str\<close> the list of its code points, a \<open>bytes\<close> a list of
  \<open>8 word\<close>. A function that may raise returns a sum, \<open>Inl\<close> the class of the exception; message
  texts are not modelled. State is passed explicitly. A locked block is one atomic step, so that a
  history of calls is a sequence of steps (the inductive relations \<open>put_reachable\<close> and
  \<open>handle_run\<close>). Streams, factories, sinks, cancellation predicates and everything else that the
  caller supplies act on an outside world of any type; the record \<open>callbacks\<close> holds what the code
  calls on them. Random bytes and clocks are arguments. Theory Effects sequences steps over such a state
  (\<open>effect\<close>, \<open>act_bind\<close>), with \<open>None\<close> for a step that does not return.

  \<^bold>\<open>Theories and sources.\<close>
    \<^item> Prelude, Wire: shared vocabulary, automation, and the locale \<open>wire_document\<close> of classes with
      \<open>to_dict\<close> and \<open>from_mapping\<close>, interpreted on each of the model's document classes.
    \<^item> Regex, Validation, Timestamps: \<open>_validation.py\<close>, with the regular expressions it uses as data
      and the calendar of \<open>datetime\<close>. The year of a printed timestamp has four digits, as on the
      platforms where \<open>strftime\<close> pads \<open>%Y\<close>.
    \<^item> Sha256, Base64: what the code uses of \<open>hashlib\<close>, \<open>hmac\<close>, \<open>base64\<close> and \<open>secrets\<close>, written out,
      with the locale \<open>digest_stream\<close> of incremental hashing.
    \<^item> Core: the classes of \<open>meridian_storage\<close> (Core and Semantics) that the code reads or calls. They
      are not in this repository, so their constructors, parsers and printers are fields of the
      record \<open>core\<close>, an argument of every definition that uses one; what the properties assume of
      them is stated by the predicates \<open>checked_errors\<close> (constructors raise \<open>TypeError\<close> or
      \<open>ValueError\<close>), \<open>reference_contract\<close> (an object reference prints to what parses back to it) and
      \<open>manifest_lookup\<close>, each of which holds of a sample instance.
    \<^item> Errors: \<open>errors.py\<close>. PutMachine: \<open>contracts/state.py\<close>. Ranges: \<open>contracts/ranges.py\<close>.
      Multipart: \<open>contracts/multipart.py\<close>. Metadata: \<open>metadata/__init__.py\<close>. Digest:
      \<open>codec/digest.py\<close>. Signed: \<open>codec/signed.py\<close>. Immutability: \<open>immutability/policy.py\<close>.
      Capabilities: \<open>capabilities.py\<close>.
    \<^item> Payloads, PayloadTransfer: \<open>contracts/payloads.py\<close>. Sources are shared mutable objects and live
      at addresses of a store; the registry maps tokens to addresses.
    \<^item> Catalog: \<open>catalog.py\<close>. The \<open>dict\<close> that the validators mutate is threaded through them.
      Normalization and NormalForms: the lemmas and properties about it. CatalogExamples: a sample
      instance of \<open>core\<close> and concrete Expressions, to which the properties are applied.
    \<^item> Conformance: \<open>testing/__init__.py\<close>, every step of the suite over an arbitrary target.
      PassingReports: what a report that passes says of the target. MemoryTarget:
      \<open>src/tests/_memory_target.py\<close>. SuiteRequests and SuiteRun: a run of the suite over it; the
      predicates \<open>stores_requests\<close>, \<open>accepts_fixture\<close> and \<open>suite_contract\<close> say what the run relies on in
      Core (requests are stored as given, the fixtures are valid), and hold of a sample instance.
      Sha256Vector: the SHA-256 of the fixture, computed by the kernel.
    \<^item> Texts, Json, JsonParser: what the code uses of \<open>str\<close>, of the UTF-8 decoder, of \<open>json.dumps\<close> and of
      \<open>json.loads\<close> (the scanner of CPython, on a stack of a given depth; floats are not told apart).
      JsonRoundTrip: that it reads back what is printed.
    \<^item> Artifacts, ReleaseRecords: \<open>src/scripts/verify_artifacts.py\<close>, \<open>compare_artifacts.py\<close> and
      \<open>generate_sbom.py\<close>. ReleaseExample: a release that passes.
    \<^item> ContractCheck: \<open>src/scripts/verify_contracts.py\<close>, the exports of \<open>__init__.py\<close>, and the documents
      \<open>src/contracts/public-api/meridian-object-common.v1.json\<close> and \<open>src/compatibility.json\<close> as data.
      Documents: \<open>documents.py\<close>.
    \<^item> Imports: Python's import system as far as the package needs it, with a static check of a package's
      modules and its soundness. PackageModules: the import statements, top-level bindings and \<open>__all__\<close>
      of every module. PackageImport: the package passes the check.

  \<^bold>\<open>What is shown.\<close>
    \<^item> Normalization: only \<open>ObjectInvalidRequest\<close> leaves it; the Operation is the one of the table,
      carries no private configuration and demands what its input needs; the normal form of a put,
      with its expected digest and length agreeing with those of its payload; stability under a second
      normalization; independence of the order of user metadata; exact references for deletion,
      bounded listings and ranges; what the surface's keyword arguments become.
    \<^item> Transfers: a transfer that succeeds has written chunks no longer than the limit, whose
      concatenation has the reported and the declared identity; over faithful files it copies all bytes,
      whatever the chunk size; with a declared length it always returns. Registry and sources: the life
      of a handle, and that a one-shot source is opened at most once in any history of calls.
    \<^item> Signed references: exactly when verification accepts, that signing is accepted until expiry
      and rejected after, that other texts decode to the same signature.
    \<^item> State machine: every history is a short path of the graph to a terminal state. Ranges:
      resolution selects the bytes that the range denotes. Multipart: part counts within the limits,
      completion exactly for gap-free parts that assemble the object. Retention, immutability,
      negotiation, timestamps, wire documents: decided exactly, and round trips.
    \<^item> Conformance: a run over a target that answers always ends with the nine checks in their
      order, and a report passes only with the outcomes that the suite demands. A passing report means
      that the target's streams delivered the fixture and its range and that it confirmed metadata and
      deletion; and the suite does pass on the in-memory target, from any earlier contents and for all
      random bytes, which composes surface, normalization, registry, transfer, ranges and handlers.
    \<^item> Documents: every parser yields well-formed values that survive printing. The checked-in public API
      document lists exactly the exports, error codes and operations of the package.
    \<^item> Imports: in any order, importing the modules of the package meets no cycle and no missing name, and
      binds every exported name, over an environment with the names that the statements take from it.
    \<^item> Releases: what a verified wheel and source distribution contain; the bill of materials does not
      depend on the order of the arguments and lists each artifact with its own SHA-256; its
      text is read back by \<open>json.loads\<close> as the document that was built; two builds are compared by contents
      alone.

  \<^bold>\<open>Loops that may not end.\<close> The transfer loop is \<open>pump\<close>, a partial function whose value is \<open>None\<close> for
  an endless stream. It is shown to return when a length is declared and over faithful files; the
  runner inherits the \<open>None\<close>. Every other recursion is total. The depth of nested imports and of nested
  JSON containers is the interpreter's own limit, an argument: 19 imports (the number of modules) and the 5
  containers of a bill of materials are enough.

  \<^bold>\<open>Not modelled.\<close> The bodies of the protocols \<open>PayloadSource\<close>, \<open>BinarySink\<close> and \<open>MultipartAdapter\<close>
  (interfaces without code), message texts, and the parsing of command lines and environment variables in
  the scripts. Archive and mail formats, JSON schema validation, TOML and Python's own parser are arguments
  of the definitions that use them.
\<close>

section \<open>The documents of the package\<close>

text \<open>
  C32. The documents are typed: over Core references that print to what parses back to them, every
  document that a parser of the package accepts (payload references, ranges, content identities,
  immutability and retention requests, object references, multipart sessions, signed references) yields
  a well-formed value, and that value is printed to a document from which the same value is parsed.
\<close>

theorem documents_typed:
  assumes "reference_contract c"
  shows "(PayloadReference_from_mapping d = Inr p \<longrightarrow>
      wf_payload_reference p \<and> PayloadReference_from_mapping (PayloadReference_to_dict p) = Inr p)
    \<and> (ByteRange_from_mapping d = Inr b \<longrightarrow> wf_byte_range b \<and> ByteRange_from_mapping (ByteRange_to_dict b) = Inr b)
    \<and> (ContentIdentity_from_mapping d = Inr i \<longrightarrow>
        wf_identity i \<and> ContentIdentity_from_mapping (ContentIdentity_to_dict i) = Inr i)
    \<and> (ImmutabilityRequest_from_mapping d = Inr q \<longrightarrow>
        wf_immutability q \<and> ImmutabilityRequest_from_mapping (ImmutabilityRequest_to_dict q) = Inr q)
    \<and> (RetentionRequest_from_mapping d = Inr t \<longrightarrow>
        wf_retention t \<and> RetentionRequest_from_mapping (RetentionRequest_to_dict t) = Inr t)
    \<and> (parse_object_reference c (Ref_mapping d) exact = Inr r \<longrightarrow>
        constructed c r \<and> (exact \<longrightarrow> or_digest r \<noteq> None)
        \<and> parse_object_reference c (Ref_mapping (ObjectReference_to_dict c r)) exact = Inr r)
    \<and> (MultipartSession_from_mapping c d = Inr m \<longrightarrow>
        0 < ms_part_size m \<and> constructed c (ms_object_ref m)
        \<and> MultipartSession_from_mapping c (MultipartSession_to_dict c m) = Inr m)
    \<and> (SignedObjectReference_from_mapping c d = Inr s \<longrightarrow>
        wf_signed c s \<and> SignedObjectReference_from_mapping c (SignedObjectReference_to_dict c s) = Inr s)"
proof -
  note wires = payload_wire.reparse byte_range_wire.reparse identity_wire.reparse immutability_wire.reparse retention_wire.reparse
  have signed: "SignedObjectReference_from_mapping c d = Inr s \<Longrightarrow>
      wf_signed c s \<and> SignedObjectReference_from_mapping c (SignedObjectReference_to_dict c s) = Inr s"
    using signed_from_mapping_wf [OF assms] signed_round_trip [OF assms] by blast
  show ?thesis
    using reference_documents [OF assms, of "Ref_mapping d" exact r] multipart_session_documents [OF assms, of d m] signed
    by (auto dest: wires)
qed

theorem documents_typed_witness:
  "ByteRange_from_mapping [fld ''end'' PNone, fld ''start'' (PInt 3)]
     = Inr \<lparr>br_start = Some 3, br_end = None, br_suffix = None\<rparr>
   \<and> ByteRange_from_mapping (ByteRange_to_dict \<lparr>br_start = Some 3, br_end = None, br_suffix = None\<rparr>)
     = Inr \<lparr>br_start = Some 3, br_end = None, br_suffix = None\<rparr>
   \<and> parse_object_reference sample_core (Ref_mapping (ObjectReference_to_dict sample_core sample_reference)) True
     = Inr sample_reference"
proof -
  have range: "ByteRange_from_mapping [fld ''end'' PNone, fld ''start'' (PInt 3)]
      = Inr \<lparr>br_start = Some 3, br_end = None, br_suffix = None\<rparr>"
    by (simp add: ByteRange_from_mapping_def exact_fields_def dget_req_def dget_none_def wire_simps
        ByteRange_init_def non_negative_int_def)
  have printed: "parse_object_reference sample_core (Ref_mapping (ObjectReference_to_dict sample_core sample_reference)) True
      = Inr sample_reference"
    by (rule parse_reference_print [OF sample_core_references sample_reference_ok]) (simp add: sample_reference_def)
  show ?thesis
    using documents_typed [OF sample_core_references, of "[fld ''end'' PNone, fld ''start'' (PInt 3)]"] range
      documents_typed [OF sample_core_references, of "ObjectReference_to_dict sample_core sample_reference"] printed
    by metis
qed

end
